(* ===== verification/Prelude.thy ===== *)
theory Prelude
  imports "HOL-Library.Word"
begin

text \<open>
  Shared ground of the development: the machine types of the C sources, the run of a piece of
  kernel code as either a value or a fault, and the list lemmas the memory model and the
  components use.

  A C function is modelled by a HOL function into \<open>'a run\<close>.  \<open>Inr\<close> is a
  normal return, \<open>Inl\<close> is a run that leaves the defined behaviour of the code: a
  dereferenced NULL or dangling pointer, an access outside an object, or a \<open>BUG_ON\<close> that fires.
  Error codes the code returns to its caller are ordinary values.
\<close>

type_synonym byte = "8 word"
type_synonym u16 = "16 word"
type_synonym u32 = "32 word"
type_synonym u64 = "64 word"

text \<open>A 32-bit value as the host holds it after loading four bytes in network order.\<close>

type_synonym be32 = "32 word"

named_theorems mem_simps \<open>reading and writing modelled memory\<close>
named_theorems wire_simps \<open>the byte layouts of the protocol\<close>

section \<open>Runs that may fault\<close>

datatype fault = BadDeref | OutOfBounds | BugOn

type_synonym 'a run = "fault + 'a"

definition bindF :: "'a run \<Rightarrow> ('a \<Rightarrow> 'b run) \<Rightarrow> 'b run" where
  "bindF m f = (case m of Inl e \<Rightarrow> Inl e | Inr a \<Rightarrow> f a)"

definition deref :: "'a option \<Rightarrow> 'a run" where
  "deref q = (case q of None \<Rightarrow> Inl BadDeref | Some a \<Rightarrow> Inr a)"

definition check :: "fault \<Rightarrow> bool \<Rightarrow> unit run" where
  "check e b = (if b then Inr () else Inl e)"

lemma bindF_simps [simp]:
  "bindF (Inl e) f = Inl e"
  "bindF (Inr a) f = f a"
  by (simp_all add: bindF_def)

lemma bindF_cong [fundef_cong]:
  "m = m' \<Longrightarrow> (\<And>a. m' = Inr a \<Longrightarrow> f a = g a) \<Longrightarrow> bindF m f = bindF m' g"
  by (simp add: bindF_def split: sum.split)

lemma bindF_eq_Inr: "bindF m f = Inr b \<longleftrightarrow> (\<exists>a. m = Inr a \<and> f a = Inr b)"
  by (cases m) simp_all

lemma bindF_InrE:
  assumes "bindF m f = Inr b"
  obtains a where "m = Inr a" and "f a = Inr b"
  using assms by (auto simp: bindF_eq_Inr)

lemma bindF_assoc: "bindF (bindF m f) g = bindF m (\<lambda>a. bindF (f a) g)"
  by (cases m) simp_all

lemma deref_simps [simp]: "deref None = Inl BadDeref" "deref (Some a) = Inr a"
  by (simp_all add: deref_def)

lemma deref_eq_Inr [simp]: "deref q = Inr a \<longleftrightarrow> q = Some a"
  by (cases q) simp_all

lemma check_simps [simp]: "check e True = Inr ()" "check e False = Inl e"
  by (simp_all add: check_def)

lemma check_eq_Inr [simp]: "check e b = Inr u \<longleftrightarrow> b"
  by (cases b) simp_all

section \<open>Lists\<close>

lemma take_drop_append_exact [simp]:
  "length a = n \<Longrightarrow> take n (a @ b) = a"
  "length a = n \<Longrightarrow> drop n (a @ b) = b"
  by simp_all

lemma takeWhile_nonzero_append_zero:
  assumes "0 \<notin> set s"
  shows "takeWhile (\<lambda>b. b \<noteq> 0) (s @ 0 # r) = s"
  using assms by (induction s) auto

lemma find_eq_None_iff: "find P xs = None \<longleftrightarrow> (\<forall>x \<in> set xs. \<not> P x)"
  by (induction xs) auto

lemma find_SomeD: "find P xs = Some x \<Longrightarrow> x \<in> set xs \<and> P x"
  by (induction xs) (auto split: if_splits)

end
