(* ===== verification/CMem.thy ===== *)
theory CMem
  imports Prelude
begin

text \<open>
  The memory the code works on and the part of the C library it uses: objects as byte lists
  with checked reads and writes, 32-bit loads and stores of a little-endian host (the x86
  kernel the modules are built for), the byte-order macros, and the string functions
  \<open>strlen\<close>, \<open>strchr\<close>, \<open>strncpy\<close> and \<open>snprintf (.., "%ld", ..)\<close>.

  A pointer into an object is an offset.  A read-only \<open>char *\<close> handed from one
  function to another is the list of the bytes from it to the end of its object.
\<close>

unbundle bit_operations_syntax

type_synonym mem = "byte list"

section \<open>Checked reads and writes\<close>

definition mem_read :: "mem \<Rightarrow> nat \<Rightarrow> nat \<Rightarrow> byte list run" where
  "mem_read m p n = (if p + n \<le> length m then Inr (take n (drop p m)) else Inl OutOfBounds)"

definition mem_write :: "mem \<Rightarrow> nat \<Rightarrow> byte list \<Rightarrow> mem run" where
  "mem_write m p bs =
     (if p + length bs \<le> length m then Inr (take p m @ bs @ drop (p + length bs) m)
      else Inl OutOfBounds)"

text \<open>\<open>memcpy (dst + p, src + q, n)\<close> between two objects.\<close>

definition memcpy :: "mem \<Rightarrow> nat \<Rightarrow> mem \<Rightarrow> nat \<Rightarrow> nat \<Rightarrow> mem run" where
  "memcpy dst p src q n = bindF (mem_read src q n) (\<lambda>bs. mem_write dst p bs)"

text \<open>\<open>holds m p bs\<close>: the object \<open>m\<close> contains the bytes \<open>bs\<close> at offset \<open>p\<close>.\<close>

definition holds :: "mem \<Rightarrow> nat \<Rightarrow> byte list \<Rightarrow> bool" where
  "holds m p bs \<longleftrightarrow> p + length bs \<le> length m \<and> take (length bs) (drop p m) = bs"

text \<open>A byte array read at one index, as in \<open>s[i]\<close>.\<close>

definition byte_at :: "mem \<Rightarrow> nat \<Rightarrow> byte run" where
  "byte_at m i = (if i < length m then Inr (m ! i) else Inl OutOfBounds)"

lemma mem_write_length [mem_simps]: "mem_write m p bs = Inr m' \<Longrightarrow> length m' = length m"
  by (auto simp: mem_write_def split: if_splits)

lemma memcpy_whole [mem_simps]: "length src = n \<Longrightarrow> memcpy dst p src 0 n = mem_write dst p src"
  by (simp add: memcpy_def mem_read_def)

lemma mem_write_ok: "p + length bs \<le> length m \<Longrightarrow> \<exists>m'. mem_write m p bs = Inr m'"
  by (simp add: mem_write_def)

lemma mem_write_holds:
  assumes "mem_write m p bs = Inr m'"
  shows "holds m' p bs"
  using assms by (auto simp: mem_write_def holds_def split: if_splits)

lemma mem_write_fault_iff: "mem_write m p bs = Inl e \<longleftrightarrow> e = OutOfBounds \<and> length m < p + length bs"
  by (auto simp: mem_write_def)

text \<open>A write leaves every disjoint stretch of the object as it was.\<close>

lemma mem_write_holds_other:
  assumes "mem_write m p bs = Inr m'"
    and "q + length cs \<le> p \<or> p + length bs \<le> q"
  shows "holds m' q cs \<longleftrightarrow> holds m q cs"
proof -
  from assms(1) have len: "p + length bs \<le> length m"
    and m': "m' = take p m @ bs @ drop (p + length bs) m"
    by (auto simp: mem_write_def split: if_splits)
  from len have lm': "length m' = length m" by (simp add: m')
  have "take (length cs) (drop q m') = take (length cs) (drop q m)"
    if "q + length cs \<le> length m"
  proof (rule nth_equalityI)
    show "length (take (length cs) (drop q m')) = length (take (length cs) (drop q m))"
      by (simp add: lm')
  next
    fix i
    assume "i < length (take (length cs) (drop q m'))"
    then have "i < length cs" by simp
    then show "take (length cs) (drop q m') ! i = take (length cs) (drop q m) ! i"
      using len that assms(2) by (auto simp: m' nth_append)
  qed
  then show ?thesis by (auto simp: holds_def lm')
qed

lemma holds_Nil [simp]: "holds m p [] \<longleftrightarrow> p \<le> length m"
  by (auto simp: holds_def)

lemma holds_append: "holds m p (a @ b) \<longleftrightarrow> holds m p a \<and> holds m (p + length a) b"
proof (cases "p + length a + length b \<le> length m")
  case True
  have "take (length a + length b) (drop p m)
        = take (length a) (drop p m) @ take (length b) (drop (p + length a) m)"
    by (simp add: take_add add.commute)
  with True show ?thesis
    by (simp add: holds_def append_eq_append_conv add.assoc)
next
  case False
  then show ?thesis by (auto simp: holds_def)
qed

lemma holds_read [mem_simps]: "holds m p bs \<Longrightarrow> n = length bs \<Longrightarrow> mem_read m p n = Inr bs"
  by (simp add: holds_def mem_read_def)

lemma read_holds: "mem_read m p n = Inr bs \<Longrightarrow> holds m p bs \<and> length bs = n"
  by (auto simp: holds_def mem_read_def min_def split: if_splits)

lemma holds_unique: "holds m p a \<Longrightarrow> holds m p b \<Longrightarrow> length a = length b \<Longrightarrow> a = b"
  by (auto simp: holds_def)

text \<open>Two adjacent writes are one.\<close>

lemma mem_write_append:
  "bindF (mem_write m p a) (\<lambda>m'. mem_write m' (p + length a) b) = mem_write m p (a @ b)"
  by (auto simp: mem_write_def ac_simps)

section \<open>Byte order\<close>

definition le_bytes :: "u32 \<Rightarrow> byte list" where
  "le_bytes w = [ucast w, ucast (drop_bit 8 w), ucast (drop_bit 16 w), ucast (drop_bit 24 w)]"

fun le_word :: "byte list \<Rightarrow> u32" where
  "le_word [a, b, c, d] =
     ucast a OR push_bit 8 (ucast b) OR push_bit 16 (ucast c) OR push_bit 24 (ucast d)"
| "le_word _ = 0"

definition bswap32 :: "u32 \<Rightarrow> u32" where
  "bswap32 w = le_word (rev (le_bytes w))"

text \<open>The byte-order macros on a little-endian host.\<close>

abbreviation htonl :: "u32 \<Rightarrow> be32" where "htonl \<equiv> bswap32"
abbreviation ntohl :: "be32 \<Rightarrow> u32" where "ntohl \<equiv> bswap32"
abbreviation cpu_to_be32 :: "u32 \<Rightarrow> be32" where "cpu_to_be32 \<equiv> bswap32"

text \<open>The four bytes of a value in network order.\<close>

definition net32 :: "u32 \<Rightarrow> byte list" where
  "net32 w = rev (le_bytes w)"

definition ld32 :: "mem \<Rightarrow> nat \<Rightarrow> be32 run" where
  "ld32 m p = bindF (mem_read m p 4) (\<lambda>bs. Inr (le_word bs))"

definition st32 :: "mem \<Rightarrow> nat \<Rightarrow> be32 \<Rightarrow> mem run" where
  "st32 m p w = mem_write m p (le_bytes w)"

lemma length_le_bytes [simp]: "length (le_bytes w) = 4"
  by (simp add: le_bytes_def)

lemma length_net32 [simp]: "length (net32 w) = 4"
  by (simp add: net32_def)

lemma le_word_bytes [simp]: "le_word (le_bytes w) = w"
proof (rule bit_word_eqI)
  fix n
  assume "n < LENGTH(32)"
  then have "n < 8 \<or> (8 \<le> n \<and> n < 16) \<or> (16 \<le> n \<and> n < 24) \<or> (24 \<le> n \<and> n < 32)"
    by auto
  then show "bit (le_word (le_bytes w)) n = bit w n"
    by (elim disjE conjE) (auto simp: le_bytes_def bit_simps)
qed

lemma le_bytes_word4: "le_bytes (le_word [a, b, c, d]) = [a, b, c, d]"
  unfolding le_bytes_def le_word.simps list.inject
  by (intro conjI; (rule bit_word_eqI)?) (auto simp: bit_simps dest: bit_imp_le_length)

lemma le_bytes_word [simp]: "length bs = 4 \<Longrightarrow> le_bytes (le_word bs) = bs"
  by (auto simp: le_bytes_word4 numeral_eq_Suc length_Suc_conv simp del: le_word.simps)

lemma le_bytes_bswap32 [wire_simps]: "le_bytes (bswap32 w) = net32 w"
  by (simp add: bswap32_def net32_def)

lemma bswap32_bswap32 [simp]: "bswap32 (bswap32 w) = w"
  by (simp add: bswap32_def)

lemma bswap32_inject [simp]: "bswap32 v = bswap32 w \<longleftrightarrow> v = w"
  by (metis bswap32_bswap32)

lemma bswap32_0 [simp]: "bswap32 0 = 0"
  by (simp add: bswap32_def le_bytes_def)

lemma bswap32_eq_0 [simp]: "bswap32 w = 0 \<longleftrightarrow> w = 0"
  using bswap32_inject [of w 0] by simp

lemma le_bytes_inject [simp]: "le_bytes v = le_bytes w \<longleftrightarrow> v = w"
  by (metis le_word_bytes)

lemma net32_inject [simp]: "net32 v = net32 w \<longleftrightarrow> v = w"
  by (simp add: net32_def)

lemma ld32_holds [mem_simps]: "holds m p (net32 w) \<Longrightarrow> ld32 m p = Inr (bswap32 w)"
  by (simp add: ld32_def mem_simps bswap32_def net32_def)

lemma ld32_holds_le: "ld32 m p = Inr w \<longleftrightarrow> holds m p (le_bytes w)"
proof
  assume "ld32 m p = Inr w"
  then obtain bs where bs: "mem_read m p 4 = Inr bs" and w: "w = le_word bs"
    by (auto simp: ld32_def bindF_eq_Inr)
  from read_holds [OF bs] w show "holds m p (le_bytes w)" by simp
qed (simp add: ld32_def mem_simps)

lemma ld32_cases: "(\<exists>w. ld32 m p = Inr w) \<longleftrightarrow> p + 4 \<le> length m"
  by (auto simp: ld32_def mem_read_def)

lemma ld32_ok: "p + 4 \<le> length m \<Longrightarrow> \<exists>w. ld32 m p = Inr w"
  by (simp add: ld32_cases)

lemma st32_htonl [mem_simps]: "st32 m p (bswap32 w) = mem_write m p (net32 w)"
  by (simp add: st32_def wire_simps)

lemma st32_raw: "st32 m p w = mem_write m p (net32 (bswap32 w))"
  using st32_htonl [of m p "bswap32 w"] by simp

section \<open>Strings\<close>

definition cstr :: "mem \<Rightarrow> byte list" where
  "cstr s = takeWhile (\<lambda>b. b \<noteq> 0) s"

definition strlen :: "mem \<Rightarrow> nat run" where
  "strlen s = (if 0 \<in> set s then Inr (length (cstr s)) else Inl OutOfBounds)"

fun strchr :: "mem \<Rightarrow> byte \<Rightarrow> nat option run" where
  "strchr [] c = Inl OutOfBounds"
| "strchr (b # s) c =
     (if b = c then Inr (Some 0)
      else if b = 0 then Inr None
      else bindF (strchr s c) (\<lambda>r. Inr (map_option Suc r)))"

text \<open>
  \<open>strncpy (dst, src, n)\<close>: copies the string, at most \<open>n\<close> bytes of it, and fills the
  rest of the \<open>n\<close> bytes with zeros.
\<close>

definition strncpy :: "mem \<Rightarrow> mem \<Rightarrow> nat \<Rightarrow> mem run" where
  "strncpy dst src n =
     bindF (check OutOfBounds (0 \<in> set src \<or> n \<le> length src)) (\<lambda>_.
       let s = take n (cstr src) in mem_write dst 0 (s @ replicate (n - length s) 0))"

text \<open>Decimal digits of a number, most significant first, as ASCII bytes.\<close>

fun dec_digits :: "nat \<Rightarrow> byte list" where
  "dec_digits n =
     (if n < 10 then [word_of_nat (48 + n)]
      else dec_digits (n div 10) @ [word_of_nat (48 + n mod 10)])"

declare dec_digits.simps [simp del]

definition fmt_ld :: "u64 \<Rightarrow> byte list" where
  "fmt_ld v =
     (if sint v < 0 then 45 # dec_digits (nat (- sint v)) else dec_digits (nat (sint v)))"

text \<open>
  \<open>snprintf (buf, n, "%ld", v)\<close> writes at most \<open>n - 1\<close> characters and a NUL; what lies
  behind them in the buffer stays.
\<close>

definition snprintf_ld :: "mem \<Rightarrow> nat \<Rightarrow> u64 \<Rightarrow> mem run" where
  "snprintf_ld buf n v =
     (if n = 0 then Inr buf else mem_write buf 0 (take (n - 1) (fmt_ld v) @ [0]))"

lemma cstr_append_zero: "0 \<notin> set s \<Longrightarrow> cstr (s @ 0 # r) = s"
  by (simp add: cstr_def takeWhile_nonzero_append_zero)

lemma cstr_no_zero: "0 \<notin> set (cstr s)"
  unfolding cstr_def using set_takeWhileD [of 0 "\<lambda>b. b \<noteq> 0" s] by blast

lemma strlen_append_zero [mem_simps]: "0 \<notin> set s \<Longrightarrow> strlen (s @ 0 # r) = Inr (length s)"
  by (simp add: strlen_def cstr_append_zero)

lemma cstr_split:
  assumes "0 \<in> set s"
  obtains r where "s = cstr s @ 0 # r"
proof -
  from assms obtain a r where "s = a @ 0 # r" and "0 \<notin> set a"
    by (blast dest: split_list_first)
  with that show ?thesis by (simp add: cstr_append_zero)
qed

lemma strchr_found: "c \<notin> set s \<Longrightarrow> 0 \<notin> set s \<Longrightarrow> strchr (s @ c # r) c = Inr (Some (length s))"
  by (induction s) auto

lemma strchr_not_found:
  "c \<notin> set s \<Longrightarrow> 0 \<notin> set s \<Longrightarrow> c \<noteq> 0 \<Longrightarrow> strchr (s @ 0 # r) c = Inr None"
  by (induction s) auto

lemma dec_digits_length_bound: "n < 10 ^ k \<Longrightarrow> 0 < k \<Longrightarrow> length (dec_digits n) \<le> k"
proof (induction n arbitrary: k rule: dec_digits.induct)
  case (1 n)
  show ?case
  proof (cases "n < 10")
    case True
    with "1.prems" show ?thesis by (simp add: dec_digits.simps)
  next
    case False
    then obtain j where k: "k = Suc j" and j: "0 < j"
      using "1.prems" by (cases k; cases "k - 1") auto
    from "1.prems"(1) k have "n div 10 < 10 ^ j" by (simp add: less_mult_imp_div_less mult.commute)
    with "1.IH" False j have "length (dec_digits (n div 10)) \<le> j" by simp
    with False k show ?thesis by (subst dec_digits.simps) simp
  qed
qed

lemma dec_digits_not_Nil [simp]: "dec_digits n \<noteq> []"
  by (subst dec_digits.simps) simp

lemma dec_digits_range: "b \<in> set (dec_digits n) \<Longrightarrow> \<exists>d < 10. b = word_of_nat (48 + d)"
proof (induction n rule: dec_digits.induct)
  case (1 n)
  then show ?case
    by (cases "n < 10") (auto simp: dec_digits.simps [of n] intro: exI [of _ "n mod 10"] exI [of _ n])
qed

lemma digit_unat: "d < 10 \<Longrightarrow> unat (word_of_nat (48 + d) :: byte) = 48 + d"
  by (simp add: unat_of_nat del: of_nat_add)

lemma digit_nonzero: "d < 10 \<Longrightarrow> (word_of_nat (48 + d) :: byte) \<noteq> 0"
  using digit_unat [of d] by (metis add_is_0 unat_0 zero_neq_numeral)

lemma dec_digits_no_zero: "0 \<notin> set (dec_digits n)"
  using dec_digits_range digit_nonzero by metis

end
