(* ===== verification/Protocol.thy ===== *)
theory Protocol
  imports CMem
begin

text \<open>
  The protocol definitions of \<open>vsnfs.h\<close> and the pre-swapped status values of
  \<open>server/vsnfsd.h\<close>: sizes and numbers, the status enumeration with its values on the
  wire, the file handle, and the errno values of the host.
\<close>

section \<open>Numbers and sizes\<close>

abbreviation (input) VSNFS_PROGRAM :: nat where "VSNFS_PROGRAM \<equiv> 110003"
abbreviation (input) VSNFS_VERSION :: nat where "VSNFS_VERSION \<equiv> 1"
abbreviation (input) VSNFS_PORT :: nat where "VSNFS_PORT \<equiv> 6789"
abbreviation (input) VSNFS_MAXDATA :: nat where "VSNFS_MAXDATA \<equiv> 4096"
abbreviation (input) VSNFS_DIRSIZE :: nat where "VSNFS_DIRSIZE \<equiv> 4096"
abbreviation (input) VSNFS_MAXNAMLEN :: nat where "VSNFS_MAXNAMLEN \<equiv> 255"
abbreviation (input) VSNFS_MAXPATHLEN :: nat where "VSNFS_MAXPATHLEN \<equiv> 1024"
abbreviation (input) VSNFS_FHSIZE :: nat where "VSNFS_FHSIZE \<equiv> 8"
abbreviation (input) VSNFS_NRPROCS :: nat where "VSNFS_NRPROCS \<equiv> 10"
abbreviation (input) VSNFS_TIMEOUT :: nat where "VSNFS_TIMEOUT \<equiv> 600"
abbreviation (input) VSNFS_SB_MAGIC :: nat where "VSNFS_SB_MAGIC \<equiv> 0x7979"

abbreviation (input) VSNFS_REG :: u32 where "VSNFS_REG \<equiv> 1"
abbreviation (input) VSNFS_DIR :: u32 where "VSNFS_DIR \<equiv> 2"

text \<open>The page size of the host.\<close>

abbreviation (input) PAGE_SIZE :: nat where "PAGE_SIZE \<equiv> 4096"

text \<open>ASCII codes the code compares with.\<close>

abbreviation (input) SLASH :: byte where "SLASH \<equiv> 47"
abbreviation (input) COLON :: byte where "COLON \<equiv> 58"
abbreviation (input) COMMA :: byte where "COMMA \<equiv> 44"

text \<open>Procedure numbers.\<close>

abbreviation (input) VSNFSPROC_NULL :: nat where "VSNFSPROC_NULL \<equiv> 0"
abbreviation (input) VSNFSPROC_GETROOT :: nat where "VSNFSPROC_GETROOT \<equiv> 1"
abbreviation (input) VSNFSPROC_REMOVE :: nat where "VSNFSPROC_REMOVE \<equiv> 2"
abbreviation (input) VSNFSPROC_READ :: nat where "VSNFSPROC_READ \<equiv> 3"
abbreviation (input) VSNFSPROC_WRITE :: nat where "VSNFSPROC_WRITE \<equiv> 4"
abbreviation (input) VSNFSPROC_MKDIR :: nat where "VSNFSPROC_MKDIR \<equiv> 5"
abbreviation (input) VSNFSPROC_RMDIR :: nat where "VSNFSPROC_RMDIR \<equiv> 6"
abbreviation (input) VSNFSPROC_READDIR :: nat where "VSNFSPROC_READDIR \<equiv> 7"
abbreviation (input) VSNFSPROC_LOOKUP :: nat where "VSNFSPROC_LOOKUP \<equiv> 8"
abbreviation (input) VSNFSPROC_CREATE :: nat where "VSNFSPROC_CREATE \<equiv> 9"

section \<open>Status codes\<close>

datatype (plugins only:) vsnfs_stat =
    VSNFS_OK
  | VSNFSERR_PERM
  | VSNFSERR_NOENT
  | VSNFSERR_IO
  | VSNFSERR_NXIO
  | VSNFSERR_EAGAIN
  | VSNFSERR_ACCES
  | VSNFSERR_EXIST
  | VSNFSERR_XDEV
  | VSNFSERR_NODEV
  | VSNFSERR_NOTDIR
  | VSNFSERR_ISDIR
  | VSNFSERR_INVAL
  | VSNFSERR_FBIG
  | VSNFSERR_NOSPC
  | VSNFSERR_ROFS
  | VSNFSERR_MLINK
  | VSNFSERR_OPNOTSUPP
  | VSNFSERR_NAMETOOLONG
  | VSNFSERR_NOTEMPTY
  | VSNFSERR_DQUOT
  | VSNFSERR_STALE
  | VSNFSERR_REMOTE
  | VSNFSERR_WFLUSH
  | VSNFSERR_BADHANDLE
  | VSNFSERR_NOT_SYNC
  | VSNFSERR_BAD_COOKIE
  | VSNFSERR_NOTSUPP
  | VSNFSERR_TOOSMALL
  | VSNFSERR_SERVERFAULT
  | VSNFSERR_BADTYPE
  | VSNFSERR_JUKEBOX
  | VSNFSERR_SAME
  | VSNFSERR_DENIED
  | VSNFSERR_EXPIRED
  | VSNFSERR_LOCKED
  | VSNFSERR_GRACE
  | VSNFSERR_FHEXPIRED
  | VSNFSERR_SHARE_DENIED
  | VSNFSERR_WRONGSEC
  | VSNFSERR_CLID_INUSE
  | VSNFSERR_RESOURCE
  | VSNFSERR_MOVED
  | VSNFSERR_NOFILEHANDLE
  | VSNFSERR_MINOR_VERS_MISMATCH
  | VSNFSERR_STALE_CLIENTID
  | VSNFSERR_STALE_STATEID
  | VSNFSERR_OLD_STATEID
  | VSNFSERR_BAD_STATEID
  | VSNFSERR_BAD_SEQID
  | VSNFSERR_NOT_SAME
  | VSNFSERR_LOCK_RANGE
  | VSNFSERR_SYMLINK
  | VSNFSERR_RESTOREFH
  | VSNFSERR_LEASE_MOVED
  | VSNFSERR_ATTRNOTSUPP
  | VSNFSERR_NO_GRACE
  | VSNFSERR_RECLAIM_BAD
  | VSNFSERR_RECLAIM_CONFLICT
  | VSNFSERR_BAD_XDR
  | VSNFSERR_LOCKS_HELD
  | VSNFSERR_OPENMODE
  | VSNFSERR_BADOWNER
  | VSNFSERR_BADCHAR
  | VSNFSERR_BADNAME
  | VSNFSERR_BAD_RANGE
  | VSNFSERR_LOCK_NOTSUPP
  | VSNFSERR_OP_ILLEGAL
  | VSNFSERR_DEADLOCK
  | VSNFSERR_FILE_OPEN
  | VSNFSERR_ADMIN_REVOKED
  | VSNFSERR_CB_PATH_DOWN

text \<open>The numbers of the enumeration.\<close>

primrec stat_num :: "vsnfs_stat \<Rightarrow> nat" where
  "stat_num VSNFS_OK = 0"
| "stat_num VSNFSERR_PERM = 1"
| "stat_num VSNFSERR_NOENT = 2"
| "stat_num VSNFSERR_IO = 5"
| "stat_num VSNFSERR_NXIO = 6"
| "stat_num VSNFSERR_EAGAIN = 11"
| "stat_num VSNFSERR_ACCES = 13"
| "stat_num VSNFSERR_EXIST = 17"
| "stat_num VSNFSERR_XDEV = 18"
| "stat_num VSNFSERR_NODEV = 19"
| "stat_num VSNFSERR_NOTDIR = 20"
| "stat_num VSNFSERR_ISDIR = 21"
| "stat_num VSNFSERR_INVAL = 22"
| "stat_num VSNFSERR_FBIG = 27"
| "stat_num VSNFSERR_NOSPC = 28"
| "stat_num VSNFSERR_ROFS = 30"
| "stat_num VSNFSERR_MLINK = 31"
| "stat_num VSNFSERR_OPNOTSUPP = 45"
| "stat_num VSNFSERR_NAMETOOLONG = 63"
| "stat_num VSNFSERR_NOTEMPTY = 66"
| "stat_num VSNFSERR_DQUOT = 69"
| "stat_num VSNFSERR_STALE = 70"
| "stat_num VSNFSERR_REMOTE = 71"
| "stat_num VSNFSERR_WFLUSH = 99"
| "stat_num VSNFSERR_BADHANDLE = 10001"
| "stat_num VSNFSERR_NOT_SYNC = 10002"
| "stat_num VSNFSERR_BAD_COOKIE = 10003"
| "stat_num VSNFSERR_NOTSUPP = 10004"
| "stat_num VSNFSERR_TOOSMALL = 10005"
| "stat_num VSNFSERR_SERVERFAULT = 10006"
| "stat_num VSNFSERR_BADTYPE = 10007"
| "stat_num VSNFSERR_JUKEBOX = 10008"
| "stat_num VSNFSERR_SAME = 10009"
| "stat_num VSNFSERR_DENIED = 10010"
| "stat_num VSNFSERR_EXPIRED = 10011"
| "stat_num VSNFSERR_LOCKED = 10012"
| "stat_num VSNFSERR_GRACE = 10013"
| "stat_num VSNFSERR_FHEXPIRED = 10014"
| "stat_num VSNFSERR_SHARE_DENIED = 10015"
| "stat_num VSNFSERR_WRONGSEC = 10016"
| "stat_num VSNFSERR_CLID_INUSE = 10017"
| "stat_num VSNFSERR_RESOURCE = 10018"
| "stat_num VSNFSERR_MOVED = 10019"
| "stat_num VSNFSERR_NOFILEHANDLE = 10020"
| "stat_num VSNFSERR_MINOR_VERS_MISMATCH = 10021"
| "stat_num VSNFSERR_STALE_CLIENTID = 10022"
| "stat_num VSNFSERR_STALE_STATEID = 10023"
| "stat_num VSNFSERR_OLD_STATEID = 10024"
| "stat_num VSNFSERR_BAD_STATEID = 10025"
| "stat_num VSNFSERR_BAD_SEQID = 10026"
| "stat_num VSNFSERR_NOT_SAME = 10027"
| "stat_num VSNFSERR_LOCK_RANGE = 10028"
| "stat_num VSNFSERR_SYMLINK = 10029"
| "stat_num VSNFSERR_RESTOREFH = 10030"
| "stat_num VSNFSERR_LEASE_MOVED = 10031"
| "stat_num VSNFSERR_ATTRNOTSUPP = 10032"
| "stat_num VSNFSERR_NO_GRACE = 10033"
| "stat_num VSNFSERR_RECLAIM_BAD = 10034"
| "stat_num VSNFSERR_RECLAIM_CONFLICT = 10035"
| "stat_num VSNFSERR_BAD_XDR = 10036"
| "stat_num VSNFSERR_LOCKS_HELD = 10037"
| "stat_num VSNFSERR_OPENMODE = 10038"
| "stat_num VSNFSERR_BADOWNER = 10039"
| "stat_num VSNFSERR_BADCHAR = 10040"
| "stat_num VSNFSERR_BADNAME = 10041"
| "stat_num VSNFSERR_BAD_RANGE = 10042"
| "stat_num VSNFSERR_LOCK_NOTSUPP = 10043"
| "stat_num VSNFSERR_OP_ILLEGAL = 10044"
| "stat_num VSNFSERR_DEADLOCK = 10045"
| "stat_num VSNFSERR_FILE_OPEN = 10046"
| "stat_num VSNFSERR_ADMIN_REVOKED = 10047"
| "stat_num VSNFSERR_CB_PATH_DOWN = 10048"

text \<open>
  The macros \<open>vsnfs_ok\<close>, \<open>vsnfserr_noent\<close>, \dots{} of \<open>server/vsnfsd.h\<close>: the status in
  network order, as a value of the host.
\<close>

definition vsnfserr :: "vsnfs_stat \<Rightarrow> be32" where
  "vsnfserr s = cpu_to_be32 (word_of_nat (stat_num s))"

abbreviation vsnfs_ok :: be32 where "vsnfs_ok \<equiv> vsnfserr VSNFS_OK"

section \<open>Errno values of the host\<close>

abbreviation (input) EPERM :: int where "EPERM \<equiv> 1"
abbreviation (input) ENOENT :: int where "ENOENT \<equiv> 2"
abbreviation (input) EIO :: int where "EIO \<equiv> 5"
abbreviation (input) ENXIO :: int where "ENXIO \<equiv> 6"
abbreviation (input) EAGAIN :: int where "EAGAIN \<equiv> 11"
abbreviation (input) ENOMEM :: int where "ENOMEM \<equiv> 12"
abbreviation (input) EACCES :: int where "EACCES \<equiv> 13"
abbreviation (input) EEXIST :: int where "EEXIST \<equiv> 17"
abbreviation (input) EXDEV :: int where "EXDEV \<equiv> 18"
abbreviation (input) ENODEV :: int where "ENODEV \<equiv> 19"
abbreviation (input) ENOTDIR :: int where "ENOTDIR \<equiv> 20"
abbreviation (input) EISDIR :: int where "EISDIR \<equiv> 21"
abbreviation (input) EINVAL :: int where "EINVAL \<equiv> 22"
abbreviation (input) ETXTBSY :: int where "ETXTBSY \<equiv> 26"
abbreviation (input) EFBIG :: int where "EFBIG \<equiv> 27"
abbreviation (input) ENOSPC :: int where "ENOSPC \<equiv> 28"
abbreviation (input) EROFS :: int where "EROFS \<equiv> 30"
abbreviation (input) EMLINK :: int where "EMLINK \<equiv> 31"
abbreviation (input) ENAMETOOLONG :: int where "ENAMETOOLONG \<equiv> 36"
abbreviation (input) ENOTEMPTY :: int where "ENOTEMPTY \<equiv> 39"
abbreviation (input) EREMOTE :: int where "EREMOTE \<equiv> 66"
abbreviation (input) EOPNOTSUPP :: int where "EOPNOTSUPP \<equiv> 95"
abbreviation (input) ETIMEDOUT :: int where "ETIMEDOUT \<equiv> 110"
abbreviation (input) ESTALE :: int where "ESTALE \<equiv> 116"
abbreviation (input) EDQUOT :: int where "EDQUOT \<equiv> 122"
abbreviation (input) EINTR :: int where "EINTR \<equiv> 4"
abbreviation (input) ERESTARTSYS :: int where "ERESTARTSYS \<equiv> 512"
abbreviation (input) EBADHANDLE :: int where "EBADHANDLE \<equiv> 521"
abbreviation (input) EBADCOOKIE :: int where "EBADCOOKIE \<equiv> 523"
abbreviation (input) ETOOSMALL :: int where "ETOOSMALL \<equiv> 525"

section \<open>File handles\<close>

text \<open>
  \<open>struct vsnfs_fh\<close>: eight bytes that hold the inode number as a decimal string, and the file
  type, an \<open>int\<close> kept as its 32 bits.
\<close>

record vsnfs_fh =
  fh_data :: "byte list"
  fh_type :: u32

definition fh_wf :: "vsnfs_fh \<Rightarrow> bool" where
  "fh_wf fh \<longleftrightarrow> length (fh_data fh) = VSNFS_FHSIZE"

definition zero_fh :: vsnfs_fh where
  "zero_fh = \<lparr>fh_data = replicate VSNFS_FHSIZE 0, fh_type = 0\<rparr>"

text \<open>The bytes the handle of an inode number has when it is printed over \<open>buf\<close>.\<close>

definition handle_data :: "byte list \<Rightarrow> u64 \<Rightarrow> byte list" where
  "handle_data buf ino =
     take 7 (fmt_ld ino) @ 0 # drop (Suc (length (take 7 (fmt_ld ino)))) buf"

text \<open>A pointer that may carry an errno (\<open>ERR_PTR\<close>).\<close>

datatype 'a err_ptr = ErrPtr int | Ptr 'a

lemma vsnfs_ok_0 [simp]: "vsnfs_ok = 0"
  by (simp add: vsnfserr_def)

text \<open>Evaluation replaces the statuses the server uses by the words they are.\<close>

declare stat_num.simps [code del] vsnfserr_def [code del]

lemma vsnfserr_eval [code_unfold]:
  "vsnfserr VSNFS_OK = 0"
  "vsnfserr VSNFSERR_NOENT = 0x02000000"
  "vsnfserr VSNFSERR_IO = 0x05000000"
  "vsnfserr VSNFSERR_NOTDIR = 0x14000000"
  "vsnfserr VSNFSERR_FBIG = 0x1B000000"
  "vsnfserr VSNFSERR_NOSPC = 0x1C000000"
  "vsnfserr VSNFSERR_TOOSMALL = 0x15270000"
  unfolding vsnfserr_def stat_num.simps by code_simp+

lemma fh_wf_zero [simp]: "fh_wf zero_fh"
  by (simp add: fh_wf_def zero_fh_def)

lemma stat_num_bound: "stat_num s < 2 ^ 14"
  by (cases s) simp_all

lemma ntohl_vsnfserr [simp]: "ntohl (vsnfserr s) = word_of_nat (stat_num s)"
  by (simp add: vsnfserr_def)

lemma sint_stat_num [simp]: "sint (word_of_nat (stat_num s) :: u32) = int (stat_num s)"
proof -
  have "sint (word_of_int (int (stat_num s)) :: u32) = int (stat_num s)"
    using stat_num_bound [of s] by (subst int_word_sint) simp
  then show ?thesis by simp
qed

lemma length_handle_data: "length buf = 8 \<Longrightarrow> length (handle_data buf ino) = 8"
  by (simp add: handle_data_def)

lemma snprintf_handle [simp]:
  "length buf = 8 \<Longrightarrow> snprintf_ld buf 8 ino = Inr (handle_data buf ino)"
  by (simp add: snprintf_ld_def mem_write_def handle_data_def)

text \<open>
  The number in a handle is cut off after seven digits: a number of more digits has the handle of its
  leading part.
\<close>

lemma pow_Suc_not_less_10: "10 ^ Suc k \<le> n \<Longrightarrow> \<not> n < (10 :: nat)"
proof -
  assume "10 ^ Suc k \<le> n"
  moreover have "(10 :: nat) ^ 1 \<le> 10 ^ Suc k" by (rule power_increasing) simp_all
  ultimately show ?thesis by (simp only: power_one_right not_less)
qed

lemma length_dec_digits_ge: "10 ^ k \<le> n \<Longrightarrow> k < length (dec_digits n)"
proof (induction k arbitrary: n)
  case 0
  show ?case by simp
next
  case (Suc k)
  then have "10 ^ k \<le> n div 10" by (simp add: less_eq_div_iff_mult_less_eq mult.commute)
  then have IH: "k < length (dec_digits (n div 10))" by (rule Suc.IH)
  have "\<not> n < 10" by (rule pow_Suc_not_less_10 [OF Suc.prems])
  with IH show ?case by (simp add: dec_digits.simps [of n])
qed

lemma take_dec_digits_div:
  assumes "10 ^ k \<le> n" and "0 < k"
  shows "take k (dec_digits n) = take k (dec_digits (n div 10))"
proof -
  obtain j where k: "k = Suc j" using assms(2) by (cases k) auto
  with assms(1) have "10 ^ j \<le> n div 10" by (simp add: less_eq_div_iff_mult_less_eq mult.commute)
  then have "k \<le> length (dec_digits (n div 10))" using length_dec_digits_ge k by (simp add: Suc_le_eq)
  moreover have "\<not> n < 10"
    using pow_Suc_not_less_10 assms(1) unfolding k by blast
  ultimately show ?thesis by (simp add: dec_digits.simps [of n])
qed

lemma fmt_ld_nat: "n < 2 ^ 63 \<Longrightarrow> fmt_ld (word_of_nat n) = dec_digits n"
proof -
  assume n: "n < 2 ^ 63"
  have "sint (word_of_int (int n) :: u64) = int n"
    using n by (subst int_word_sint) simp
  then show ?thesis by (simp add: fmt_ld_def)
qed

lemma handle_data_short:
  assumes "n < 10 ^ 7"
  shows "handle_data buf (word_of_nat n) = dec_digits n @ 0 # drop (Suc (length (dec_digits n))) buf"
  using assms dec_digits_length_bound [of n 7] by (simp add: handle_data_def fmt_ld_nat)

lemma handle_data_long:
  assumes "10 ^ 7 \<le> n" and "n < 2 ^ 63"
  shows "handle_data buf (word_of_nat n) = handle_data buf (word_of_nat (n div 10))"
  using assms take_dec_digits_div [of 7 n] by (simp add: handle_data_def fmt_ld_nat)

end
