(* ===== verification/Xdr.thy ===== *)
theory Xdr
  imports Protocol
begin

text \<open>
  What client and server use of the kernel's RPC library for marshalling, as parameters.  The
  record \<open>xdr_api\<close> collects the routines of \<open>linux/sunrpc/xdr.h\<close> and \<open>svc.h\<close> the sources
  call; the locale \<open>sunrpc_xdr\<close> states what their documentation promises: the layout of
  RFC 4506 for counted byte arrays and the bookkeeping on an I/O vector.  \<open>xdr_ref\<close> is an
  instance that satisfies it.

  The second interface of this theory is \<open>codec\<close>: a decoder that reads back what an
  encoder lays out.  Its consequences (unambiguity, composition) are proved once and used for
  every record of the protocol.
\<close>

section \<open>I/O vectors and the library routines\<close>

text \<open>
  \<open>iov_base\<close> is the memory from the vector's base to the end of the page it lies in,
  \<open>iov_len\<close> the number of bytes in use.
\<close>

record kvec =
  iov_base :: mem
  iov_len :: nat

text \<open>The number of 32-bit words that hold \<open>l\<close> bytes, in 32-bit arithmetic.\<close>

definition XDR_QUADLEN :: "u32 \<Rightarrow> nat" where
  "XDR_QUADLEN l = unat (drop_bit 2 (l + 3))"

text \<open>
  The receive buffer of a request: the memory of its head, how many bytes of a reply go there, and the place and number
  of the bytes that go to the pages.
\<close>

record rcv_buf =
  rb_head :: mem
  rb_head_len :: nat
  rb_page_base :: nat
  rb_page_len :: nat

record xdr_api =
  xdr_encode_array :: "mem \<Rightarrow> nat \<Rightarrow> byte list \<Rightarrow> u32 \<Rightarrow> (mem \<times> nat) run"
  xdr_decode_string_inplace :: "mem \<Rightarrow> nat \<Rightarrow> u32 \<Rightarrow> (byte list \<times> u32 \<times> nat) option run"
  xdr_argsize_check :: "kvec \<Rightarrow> nat \<Rightarrow> bool"
  xdr_ressize_check :: "kvec \<Rightarrow> nat \<Rightarrow> kvec \<times> bool"
  xdr_adjust_iovec :: "kvec \<Rightarrow> nat \<Rightarrow> kvec \<times> nat"
  xdr_inline_pages :: "rcv_buf \<Rightarrow> nat \<Rightarrow> nat \<Rightarrow> nat \<Rightarrow> rcv_buf"
  RPC_REPHDRSIZE :: nat

section \<open>The layout of the wire\<close>

definition wire_pad :: "nat \<Rightarrow> byte list" where
  "wire_pad n = replicate ((4 - n mod 4) mod 4) 0"

definition wire_array :: "byte list \<Rightarrow> byte list" where
  "wire_array s = net32 (word_of_nat (length s)) @ s @ wire_pad (length s)"

definition wire_fh :: "vsnfs_fh \<Rightarrow> byte list" where
  "wire_fh fh = fh_data fh @ net32 (fh_type fh)"

text \<open>
  A directory entry in the page of a READDIR reply, and the whole page: entries, the end marker
  and the end-of-directory flag.
\<close>

record wentry =
  we_ino :: u32
  we_name :: "byte list"
  we_fh :: vsnfs_fh
  we_off :: u32

definition wire_entry :: "wentry \<Rightarrow> byte list" where
  "wire_entry e =
     net32 1 @ net32 (we_ino e) @ wire_array (we_name e) @ wire_fh (we_fh e) @ net32 (we_off e)"

definition wire_entries :: "wentry list \<Rightarrow> byte list" where
  "wire_entries es = concat (map wire_entry es)"

definition wire_dir :: "wentry list \<Rightarrow> bool \<Rightarrow> byte list" where
  "wire_dir es eof = wire_entries es @ net32 0 @ net32 (if eof then 1 else 0)"

definition wentry_wf :: "wentry \<Rightarrow> bool" where
  "wentry_wf e \<longleftrightarrow> fh_wf (we_fh e) \<and> length (we_name e) \<le> VSNFS_MAXNAMLEN"

lemma XDR_QUADLEN_nat: "unat l + 3 < 2 ^ 32 \<Longrightarrow> XDR_QUADLEN l = (unat l + 3) div 4"
  by (simp add: XDR_QUADLEN_def unat_drop_bit_eq drop_bit_eq_div unat_word_ariths)

lemma XDR_QUADLEN_FHSIZE [simp]: "XDR_QUADLEN 8 = 2"
  by (simp add: XDR_QUADLEN_def)

lemma length_wire_pad: "n + length (wire_pad n) = 4 * ((n + 3) div 4)"
proof -
  have "n mod 4 = 0 \<or> n mod 4 = 1 \<or> n mod 4 = 2 \<or> n mod 4 = 3" by arith
  then show ?thesis by (elim disjE) (simp_all add: wire_pad_def, presburger+)
qed

lemma length_wire_array: "length (wire_array s) = 4 + 4 * ((length s + 3) div 4)"
  using length_wire_pad [of "length s"] by (simp add: wire_array_def)

lemma length_wire_fh [simp]: "fh_wf fh \<Longrightarrow> length (wire_fh fh) = 12"
  by (simp add: wire_fh_def fh_wf_def)

lemma length_wire_entry:
  "wentry_wf e \<Longrightarrow> length (wire_entry e) = 28 + 4 * ((length (we_name e) + 3) div 4)"
  by (simp add: wire_entry_def wentry_wf_def length_wire_array)

lemma wire_entries_simps [simp]:
  "wire_entries [] = []"
  "wire_entries (e # es) = wire_entry e @ wire_entries es"
  "wire_entries (es @ fs) = wire_entries es @ wire_entries fs"
  by (simp_all add: wire_entries_def)

section \<open>What the library promises\<close>

locale sunrpc_xdr =
  fixes X :: xdr_api
  assumes encode_array:
      "unat n \<le> length s \<Longrightarrow> unat n + 3 < 2 ^ 32 \<Longrightarrow>
       xdr_encode_array X m p s n =
         bindF (mem_write m p (wire_array (take (unat n) s))) (\<lambda>m'.
           Inr (m', p + 4 + 4 * XDR_QUADLEN n))"
    and decode_string:
      "xdr_decode_string_inplace X m p maxlen =
         bindF (ld32 m p) (\<lambda>w. let len = ntohl w in
           Inr (if maxlen < len then None
                else Some (drop (p + 4) m, len, p + 4 + 4 * XDR_QUADLEN len)))"
    and argsize_check: "xdr_argsize_check X v p \<longleftrightarrow> p \<le> iov_len v"
    and ressize_check: "xdr_ressize_check X v p = (v\<lparr>iov_len := p\<rparr>, p \<le> PAGE_SIZE)"
    and adjust_iovec: "xdr_adjust_iovec X v p = (v\<lparr>iov_len := p\<rparr>, p)"
    and inline_pages:
      "xdr_inline_pages X b offset base len
         = b\<lparr>rb_head_len := offset, rb_page_base := base, rb_page_len := len\<rparr>"
begin

text \<open>Encoding a string into a buffer with room for it.\<close>

lemma encode_array_exact:
  assumes "unat n = length s" and "length s + 3 < 2 ^ 32"
  shows "xdr_encode_array X m p s n =
    bindF (mem_write m p (wire_array s)) (\<lambda>m'. Inr (m', p + length (wire_array s)))"
  using assms encode_array [of n s m p] XDR_QUADLEN_nat [of n]
  by (simp add: length_wire_array add.assoc)

text \<open>Decoding in place what is laid out as a counted array.\<close>

lemma decode_string_holds:
  assumes "holds m p (wire_array s)" and "length s \<le> unat maxlen" and "length s + 3 < 2 ^ 32"
  shows "xdr_decode_string_inplace X m p maxlen =
    Inr (Some (drop (p + 4) m, word_of_nat (length s), p + length (wire_array s)))"
proof -
  have u: "unat (word_of_nat (length s) :: u32) = length s"
    using assms(3) by (simp add: unat_of_nat)
  from assms(1) have "ld32 m p = Inr (htonl (word_of_nat (length s)))"
    by (simp add: wire_array_def holds_append mem_simps)
  moreover have "\<not> maxlen < word_of_nat (length s)"
    using assms(2) u by (simp add: word_less_nat_alt)
  ultimately show ?thesis
    using assms(3) XDR_QUADLEN_nat [of "word_of_nat (length s)"]
    by (simp add: decode_string u length_wire_array)
qed

lemma decode_string_too_long:
  assumes "ld32 m p = Inr w" and "maxlen < ntohl w"
  shows "xdr_decode_string_inplace X m p maxlen = Inr None"
  using assms by (simp add: decode_string)

text \<open>Where decoding gives a string, its length is within the bound and the cursor has moved past it.\<close>

lemma decode_string_SomeD:
  assumes "xdr_decode_string_inplace X m p maxlen = Inr (Some (s, len, q))"
  shows "p + 4 \<le> length m \<and> s = drop (p + 4) m \<and> len \<le> maxlen \<and> q = p + 4 + 4 * XDR_QUADLEN len"
  using assms ld32_cases [of m p]
  by (auto simp: decode_string bindF_eq_Inr Let_def not_less split: if_splits)

end

section \<open>Decoders that invert encoders\<close>

locale codec =
  fixes enc :: "'a \<Rightarrow> byte list"
    and dec :: "mem \<Rightarrow> nat \<Rightarrow> ('a \<times> nat) run"
    and ok :: "'a \<Rightarrow> bool"
  assumes dec_enc: "ok a \<Longrightarrow> holds m p (enc a) \<Longrightarrow> dec m p = Inr (a, p + length (enc a))"
begin

lemma dec_written:
  assumes "ok a" and "mem_write m p (enc a) = Inr m'"
  shows "dec m' p = Inr (a, p + length (enc a))"
  using dec_enc [OF assms(1) mem_write_holds [OF assms(2)]] .

text \<open>The encoding is self-delimiting: what follows a record cannot be mistaken for a part of it.\<close>

lemma enc_prefix_free:
  assumes "ok a" and "ok b" and "enc a @ r = enc b @ r'"
  shows "a = b \<and> r = r'"
proof -
  have "holds (enc a @ r) 0 (enc a)" and "holds (enc a @ r) 0 (enc b)"
    by (simp add: holds_def) (simp add: holds_def assms(3))
  from dec_enc [OF assms(1) this(1)] dec_enc [OF assms(2) this(2)] have "a = b" by simp
  with assms(3) show ?thesis by simp
qed

lemma enc_inject: "ok a \<Longrightarrow> ok b \<Longrightarrow> enc a = enc b \<longleftrightarrow> a = b"
  using enc_prefix_free [of a b "[]" "[]"] by auto

end

definition dec_u32 :: "mem \<Rightarrow> nat \<Rightarrow> (u32 \<times> nat) run" where
  "dec_u32 m p = bindF (ld32 m p) (\<lambda>w. Inr (ntohl w, p + 4))"

interpretation u32_codec: codec net32 dec_u32 "\<lambda>_. True"
  by unfold_locales (simp add: dec_u32_def mem_simps)

section \<open>An instance of the library\<close>

definition xdr_ref :: xdr_api where
  "xdr_ref =
    \<lparr>xdr_encode_array = (\<lambda>m p s n.
       bindF (mem_write m p (wire_array (take (unat n) s))) (\<lambda>m'.
         Inr (m', p + 4 + 4 * XDR_QUADLEN n))),
     xdr_decode_string_inplace = (\<lambda>m p maxlen.
       bindF (ld32 m p) (\<lambda>w. let len = ntohl w in
         Inr (if maxlen < len then None
              else Some (drop (p + 4) m, len, p + 4 + 4 * XDR_QUADLEN len)))),
     xdr_argsize_check = (\<lambda>v p. p \<le> iov_len v),
     xdr_ressize_check = (\<lambda>v p. (v\<lparr>iov_len := p\<rparr>, p \<le> PAGE_SIZE)),
     xdr_adjust_iovec = (\<lambda>v p. (v\<lparr>iov_len := p\<rparr>, p)),
     xdr_inline_pages = (\<lambda>b offset base len.
       b\<lparr>rb_head_len := offset, rb_page_base := base, rb_page_len := len\<rparr>),
     RPC_REPHDRSIZE = 4\<rparr>"

interpretation ref_xdr: sunrpc_xdr xdr_ref
  by unfold_locales (simp_all add: xdr_ref_def)

end
