(* ===== verification/Errno.thy ===== *)
theory Errno
  imports Protocol
begin

text \<open>
  The two translation tables between host errors and protocol status: the server's
  \<open>vsnfserrno\<close> (\<open>server/vsnfsproc.c\<close>) and the client's \<open>vsnfs_stat_to_errno\<close>
  (\<open>vsnfsXdr.c\<close>), both with the table rows and the search loop as they stand in the source.
\<close>

section \<open>Server: errno to status\<close>

definition vsnfserrno_tbl :: "(be32 \<times> int) list" where
  "vsnfserrno_tbl =
    [(vsnfs_ok, 0),
     (vsnfserr VSNFSERR_PERM, - EPERM),
     (vsnfserr VSNFSERR_NOENT, - ENOENT),
     (vsnfserr VSNFSERR_IO, - EIO),
     (vsnfserr VSNFSERR_NXIO, - ENXIO),
     (vsnfserr VSNFSERR_ACCES, - EACCES),
     (vsnfserr VSNFSERR_EXIST, - EEXIST),
     (vsnfserr VSNFSERR_XDEV, - EXDEV),
     (vsnfserr VSNFSERR_MLINK, - EMLINK),
     (vsnfserr VSNFSERR_NODEV, - ENODEV),
     (vsnfserr VSNFSERR_NOTDIR, - ENOTDIR),
     (vsnfserr VSNFSERR_ISDIR, - EISDIR),
     (vsnfserr VSNFSERR_INVAL, - EINVAL),
     (vsnfserr VSNFSERR_FBIG, - EFBIG),
     (vsnfserr VSNFSERR_NOSPC, - ENOSPC),
     (vsnfserr VSNFSERR_ROFS, - EROFS),
     (vsnfserr VSNFSERR_MLINK, - EMLINK),
     (vsnfserr VSNFSERR_NAMETOOLONG, - ENAMETOOLONG),
     (vsnfserr VSNFSERR_NOTEMPTY, - ENOTEMPTY),
     (vsnfserr VSNFSERR_STALE, - ESTALE),
     (vsnfserr VSNFSERR_JUKEBOX, - ETIMEDOUT),
     (vsnfserr VSNFSERR_JUKEBOX, - ERESTARTSYS),
     (vsnfserr VSNFSERR_IO, - ETXTBSY),
     (vsnfserr VSNFSERR_NOTSUPP, - EOPNOTSUPP),
     (vsnfserr VSNFSERR_TOOSMALL, - ETOOSMALL)]"

fun vsnfserrno_loop :: "(be32 \<times> int) list \<Rightarrow> int \<Rightarrow> be32" where
  "vsnfserrno_loop [] errno = vsnfserr VSNFSERR_IO"
| "vsnfserrno_loop ((err, syserr) # tbl) errno =
     (if syserr = errno then err else vsnfserrno_loop tbl errno)"

definition vsnfserrno :: "int \<Rightarrow> be32" where
  "vsnfserrno errno = vsnfserrno_loop vsnfserrno_tbl errno"

section \<open>Client: status to errno\<close>

text \<open>
  Two rows of the client's table have a minus sign where a comma was meant, so they hold one
  number, the difference, and an errno of 0.  The last row is the sentinel.
\<close>

definition vsnfs_errtbl :: "(int \<times> int) list" where
  "vsnfs_errtbl =
    [(int (stat_num VSNFS_OK), 0),
     (int (stat_num VSNFSERR_NOENT), - ENOENT),
     (int (stat_num VSNFSERR_IO), - EIO),
     (int (stat_num VSNFSERR_NXIO), - ENXIO),
     (int (stat_num VSNFSERR_EAGAIN), - EAGAIN),
     (int (stat_num VSNFSERR_EXIST), - EEXIST),
     (int (stat_num VSNFSERR_NODEV), - ENODEV),
     (int (stat_num VSNFSERR_NOTDIR), - ENOTDIR),
     (int (stat_num VSNFSERR_ISDIR), - EISDIR),
     (int (stat_num VSNFSERR_INVAL), - EINVAL),
     (int (stat_num VSNFSERR_FBIG), - EFBIG),
     (int (stat_num VSNFSERR_NOSPC), - ENOSPC),
     (int (stat_num VSNFSERR_ROFS), - EROFS),
     (int (stat_num VSNFSERR_MLINK), - EMLINK),
     (int (stat_num VSNFSERR_OPNOTSUPP) - EOPNOTSUPP, 0),
     (int (stat_num VSNFSERR_NAMETOOLONG), - ENAMETOOLONG),
     (int (stat_num VSNFSERR_NOTEMPTY), - ENOTEMPTY),
     (int (stat_num VSNFSERR_DQUOT), - EDQUOT),
     (int (stat_num VSNFSERR_STALE), - ESTALE),
     (int (stat_num VSNFSERR_REMOTE), - EREMOTE),
     (int (stat_num VSNFSERR_BADHANDLE), - EBADHANDLE),
     (int (stat_num VSNFSERR_BAD_COOKIE) - EBADCOOKIE, 0),
     (- 1, - EIO)]"

text \<open>The loop runs to the row whose status is -1; past the table it would read foreign memory.\<close>

fun stat_to_errno_loop :: "(int \<times> int) list \<Rightarrow> int \<Rightarrow> int run" where
  "stat_to_errno_loop [] stat = Inl OutOfBounds"
| "stat_to_errno_loop ((s, e) # tbl) stat =
     (if s = - 1 then Inr e
      else if s = stat then Inr e
      else stat_to_errno_loop tbl stat)"

definition vsnfs_stat_to_errno :: "int \<Rightarrow> int run" where
  "vsnfs_stat_to_errno stat = stat_to_errno_loop vsnfs_errtbl stat"

section \<open>What the tables do\<close>

lemmas errno_tables = vsnfserrno_def vsnfserrno_tbl_def vsnfs_stat_to_errno_def vsnfs_errtbl_def

text \<open>A table that ends in the sentinel is never left.\<close>

lemma stat_to_errno_loop_total: "- 1 \<in> fst ` set tbl \<Longrightarrow> \<exists>e. stat_to_errno_loop tbl stat = Inr e"
  by (induction tbl stat rule: stat_to_errno_loop.induct) auto

lemma vsnfs_stat_to_errno_total: "\<exists>e. vsnfs_stat_to_errno stat = Inr e"
  unfolding vsnfs_stat_to_errno_def
  by (rule stat_to_errno_loop_total) (simp add: vsnfs_errtbl_def)

lemma vsnfs_stat_to_errno_0 [simp]: "vsnfs_stat_to_errno 0 = Inr 0"
  by (simp add: vsnfs_stat_to_errno_def vsnfs_errtbl_def)

lemma vsnfs_stat_to_errno_nonpos: "vsnfs_stat_to_errno stat = Inr e \<Longrightarrow> e \<le> 0"
  by (auto simp: vsnfs_stat_to_errno_def vsnfs_errtbl_def split: if_splits)

text \<open>What the server sends for an errno is always one of the statuses of the protocol.\<close>

lemma vsnfserrno_loop_range:
  "vsnfserrno_loop tbl errno \<in> insert (vsnfserr VSNFSERR_IO) (fst ` set tbl)"
  by (induction tbl errno rule: vsnfserrno_loop.induct) auto

lemma vsnfserrno_tbl_statuses: "list_all (\<lambda>r. fst r \<in> range vsnfserr) vsnfserrno_tbl"
  by (simp add: vsnfserrno_tbl_def del: vsnfs_ok_0)

lemma vsnfserrno_is_status: "vsnfserrno errno \<in> range vsnfserr"
  using vsnfserrno_loop_range [of vsnfserrno_tbl errno] vsnfserrno_tbl_statuses
  unfolding vsnfserrno_def list_all_iff by auto

lemma vsnfserrno_loop_default:
  "errno \<notin> snd ` set tbl \<Longrightarrow> vsnfserrno_loop tbl errno = vsnfserr VSNFSERR_IO"
  by (induction tbl errno rule: vsnfserrno_loop.induct) auto

text \<open>The errors both tables know: the composition of the tables is the identity on them.\<close>

definition common_errnos :: "int list" where
  "common_errnos =
    [0, - ENOENT, - EIO, - ENXIO, - EEXIST, - EMLINK, - ENODEV, - ENOTDIR, - EISDIR, - EINVAL,
     - EFBIG, - ENOSPC, - EROFS, - ENAMETOOLONG, - ENOTEMPTY, - ESTALE]"

lemma errno_roundtrip_rows:
  "list_all (\<lambda>errno. vsnfs_stat_to_errno (sint (ntohl (vsnfserrno errno)))
      = Inr (if errno \<in> set common_errnos then errno else - EIO)) (map snd vsnfserrno_tbl)"
  by (simp add: errno_tables common_errnos_def del: sint_stat_num)

text \<open>
  C23. What an error of the server's host becomes at the client: errors both tables know arrive
  unchanged, every other error arrives as \<open>- EIO\<close>.
\<close>

theorem errno_roundtrip:
  "vsnfs_stat_to_errno (sint (ntohl (vsnfserrno errno)))
     = Inr (if errno \<in> set common_errnos then errno else - EIO)"
proof (cases "errno \<in> snd ` set vsnfserrno_tbl")
  case True
  then show ?thesis using errno_roundtrip_rows by (auto simp: list_all_iff)
next
  case False
  then have "vsnfserrno errno = vsnfserr VSNFSERR_IO" and "errno \<notin> set common_errnos"
    by (simp add: vsnfserrno_def vsnfserrno_loop_default)
       (use False in \<open>auto simp: vsnfserrno_tbl_def common_errnos_def\<close>)
  then show ?thesis by (simp add: vsnfs_stat_to_errno_def vsnfs_errtbl_def)
qed

text \<open>
  A status the client's table maps to success: besides \<open>VSNFS_OK\<close> there are exactly two,
  the differences left by the two malformed rows.
\<close>

lemma stat_to_errno_success_iff:
  "vsnfs_stat_to_errno stat = Inr 0 \<longleftrightarrow> stat \<in> {0, - 50, 9480}"
  by (simp add: vsnfs_stat_to_errno_def vsnfs_errtbl_def)

end
