(* ===== verification/ClientXdr.thy ===== *)
theory ClientXdr
  imports Xdr Errno
begin

text \<open>
  \<open>vsnfsXdr.c\<close> and \<open>vsnfsXdr.h\<close>: the client's marshalling.  Argument encoders write into the
  send vector of the request, result decoders read the reply from a receive buffer, and
  \<open>vsnfs_decode_dirent\<close> reads one directory entry from the page the server filled.
\<close>

section \<open>Arguments and results\<close>

record vsnfs_nullargs =
  na_dummy :: u32

record vsnfs_nullres =
  nr_dummy :: u32

record vsnfs_readdirargs =
  rda_fh :: vsnfs_fh
  rda_count :: u32

record vsnfs_readargs =
  ra_fh :: vsnfs_fh
  ra_offset :: u32
  ra_length :: u32

record vsnfs_readres =
  rr_count :: u64

text \<open>A directory entry; \<open>e_name\<close> points into the page, so it is the page from there on.\<close>

record vsnfs_entry =
  e_ino :: u64
  e_offset :: u64
  e_name :: "byte list"
  e_len :: u32
  e_eof :: int
  e_fh :: vsnfs_fh

record vsnfs_getrootargs =
  ga_path :: "byte list"
  ga_len :: u32

record vsnfs_lookupargs =
  la_fh :: vsnfs_fh
  la_filename :: "byte list"
  la_len :: u32

text \<open>
  The part of \<open>struct rpc_rqst\<close> the encoders touch.  \<open>rq_cred\<close> is the reply slack
  (\<open>au_rslack\<close>) of the flavour of the credential bound to the task, \<open>None\<close> for a NULL credential.
  \<open>rq_rcv_off\<close> is the distance from the base of the send vector to the receive buffer.
\<close>

record rpc_rqst =
  rq_svec :: kvec
  rq_slen :: nat
  rq_rcv_buf :: rcv_buf
  rq_cred :: "nat option"
  rq_rcv_off :: nat

section \<open>Sizes in XDR words\<close>

abbreviation (input) VSNFS_fhandle_sz :: nat where "VSNFS_fhandle_sz \<equiv> 8"
abbreviation (input) VSNFS_filename_sz :: nat where "VSNFS_filename_sz \<equiv> 1 + VSNFS_MAXNAMLEN div 4"
abbreviation (input) VSNFS_path_sz :: nat where "VSNFS_path_sz \<equiv> 1 + VSNFS_MAXPATHLEN div 4"
abbreviation (input) VSNFS_nullargs_sz :: nat where "VSNFS_nullargs_sz \<equiv> 1"
abbreviation (input) VSNFS_getrootargs_sz :: nat where "VSNFS_getrootargs_sz \<equiv> VSNFS_path_sz"
abbreviation (input) VSNFS_lookupargs_sz :: nat where
  "VSNFS_lookupargs_sz \<equiv> VSNFS_fhandle_sz + VSNFS_path_sz"
abbreviation (input) VSNFS_readdirargs_sz :: nat where "VSNFS_readdirargs_sz \<equiv> VSNFS_fhandle_sz + 2"
abbreviation (input) VSNFS_readargs_sz :: nat where "VSNFS_readargs_sz \<equiv> VSNFS_fhandle_sz + 3"
abbreviation (input) VSNFS_fh_sz :: nat where "VSNFS_fh_sz \<equiv> 1 + VSNFS_fhandle_sz + 1"
abbreviation (input) VSNFS_nullres_sz :: nat where "VSNFS_nullres_sz \<equiv> 1"
abbreviation (input) VSNFS_readdirres_sz :: nat where "VSNFS_readdirres_sz \<equiv> 1"
abbreviation (input) VSNFS_readres_sz :: nat where "VSNFS_readres_sz \<equiv> 1 + 1"

section \<open>File handles\<close>

definition xdr_encode_fhandle :: "mem \<Rightarrow> nat \<Rightarrow> vsnfs_fh \<Rightarrow> (mem \<times> nat) run" where
  "xdr_encode_fhandle m p fh =
     bindF (memcpy m p (fh_data fh) 0 VSNFS_FHSIZE) (\<lambda>m.
     let p = p + 4 * XDR_QUADLEN (word_of_nat VSNFS_FHSIZE) in
     bindF (st32 m p (htonl (fh_type fh))) (\<lambda>m.
     Inr (m, p + 4)))"

definition xdr_decode_fhandle :: "mem \<Rightarrow> nat \<Rightarrow> (vsnfs_fh \<times> nat) run" where
  "xdr_decode_fhandle m p =
     bindF (mem_read m p VSNFS_FHSIZE) (\<lambda>d.
     let p = p + 4 * XDR_QUADLEN (word_of_nat VSNFS_FHSIZE) in
     bindF (ld32 m p) (\<lambda>t.
     Inr (\<lparr>fh_data = d, fh_type = ntohl t\<rparr>, p + 4)))"

section \<open>Argument encoders\<close>

text \<open>
  The common tail of the encoders: the memory of the vector is what was written, and
  \<open>req->rq_slen = xdr_adjust_iovec(req->rq_svec, p)\<close>.
\<close>

definition adjust_slen :: "xdr_api \<Rightarrow> rpc_rqst \<Rightarrow> mem \<Rightarrow> nat \<Rightarrow> rpc_rqst" where
  "adjust_slen X req m p =
     (let (v, n) = xdr_adjust_iovec X ((rq_svec req)\<lparr>iov_base := m\<rparr>) p
      in req\<lparr>rq_svec := v, rq_slen := n\<rparr>)"

definition vsnfs_xdr_nullargs :: "xdr_api \<Rightarrow> rpc_rqst \<Rightarrow> nat \<Rightarrow> vsnfs_nullargs \<Rightarrow> (rpc_rqst \<times> int) run" where
  "vsnfs_xdr_nullargs X req p args =
     bindF (st32 (iov_base (rq_svec req)) p (htonl (na_dummy args))) (\<lambda>m.
     Inr (adjust_slen X req m (p + 4), 0))"

definition vsnfs_xdr_getrootargs ::
  "xdr_api \<Rightarrow> rpc_rqst \<Rightarrow> nat \<Rightarrow> vsnfs_getrootargs \<Rightarrow> (rpc_rqst \<times> int) run" where
  "vsnfs_xdr_getrootargs X req p args =
     bindF (xdr_encode_array X (iov_base (rq_svec req)) p (ga_path args) (ga_len args)) (\<lambda>(m, p).
     Inr (adjust_slen X req m p, 0))"

definition vsnfs_xdr_lookupargs ::
  "xdr_api \<Rightarrow> rpc_rqst \<Rightarrow> nat \<Rightarrow> vsnfs_lookupargs \<Rightarrow> (rpc_rqst \<times> int) run" where
  "vsnfs_xdr_lookupargs X req p args =
     bindF (xdr_encode_fhandle (iov_base (rq_svec req)) p (la_fh args)) (\<lambda>(m, p).
     bindF (xdr_encode_array X m p (la_filename args) (la_len args)) (\<lambda>(m, p).
     Inr (adjust_slen X req m p, 0)))"

definition vsnfs_xdr_readdirargs ::
  "xdr_api \<Rightarrow> rpc_rqst \<Rightarrow> nat \<Rightarrow> vsnfs_readdirargs \<Rightarrow> (rpc_rqst \<times> int) run" where
  "vsnfs_xdr_readdirargs X req p args =
     bindF (deref (rq_cred req)) (\<lambda>au_rslack.
     let count = rda_count args in
     bindF (xdr_encode_fhandle (iov_base (rq_svec req)) p (rda_fh args)) (\<lambda>(m, p).
     bindF (st32 m p (htonl count)) (\<lambda>m.
     let req = adjust_slen X req m (p + 4);
         replen = (RPC_REPHDRSIZE X + au_rslack + VSNFS_readdirres_sz) * 4
     in Inr (req\<lparr>rq_rcv_buf := xdr_inline_pages X (rq_rcv_buf req) replen 0 (unat count)\<rparr>, 0))))"

definition vsnfs_xdr_readargs ::
  "xdr_api \<Rightarrow> rpc_rqst \<Rightarrow> nat \<Rightarrow> vsnfs_readargs \<Rightarrow> (rpc_rqst \<times> int) run" where
  "vsnfs_xdr_readargs X req p args =
     bindF (deref (rq_cred req)) (\<lambda>au_rslack.
     let count = ra_length args in
     bindF (xdr_encode_fhandle (iov_base (rq_svec req)) p (ra_fh args)) (\<lambda>(m, p).
     bindF (st32 m p (htonl (ra_offset args))) (\<lambda>m.
     bindF (st32 m (p + 4) (htonl (ra_length args))) (\<lambda>m.
     let req = adjust_slen X req m (p + 8);
         replen = (RPC_REPHDRSIZE X + au_rslack + VSNFS_readdirres_sz) * 4
     in Inr (req\<lparr>rq_rcv_buf := xdr_inline_pages X (rq_rcv_buf req) replen 0 (unat count)\<rparr>, 0)))))"

section \<open>Result decoders\<close>

text \<open>The receive buffer is the memory \<open>m\<close>; \<open>p\<close> is where the result starts.\<close>

definition vsnfs_xdr_nullres :: "mem \<Rightarrow> nat \<Rightarrow> vsnfs_nullres \<Rightarrow> (int \<times> vsnfs_nullres) run" where
  "vsnfs_xdr_nullres m p res =
     bindF (ld32 m p) (\<lambda>w.
     let status = sint (ntohl w) in
     if status \<noteq> 0 then bindF (vsnfs_stat_to_errno status) (\<lambda>e. Inr (e, res))
     else bindF (ld32 m (p + 4)) (\<lambda>w. Inr (0, res\<lparr>nr_dummy := ntohl w\<rparr>)))"

definition vsnfs_xdr_fh :: "mem \<Rightarrow> nat \<Rightarrow> vsnfs_fh \<Rightarrow> (int \<times> vsnfs_fh) run" where
  "vsnfs_xdr_fh m p fh =
     bindF (ld32 m p) (\<lambda>w.
     let status = sint (ntohl w); p = p + 4 in
     if status \<noteq> 0 then bindF (vsnfs_stat_to_errno status) (\<lambda>e. Inr (e, fh))
     else bindF (mem_read m p VSNFS_FHSIZE) (\<lambda>d.
          let p = p + 4 * XDR_QUADLEN (word_of_nat VSNFS_FHSIZE) in
          bindF (ld32 m p) (\<lambda>t.
          Inr (0, \<lparr>fh_data = d, fh_type = ntohl t\<rparr>))))"

definition vsnfs_xdr_readdirres :: "mem \<Rightarrow> nat \<Rightarrow> int run" where
  "vsnfs_xdr_readdirres m p =
     bindF (ld32 m p) (\<lambda>w.
     let status = sint (ntohl w) in
     if status \<noteq> 0 then vsnfs_stat_to_errno status else Inr 0)"

text \<open>
  The decoder of the READ result stores into the receive buffer and sets the length of the send vector to the
  distance to its cursor in the receive buffer; the result structure is only read.
\<close>

definition vsnfs_xdr_readres ::
  "xdr_api \<Rightarrow> rpc_rqst \<Rightarrow> mem \<Rightarrow> nat \<Rightarrow> vsnfs_readres \<Rightarrow> (int \<times> rpc_rqst \<times> mem \<times> vsnfs_readres) run" where
  "vsnfs_xdr_readres X req m p res =
     bindF (ld32 m p) (\<lambda>w.
     let status = sint (ntohl w); p = p + 4 in
     if status \<noteq> 0 then bindF (vsnfs_stat_to_errno status) (\<lambda>e. Inr (e, req, m, res))
     else bindF (st32 m p (htonl (ucast (rr_count res)))) (\<lambda>m.
          let (v, n) = xdr_adjust_iovec X (rq_svec req) (rq_rcv_off req + p + 4) in
          Inr (0, req\<lparr>rq_svec := v, rq_slen := n\<rparr>, m, res)))"

section \<open>Directory entries\<close>

definition vsnfs_decode_dirent :: "mem \<Rightarrow> nat \<Rightarrow> vsnfs_entry \<Rightarrow> (nat err_ptr \<times> vsnfs_entry) run" where
  "vsnfs_decode_dirent m p entry =
     bindF (ld32 m p) (\<lambda>present.
     let p = p + 4 in
     if present = 0 then Inr (ErrPtr (- EBADCOOKIE), entry\<lparr>e_eof := 1\<rparr>)
     else
     bindF (ld32 m p) (\<lambda>ino.
     bindF (ld32 m (p + 4)) (\<lambda>len.
     let p = p + 8; len = ntohl len; name = drop p m; p = p + 4 * XDR_QUADLEN len in
     bindF (xdr_decode_fhandle m p) (\<lambda>(fh, p).
     bindF (ld32 m p) (\<lambda>off.
     let p = p + 4 in
     bindF (ld32 m p) (\<lambda>p0.
     bindF (if p0 \<noteq> 0 then Inr False
            else bindF (ld32 m (p + 4)) (\<lambda>p1. Inr (p1 \<noteq> 0))) (\<lambda>eof.
     Inr (Ptr p,
       \<lparr>e_ino = ucast (ntohl ino), e_offset = ucast (ntohl off), e_name = name, e_len = len,
        e_eof = (if eof then 1 else 0), e_fh = fh\<rparr>))))))))"

section \<open>The procedure table\<close>

datatype rpc_argp =
    NullArgs vsnfs_nullargs
  | GetrootArgs vsnfs_getrootargs
  | LookupArgs vsnfs_lookupargs
  | ReaddirArgs vsnfs_readdirargs
  | ReadArgs vsnfs_readargs

text \<open>The structure \<open>rpc_resp\<close> points to; a call without one (\<open>None\<close>) has NULL there.\<close>

datatype rpc_resp =
    RespNull vsnfs_nullres
  | RespFh vsnfs_fh
  | RespRead vsnfs_readres

type_synonym kxdr_encode = "xdr_api \<Rightarrow> rpc_rqst \<Rightarrow> nat \<Rightarrow> rpc_argp \<Rightarrow> (rpc_rqst \<times> int) run"
type_synonym kxdr_decode =
  "xdr_api \<Rightarrow> rpc_rqst \<Rightarrow> mem \<Rightarrow> nat \<Rightarrow> rpc_resp option \<Rightarrow> (int \<times> rpc_rqst \<times> mem \<times> rpc_resp option) run"

record rpc_procinfo =
  p_proc :: nat
  p_encode :: kxdr_encode
  p_decode :: kxdr_decode
  p_arglen :: nat
  p_replen :: nat
  p_statidx :: nat
  p_name :: string

text \<open>
  The casts to \<open>kxdrproc_t\<close>: an encoder or decoder that is handed a structure of another type misreads it, which
  is \<open>BadDeref\<close> here.
\<close>

fun kx_nullargs :: kxdr_encode where
  "kx_nullargs X req p (NullArgs a) = vsnfs_xdr_nullargs X req p a"
| "kx_nullargs X req p _ = Inl BadDeref"

fun kx_getrootargs :: kxdr_encode where
  "kx_getrootargs X req p (GetrootArgs a) = vsnfs_xdr_getrootargs X req p a"
| "kx_getrootargs X req p _ = Inl BadDeref"

fun kx_lookupargs :: kxdr_encode where
  "kx_lookupargs X req p (LookupArgs a) = vsnfs_xdr_lookupargs X req p a"
| "kx_lookupargs X req p _ = Inl BadDeref"

fun kx_readdirargs :: kxdr_encode where
  "kx_readdirargs X req p (ReaddirArgs a) = vsnfs_xdr_readdirargs X req p a"
| "kx_readdirargs X req p _ = Inl BadDeref"

fun kx_readargs :: kxdr_encode where
  "kx_readargs X req p (ReadArgs a) = vsnfs_xdr_readargs X req p a"
| "kx_readargs X req p _ = Inl BadDeref"

fun kx_nullres :: kxdr_decode where
  "kx_nullres X req m p (Some (RespNull r)) =
     bindF (vsnfs_xdr_nullres m p r) (\<lambda>(st, r). Inr (st, req, m, Some (RespNull r)))"
| "kx_nullres X req m p _ = Inl BadDeref"

fun kx_fh :: kxdr_decode where
  "kx_fh X req m p (Some (RespFh fh)) =
     bindF (vsnfs_xdr_fh m p fh) (\<lambda>(st, fh). Inr (st, req, m, Some (RespFh fh)))"
| "kx_fh X req m p _ = Inl BadDeref"

text \<open>\<open>vsnfs_xdr_readdirres\<close> ignores its last argument.\<close>

definition kx_readdirres :: kxdr_decode where
  "kx_readdirres X req m p resp = bindF (vsnfs_xdr_readdirres m p) (\<lambda>st. Inr (st, req, m, resp))"

fun kx_readres :: kxdr_decode where
  "kx_readres X req m p (Some (RespRead r)) =
     bindF (vsnfs_xdr_readres X req m p r) (\<lambda>(st, req, m, r). Inr (st, req, m, Some (RespRead r)))"
| "kx_readres X req m p _ = Inl BadDeref"

text \<open>\<open>vsnfs_procedures\<close>: the rows of the table, \<open>None\<close> for a number without one.\<close>

definition PROC :: "nat \<Rightarrow> string \<Rightarrow> kxdr_encode \<Rightarrow> nat \<Rightarrow> kxdr_decode \<Rightarrow> nat \<Rightarrow> rpc_procinfo" where
  "PROC proc name encode arglen decode replen =
     \<lparr>p_proc = proc, p_encode = encode, p_decode = decode, p_arglen = arglen, p_replen = replen,
      p_statidx = proc, p_name = name\<rparr>"

definition vsnfs_procedures :: "nat \<Rightarrow> rpc_procinfo option" where
  "vsnfs_procedures =
     [VSNFSPROC_NULL \<mapsto> PROC VSNFSPROC_NULL ''NULL'' kx_nullargs VSNFS_nullargs_sz kx_nullres VSNFS_nullres_sz,
      VSNFSPROC_GETROOT \<mapsto> PROC VSNFSPROC_GETROOT ''GETROOT'' kx_getrootargs VSNFS_getrootargs_sz kx_fh VSNFS_fh_sz,
      VSNFSPROC_LOOKUP \<mapsto> PROC VSNFSPROC_LOOKUP ''LOOKUP'' kx_lookupargs VSNFS_lookupargs_sz kx_fh VSNFS_fh_sz,
      VSNFSPROC_READ \<mapsto> PROC VSNFSPROC_READ ''READ'' kx_readargs VSNFS_readargs_sz kx_readres VSNFS_readres_sz,
      VSNFSPROC_READDIR \<mapsto>
        PROC VSNFSPROC_READDIR ''READDIR'' kx_readdirargs VSNFS_readdirargs_sz kx_readdirres VSNFS_readdirres_sz]"

section \<open>The layout the encoders produce\<close>

text \<open>
  \<open>proc_of\<close> is the procedure the callers of \<open>vsnfsProc.c\<close> name with arguments of each kind.
  \<open>wire_args\<close> is the specification of the argument encoders, \<open>args_wf\<close> what the callers
  guarantee: handles of eight bytes, strings as long as their length field says and within
  the limits of the protocol.
\<close>

fun proc_of :: "rpc_argp \<Rightarrow> nat" where
  "proc_of (NullArgs a) = VSNFSPROC_NULL"
| "proc_of (GetrootArgs a) = VSNFSPROC_GETROOT"
| "proc_of (LookupArgs a) = VSNFSPROC_LOOKUP"
| "proc_of (ReaddirArgs a) = VSNFSPROC_READDIR"
| "proc_of (ReadArgs a) = VSNFSPROC_READ"

fun wire_args :: "rpc_argp \<Rightarrow> byte list" where
  "wire_args (NullArgs a) = net32 (na_dummy a)"
| "wire_args (GetrootArgs a) = wire_array (ga_path a)"
| "wire_args (LookupArgs a) = wire_fh (la_fh a) @ wire_array (la_filename a)"
| "wire_args (ReaddirArgs a) = wire_fh (rda_fh a) @ net32 (rda_count a)"
| "wire_args (ReadArgs a) = wire_fh (ra_fh a) @ net32 (ra_offset a) @ net32 (ra_length a)"

fun args_wf :: "rpc_argp \<Rightarrow> bool" where
  "args_wf (NullArgs a) = True"
| "args_wf (GetrootArgs a) =
     (unat (ga_len a) = length (ga_path a) \<and> length (ga_path a) \<le> VSNFS_MAXPATHLEN)"
| "args_wf (LookupArgs a) =
     (fh_wf (la_fh a) \<and> unat (la_len a) = length (la_filename a) \<and>
      length (la_filename a) \<le> VSNFS_MAXNAMLEN)"
| "args_wf (ReaddirArgs a) = fh_wf (rda_fh a)"
| "args_wf (ReadArgs a) = fh_wf (ra_fh a)"

section \<open>Lemmas\<close>

lemma xdr_encode_fhandle_wire:
  assumes "fh_wf fh"
  shows "xdr_encode_fhandle m p fh =
    bindF (mem_write m p (wire_fh fh)) (\<lambda>m'. Inr (m', p + length (wire_fh fh)))"
  using assms
  by (simp add: xdr_encode_fhandle_def wire_fh_def fh_wf_def mem_simps bindF_assoc
      mem_write_append [symmetric] add.commute)

lemma xdr_decode_fhandle_wire:
  assumes "fh_wf fh" and "holds m p (wire_fh fh)"
  shows "xdr_decode_fhandle m p = Inr (fh, p + length (wire_fh fh))"
proof -
  from assms have "mem_read m p 8 = Inr (fh_data fh)" and "ld32 m (p + 8) = Inr (htonl (fh_type fh))"
    by (simp_all add: wire_fh_def fh_wf_def holds_append mem_simps)
  with assms(1) show ?thesis by (simp add: xdr_decode_fhandle_def)
qed

interpretation client_fh: codec wire_fh xdr_decode_fhandle fh_wf
  by unfold_locales (rule xdr_decode_fhandle_wire)

lemma xdr_decode_fhandle_InrD:
  assumes "xdr_decode_fhandle m p = Inr (fh, q)"
  shows "fh_wf fh \<and> q = p + 12 \<and> q \<le> length m"
proof -
  from assms obtain d t where "mem_read m p 8 = Inr d" and t: "ld32 m (p + 8) = Inr t"
    and fh: "fh = \<lparr>fh_data = d, fh_type = ntohl t\<rparr>" and q: "q = p + 12"
    by (auto simp: xdr_decode_fhandle_def bindF_eq_Inr)
  then have "length d = 8" using read_holds by blast
  moreover have "p + 12 \<le> length m" using t ld32_cases [of m "p + 8"] by auto
  ultimately show ?thesis by (simp add: fh q fh_wf_def)
qed

lemma iov_base_adjust_slen:
  "sunrpc_xdr X \<Longrightarrow> adjust_slen X req m p =
     req\<lparr>rq_svec := (rq_svec req)\<lparr>iov_base := m, iov_len := p\<rparr>, rq_slen := p\<rparr>"
  by (simp add: adjust_slen_def sunrpc_xdr.adjust_iovec)

text \<open>Where the reply goes: READDIR and READ inline a page behind the status.\<close>

fun rcv_for :: "xdr_api \<Rightarrow> nat \<Rightarrow> rpc_argp \<Rightarrow> rcv_buf \<Rightarrow> rcv_buf" where
  "rcv_for X slack (ReaddirArgs a) b =
     b\<lparr>rb_head_len := (RPC_REPHDRSIZE X + slack + 1) * 4, rb_page_base := 0, rb_page_len := unat (rda_count a)\<rparr>"
| "rcv_for X slack (ReadArgs a) b =
     b\<lparr>rb_head_len := (RPC_REPHDRSIZE X + slack + 1) * 4, rb_page_base := 0, rb_page_len := unat (ra_length a)\<rparr>"
| "rcv_for X slack _ b = b"

lemma procedure_known: "\<exists>pi. vsnfs_procedures (proc_of a) = Some pi"
  by (cases a) (simp_all add: vsnfs_procedures_def)

text \<open>
  The argument encoders of the table implement the layout \<open>wire_args\<close>: in a send buffer with room for
  it every encoder succeeds, writes exactly the layout at \<open>p\<close>, leaves the rest of the
  buffer alone and reports the length up to its end.
\<close>

lemma p_encode_wire:
  assumes "sunrpc_xdr X" and "args_wf a" and "rq_cred req = Some slack"
    and "p + length (wire_args a) \<le> length (iov_base (rq_svec req))"
    and row: "vsnfs_procedures (proc_of a) = Some pi"
  shows "\<exists>req'. p_encode pi X req p a = Inr (req', 0) \<and>
    mem_write (iov_base (rq_svec req)) p (wire_args a) = Inr (iov_base (rq_svec req')) \<and>
    iov_len (rq_svec req') = p + length (wire_args a) \<and>
    rq_slen req' = p + length (wire_args a) \<and>
    rq_rcv_buf req' = rcv_for X slack a (rq_rcv_buf req)"
proof -
  obtain m where m: "mem_write (iov_base (rq_svec req)) p (wire_args a) = Inr m"
    using mem_write_ok [OF assms(4)] by blast
  note row' = row [unfolded vsnfs_procedures_def PROC_def]
  show ?thesis
  proof (cases a)
    case (NullArgs x)
    then show ?thesis using m assms(1) row'
      by (auto simp: vsnfs_xdr_nullargs_def mem_simps iov_base_adjust_slen)
  next
    case (GetrootArgs x)
    then show ?thesis using m assms(1,2) row'
      by (auto simp: vsnfs_xdr_getrootargs_def sunrpc_xdr.encode_array_exact iov_base_adjust_slen)
  next
    case (LookupArgs x)
    with assms(2) have fh: "length (wire_fh (la_fh x)) = 12" by simp
    show ?thesis using LookupArgs m assms(1,2) fh row'
      by (auto simp: vsnfs_xdr_lookupargs_def xdr_encode_fhandle_wire bindF_assoc
          mem_write_append [symmetric] bindF_eq_Inr sunrpc_xdr.encode_array_exact iov_base_adjust_slen)
  next
    case (ReaddirArgs x)
    with assms(2) have fh: "length (wire_fh (rda_fh x)) = 12" by simp
    show ?thesis using ReaddirArgs m assms(1,2,3) fh row'
      by (auto simp: vsnfs_xdr_readdirargs_def xdr_encode_fhandle_wire bindF_assoc mem_simps
          mem_write_append [symmetric] bindF_eq_Inr Let_def iov_base_adjust_slen sunrpc_xdr.inline_pages)
  next
    case (ReadArgs x)
    with assms(2) have fh: "length (wire_fh (ra_fh x)) = 12" by simp
    show ?thesis using ReadArgs m assms(1,2,3) fh row'
      by (auto simp: vsnfs_xdr_readargs_def xdr_encode_fhandle_wire bindF_assoc mem_simps
          mem_write_append [symmetric] bindF_eq_Inr Let_def iov_base_adjust_slen sunrpc_xdr.inline_pages)
  qed
qed

text \<open>GETROOT of \<open>/e\<close>, encoded into a buffer of sixteen bytes.\<close>

lemma p_encode_wire_example:
  "\<exists>pi req'. vsnfs_procedures VSNFSPROC_GETROOT = Some pi \<and>
     p_encode pi xdr_ref \<lparr>rq_svec = \<lparr>iov_base = replicate 16 1, iov_len = 4\<rparr>, rq_slen = 4,
        rq_rcv_buf = \<lparr>rb_head = [], rb_head_len = 0, rb_page_base = 0, rb_page_len = 0\<rparr>, rq_cred = Some 0,
        rq_rcv_off = 4096\<rparr> 4 (GetrootArgs \<lparr>ga_path = [47, 101], ga_len = 2\<rparr>) = Inr (req', 0) \<and>
     iov_base (rq_svec req') = [1, 1, 1, 1, 0, 0, 0, 2, 47, 101, 0, 0, 1, 1, 1, 1] \<and> rq_slen req' = 12"
proof -
  let ?req = "\<lparr>rq_svec = \<lparr>iov_base = replicate 16 1, iov_len = 4\<rparr>, rq_slen = 4,
        rq_rcv_buf = \<lparr>rb_head = [], rb_head_len = 0, rb_page_base = 0, rb_page_len = 0\<rparr>, rq_cred = Some 0,
        rq_rcv_off = 4096\<rparr>"
  let ?a = "GetrootArgs \<lparr>ga_path = [47, 101], ga_len = 2\<rparr>"
  have f: "args_wf ?a" "4 + length (wire_args ?a) \<le> length (iov_base (rq_svec ?req))"
      "length (wire_args ?a) = 8"
      "mem_write (replicate 16 1) 4 (wire_args ?a)
         = Inr [1, 1, 1, 1, 0, 0, 0, 2, 47, 101, 0, 0, 1, 1, 1, 1]"
    by code_simp+
  obtain pi where "vsnfs_procedures (proc_of ?a) = Some pi" using procedure_known by blast
  from p_encode_wire [OF ref_xdr.sunrpc_xdr_axioms f(1) _ f(2) this] f(3,4) this show ?thesis by auto
qed

end
