(* ===== verification/ClientDir.thy ===== *)
theory ClientDir
  imports ClientXdr
begin

text \<open>
  \<open>vsnfsProc.c\<close> and the reading of directories in \<open>vsnfsDir.c\<close>: the client's calls to the
  server, and the loop that decodes the page of a READDIR reply and hands its entries to
  the caller of \<open>readdir\<close>.
\<close>

section \<open>Remote calls\<close>

text \<open>
  What the client asks of the RPC library: \<open>rpc_call_sync\<close>, a completed call.  The message is the number of the row of
  \<open>vsnfs_procedures\<close> that \<open>rpc_proc\<close> points to, the arguments, the result structure and the page the arguments name
  (\<open>[]\<close> where there is none); what comes back is the contents of the result structure and of the page, and the status.
  \<open>'n\<close> is the state of the network and the server.
\<close>

record 'n rpc_api =
  rpc_call_sync :: "'n \<Rightarrow> nat \<Rightarrow> rpc_argp \<Rightarrow> rpc_resp option \<Rightarrow> mem \<Rightarrow> 'n \<times> rpc_resp option \<times> mem \<times> int"

text \<open>The caller's structure after the call.\<close>

fun resp_null :: "vsnfs_nullres \<Rightarrow> rpc_resp option \<Rightarrow> vsnfs_nullres" where
  "resp_null old (Some (RespNull r)) = r"
| "resp_null old _ = old"

fun resp_fh :: "vsnfs_fh \<Rightarrow> rpc_resp option \<Rightarrow> vsnfs_fh" where
  "resp_fh old (Some (RespFh fh)) = fh"
| "resp_fh old _ = old"

fun resp_read :: "vsnfs_readres \<Rightarrow> rpc_resp option \<Rightarrow> vsnfs_readres" where
  "resp_read old (Some (RespRead r)) = r"
| "resp_read old _ = old"

text \<open>\<open>stk\<close> is what the uninitialised result structure on the stack holds.\<close>

definition vsnfs_proc_null ::
  "'n rpc_api \<Rightarrow> vsnfs_nullres \<Rightarrow> 'n \<Rightarrow> u32 \<Rightarrow> u32 \<Rightarrow> 'n \<times> u32 \<times> int" where
  "vsnfs_proc_null R stk n input output =
     (let (n, res, _, status) =
            rpc_call_sync R n VSNFSPROC_NULL (NullArgs \<lparr>na_dummy = input\<rparr>) (Some (RespNull stk)) []
      in (n, if status = 0 then nr_dummy (resp_null stk res) else output, status))"

definition vsnfs_proc_getroot ::
  "'n rpc_api \<Rightarrow> 'n \<Rightarrow> vsnfs_getrootargs \<Rightarrow> vsnfs_fh \<Rightarrow> 'n \<times> vsnfs_fh \<times> int" where
  "vsnfs_proc_getroot R n args fh =
     (let (n, res, _, status) = rpc_call_sync R n VSNFSPROC_GETROOT (GetrootArgs args) (Some (RespFh fh)) []
      in (n, resp_fh fh res, status))"

definition vsnfs_proc_lookup ::
  "'n rpc_api \<Rightarrow> 'n \<Rightarrow> vsnfs_lookupargs \<Rightarrow> vsnfs_fh \<Rightarrow> 'n \<times> vsnfs_fh \<times> int" where
  "vsnfs_proc_lookup R n args fh =
     (let (n, res, _, status) = rpc_call_sync R n VSNFSPROC_LOOKUP (LookupArgs args) (Some (RespFh fh)) []
      in (n, resp_fh fh res, status))"

text \<open>The handle is \<open>VSNFS_FH(dir)\<close>, the inode's private pointer, which the encoder follows.\<close>

definition vsnfs_proc_readdir ::
  "'n rpc_api \<Rightarrow> 'n \<Rightarrow> vsnfs_fh option \<Rightarrow> mem \<Rightarrow> u32 \<Rightarrow> ('n \<times> mem \<times> int) run" where
  "vsnfs_proc_readdir R n dirfh page count =
     bindF (deref dirfh) (\<lambda>fh.
     let (n, _, page, status) =
           rpc_call_sync R n VSNFSPROC_READDIR (ReaddirArgs \<lparr>rda_fh = fh, rda_count = count\<rparr>) None page
     in Inr (n, page, status))"

definition vsnfs_proc_read ::
  "'n rpc_api \<Rightarrow> vsnfs_readres \<Rightarrow> 'n \<Rightarrow> vsnfs_fh option \<Rightarrow> mem \<Rightarrow> u64 \<Rightarrow> u32
   \<Rightarrow> ('n \<times> mem \<times> u32 \<times> int) run" where
  "vsnfs_proc_read R stk n dirfh page offset count =
     bindF (deref dirfh) (\<lambda>fh.
     let (n, resp, page, status) =
           rpc_call_sync R n VSNFSPROC_READ
             (ReadArgs \<lparr>ra_fh = fh, ra_offset = ucast offset, ra_length = count\<rparr>) (Some (RespRead stk)) page
     in Inr (n, page, ucast (rr_count (resp_read stk resp)), status))"

section \<open>Reading a directory\<close>

text \<open>
  The descriptor: the page and the cursor in it, \<open>None\<close> where the source stores NULL, the entry last
  decoded, and of \<open>desc->file\<close> the position.  \<open>d_pages\<close> counts the pages allocated and not released.
\<close>

record readdir_desc =
  d_f_pos :: int
  d_page :: "mem option"
  d_page_index :: nat
  d_ptr :: "nat option"
  d_target :: int
  d_entry :: vsnfs_entry
  d_pages :: int

definition vsnfs_opendir :: int where "vsnfs_opendir = 0"

definition dir_decode :: "readdir_desc \<Rightarrow> (readdir_desc \<times> int) run" where
  "dir_decode desc =
     bindF (deref (d_page desc)) (\<lambda>page.
     bindF (deref (d_ptr desc)) (\<lambda>p.
     bindF (vsnfs_decode_dirent page p (d_entry desc)) (\<lambda>(p, entry).
     let desc = desc\<lparr>d_entry := entry\<rparr> in
     case p of
       ErrPtr e \<Rightarrow> Inr (desc, e)
     | Ptr p \<Rightarrow> Inr (desc\<lparr>d_ptr := Some p\<rparr>, 0))))"

definition dir_page_release :: "readdir_desc \<Rightarrow> readdir_desc" where
  "dir_page_release desc = desc\<lparr>d_page := None, d_ptr := None, d_pages := d_pages desc - 1\<rparr>"

text \<open>
  What the caller's \<open>filldir\<close> is handed: the bytes of the name, as many as the length says, the offset, the
  inode number and the type.
\<close>

record fill_ent =
  f_name :: "byte list"
  f_off :: u64
  f_ino :: u64
  f_type :: u32

type_synonym 'b filldir_t = "'b \<Rightarrow> fill_ent \<Rightarrow> 'b \<times> int"

definition fill_arg :: "vsnfs_entry \<Rightarrow> fill_ent run" where
  "fill_arg e =
     bindF (mem_read (e_name e) 0 (unat (e_len e))) (\<lambda>name.
     Inr \<lparr>f_name = name, f_off = e_offset e, f_ino = e_ino e, f_type = fh_type (e_fh e)\<rparr>)"

lemma ld32_InrD: "ld32 m p = Inr w \<Longrightarrow> p + 4 \<le> length m"
  using ld32_cases [of m p] by auto

lemma vsnfs_decode_dirent_advances:
  assumes "vsnfs_decode_dirent m p e = Inr (Ptr q, e')"
  shows "p < q \<and> q < length m"
  using assms unfolding vsnfs_decode_dirent_def Let_def
  by (auto simp: bindF_eq_Inr split: if_splits dest!: xdr_decode_fhandle_InrD ld32_InrD)

text \<open>
  The loop of \<open>vsnfs_do_filldir\<close>.  Every turn moves the cursor forward within the page, so it ends.
\<close>

function vsnfs_do_filldir ::
  "'b filldir_t \<Rightarrow> readdir_desc \<Rightarrow> 'b \<Rightarrow> (readdir_desc \<times> 'b \<times> int) run" where
  "vsnfs_do_filldir filldir desc dirent =
     bindF (dir_decode desc) (\<lambda>(desc, status).
     if status < 0 then Inr (desc, dirent, status)
     else
     bindF (fill_arg (d_entry desc)) (\<lambda>a.
     let (dirent, res) = filldir dirent a in
     if res < 0 then Inr (desc, dirent, res)
     else if e_eof (d_entry desc) = 1
     then Inr (dir_page_release (desc\<lparr>d_f_pos := 4096\<rparr>), dirent, res)
     else vsnfs_do_filldir filldir desc dirent))"
  by pat_completeness auto

lemma vsnfs_decode_dirent_error: "vsnfs_decode_dirent m p e = Inr (ErrPtr x, e') \<Longrightarrow> x = - EBADCOOKIE"
  by (auto simp: vsnfs_decode_dirent_def bindF_eq_Inr Let_def split: if_splits)

lemma dir_decode_advances:
  assumes "dir_decode desc = Inr (desc', status)" and "\<not> status < 0"
  shows "\<exists>page p q. d_page desc = Some page \<and> d_ptr desc = Some p \<and>
    d_page desc' = Some page \<and> d_ptr desc' = Some q \<and> p < q \<and> q < length page"
proof -
  from assms(1) obtain page p r e where pp: "d_page desc = Some page" "d_ptr desc = Some p"
    and d: "vsnfs_decode_dirent page p (d_entry desc) = Inr (r, e)"
    by (auto simp: dir_decode_def bindF_eq_Inr)
  show ?thesis
  proof (cases r)
    case (ErrPtr x)
    with d have "x = - 523" using vsnfs_decode_dirent_error by simp
    with assms pp d ErrPtr show ?thesis by (simp add: dir_decode_def)
  next
    case (Ptr q)
    with assms pp d vsnfs_decode_dirent_advances [OF d [unfolded Ptr]] show ?thesis
      by (auto simp: dir_decode_def)
  qed
qed

termination vsnfs_do_filldir
proof (relation "measure (\<lambda>(_, desc, _). case (d_page desc, d_ptr desc) of
    (Some page, Some p) \<Rightarrow> length page - p | _ \<Rightarrow> 0)")
qed (auto dest!: dir_decode_advances)

text \<open>\<open>alloc\<close> is what \<open>alloc_page\<close> gives.\<close>

definition simple_readdir ::
  "'n rpc_api \<Rightarrow> mem option \<Rightarrow> vsnfs_fh option \<Rightarrow> 'b filldir_t \<Rightarrow> 'n \<Rightarrow> readdir_desc \<Rightarrow> 'b
   \<Rightarrow> ('n \<times> readdir_desc \<times> 'b \<times> int) run" where
  "simple_readdir R alloc dirfh filldir n desc dirent =
     (case alloc of
        None \<Rightarrow> Inr (n, desc, dirent, - ENOMEM)
      | Some page \<Rightarrow>
          let desc = desc\<lparr>d_pages := d_pages desc + 1\<rparr> in
          bindF (vsnfs_proc_readdir R n dirfh page (word_of_nat PAGE_SIZE)) (\<lambda>(n, page, status).
          if status < 0 then Inr (n, desc, dirent, status)
          else
          let desc = desc\<lparr>d_page := Some page, d_ptr := Some 0\<rparr> in
          bindF (vsnfs_do_filldir filldir desc dirent) (\<lambda>(desc, dirent, status).
          Inr (n, desc\<lparr>d_page_index := 0, d_entry := (d_entry desc)\<lparr>e_offset := 0, e_eof := 1\<rparr>\<rparr>,
               dirent, status))))"

text \<open>
  The result is the new position of the file, the number of pages still held, and the
  return value.  \<open>stk\<close> is what the entry structure on the stack holds.
\<close>

definition vsnfs_readdir ::
  "'n rpc_api \<Rightarrow> mem option \<Rightarrow> vsnfs_entry \<Rightarrow> vsnfs_fh option \<Rightarrow> 'b filldir_t \<Rightarrow> 'n \<Rightarrow> int \<Rightarrow> 'b
   \<Rightarrow> ('n \<times> int \<times> int \<times> 'b \<times> int) run" where
  "vsnfs_readdir R alloc stk dirfh filldir n f_pos dirent =
     (if f_pos \<noteq> 0 then Inr (n, f_pos, 0, dirent, 0)
      else
      let desc = \<lparr>d_f_pos = f_pos, d_page = None, d_page_index = 0, d_ptr = None, d_target = f_pos,
                  d_entry = stk\<lparr>e_eof := 0\<rparr>, d_pages = 0\<rparr>
      in
      bindF (simple_readdir R alloc dirfh filldir n desc dirent) (\<lambda>(n, desc, dirent, res).
      Inr (n, d_f_pos desc, d_pages desc, dirent, if res < 0 then res else 0)))"

end
