(* ===== verification/ClientListing.thy ===== *)
theory ClientListing
  imports ClientDir
begin

text \<open>
  What the client makes of a READDIR page: the specification \<open>fill_spec\<close> of the calls of
  \<open>filldir\<close> for a list of entries and an end flag, and the proof that decoding a page that holds
  these entries makes exactly these calls.
\<close>

section \<open>The specification\<close>

definition fill_of :: "wentry \<Rightarrow> fill_ent" where
  "fill_of e = \<lparr>f_name = we_name e, f_off = ucast (we_off e), f_ino = ucast (we_ino e),
                f_type = fh_type (we_fh e)\<rparr>"

text \<open>
  The entries go to \<open>filldir\<close> in order until it refuses one.  After the last entry the call
  succeeds only if the page says that the directory is complete; the last component tells
  whether it got there, and so whether the page is released and the position moved.
\<close>

fun fill_spec :: "'b filldir_t \<Rightarrow> bool \<Rightarrow> fill_ent list \<Rightarrow> 'b \<Rightarrow> 'b \<times> int \<times> bool" where
  "fill_spec filldir eof [] b = (b, - EBADCOOKIE, False)"
| "fill_spec filldir eof (e # es) b =
     (let (b, res) = filldir b e in
      if res < 0 then (b, res, False)
      else if es = [] \<and> eof then (b, res, True)
      else fill_spec filldir eof es b)"

section \<open>Decoding one entry\<close>

text \<open>The word that follows an entry, and the flag behind it when there is no other entry.\<close>

lemma holds_wire_dir_next:
  assumes "holds m p (wire_dir es eof)"
  shows "ld32 m p = Inr (if es = [] then 0 else htonl 1)"
    and "es = [] \<Longrightarrow> ld32 m (p + 4) = Inr (if eof then htonl 1 else 0)"
proof -
  have h0: "holds m p (net32 0) \<Longrightarrow> ld32 m p = Inr 0" for p
    by (drule ld32_holds) simp
  show "ld32 m p = Inr (if es = [] then 0 else htonl 1)"
    using assms h0 [of p]
    by (cases es) (auto simp: wire_dir_def wire_entry_def holds_append intro: ld32_holds)
  show "es = [] \<Longrightarrow> ld32 m (p + 4) = Inr (if eof then htonl 1 else 0)"
    using assms h0 [of "p + 4"] by (auto simp: wire_dir_def holds_append intro: ld32_holds)
qed

definition decoded :: "mem \<Rightarrow> nat \<Rightarrow> wentry \<Rightarrow> bool \<Rightarrow> vsnfs_entry" where
  "decoded m p e fin =
     \<lparr>e_ino = ucast (we_ino e), e_offset = ucast (we_off e), e_name = drop (p + 12) m,
      e_len = word_of_nat (length (we_name e)), e_eof = (if fin then 1 else 0), e_fh = we_fh e\<rparr>"

lemma decode_dirent_entry:
  assumes "wentry_wf e" and "holds m p (wire_dir (e # es) eof)"
  shows "vsnfs_decode_dirent m p ent =
    Inr (Ptr (p + length (wire_entry e)), decoded m p e (es = [] \<and> eof))"
proof -
  let ?n = "word_of_nat (length (we_name e)) :: u32"
  let ?q = "p + 8 + length (wire_array (we_name e))"
  from assms(1) have len: "length (we_name e) \<le> 255" and fh: "fh_wf (we_fh e)"
    by (simp_all add: wentry_wf_def)
  then have u: "unat ?n = length (we_name e)" by (simp add: unat_of_nat)
  have q: "length (wire_array (we_name e)) = 4 + 4 * XDR_QUADLEN ?n"
    using len XDR_QUADLEN_nat [of ?n] by (simp add: u length_wire_array)
  have split: "wire_dir (e # es) eof = net32 1 @ net32 (we_ino e) @ net32 ?n @ we_name e @
      wire_pad (length (we_name e)) @ wire_fh (we_fh e) @ net32 (we_off e) @ wire_dir es eof"
    by (simp add: wire_dir_def wire_entry_def wire_array_def)
  have fin: "p + length (wire_entry e) = ?q + 16"
    using assms(1) by (simp add: length_wire_entry length_wire_array)
  have w1: "ld32 m p = Inr (htonl 1)" and w2: "ld32 m (p + 4) = Inr (htonl (we_ino e))"
    and w3: "ld32 m (p + 8) = Inr (htonl ?n)"
    using assms(2) unfolding split by (auto simp: holds_append add.assoc intro!: ld32_holds)
  have "wire_dir (e # es) eof = (net32 1 @ net32 (we_ino e) @ wire_array (we_name e)) @
      wire_fh (we_fh e) @ net32 (we_off e) @ wire_dir es eof"
    by (simp add: wire_dir_def wire_entry_def)
  with assms(2) have rest: "holds m ?q (wire_fh (we_fh e) @ net32 (we_off e) @ wire_dir es eof)"
    by (simp only: holds_append) (simp add: add.assoc)
  have w4: "xdr_decode_fhandle m ?q = Inr (we_fh e, ?q + 12)"
    using rest fh by (simp add: holds_append xdr_decode_fhandle_wire)
  have w5: "ld32 m (?q + 12) = Inr (htonl (we_off e))" and r2: "holds m (?q + 16) (wire_dir es eof)"
    using rest fh by (auto simp: holds_append add.assoc intro!: ld32_holds)
  note w6 = holds_wire_dir_next [OF r2]
  show ?thesis
    using w1 w2 w3 w4 w5 w6
    by (simp add: vsnfs_decode_dirent_def decoded_def Let_def fin q add.assoc)
qed

lemma fill_arg_decoded:
  assumes "wentry_wf e" and "holds m p (wire_dir (e # es) eof)"
  shows "fill_arg (decoded m p e fin) = Inr (fill_of e)"
proof -
  have "holds m (p + 12) (we_name e)"
    using assms(2) by (simp add: wire_dir_def wire_entry_def wire_array_def holds_append add.assoc)
  then have "mem_read (drop (p + 12) m) 0 (length (we_name e)) = Inr (we_name e)"
    by (auto simp: holds_def mem_read_def)
  moreover have "unat (word_of_nat (length (we_name e)) :: u32) = length (we_name e)"
    using assms(1) by (simp add: wentry_wf_def unat_of_nat)
  ultimately show ?thesis by (simp add: fill_arg_def decoded_def fill_of_def)
qed

section \<open>The loop\<close>

definition filled :: "readdir_desc \<Rightarrow> readdir_desc \<Rightarrow> bool \<Rightarrow> bool" where
  "filled desc desc' fin \<longleftrightarrow>
     (if fin then d_f_pos desc' = 4096 \<and> d_page desc' = None \<and> d_pages desc' = d_pages desc - 1
      else d_f_pos desc' = d_f_pos desc \<and> d_pages desc' = d_pages desc)"

lemma do_filldir_sim:
  assumes "list_all wentry_wf es" and "holds m p (wire_dir es eof)"
    and "d_page desc = Some m" and "d_ptr desc = Some p"
    and "fill_spec filldir eof (map fill_of es) b = (b', res, fin)"
  shows "\<exists>desc'. vsnfs_do_filldir filldir desc b = Inr (desc', b', res) \<and> filled desc desc' fin"
  using assms
proof (induction es arbitrary: p desc b)
  case Nil
  then have "ld32 m p = Inr 0" using holds_wire_dir_next by fastforce
  with Nil show ?case
    by (auto simp: vsnfs_do_filldir.simps [of filldir desc] dir_decode_def vsnfs_decode_dirent_def filled_def)
next
  case (Cons e es)
  then have wf: "wentry_wf e" by simp
  note d = decode_dirent_entry [OF wf Cons.prems(2)]
  note a = fill_arg_decoded [OF wf Cons.prems(2)]
  let ?q = "p + length (wire_entry e)" and ?ent = "decoded m p e (es = [] \<and> eof)"
  let ?desc = "desc\<lparr>d_entry := ?ent, d_ptr := Some ?q\<rparr>"
  have dd: "dir_decode desc = Inr (?desc, 0)"
    using Cons.prems(3,4) d by (simp add: dir_decode_def)
  obtain b1 r where f: "filldir b (fill_of e) = (b1, r)" by (cases "filldir b (fill_of e)")
  have eof: "e_eof ?ent = 1 \<longleftrightarrow> es = [] \<and> eof" by (simp add: decoded_def)
  have rest: "holds m ?q (wire_dir es eof)"
    using Cons.prems(2) by (simp add: wire_dir_def holds_append)
  show ?case
  proof (cases "r < 0 \<or> es = [] \<and> eof")
    case True
    from True Cons.prems(5) f have "b' = b1 \<and> res = r \<and> fin = (\<not> r < 0)"
      by (cases "r < 0") auto
    with True f eof show ?thesis
      by (auto simp: vsnfs_do_filldir.simps [of filldir desc] dd a filled_def dir_page_release_def)
  next
    case False
    with Cons.prems(5) f have "fill_spec filldir eof (map fill_of es) b1 = (b', res, fin)"
      by auto
    with Cons.IH [OF _ rest, of ?desc b1] Cons.prems obtain desc' where
      "vsnfs_do_filldir filldir ?desc b1 = Inr (desc', b', res)" "filled ?desc desc' fin" by auto
    with False f eof show ?thesis
      by (auto simp: vsnfs_do_filldir.simps [of filldir desc] dd a filled_def split: if_splits)
  qed
qed

text \<open>
  The caller sees the entries in order: with a \<open>filldir\<close> that accepts everything and collects what
  it is handed, the specification collects the whole list.
\<close>

definition collect :: "fill_ent list filldir_t" where
  "collect b e = (b @ [e], 0)"

lemma fill_spec_collect:
  "fill_spec collect eof es b = (b @ es, if eof \<and> es \<noteq> [] then 0 else - EBADCOOKIE, eof \<and> es \<noteq> [])"
  by (induction es arbitrary: b) (auto simp: collect_def)

section \<open>readdir\<close>

text \<open>What \<open>vsnfs_readdir\<close> does with a page the call has filled.\<close>

lemma vsnfs_readdir_sim:
  assumes "rpc_call_sync R n VSNFSPROC_READDIR (ReaddirArgs \<lparr>rda_fh = fh, rda_count = 4096\<rparr>) None page
      = (n', resp, page', status)"
    and "0 \<le> status" and "list_all wentry_wf es" and "holds page' 0 (wire_dir es eof)"
    and "fill_spec filldir eof (map fill_of es) b = (b', res, fin)"
  shows "vsnfs_readdir R (Some page) stk (Some fh) filldir n 0 b =
    Inr (n', if fin then 4096 else 0, if fin then 0 else 1, b', if res < 0 then res else 0)"
proof -
  let ?desc = "\<lparr>d_f_pos = 0, d_page = Some page', d_page_index = 0, d_ptr = Some 0, d_target = 0,
                d_entry = stk\<lparr>e_eof := 0\<rparr>, d_pages = 1\<rparr>"
  from do_filldir_sim [OF assms(3,4) _ _ assms(5), of ?desc] obtain desc' where
    "vsnfs_do_filldir filldir ?desc b = Inr (desc', b', res)" "filled ?desc desc' fin" by auto
  with assms(1,2) show ?thesis
    by (auto simp: vsnfs_readdir_def simple_readdir_def vsnfs_proc_readdir_def filled_def
        split: if_splits)
qed

text \<open>
  C8. The client decodes what the page holds: on a page with the layout of a list of entries, the loop of
  \<open>vsnfs_do_filldir\<close> returns, makes the calls of \<open>filldir\<close> that the specification makes for these
  entries, and gives its result; the page is released and the position moved exactly when the end of a complete
  listing is reached.
\<close>

theorem filldir_delivers_page:
  assumes "list_all wentry_wf es" and "holds m p (wire_dir es eof)"
    and "d_page desc = Some m" and "d_ptr desc = Some p"
    and "fill_spec filldir eof (map fill_of es) b = (b', res, fin)"
  shows "\<exists>desc'. vsnfs_do_filldir filldir desc b = Inr (desc', b', res) \<and> filled desc desc' fin"
  by (rule do_filldir_sim [OF assms])

text \<open>A page with one entry, the file \<open>a\<close> of inode 9.\<close>

theorem filldir_delivers_page_witness:
  "\<exists>desc'. vsnfs_do_filldir collect
      \<lparr>d_f_pos = 0, d_page = Some (wire_dir [\<lparr>we_ino = 9, we_name = [97],
           we_fh = \<lparr>fh_data = [57, 0, 0, 0, 0, 0, 0, 0], fh_type = 8\<rparr>, we_off = 1\<rparr>] True),
       d_page_index = 0, d_ptr = Some 0, d_target = 0,
       d_entry = \<lparr>e_ino = 0, e_offset = 0, e_name = [], e_len = 0, e_eof = 0, e_fh = zero_fh\<rparr>, d_pages = 1\<rparr> []
     = Inr (desc', [\<lparr>f_name = [97], f_off = 1, f_ino = 9, f_type = 8\<rparr>], 0) \<and> d_f_pos desc' = 4096"
proof -
  let ?es = "[\<lparr>we_ino = 9, we_name = [97],
       we_fh = \<lparr>fh_data = [57, 0, 0, 0, 0, 0, 0, 0], fh_type = 8\<rparr>, we_off = 1\<rparr>]"
  let ?desc = "\<lparr>d_f_pos = 0, d_page = Some (wire_dir ?es True), d_page_index = 0, d_ptr = Some 0, d_target = 0,
       d_entry = \<lparr>e_ino = 0, e_offset = 0, e_name = [], e_len = 0, e_eof = 0, e_fh = zero_fh\<rparr>, d_pages = 1\<rparr>"
  have wf: "list_all wentry_wf ?es" and h: "holds (wire_dir ?es True) 0 (wire_dir ?es True)"
    by (simp_all add: wentry_wf_def fh_wf_def holds_def)
  have "fill_spec collect True (map fill_of ?es) [] = ([\<lparr>f_name = [97], f_off = 1, f_ino = 9, f_type = 8\<rparr>], 0, True)"
    by (simp add: fill_of_def collect_def)
  from filldir_delivers_page [OF wf h _ _ this, of ?desc] show ?thesis by (auto simp: filled_def)
qed

section \<open>Pages of arbitrary bytes\<close>

text \<open>A \<open>filldir\<close> with a counter of its calls.\<close>

definition counted :: "'b filldir_t \<Rightarrow> ('b \<times> nat) filldir_t" where
  "counted filldir = (\<lambda>(b, k) e. let (b, res) = filldir b e in ((b, Suc k), res))"

text \<open>
  \<open>delimited page p n\<close>: from \<open>p\<close> on the page holds \<open>n\<close> entries whose fields lie within the page, and then a zero word.
  This is about the bytes alone, whatever they mean: an entry starts with a word other than 0, has the length of its name
  in the third word, and the next one starts behind the name, a handle and an offset.
\<close>

inductive delimited :: "mem \<Rightarrow> nat \<Rightarrow> nat \<Rightarrow> bool" for page where
  last_entry: "ld32 page p = Inr 0 \<Longrightarrow> delimited page p 0"
| entry: "ld32 page p = Inr w \<Longrightarrow> w \<noteq> 0 \<Longrightarrow> ld32 page (p + 8) = Inr l \<Longrightarrow>
    p + 12 + unat (ntohl l) \<le> length page \<Longrightarrow> q = p + 28 + 4 * XDR_QUADLEN (ntohl l) \<Longrightarrow>
    (ld32 page q = Inr 0 \<Longrightarrow> q + 8 \<le> length page) \<Longrightarrow> delimited page q n \<Longrightarrow> delimited page p (Suc n)"

lemma mem_read_fault: "mem_read m p n = Inl e \<Longrightarrow> e = OutOfBounds"
  by (auto simp: mem_read_def split: if_splits)

lemma bindF_fault: "bindF m f = Inl e \<longleftrightarrow> m = Inl e \<or> (\<exists>a. m = Inr a \<and> f a = Inl e)"
  by (cases m) auto

lemma ld32_fault: "ld32 m p = Inl e \<Longrightarrow> e = OutOfBounds"
  by (auto simp: ld32_def bindF_fault dest: mem_read_fault)

lemma decode_dirent_fault: "vsnfs_decode_dirent m p ent = Inl e \<Longrightarrow> e = OutOfBounds"
  by (auto simp: vsnfs_decode_dirent_def xdr_decode_fhandle_def bindF_fault Let_def split: if_splits
      dest: ld32_fault mem_read_fault)

lemma fill_arg_fault: "fill_arg ent = Inl e \<Longrightarrow> e = OutOfBounds"
  by (auto simp: fill_arg_def bindF_fault dest: mem_read_fault)

lemma delimited_length: "delimited page p n \<Longrightarrow> p + 4 + 28 * n \<le> length page"
  by (induction rule: delimited.induct) (auto dest: ld32_InrD)

text \<open>What the decoder reads for an entry, and what it needs for it.\<close>

lemma decode_dirent_PtrD:
  assumes "vsnfs_decode_dirent m p ent = Inr (Ptr q, ent')"
  obtains w l where "ld32 m p = Inr w" "w \<noteq> 0" "ld32 m (p + 8) = Inr l" "q = p + 28 + 4 * XDR_QUADLEN (ntohl l)"
    "ld32 m q = Inr 0 \<Longrightarrow> q + 8 \<le> length m" "p + 28 \<le> q" "q < length m"
    "e_name ent' = drop (p + 12) m" "e_len ent' = ntohl l" "e_eof ent' = 1 \<Longrightarrow> ld32 m q = Inr 0"
proof -
  from assms obtain w l fh r z eof where w: "ld32 m p = Inr w" "w \<noteq> 0" "ld32 m (p + 8) = Inr l"
    and fh: "xdr_decode_fhandle m (p + 12 + 4 * XDR_QUADLEN (ntohl l)) = Inr (fh, r)"
    and q: "q = r + 4" and z: "ld32 m (r + 4) = Inr z"
    and f: "z = 0 \<longrightarrow> r + 12 \<le> length m" "e_eof ent' = 1 \<longrightarrow> z = 0"
    and e: "e_name ent' = drop (p + 12) m" "e_len ent' = ntohl l"
    unfolding vsnfs_decode_dirent_def Let_def
    by (clarsimp simp: bindF_eq_Inr add.assoc split: if_split_asm) (force dest: ld32_InrD)+
  have r: "r = p + 24 + 4 * XDR_QUADLEN (ntohl l)" using xdr_decode_fhandle_InrD [OF fh] by simp
  from that [OF w] q r z f e ld32_InrD [OF z] show ?thesis by auto
qed

lemma decode_fhandle_ok: "p + 12 \<le> length m \<Longrightarrow> \<exists>fh. xdr_decode_fhandle m p = Inr (fh, p + 12)"
  using ld32_ok [of "p + 8" m] by (auto simp: xdr_decode_fhandle_def mem_read_def)

lemma decode_dirent_delimited:
  assumes "ld32 m p = Inr w" "w \<noteq> 0" "ld32 m (p + 8) = Inr l" and q: "q = p + 28 + 4 * XDR_QUADLEN (ntohl l)"
    and flag: "ld32 m q = Inr 0 \<Longrightarrow> q + 8 \<le> length m" and len: "q + 4 \<le> length m"
  shows "\<exists>ent'. vsnfs_decode_dirent m p ent = Inr (Ptr q, ent') \<and> e_name ent' = drop (p + 12) m \<and>
    e_len ent' = ntohl l"
proof -
  let ?r = "p + 12 + 4 * XDR_QUADLEN (ntohl l)"
  obtain fh where "xdr_decode_fhandle m ?r = Inr (fh, ?r + 12)" using decode_fhandle_ok [of ?r m] q len by auto
  moreover obtain i off z where "ld32 m (p + 4) = Inr i" "ld32 m (?r + 12) = Inr off" "ld32 m q = Inr z"
    using ld32_ok [of "p + 4" m] ld32_ok [of "?r + 12" m] ld32_ok [of q m] q len by auto
  moreover have "\<exists>v. ld32 m (q + 4) = Inr v" if "z = 0" using ld32_ok [of "q + 4" m] flag calculation(4) that by auto
  ultimately show ?thesis using assms(1-3) q
    by (auto simp: vsnfs_decode_dirent_def Let_def add.assoc)
qed

text \<open>Over a delimited page the loop returns, with at most one call for each entry.\<close>

lemma filldir_delimited:
  assumes "delimited page p n" and "d_page desc = Some page" and "d_ptr desc = Some p"
  shows "\<exists>desc' b' k' res. vsnfs_do_filldir (counted filldir) desc (b, k) = Inr (desc', (b', k'), res) \<and> k' \<le> k + n"
  using assms
proof (induction arbitrary: desc b k rule: delimited.induct)
  case (last_entry p)
  then show ?case
    by (auto simp: vsnfs_do_filldir.simps [of "counted filldir" desc] dir_decode_def vsnfs_decode_dirent_def)
next
  case (entry p w l q n)
  have "q + 4 \<le> length page" using delimited_length [OF entry.hyps(7)] by simp
  with entry.hyps(5) decode_dirent_delimited [OF entry.hyps(1-3) refl, of "d_entry desc"] entry.hyps(6) obtain ent where
    d: "vsnfs_decode_dirent page p (d_entry desc) = Inr (Ptr q, ent)" "e_name ent = drop (p + 12) page"
      "e_len ent = ntohl l" by blast
  let ?desc = "desc\<lparr>d_entry := ent, d_ptr := Some q\<rparr>"
  have dd: "dir_decode desc = Inr (?desc, 0)" using entry.prems d(1) by (simp add: dir_decode_def)
  have "unat (ntohl l) \<le> length page - (p + 12)" using entry.hyps(4) by simp
  with d(2,3) obtain a where a: "fill_arg ent = Inr a" by (simp add: fill_arg_def mem_read_def)
  obtain b1 r where f: "filldir b a = (b1, r)" by (cases "filldir b a")
  then have c: "counted filldir (b, k) a = ((b1, Suc k), r)" by (simp add: counted_def)
  from entry.IH [of ?desc b1 "Suc k"] entry.prems show ?case
    by (auto simp: vsnfs_do_filldir.simps [of "counted filldir" desc] dd a c)
qed

text \<open>A \<open>filldir\<close> that takes everything makes the loop run off every other page.\<close>

lemma filldir_undelimited:
  assumes "d_page desc = Some page" and "d_ptr desc = Some p" and "\<nexists>n. delimited page p n"
  shows "vsnfs_do_filldir collect desc b = Inl OutOfBounds"
  using assms
proof (induction "length page - p" arbitrary: desc p b rule: less_induct)
  case less
  note unfold = vsnfs_do_filldir.simps [of collect desc b]
  show ?case
  proof (cases "vsnfs_decode_dirent page p (d_entry desc)")
    case (Inl e)
    with less.prems show ?thesis by (simp add: unfold dir_decode_def decode_dirent_fault)
  next
    case (Inr r)
    then obtain ptr ent where r: "vsnfs_decode_dirent page p (d_entry desc) = Inr (ptr, ent)" by (cases r) auto
    show ?thesis
    proof (cases ptr)
      case (ErrPtr x)
      with r have "ld32 page p = Inr 0"
        by (auto simp: vsnfs_decode_dirent_def bindF_eq_Inr Let_def split: if_splits)
      with last_entry less.prems(3) show ?thesis by blast
    next
      case (Ptr q)
      from r Ptr obtain w l where d: "ld32 page p = Inr w" "w \<noteq> 0" "ld32 page (p + 8) = Inr l"
        "q = p + 28 + 4 * XDR_QUADLEN (ntohl l)" "ld32 page q = Inr 0 \<Longrightarrow> q + 8 \<le> length page"
        "p + 28 \<le> q" "q < length page" "e_name ent = drop (p + 12) page" "e_len ent = ntohl l"
        "e_eof ent = 1 \<Longrightarrow> ld32 page q = Inr 0" by (metis decode_dirent_PtrD)
      let ?desc = "desc\<lparr>d_entry := ent, d_ptr := Some q\<rparr>"
      have dd: "dir_decode desc = Inr (?desc, 0)" using less.prems r Ptr by (simp add: dir_decode_def)
      show ?thesis
      proof (cases "fill_arg ent")
        case (Inl e)
        with fill_arg_fault show ?thesis by (simp add: unfold dd)
      next
        case (Inr a)
        then have "unat (ntohl l) \<le> length page - (p + 12)"
          using d(8,9) by (auto simp: fill_arg_def mem_read_def bindF_eq_Inr split: if_splits)
        then have room: "p + 12 + unat (ntohl l) \<le> length page" using d(6,7) by linarith
        have none: "\<nexists>n. delimited page q n"
          using less.prems(3) entry [OF d(1-3) room d(4) d(5)] by blast
        then have "e_eof ent \<noteq> 1" using d(10) last_entry by blast
        moreover have "vsnfs_do_filldir collect ?desc (b @ [a]) = Inl OutOfBounds"
          using less.hyps [of q ?desc] d(6,7) less.prems none by simp
        ultimately show ?thesis using Inr by (simp add: unfold dd collect_def)
      qed
    qed
  qed
qed

text \<open>
  C17. When reading a directory ends: over a page of arbitrary bytes that hold \<open>n\<close> entries within the page and a zero
  word, the loop of \<open>vsnfs_do_filldir\<close> returns, whatever \<open>filldir\<close> answers, after at most \<open>n\<close> calls of it, and there are
  at most 146 entries in a page of 4096 bytes.  On every other page the loop has no bound of its own: the lengths in
  the page are trusted, and with a \<open>filldir\<close> that accepts everything it reads outside the page.
\<close>

theorem filldir_terminates:
  assumes "d_page desc = Some page" and "d_ptr desc = Some p"
  shows "(delimited page p n \<longrightarrow>
      (\<exists>desc' b' k res. vsnfs_do_filldir (counted filldir) desc (b, 0) = Inr (desc', (b', k), res) \<and>
        k \<le> n \<and> 28 * n \<le> length page)) \<and>
    ((\<nexists>n. delimited page p n) \<longrightarrow> vsnfs_do_filldir collect desc fs = Inl OutOfBounds)"
proof (intro conjI impI)
  assume d: "delimited page p n"
  show "\<exists>desc' b' k res. vsnfs_do_filldir (counted filldir) desc (b, 0) = Inr (desc', (b', k), res) \<and>
      k \<le> n \<and> 28 * n \<le> length page"
    using filldir_delimited [OF d assms, of filldir b 0] delimited_length [OF d]
    by (auto simp del: vsnfs_do_filldir.simps)
qed (rule filldir_undelimited [OF assms])

definition blank_entry :: vsnfs_entry where
  "blank_entry = \<lparr>e_ino = 0, e_offset = 0, e_name = [], e_len = 0, e_eof = 0, e_fh = zero_fh\<rparr>"

definition page_desc :: "mem \<Rightarrow> readdir_desc" where
  "page_desc page =
    \<lparr>d_f_pos = 0, d_page = Some page, d_page_index = 0, d_ptr = Some 0, d_target = 0,
     d_entry = blank_entry, d_pages = 1\<rparr>"

text \<open>Two entries with names of one byte, and no end of directory; then an entry that claims a name of 100 bytes in a page of 44.\<close>

definition two_entries :: mem where
  "two_entries = concat (replicate 2 ([0, 0, 0, 1, 0, 0, 0, 9, 0, 0, 0, 1, 97, 0, 0, 0] @ replicate 16 0)) @ replicate 8 0"

lemma two_entries_delimited: "delimited two_entries 0 2"
proof -
  have "ld32 two_entries 64 = Inr 0" by code_simp
  then have "delimited two_entries 64 0" by (rule last_entry)
  moreover have "ld32 two_entries 32 = Inr 0x1000000" "ld32 two_entries (32 + 8) = Inr 0x1000000"
    "ld32 two_entries 0 = Inr 0x1000000" "ld32 two_entries (0 + 8) = Inr 0x1000000" "length two_entries = 72"
    "unat (ntohl 0x1000000) = 1" "64 = 32 + 28 + 4 * XDR_QUADLEN (ntohl 0x1000000)"
    "32 = 0 + 28 + 4 * XDR_QUADLEN (ntohl 0x1000000)" by code_simp+
  ultimately have "delimited two_entries 0 (Suc (Suc 0))"
    by (intro entry [of _ 0 "0x1000000" "0x1000000" 32] entry [of _ 32 "0x1000000" "0x1000000" 64]) simp_all
  then show ?thesis by (simp add: numeral_2_eq_2)
qed

theorem filldir_terminates_witness:
  "\<exists>desc' fs k res. vsnfs_do_filldir (counted collect) (page_desc two_entries) ([], 0) = Inr (desc', (fs, k), res) \<and>
     k \<le> 2 \<and> delimited two_entries 0 2 \<and> length fs = 2"
proof -
  have "map_sum id (\<lambda>(_, (fs, _), _). length fs)
      (vsnfs_do_filldir (counted collect) (page_desc two_entries) ([], 0)) = Inr 2" by code_simp
  moreover have "d_page (page_desc two_entries) = Some two_entries" "d_ptr (page_desc two_entries) = Some 0"
    by (simp_all add: page_desc_def)
  with filldir_terminates [of "page_desc two_entries" two_entries 0 2 collect "[]"] two_entries_delimited
  obtain desc' fs k res where "vsnfs_do_filldir (counted collect) (page_desc two_entries) ([], 0) = Inr (desc', (fs, k), res)"
    "k \<le> 2" by blast
  ultimately show ?thesis using two_entries_delimited by (simp del: vsnfs_do_filldir.simps)
qed

lemma filldir_trusts_length:
  "vsnfs_do_filldir collect (page_desc ([0, 0, 0, 1, 0, 0, 0, 9, 0, 0, 0, 100] @ replicate 32 0)) [] = Inl OutOfBounds"
  by code_simp

end
