(* ===== verification/ClientMount.thy ===== *)
theory ClientMount
  imports Protocol
begin

text \<open>
  \<open>vsnfsMount.c\<close>: taking the device name of a mount apart into address and path, and the mount options.
  The option matcher, the number parser and the address parser are parameters.
\<close>

section \<open>The server structure\<close>

record sockaddr_in =
  sin_family :: nat
  sin_port :: u16
  sin_addr :: u32

text \<open>
  \<open>struct vsnfs_server\<close>; \<open>'c\<close> is the RPC client, \<open>ip_addr\<close> an array of 16 bytes.  \<open>cl_rpc_ops\<close> is NULL or points to
  the one operation vector there is, \<open>vsnfs_clientops\<close>.
\<close>

datatype rpc_ops_ptr = VsnfsClientops

record 'c vsnfs_server =
  cl_rpcclient :: "'c option"
  cl_rpc_ops :: "rpc_ops_ptr option"
  cl_addr :: sockaddr_in
  cl_addrlen :: nat
  flags :: "32 word"
  timeout :: "32 word"
  ip_addr :: mem
  server_port :: "32 word"
  mnt_path :: "byte list option"
  root_fh :: vsnfs_fh

definition zero_server :: "'c vsnfs_server" where
  "zero_server =
    \<lparr>cl_rpcclient = None, cl_rpc_ops = None, cl_addr = \<lparr>sin_family = 0, sin_port = 0, sin_addr = 0\<rparr>, cl_addrlen = 0,
     flags = 0, timeout = 0, ip_addr = replicate 16 0, server_port = 0, mnt_path = None, root_fh = zero_fh\<rparr>"

abbreviation (input) AF_INET :: nat where "AF_INET \<equiv> 2"
abbreviation (input) AF_INET6 :: nat where "AF_INET6 \<equiv> 10"

definition htons :: "u16 \<Rightarrow> u16" where
  "htons w = word_of_nat (unat w div 256 + 256 * (unat w mod 256))"

section \<open>What the kernel provides\<close>

text \<open>The tokens of the table \<open>tokens\<close>, with the string \<open>args[0].from\<close> points to.\<close>

datatype mount_token = vsnfs_opt_port "byte list" | vsnfs_opt_timeout "byte list" | vsnfs_opt_err

record mount_api =
  match_token :: "byte list \<Rightarrow> mount_token"
  simple_strtol :: "byte list \<Rightarrow> int"
  in4_pton :: "byte list \<Rightarrow> u32 option"
  in6_pton :: "byte list \<Rightarrow> u32 option"
  kstrndup_ok :: bool

section \<open>Parsing\<close>

text \<open>The address is stored only when the parser accepts it; anything else gives 0, which is no error.\<close>

definition vsnfs_inet_pton :: "mount_api \<Rightarrow> nat \<Rightarrow> byte list \<Rightarrow> u32 \<Rightarrow> u32 \<times> int" where
  "vsnfs_inet_pton M address_family cp dst =
     (if address_family = AF_INET then
        (case in4_pton M cp of Some a \<Rightarrow> (a, 1) | None \<Rightarrow> (dst, 0))
      else if address_family = AF_INET6 then
        (case in6_pton M cp of Some a \<Rightarrow> (a, 1) | None \<Rightarrow> (dst, 0))
      else (dst, 0))"

definition vsnfs_parse_mntpath ::
  "mount_api \<Rightarrow> mem \<Rightarrow> 'c vsnfs_server \<Rightarrow> ('c vsnfs_server \<times> int) run" where
  "vsnfs_parse_mntpath M dev_name server =
     bindF (strchr dev_name COLON) (\<lambda>colon.
     case colon of
       None \<Rightarrow> Inr (server, - int (stat_num VSNFSERR_INVAL))
     | Some len \<Rightarrow>
         if VSNFS_MAXNAMLEN < len then Inr (server, - int (stat_num VSNFSERR_NAMETOOLONG))
         else
         bindF (strncpy (ip_addr server) dev_name len) (\<lambda>ip.
         bindF (mem_write ip len [0]) (\<lambda>ip.
         let server = server\<lparr>ip_addr := ip\<rparr>; colon = drop (len + 1) dev_name in
         bindF (strlen colon) (\<lambda>len.
         if VSNFS_MAXPATHLEN < len then Inr (server, - int (stat_num VSNFSERR_NAMETOOLONG))
         else if kstrndup_ok M
         then Inr (server\<lparr>mnt_path := Some (take len colon)\<rparr>, 0)
         else Inr (server\<lparr>mnt_path := None\<rparr>, - ENOMEM)))))"

text \<open>\<open>strsep\<close> on a string: the part before the first comma, and what follows it.\<close>

fun strsep :: "byte list \<Rightarrow> byte list \<times> byte list option" where
  "strsep [] = ([], None)"
| "strsep (c # s) =
     (if c = COMMA then ([], Some s) else let (p, rest) = strsep s in (c # p, rest))"

lemma strsep_shorter: "strsep s = (p, Some rest) \<Longrightarrow> length rest < length s"
  by (induction s arbitrary: p rest) (auto split: if_splits prod.splits)

text \<open>One option: the body of the loop.\<close>

definition set_option :: "mount_api \<Rightarrow> byte list \<Rightarrow> 'c vsnfs_server \<Rightarrow> 'c vsnfs_server" where
  "set_option M p server =
     (case match_token M p of
        vsnfs_opt_port port_src \<Rightarrow>
          let port = word_of_int (simple_strtol M port_src) in
          server\<lparr>server_port := port, cl_addr := (cl_addr server)\<lparr>sin_port := htons (ucast port)\<rparr>\<rparr>
      | vsnfs_opt_timeout t \<Rightarrow> server\<lparr>timeout := word_of_int (simple_strtol M t)\<rparr>
      | vsnfs_opt_err \<Rightarrow> server)"

function parse_options :: "mount_api \<Rightarrow> byte list option \<Rightarrow> 'c vsnfs_server \<Rightarrow> 'c vsnfs_server" where
  "parse_options M None server = server"
| "parse_options M (Some raw_data) server =
     (let (p, rest) = strsep raw_data in
      if p = [] then parse_options M rest server
      else parse_options M rest (set_option M p server))"
  by pat_completeness auto
termination
  by (relation "measure (\<lambda>(M, raw, server). case raw of None \<Rightarrow> 0 | Some s \<Rightarrow> Suc (length s))")
    (auto split: option.split dest: strsep_shorter sym)

definition vsnfs_parse_mount_options ::
  "mount_api \<Rightarrow> byte list option \<Rightarrow> mem \<Rightarrow> 'c vsnfs_server \<Rightarrow> ('c vsnfs_server \<times> int) run" where
  "vsnfs_parse_mount_options M raw_data dev_name server =
     (let server = server\<lparr>server_port := word_of_nat VSNFS_PORT, timeout := word_of_nat VSNFS_TIMEOUT\<rparr> in
      bindF (vsnfs_parse_mntpath M dev_name server) (\<lambda>(server, rc).
      if rc \<noteq> 0 then Inr (server, rc)
      else
      let ip = cstr (ip_addr server);
          (addr, rc) = vsnfs_inet_pton M AF_INET ip (sin_addr (cl_addr server));
          server = server\<lparr>cl_addr := \<lparr>sin_family = AF_INET, sin_port = htons (word_of_nat VSNFS_PORT),
                                     sin_addr = addr\<rparr>\<rparr>
      in
      if rc < 0 then Inr (server, rc)
      else Inr (parse_options M raw_data (server\<lparr>cl_addrlen := 16\<rparr>), rc)))"

section \<open>The device name\<close>

lemma take_cstr_colon:
  assumes "0 \<notin> set ip"
  shows "take (length ip) (cstr (ip @ COLON # rest)) = ip"
  using assms by (induction ip) (simp_all add: cstr_def)

lemma strncpy_ip:
  assumes "0 \<notin> set ip" and "length buf = 16"
  shows "strncpy buf (ip @ COLON # rest) (length ip) =
    (if length ip \<le> 16 then Inr (ip @ drop (length ip) buf) else Inl OutOfBounds)"
  using assms take_cstr_colon [OF assms(1), of rest] by (simp add: strncpy_def mem_write_def)

lemma terminate_ip:
  assumes "length buf = 16" and "length ip \<le> 16"
  shows "mem_write (ip @ drop (length ip) buf) (length ip) [0] =
    (if length ip \<le> 15 then Inr (ip @ 0 # drop (length ip + 1) buf) else Inl OutOfBounds)"
  using assms by (simp add: mem_write_def)

lemma parse_mntpath_eq:
  assumes "0 \<notin> set ip" and "COLON \<notin> set ip" and "0 \<notin> set path" and "length (ip_addr server) = 16"
  shows "vsnfs_parse_mntpath M (ip @ COLON # path @ 0 # r) server =
    (if 255 < length ip then Inr (server, - 63)
     else if 15 < length ip then Inl OutOfBounds
     else let server = server\<lparr>ip_addr := ip @ 0 # drop (length ip + 1) (ip_addr server)\<rparr> in
       if 1024 < length path then Inr (server, - 63)
       else if kstrndup_ok M then Inr (server\<lparr>mnt_path := Some path\<rparr>, 0)
       else Inr (server\<lparr>mnt_path := None\<rparr>, - ENOMEM))"
proof -
  let ?dev = "ip @ COLON # path @ 0 # r"
  have c: "strchr ?dev COLON = Inr (Some (length ip))"
    using assms(1,2) by (simp add: strchr_found)
  have l: "strlen (path @ 0 # r) = Inr (length path)" using assms(3) by (simp add: mem_simps)
  consider "255 < length ip" | "16 < length ip" "length ip \<le> 255" | "length ip \<le> 16"
    by linarith
  then show ?thesis
  proof cases
    case 1
    then show ?thesis by (simp add: vsnfs_parse_mntpath_def c)
  next
    case 2
    then show ?thesis
      using strncpy_ip [OF assms(1,4)] by (simp add: vsnfs_parse_mntpath_def c)
  next
    case 3
    then show ?thesis
      using strncpy_ip [OF assms(1,4)] terminate_ip [OF assms(4) 3]
      by (simp add: vsnfs_parse_mntpath_def c l Let_def)
  qed
qed

text \<open>
  C21. Taking a device name apart: for \<open>address:path\<close> the address is stored and the path duplicated; too
  long a path is an error, and so is an address of more than 255 characters; an address of 16 to
  255 characters passes the check and is written beyond the 16 bytes the structure has for it.
\<close>

theorem parse_mntpath_result:
  assumes "0 \<notin> set ip" and "COLON \<notin> set ip" and "0 \<notin> set path" and "length (ip_addr server) = 16"
  shows "vsnfs_parse_mntpath M (ip @ COLON # path @ 0 # r) server =
    (if 255 < length ip then Inr (server, - 63)
     else if 15 < length ip then Inl OutOfBounds
     else let server = server\<lparr>ip_addr := ip @ 0 # drop (length ip + 1) (ip_addr server)\<rparr> in
       if 1024 < length path then Inr (server, - 63)
       else if kstrndup_ok M then Inr (server\<lparr>mnt_path := Some path\<rparr>, 0)
       else Inr (server\<lparr>mnt_path := None\<rparr>, - ENOMEM))"
  by (rule parse_mntpath_eq [OF assms])

text \<open>The device name \<open>10.0.0.1:/e\<close>.\<close>

theorem parse_mntpath_result_witness:
  "vsnfs_parse_mntpath \<lparr>match_token = (\<lambda>s. vsnfs_opt_err), simple_strtol = (\<lambda>s. 0),
       in4_pton = (\<lambda>s. None), in6_pton = (\<lambda>s. None), kstrndup_ok = True\<rparr>
     ([49, 48, 46, 48, 46, 48, 46, 49] @ COLON # [47, 101] @ 0 # []) (zero_server :: unit vsnfs_server) =
   Inr (zero_server\<lparr>ip_addr := [49, 48, 46, 48, 46, 48, 46, 49] @ 0 # replicate 7 0,
         mnt_path := Some [47, 101]\<rparr>, 0)"
  using parse_mntpath_result [of "[49, 48, 46, 48, 46, 48, 46, 49]" "[47, 101]" "zero_server :: unit vsnfs_server"
      "\<lparr>match_token = (\<lambda>s. vsnfs_opt_err), simple_strtol = (\<lambda>s. 0),
       in4_pton = (\<lambda>s. None), in6_pton = (\<lambda>s. None), kstrndup_ok = True\<rparr>" "[]"]
  by (simp add: zero_server_def)

section \<open>Options\<close>

text \<open>
  An option as the user means it, how it is written, and what it does.  \<open>Other\<close> is any text
  without a comma that the table does not know.
\<close>

datatype mount_opt = Port nat | Timeout nat | Other "byte list"

abbreviation (input) port_eq :: "byte list" where "port_eq \<equiv> [112, 111, 114, 116, 61]"
abbreviation (input) timeout_eq :: "byte list" where
  "timeout_eq \<equiv> [116, 105, 109, 101, 111, 117, 116, 61]"

fun print_opt :: "mount_opt \<Rightarrow> byte list" where
  "print_opt (Port n) = port_eq @ dec_digits n"
| "print_opt (Timeout n) = timeout_eq @ dec_digits n"
| "print_opt (Other s) = s"

fun print_opts :: "mount_opt list \<Rightarrow> byte list" where
  "print_opts [] = []"
| "print_opts [x] = print_opt x"
| "print_opts (x # xs) = print_opt x @ COMMA # print_opts xs"

fun apply_opt :: "mount_opt \<Rightarrow> 'c vsnfs_server \<Rightarrow> 'c vsnfs_server" where
  "apply_opt (Port n) server = server\<lparr>server_port := word_of_nat n,
     cl_addr := (cl_addr server)\<lparr>sin_port := htons (word_of_nat n)\<rparr>\<rparr>"
| "apply_opt (Timeout n) server = server\<lparr>timeout := word_of_nat n\<rparr>"
| "apply_opt (Other s) server = server"

definition opt_ok :: "mount_api \<Rightarrow> mount_opt \<Rightarrow> bool" where
  "opt_ok M x = (case x of Port n \<Rightarrow> n < 2 ^ 31 | Timeout n \<Rightarrow> n < 2 ^ 31
     | Other s \<Rightarrow> COMMA \<notin> set s \<and> match_token M s = vsnfs_opt_err)"

text \<open>What the option matcher and the number parser of the kernel promise.\<close>

locale mount_parser =
  fixes M :: mount_api
  assumes match_port: "match_token M (port_eq @ dec_digits n) = vsnfs_opt_port (dec_digits n)"
    and match_timeout: "match_token M (timeout_eq @ dec_digits n) = vsnfs_opt_timeout (dec_digits n)"
    and strtol_decimal: "n < 2 ^ 31 \<Longrightarrow> simple_strtol M (dec_digits n) = int n"
lemma strsep_no_comma: "COMMA \<notin> set s \<Longrightarrow> strsep s = (s, None)"
  by (induction s) auto

lemma strsep_comma: "COMMA \<notin> set s \<Longrightarrow> strsep (s @ COMMA # r) = (s, Some r)"
  by (induction s) auto

lemma digit_not_comma: "COMMA \<notin> set (dec_digits n)"
proof
  assume "COMMA \<in> set (dec_digits n)"
  then obtain d where d: "d < 10" "(44 :: byte) = word_of_nat (48 + d)"
    using dec_digits_range by blast
  then have "unat (44 :: byte) = 48 + d" using digit_unat [OF d(1)] by metis
  then show False by simp
qed

context mount_parser
begin

lemma set_option_print:
  assumes "opt_ok M x"
  shows "set_option M (print_opt x) server = apply_opt x server"
proof (cases x)
  case (Port n)
  have "(ucast (word_of_nat n :: 32 word) :: u16) = word_of_nat n"
    by (rule bit_word_eqI) (simp add: bit_simps)
  with Port assms show ?thesis
    using match_port [of n] by (simp add: set_option_def opt_ok_def strtol_decimal Let_def)
qed (use assms match_timeout in \<open>auto simp: set_option_def opt_ok_def strtol_decimal\<close>)

lemma print_opt_no_comma: "opt_ok M x \<Longrightarrow> COMMA \<notin> set (print_opt x)"
  using digit_not_comma by (cases x) (auto simp: opt_ok_def)

lemma parse_one:
  assumes "opt_ok M x"
  shows "(if print_opt x = [] then parse_options M rest server
          else parse_options M rest (set_option M (print_opt x) server)) =
         parse_options M rest (apply_opt x server)"
  using set_option_print [OF assms, of server] by (cases x) auto

lemma parse_options_print:
  "list_all (opt_ok M) xs \<Longrightarrow> parse_options M (Some (print_opts xs)) server = fold apply_opt xs server"
proof (induction xs arbitrary: server rule: print_opts.induct)
  case 1
  show ?case by simp
next
  case (2 x)
  then show ?case
    using parse_one [of x None server] print_opt_no_comma [of x]
    by (simp add: strsep_no_comma del: parse_options.simps(1)) simp
next
  case (3 x y ys)
  then show ?case
    using parse_one [of x "Some (print_opts (y # ys))" server] print_opt_no_comma [of x]
    by (simp add: strsep_comma del: parse_options.simps) (simp add: strsep_comma)
qed

end

text \<open>An instance: options by prefix and decimal digits, numbers in decimal.\<close>

definition is_digit :: "byte \<Rightarrow> bool" where
  "is_digit c \<longleftrightarrow> 48 \<le> unat c \<and> unat c \<le> 57"

definition dec_value :: "byte list \<Rightarrow> nat" where
  "dec_value s = foldl (\<lambda>n c. 10 * n + (unat c - 48)) 0 (takeWhile is_digit s)"

definition match_ref :: "byte list \<Rightarrow> mount_token" where
  "match_ref s =
     (if take 5 s = port_eq \<and> drop 5 s \<noteq> [] \<and> list_all is_digit (drop 5 s)
      then vsnfs_opt_port (drop 5 s)
      else if take 8 s = timeout_eq \<and> drop 8 s \<noteq> [] \<and> list_all is_digit (drop 8 s)
      then vsnfs_opt_timeout (drop 8 s)
      else vsnfs_opt_err)"

definition mount_ref :: mount_api where
  "mount_ref = \<lparr>match_token = match_ref, simple_strtol = (\<lambda>s. int (dec_value s)),
     in4_pton = (\<lambda>s. if s = [] then None else Some 0x0100007F), in6_pton = (\<lambda>s. None),
     kstrndup_ok = True\<rparr>"

lemma dec_digits_is_digit: "list_all is_digit (dec_digits n)"
  using dec_digits_range digit_unat by (fastforce simp: list_all_iff is_digit_def)

lemma dec_value_digits: "dec_value (dec_digits n) = n"
proof -
  have w: "takeWhile is_digit (dec_digits n) = dec_digits n"
    using dec_digits_is_digit [of n] by (simp add: list_all_iff)
  have "foldl (\<lambda>n c. 10 * n + (unat c - 48)) 0 (dec_digits n) = n"
  proof (induction n rule: dec_digits.induct)
    case (1 n)
    have "unat (word_of_nat (48 + k) :: byte) - 48 = k" if "k < 10" for k
      using digit_unat [OF that] by simp
    with 1 show ?case
      by (cases "n < 10") (simp_all add: dec_digits.simps [of n] del: of_nat_add)
  qed
  then show ?thesis unfolding dec_value_def w .
qed

interpretation ref_mount: mount_parser mount_ref
  by unfold_locales
    (simp_all add: mount_ref_def match_ref_def dec_digits_is_digit dec_value_digits)

text \<open>
  Options are read back as they are written: a list of port, timeout and unknown options, separated by
  commas, sets what its options say, the last one of a kind winning, and ignores the unknown ones.
\<close>

lemma parse_options_print_opts:
  assumes "mount_parser M" and "list_all (opt_ok M) xs"
  shows "parse_options M (Some (print_opts xs)) server = fold apply_opt xs server"
  by (rule mount_parser.parse_options_print [OF assms])

lemma parse_options_print_opts_example:
  "parse_options mount_ref (Some (print_opts [Port 2049, Other [114, 111], Timeout 30, Port 7]))
     (zero_server :: unit vsnfs_server) =
   fold apply_opt [Port 2049, Other [114, 111], Timeout 30, Port 7] zero_server"
proof -
  have "list_all (opt_ok mount_ref) [Port 2049, Other [114, 111], Timeout 30, Port 7]"
    by (simp add: opt_ok_def mount_ref_def match_ref_def)
  then show ?thesis by (rule parse_options_print_opts [OF ref_mount.mount_parser_axioms])
qed

section \<open>Arbitrary option strings\<close>

text \<open>The parts of a string between its commas, and putting them together again.\<close>

fun split_commas :: "byte list \<Rightarrow> byte list list" where
  "split_commas [] = [[]]"
| "split_commas (c # s) =
     (if c = COMMA then [] # split_commas s
      else case split_commas s of p # ps \<Rightarrow> (c # p) # ps | [] \<Rightarrow> [[c]])"

fun join_commas :: "byte list list \<Rightarrow> byte list" where
  "join_commas [] = []"
| "join_commas [p] = p"
| "join_commas (p # ps) = p @ COMMA # join_commas ps"

lemma split_commas_nonempty [simp]: "split_commas s \<noteq> []"
  by (induction s) (auto split: list.split)

lemma join_Cons: "ps \<noteq> [] \<Longrightarrow> join_commas (p # ps) = p @ COMMA # join_commas ps"
  by (cases ps) simp_all

lemma split_join: "join_commas (split_commas s) = s"
proof (induction s)
  case (Cons c s)
  then show ?case
    by (cases "split_commas s"; cases "tl (split_commas s)") (auto simp: join_Cons)
qed simp

lemma split_no_comma: "p \<in> set (split_commas s) \<Longrightarrow> COMMA \<notin> set p"
  by (induction s arbitrary: p) (auto split: if_splits list.splits)

lemma strsep_split: "strsep s = (p, rest) \<Longrightarrow> split_commas s = p # (case rest of None \<Rightarrow> [] | Some r \<Rightarrow> split_commas r)"
  by (induction s arbitrary: p rest) (auto split: if_splits prod.splits)

definition options_of :: "byte list option \<Rightarrow> byte list list" where
  "options_of raw = (case raw of None \<Rightarrow> [] | Some s \<Rightarrow> filter (\<lambda>p. p \<noteq> []) (split_commas s))"

lemma parse_options_fold: "parse_options M raw server = fold (set_option M) (options_of raw) server"
proof (induction M raw server rule: parse_options.induct)
  case (1 M server)
  show ?case by (simp add: options_of_def)
next
  case (2 M raw server)
  obtain p rest where s: "strsep raw = (p, rest)" by (cases "strsep raw")
  have "options_of (Some raw) = (if p = [] then options_of rest else p # options_of rest)"
    using strsep_split [OF s] by (auto simp: options_of_def split: option.split)
  with 2 s show ?case by simp
qed

text \<open>
  C22. The loop over the options, for any text: it is the fold of the option handler over the parts of the text
  between its commas that are not empty, in order; and these parts are the right ones, since put together with
  commas they are the text, and none has a comma.
\<close>

theorem parse_options_equiv:
  "parse_options M (Some s) server = fold (set_option M) (filter (\<lambda>p. p \<noteq> []) (split_commas s)) server \<and>
   join_commas (split_commas s) = s \<and> (\<forall>p. COMMA \<in> set p \<longrightarrow> p \<notin> set (split_commas s))"
  using parse_options_fold [of M "Some s" server] split_no_comma by (auto simp: options_of_def split_join)

theorem parse_options_equiv_witness:
  "parse_options mount_ref (Some [44, 112, 111, 114, 116, 61, 55, 44, 44, 120]) (zero_server :: unit vsnfs_server) =
   set_option mount_ref [120] (set_option mount_ref [112, 111, 114, 116, 61, 55] zero_server)"
  using parse_options_equiv [of mount_ref "[44, 112, 111, 114, 116, 61, 55, 44, 44, 120]" "zero_server :: unit vsnfs_server"]
  by (simp del: parse_options.simps)

section \<open>The whole of the mount data\<close>

lemma parse_options_mnt_path [simp]: "mnt_path (parse_options M raw server) = mnt_path server"
proof (induction M raw server rule: parse_options.induct)
  case (2 M raw server)
  then show ?case
    by (cases "strsep raw") (auto simp: set_option_def Let_def split: mount_token.split)
qed simp

lemma parse_options_rpc_ops [simp]: "cl_rpc_ops (parse_options M raw server) = cl_rpc_ops server"
proof (induction M raw server rule: parse_options.induct)
  case (2 M raw server)
  then show ?case
    by (cases "strsep raw") (auto simp: set_option_def Let_def split: mount_token.split)
qed simp

lemma parse_mount_options_ok:
  fixes server0 :: "'c vsnfs_server"
  assumes "0 \<notin> set ip" and "COLON \<notin> set ip" and "0 \<notin> set path"
    and "length ip \<le> 15" and "length path \<le> 1024" and "kstrndup_ok M" and "length (ip_addr server0) = 16"
  shows "\<exists>server rc. vsnfs_parse_mount_options M raw (ip @ COLON # path @ 0 # r) server0 = Inr (server, rc) \<and>
    0 \<le> rc \<and> mnt_path server = Some path \<and> cl_rpc_ops server = cl_rpc_ops server0"
proof -
  let ?s = "server0\<lparr>server_port := word_of_nat VSNFS_PORT, timeout := word_of_nat VSNFS_TIMEOUT\<rparr>"
  have "length (ip_addr ?s) = 16" using assms(7) by simp
  from parse_mntpath_eq [OF assms(1-3) this, of M r] assms(4-6) show ?thesis
    by (simp add: vsnfs_parse_mount_options_def vsnfs_inet_pton_def Let_def split: option.split)
qed

end
