(* ===== verification/ClientSuper.thy ===== *)
theory ClientSuper
  imports ClientDir ClientMount
begin

text \<open>
  \<open>vsnfsClient.c\<close>, the look-ups of \<open>vsnfsDir.c\<close>, \<open>vsnfsFile.c\<close> and \<open>module.c\<close>: mounting,
  unmounting, turning handles into inodes, looking up names, and the operations that are not supported.
  Memory that is allocated and not given back is counted.
\<close>

section \<open>Inodes of the client\<close>

datatype inode_ops = NoOps | FileOps | DirOps

text \<open>
  \<open>ci_private\<close> is the handle the private pointer refers to; \<open>ci_count\<close> counts references; \<open>ci_locked\<close> is set while the
  inode is new and locked.
\<close>

record cinode =
  ci_ino :: u64
  ci_count :: int
  ci_noatime :: bool
  ci_op :: inode_ops
  ci_fop :: inode_ops
  ci_mode :: u32
  ci_size :: nat
  ci_nlink :: nat
  ci_uid :: u32
  ci_gid :: u32
  ci_private :: "vsnfs_fh option"
  ci_locked :: bool

text \<open>
  What \<open>iget_locked\<close> gives: nothing, an inode that is in the cache, with one more reference, or a new,
  locked one with the bit \<open>I_NEW\<close>.
\<close>

datatype iget = IgetNone | IgetCached cinode | IgetNew cinode

abbreviation (input) S_IFREG :: u32 where "S_IFREG \<equiv> 0x8000"
abbreviation (input) S_IFDIR :: u32 where "S_IFDIR \<equiv> 0x4000"
abbreviation (input) S_IRWXUGO :: u32 where "S_IRWXUGO \<equiv> 0x1FF"
abbreviation (input) S_IALLUGO :: u32 where "S_IALLUGO \<equiv> 0xFFF"

unbundle bit_operations_syntax

section \<open>The operations that are stubs\<close>

definition vsnfs_create :: int where "vsnfs_create = - EOPNOTSUPP"
definition vsnfs_mkdir :: int where "vsnfs_mkdir = - EOPNOTSUPP"
definition vsnfs_rmdir :: int where "vsnfs_rmdir = - EOPNOTSUPP"
definition vsnfs_permission :: int where "vsnfs_permission = 0"
definition vsnfs_lookup_revalidate :: int where "vsnfs_lookup_revalidate = - EOPNOTSUPP"
definition vsnfs_dentry_delete :: int where "vsnfs_dentry_delete = - EOPNOTSUPP"
definition vsnfs_dentry_iput :: "cinode \<Rightarrow> cinode" where
  "vsnfs_dentry_iput inode = inode\<lparr>ci_count := ci_count inode - 1\<rparr>"
definition vsnfs_write_inode :: int where "vsnfs_write_inode = - EOPNOTSUPP"
definition vsnfs_file_open :: int where "vsnfs_file_open = - EOPNOTSUPP"
definition vsnfs_file_read :: int where "vsnfs_file_read = 0"
definition vsnfs_file_write :: int where "vsnfs_file_write = - EOPNOTSUPP"

section \<open>Operation vectors\<close>

text \<open>What the kernel calls for a dentry of the file system.\<close>

record dentry_operations =
  d_revalidate :: int
  d_delete :: int
  d_iput :: "cinode \<Rightarrow> cinode"

definition vsnfs_dentry_operations :: dentry_operations where
  "vsnfs_dentry_operations =
    \<lparr>d_revalidate = vsnfs_lookup_revalidate, d_delete = vsnfs_dentry_delete, d_iput = vsnfs_dentry_iput\<rparr>"

text \<open>The operations of the protocol by which the rest of the client makes its calls.\<close>

record 'n vsnfs_rpc_ops =
  op_version :: nat
  op_dentry_ops :: dentry_operations
  op_dir_inode_ops :: inode_ops
  op_file_inode_ops :: inode_ops
  op_nullproc :: "vsnfs_nullres \<Rightarrow> 'n \<Rightarrow> u32 \<Rightarrow> u32 \<Rightarrow> 'n \<times> u32 \<times> int"
  op_getroot :: "'n \<Rightarrow> vsnfs_getrootargs \<Rightarrow> vsnfs_fh \<Rightarrow> 'n \<times> vsnfs_fh \<times> int"
  op_lookup :: "'n \<Rightarrow> vsnfs_lookupargs \<Rightarrow> vsnfs_fh \<Rightarrow> 'n \<times> vsnfs_fh \<times> int"
  op_readdir :: "'n \<Rightarrow> vsnfs_fh option \<Rightarrow> mem \<Rightarrow> u32 \<Rightarrow> ('n \<times> mem \<times> int) run"
  op_read :: "vsnfs_readres \<Rightarrow> 'n \<Rightarrow> vsnfs_fh option \<Rightarrow> mem \<Rightarrow> u64 \<Rightarrow> u32 \<Rightarrow> ('n \<times> mem \<times> u32 \<times> int) run"
  op_decode_dirent :: "mem \<Rightarrow> nat \<Rightarrow> vsnfs_entry \<Rightarrow> (nat err_ptr \<times> vsnfs_entry) run"

definition vsnfs_clientops :: "'n rpc_api \<Rightarrow> 'n vsnfs_rpc_ops" where
  "vsnfs_clientops R =
    \<lparr>op_version = VSNFS_VERSION, op_dentry_ops = vsnfs_dentry_operations, op_dir_inode_ops = DirOps,
     op_file_inode_ops = FileOps,
     op_nullproc = vsnfs_proc_null R, op_getroot = vsnfs_proc_getroot R, op_lookup = vsnfs_proc_lookup R,
     op_readdir = vsnfs_proc_readdir R, op_read = vsnfs_proc_read R, op_decode_dirent = vsnfs_decode_dirent\<rparr>"

text \<open>Following \<open>cl_rpc_ops\<close> of a server structure, \<open>VSNFS_SB(sb)->cl_rpc_ops\<close> from a superblock's \<open>s_fs_info\<close>.\<close>

definition rpc_ops_of :: "'n rpc_api \<Rightarrow> 'c vsnfs_server \<Rightarrow> 'n vsnfs_rpc_ops run" where
  "rpc_ops_of R server =
     bindF (deref (cl_rpc_ops server)) (\<lambda>ops. case ops of VsnfsClientops \<Rightarrow> Inr (vsnfs_clientops R))"

definition VSNFS_PROTO :: "'n rpc_api \<Rightarrow> 'c vsnfs_server option \<Rightarrow> 'n vsnfs_rpc_ops run" where
  "VSNFS_PROTO R s_fs_info = bindF (deref s_fs_info) (rpc_ops_of R)"

section \<open>From handles to inodes\<close>

text \<open>
  \<open>strtoul\<close> is \<open>simple_strtoul\<close>.  A new inode of a type that is neither file nor directory is unlocked, given
  back and returned all the same.
\<close>

definition vsnfs_fhget ::
  "'n rpc_api \<Rightarrow> (u64 \<Rightarrow> iget) \<Rightarrow> (byte list \<Rightarrow> u64) \<Rightarrow> 'c vsnfs_server option \<Rightarrow> vsnfs_fh \<Rightarrow> cinode err_ptr run" where
  "vsnfs_fhget R iget_locked strtoul s_fs_info fh =
     (let hash = strtoul (fh_data fh @ le_bytes (fh_type fh)) in
      case iget_locked hash of
        IgetNone \<Rightarrow> Inr (ErrPtr (- ENOMEM))
      | IgetCached inode \<Rightarrow> Inr (Ptr inode)
      | IgetNew inode \<Rightarrow>
          bindF (VSNFS_PROTO R s_fs_info) (\<lambda>ops.
          let inode = inode\<lparr>ci_ino := hash, ci_noatime := True, ci_op := op_file_inode_ops ops\<rparr> in
          if fh_type fh = VSNFS_REG then
            Inr (Ptr (inode\<lparr>ci_fop := FileOps, ci_mode := S_IFREG OR S_IRWXUGO, ci_size := VSNFS_MAXDATA,
                            ci_uid := 0, ci_gid := 0, ci_private := Some fh, ci_locked := False\<rparr>))
          else if fh_type fh = VSNFS_DIR then
            Inr (Ptr (inode\<lparr>ci_op := op_dir_inode_ops ops, ci_fop := DirOps, ci_mode := S_IFDIR OR S_IALLUGO,
                            ci_size := VSNFS_DIRSIZE, ci_nlink := 2,
                            ci_uid := 0, ci_gid := 0, ci_private := Some fh, ci_locked := False\<rparr>))
          else Inr (Ptr (inode\<lparr>ci_locked := False, ci_count := ci_count inode - 1\<rparr>))))"

section \<open>Looking up names\<close>

text \<open>A dentry: its inode and its operations, \<open>None\<close> where the pointer is NULL.\<close>

record cdentry =
  cd_inode :: "cinode option"
  cd_op :: "dentry_operations option"

text \<open>
  \<open>args_ok\<close> says whether the arguments could be allocated; \<open>newfh\<close> is the memory for the handle,
  \<open>None\<close> for NULL, which the decoder of a successful reply stores into.
\<close>

definition vsnfs_do_lookup ::
  "'n rpc_api \<Rightarrow> bool \<Rightarrow> 'n \<Rightarrow> 'c vsnfs_server option \<Rightarrow> cinode \<Rightarrow> byte list \<Rightarrow> vsnfs_fh option
   \<Rightarrow> ('n \<times> vsnfs_fh option \<times> int) run" where
  "vsnfs_do_lookup R args_ok n s_fs_info dir name newfh =
     bindF (check BugOn (s_fs_info \<noteq> None)) (\<lambda>_.
     if \<not> args_ok then Inr (n, newfh, - ENOMEM)
     else
     bindF (check BugOn (ci_private dir \<noteq> None)) (\<lambda>_.
     bindF (deref (ci_private dir)) (\<lambda>fh.
     bindF (VSNFS_PROTO R s_fs_info) (\<lambda>ops.
     let (n, res, ret) =
           op_lookup ops n \<lparr>la_fh = fh, la_filename = name, la_len = word_of_nat (length name)\<rparr>
             (case newfh of Some f \<Rightarrow> f | None \<Rightarrow> zero_fh)
     in
     if ret = 0
     then bindF (deref newfh) (\<lambda>_. Inr (n, Some res, 0))
     else Inr (n, newfh, - int (stat_num VSNFSERR_REMOTE))))))"

text \<open>
  \<open>d_materialise_unique\<close> attaches the inode, if any, to the dentry; what it returns is NULL, another dentry or an error.
  The result is the dentry that was handed in, the return value, and the number of handles that are allocated and
  neither stored in an inode nor freed.
\<close>

definition vsnfs_lookup ::
  "'n rpc_api \<Rightarrow> (u64 \<Rightarrow> iget) \<Rightarrow> (byte list \<Rightarrow> u64)
   \<Rightarrow> (cdentry \<Rightarrow> cinode option \<Rightarrow> cdentry \<times> cdentry option err_ptr) \<Rightarrow> bool \<Rightarrow> vsnfs_fh option
   \<Rightarrow> 'n \<Rightarrow> 'c vsnfs_server option \<Rightarrow> cinode \<Rightarrow> cdentry \<Rightarrow> byte list
   \<Rightarrow> ('n \<times> cdentry \<times> cdentry option err_ptr \<times> nat) run" where
  "vsnfs_lookup R iget strtoul d_materialise_unique args_ok newfh n s_fs_info dir dentry name =
     (let owed = (if newfh = None then 0 else 1) in
      if VSNFS_MAXNAMLEN < length name then Inr (n, dentry, ErrPtr (- ENAMETOOLONG), owed)
      else
      bindF (VSNFS_PROTO R s_fs_info) (\<lambda>ops.
      let dentry = dentry\<lparr>cd_op := Some (op_dentry_ops ops)\<rparr> in
      bindF (vsnfs_do_lookup R args_ok n s_fs_info dir name newfh) (\<lambda>(n, newfh, ret).
      if ret = - ENOENT
      then let (dentry, res) = d_materialise_unique dentry None in Inr (n, dentry, res, owed)
      else if ret < 0 then Inr (n, dentry, ErrPtr ret, owed)
      else
      bindF (deref newfh) (\<lambda>fh.
      bindF (vsnfs_fhget R iget strtoul s_fs_info fh) (\<lambda>r.
      case r of
        ErrPtr e \<Rightarrow> Inr (n, dentry, ErrPtr (- EINVAL), owed)
      | Ptr inode \<Rightarrow>
          let (dentry, res) = d_materialise_unique dentry (Some inode) in
          Inr (n, dentry, res,
            (case iget (strtoul (fh_data fh @ le_bytes (fh_type fh))) of
               IgetNew _ \<Rightarrow> if fh_type fh = VSNFS_REG \<or> fh_type fh = VSNFS_DIR then 0 else owed
             | _ \<Rightarrow> owed)))))))"

section \<open>Mounting\<close>

text \<open>
  \<open>rpc_create\<close> gives a client or an error for the server structure, \<open>resp\<close> the memory allocated for the
  root handle.
\<close>

definition vsnfs_create_rpcclient ::
  "'n rpc_api \<Rightarrow> ('c vsnfs_server \<Rightarrow> 'c err_ptr) \<Rightarrow> vsnfs_fh option \<Rightarrow> 'n \<Rightarrow> 'c vsnfs_server
   \<Rightarrow> ('n \<times> 'c vsnfs_server \<times> int) run" where
  "vsnfs_create_rpcclient R rpc_create resp n server =
     bindF (deref (mnt_path server)) (\<lambda>path.
     bindF (rpc_ops_of R server) (\<lambda>ops.
     case rpc_create server of
       ErrPtr e \<Rightarrow> Inr (n, server, e)
     | Ptr clnt \<Rightarrow>
         let server = server\<lparr>cl_rpcclient := Some clnt\<rparr> in
         case resp of
           None \<Rightarrow> Inr (n, server, - ENOMEM)
         | Some fh \<Rightarrow>
             let (n, fh, ret) =
                   op_getroot ops n \<lparr>ga_path = path, ga_len = word_of_nat (length path)\<rparr> fh
             in
             if ret = 0 then Inr (n, server\<lparr>root_fh := fh\<rparr>, 0)
             else Inr (n, server, - int (stat_num VSNFSERR_REMOTE))))"

definition vsnfs_init_server ::
  "mount_api \<Rightarrow> 'c vsnfs_server \<Rightarrow> mem \<Rightarrow> byte list option \<Rightarrow> ('c vsnfs_server \<times> int) run" where
  "vsnfs_init_server M server dev_name raw_data =
     vsnfs_parse_mount_options M raw_data dev_name (server\<lparr>cl_rpc_ops := Some VsnfsClientops\<rparr>)"

text \<open>
  The superblock: its private server, the fields \<open>vsnfs_fill_super\<close> sets, the root inode of \<open>s_root\<close>.  \<open>s_fs_freed\<close> tells
  whether the memory \<open>s_fs_info\<close> points to has been freed.
\<close>

record 'c super_block =
  s_dev :: u32
  s_fs_info :: "'c vsnfs_server option"
  s_blocksize_bits :: nat
  s_blocksize :: nat
  s_magic :: nat
  s_id :: "byte list"
  s_maxbytes :: u64
  s_op_set :: bool
  s_root :: "cinode option"
  s_active :: bool
  s_fs_freed :: bool

definition MAJOR :: "u32 \<Rightarrow> nat" where "MAJOR dev = unat (drop_bit 20 dev)"
definition MINOR :: "u32 \<Rightarrow> nat" where "MINOR dev = unat (dev AND 0xFFFFF)"

abbreviation (input) MAX_LFS_FILESIZE :: u64 where "MAX_LFS_FILESIZE \<equiv> 0x7FFFFFFFFFFFFFFF"

text \<open>The digits of \<open>%x\<close>; \<open>s_id\<close> is an array of 32 bytes, of which \<open>snprintf\<close> fills at most 31.\<close>

fun hex_digits :: "nat \<Rightarrow> byte list" where
  "hex_digits n =
     (let d = n mod 16; c = word_of_nat (if d < 10 then 48 + d else 87 + d)
      in if n < 16 then [c] else hex_digits (n div 16) @ [c])"

declare hex_digits.simps [simp del]

definition vsnfs_fill_super :: "'c super_block \<Rightarrow> 'c super_block" where
  "vsnfs_fill_super sb = sb\<lparr>s_blocksize_bits := 12, s_blocksize := 4096, s_magic := VSNFS_SB_MAGIC,
     s_id := take 31 (hex_digits (MAJOR (s_dev sb)) @ COLON # hex_digits (MINOR (s_dev sb))),
     s_maxbytes := MAX_LFS_FILESIZE, s_op_set := True\<rparr>"

text \<open>\<open>set_anon_super\<close> gives the superblock a device number, or fails.\<close>

definition vsnfs_set_super ::
  "('c super_block \<Rightarrow> 'c super_block \<times> int) \<Rightarrow> 'c super_block \<Rightarrow> 'c vsnfs_server \<Rightarrow> 'c super_block \<times> int" where
  "vsnfs_set_super set_anon_super s server = set_anon_super (s\<lparr>s_fs_info := Some server\<rparr>)"

text \<open>\<open>d_alloc_root\<close> may fail; the reference is then given back.\<close>

definition vsnfs_superblock_set_dummy_root ::
  "bool \<Rightarrow> 'c super_block \<Rightarrow> cinode \<Rightarrow> 'c super_block \<times> cinode \<times> int" where
  "vsnfs_superblock_set_dummy_root d_alloc_ok sb inode =
     (if s_root sb = None then
        if \<not> d_alloc_ok then (sb, inode\<lparr>ci_count := ci_count inode - 1\<rparr>, - ENOMEM)
        else let inode = inode\<lparr>ci_count := ci_count inode + 1\<rparr>
             in (sb\<lparr>s_root := Some inode\<rparr>, inode, 0)
      else (sb, inode, 0))"

text \<open>The operations of the root dentry are set unless it has some already.\<close>

definition vsnfs_get_root ::
  "'n rpc_api \<Rightarrow> (u64 \<Rightarrow> iget) \<Rightarrow> (byte list \<Rightarrow> u64) \<Rightarrow> bool \<Rightarrow> (cinode \<Rightarrow> cdentry err_ptr) \<Rightarrow> 'c super_block \<Rightarrow> vsnfs_fh
   \<Rightarrow> ('c super_block \<times> cdentry err_ptr) run" where
  "vsnfs_get_root R iget strtoul d_alloc_ok d_obtain_alias sb mntfh =
     (let info = s_fs_info sb in
      bindF (vsnfs_fhget R iget strtoul info mntfh) (\<lambda>r.
      case r of
        ErrPtr e \<Rightarrow> Inr (sb, ErrPtr e)
      | Ptr rootinode \<Rightarrow>
          (let (sb, rootinode, ret) = vsnfs_superblock_set_dummy_root d_alloc_ok sb rootinode in
           if ret \<noteq> 0 then Inr (sb, ErrPtr ret)
           else case d_obtain_alias rootinode of
             ErrPtr e \<Rightarrow> Inr (sb, ErrPtr e)
           | Ptr mntroot \<Rightarrow>
               if cd_op mntroot = None
               then bindF (VSNFS_PROTO R info) (\<lambda>ops. Inr (sb, Ptr (mntroot\<lparr>cd_op := Some (op_dentry_ops ops)\<rparr>)))
               else Inr (sb, Ptr mntroot))))"

text \<open>
  What the mount relies on: memory for the server structure, \<open>sget\<close>, which makes a superblock with the
  function it is handed, and the services above.
\<close>

record ('n, 'c) mount_env =
  m_parse :: mount_api
  m_rpc :: "'n rpc_api"
  m_rpc_create :: "'c vsnfs_server \<Rightarrow> 'c err_ptr"
  m_kzalloc :: bool
  m_resp :: "vsnfs_fh option"
  m_set_anon :: "'c super_block \<Rightarrow> 'c super_block \<times> int"
  m_sget :: "('c super_block \<Rightarrow> 'c super_block \<times> int) \<Rightarrow> 'c super_block err_ptr"
  m_iget :: "u64 \<Rightarrow> iget"
  m_strtoul :: "byte list \<Rightarrow> u64"
  m_d_alloc :: bool
  m_d_obtain :: "cinode \<Rightarrow> cdentry err_ptr"

text \<open>\<open>dput\<close> looks at the dentry it is handed, so that an error pointer is dereferenced.\<close>

fun dput :: "cdentry err_ptr \<Rightarrow> unit run" where
  "dput (Ptr d) = Inr ()"
| "dput (ErrPtr e) = Inl BadDeref"

text \<open>
  \<open>vsnfs_get_sb\<close>: the result is the mounted superblock with its root, if the mount gets that far, the
  return value, and whether the server structure was freed.  The test of \<open>kzalloc\<close>'s result is for an
  error pointer, which it never is, so that NULL is used; and when there is no root, what there is instead goes to
  \<open>dput\<close>.
\<close>

definition vsnfs_get_sb ::
  "('n, 'c) mount_env \<Rightarrow> 'n \<Rightarrow> mem \<Rightarrow> byte list option
   \<Rightarrow> ('n \<times> ('c super_block \<times> cdentry) option \<times> int \<times> bool) run" where
  "vsnfs_get_sb E n dev_name raw_data =
     bindF (deref (if m_kzalloc E then Some zero_server else None)) (\<lambda>server.
     bindF (vsnfs_init_server (m_parse E) server dev_name raw_data) (\<lambda>(server, ret).
     if ret < 0 then Inr (n, None, ret, False)
     else
     bindF (vsnfs_create_rpcclient (m_rpc E) (m_rpc_create E) (m_resp E) n server) (\<lambda>(n, server, ret).
     if ret < 0 then Inr (n, None, ret, False)
     else
     case m_sget E (\<lambda>s. vsnfs_set_super (m_set_anon E) s server) of
       ErrPtr e \<Rightarrow> Inr (n, None, e, True)
     | Ptr s \<Rightarrow>
         let s = (if s_root s = None then vsnfs_fill_super s else s) in
         bindF (vsnfs_get_root (m_rpc E) (m_iget E) (m_strtoul E) (m_d_alloc E) (m_d_obtain E) s (root_fh server))
           (\<lambda>(s, root).
         case root of
           ErrPtr e \<Rightarrow> bindF (dput root) (\<lambda>_. Inr (n, None, e, False))
         | Ptr mntroot \<Rightarrow> Inr (n, Some (s\<lparr>s_active := True\<rparr>, mntroot), 0, False)))))"

text \<open>
  Unmounting: \<open>vsnfs_kill_sb\<close> has the kernel shut the superblock down and frees its server structure; the client and
  the path in it are not given back.
\<close>

definition vsnfs_kill_sb :: "('c super_block \<Rightarrow> 'c super_block) \<Rightarrow> 'c super_block \<Rightarrow> 'c super_block" where
  "vsnfs_kill_sb kill_anon_super s =
     (let server = s_fs_info s; s = kill_anon_super s
      in s\<lparr>s_fs_freed := (if server = None then s_fs_freed s else True)\<rparr>)"

definition vsnfs_umount_begin :: "'c super_block \<Rightarrow> 'c option run" where
  "vsnfs_umount_begin sb =
     bindF (check BadDeref (\<not> s_fs_freed sb)) (\<lambda>_.
     bindF (deref (s_fs_info sb)) (\<lambda>server. Inr (cl_rpcclient server)))"

section \<open>The module\<close>

text \<open>
  The entry of the file system type in the kernel's list.  Loading and unloading the module hand it to
  \<open>register_filesystem\<close> and \<open>unregister_filesystem\<close>, which work on the kernel's state \<open>k\<close>; the result of
  unregistering is printed and dropped.
\<close>

record ('n, 'c) file_system_type =
  fst_name :: string
  fst_get_sb :: "('n, 'c) mount_env \<Rightarrow> 'n \<Rightarrow> mem \<Rightarrow> byte list option
    \<Rightarrow> ('n \<times> ('c super_block \<times> cdentry) option \<times> int \<times> bool) run"
  fst_kill_sb :: "('c super_block \<Rightarrow> 'c super_block) \<Rightarrow> 'c super_block \<Rightarrow> 'c super_block"

definition vsnfs_type :: "('n, 'c) file_system_type" where
  "vsnfs_type = \<lparr>fst_name = ''vsnfs'', fst_get_sb = vsnfs_get_sb, fst_kill_sb = vsnfs_kill_sb\<rparr>"

definition VSNFSClientInit ::
  "('k \<Rightarrow> ('n, 'c) file_system_type \<Rightarrow> 'k \<times> int) \<Rightarrow> 'k \<Rightarrow> 'k \<times> int" where
  "VSNFSClientInit register_filesystem k = register_filesystem k vsnfs_type"

definition VSNFSClientCleanup ::
  "('k \<Rightarrow> ('n, 'c) file_system_type \<Rightarrow> 'k \<times> int) \<Rightarrow> 'k \<Rightarrow> 'k \<times> int" where
  "VSNFSClientCleanup unregister_filesystem k = unregister_filesystem k vsnfs_type"

definition vsnfs_init :: "('k \<Rightarrow> ('n, 'c) file_system_type \<Rightarrow> 'k \<times> int) \<Rightarrow> 'k \<Rightarrow> 'k \<times> int" where
  "vsnfs_init register_filesystem k = VSNFSClientInit register_filesystem k"

definition vsnfs_cleanup :: "('k \<Rightarrow> ('n, 'c) file_system_type \<Rightarrow> 'k \<times> int) \<Rightarrow> 'k \<Rightarrow> 'k" where
  "vsnfs_cleanup unregister_filesystem k = (let (k, ret) = VSNFSClientCleanup unregister_filesystem k in k)"

text \<open>The operations of the superblock; the inodes are allocated by the kernel.\<close>

definition vsnfs_clear_inode :: "cinode \<Rightarrow> cinode" where "vsnfs_clear_inode inode = inode"

record 'c super_operations =
  sop_alloc_inode :: "('c super_block \<Rightarrow> cinode) option"
  sop_destroy_inode :: "(cinode \<Rightarrow> cinode) option"
  sop_write_inode :: "int option"
  sop_clear_inode :: "(cinode \<Rightarrow> cinode) option"
  sop_umount_begin :: "('c super_block \<Rightarrow> 'c option run) option"

definition vsnfs_sops :: "'c super_operations" where
  "vsnfs_sops = \<lparr>sop_alloc_inode = None, sop_destroy_inode = None, sop_write_inode = Some vsnfs_write_inode,
     sop_clear_inode = Some vsnfs_clear_inode, sop_umount_begin = Some vsnfs_umount_begin\<rparr>"

section \<open>Handles become inodes\<close>

lemma VSNFS_PROTO_set: "cl_rpc_ops server = Some VsnfsClientops \<Longrightarrow> VSNFS_PROTO R (Some server) = Inr (vsnfs_clientops R)"
  by (simp add: VSNFS_PROTO_def rpc_ops_of_def)

lemmas client_defs = VSNFS_PROTO_set vsnfs_clientops_def vsnfs_fhget_def vsnfs_do_lookup_def

text \<open>
  A handle of another type than file or directory is not refused: the inode is returned after the only reference to it
  was given back.
\<close>

lemma fhget_bad_type:
  assumes "iget (strtoul (fh_data fh @ le_bytes (fh_type fh))) = IgetNew inode" and "ci_count inode = 1"
    and "fh_type fh \<noteq> VSNFS_REG" "fh_type fh \<noteq> VSNFS_DIR" and "cl_rpc_ops server = Some VsnfsClientops"
  shows "\<exists>i. vsnfs_fhget R iget strtoul (Some server) fh = Inr (Ptr i) \<and> ci_count i = 0 \<and> ci_private i = ci_private inode"
  using assms by (simp add: client_defs)

definition blank_inode :: cinode where
  "blank_inode = \<lparr>ci_ino = 0, ci_count = 1, ci_noatime = False, ci_op = NoOps, ci_fop = NoOps,
     ci_mode = 0, ci_size = 0, ci_nlink = 1, ci_uid = 0, ci_gid = 0, ci_private = None, ci_locked = True\<rparr>"

definition blank_dentry :: cdentry where
  "blank_dentry = \<lparr>cd_inode = None, cd_op = None\<rparr>"

text \<open>A server structure as \<open>vsnfs_init_server\<close> leaves it.\<close>

definition ready_server :: "unit vsnfs_server" where
  "ready_server = zero_server\<lparr>cl_rpc_ops := Some VsnfsClientops\<rparr>"

text \<open>\<open>d_materialise_unique\<close> of a dentry without another alias: the inode is attached and NULL returned.\<close>

definition attach :: "cdentry \<Rightarrow> cinode option \<Rightarrow> cdentry \<times> cdentry option err_ptr" where
  "attach d i = (d\<lparr>cd_inode := i\<rparr>, Ptr None)"

text \<open>
  C34. Whatever makes a LOOKUP call fail, the caller of the client's look-up gets error 71; the branch
  that makes a negative dentry for a missing name is never taken, and a handle allocated for the
  answer is not given back.
\<close>

theorem lookup_failure_is_eremote:
  assumes "ci_private dir = Some fh" and "length name \<le> 255" and "cl_rpc_ops server = Some VsnfsClientops"
    and "rpc_call_sync R n VSNFSPROC_LOOKUP (LookupArgs \<lparr>la_fh = fh, la_filename = name, la_len = word_of_nat (length name)\<rparr>)
      (Some (RespFh newfh)) [] = (n', resp, page, ret)" and "ret \<noteq> 0"
  shows "vsnfs_lookup R iget strtoul mat True (Some newfh) n (Some server) dir dentry name =
    Inr (n', dentry\<lparr>cd_op := Some vsnfs_dentry_operations\<rparr>, ErrPtr (- 71), 1)"
  using assms
  by (simp add: vsnfs_lookup_def client_defs vsnfs_proc_lookup_def)

text \<open>A server that answers \<open>- ENOENT\<close> to every LOOKUP.\<close>

theorem lookup_failure_is_eremote_witness:
  "vsnfs_lookup \<lparr>rpc_call_sync = (\<lambda>n k a r page. (n, r, page, - 2))\<rparr>
     (\<lambda>n. IgetNone) (\<lambda>s. 0) attach True (Some zero_fh) () (Some ready_server)
     (blank_inode\<lparr>ci_private := Some zero_fh\<rparr>) blank_dentry [97]
     = Inr ((), blank_dentry\<lparr>cd_op := Some vsnfs_dentry_operations\<rparr>, ErrPtr (- 71), 1)"
  by (rule lookup_failure_is_eremote [of _ zero_fh _ _ _ _ _ _ _ _ "- 2"])
    (simp_all add: blank_inode_def ready_server_def)

section \<open>Mounting\<close>

text \<open>What becomes of the alias \<open>d_obtain_alias\<close> gives for the root.\<close>

definition with_ops :: "cdentry \<Rightarrow> cdentry" where
  "with_ops d = (case cd_op d of None \<Rightarrow> d\<lparr>cd_op := Some vsnfs_dentry_operations\<rparr> | Some _ \<Rightarrow> d)"

lemma get_sb_mounts:
  fixes E :: "('n, 'c) mount_env"
  assumes dev: "0 \<notin> set ip" "COLON \<notin> set ip" "0 \<notin> set path" "length ip \<le> 15" "length path \<le> 1024"
      "kstrndup_ok (m_parse E)"
    and mem: "m_kzalloc E" "m_resp E = Some resp" "m_d_alloc E"
    and clnt: "\<And>server. m_rpc_create E server = Ptr c"
    and call: "vsnfs_proc_getroot (m_rpc E) n \<lparr>ga_path = path, ga_len = word_of_nat (length path)\<rparr> resp = (n', fh, 0)"
      and ty: "fh_type fh = VSNFS_DIR"
    and sget: "\<And>set. snd (set sb0) = 0 \<Longrightarrow> m_sget E set = Ptr (fst (set sb0))" "s_root sb0 = None"
      "\<And>s. m_set_anon E s = (s\<lparr>s_dev := anon\<rparr>, 0)"
    and iget: "m_iget E (m_strtoul E (fh_data fh @ le_bytes (fh_type fh))) = IgetNew inode"
    and obt: "\<And>i. m_d_obtain E i = Ptr (al i)"
  shows "\<exists>sb server i. vsnfs_get_sb E n (ip @ COLON # path @ 0 # r) raw
      = Inr (n', Some (sb, with_ops (al i)), 0, False) \<and>
    s_active sb \<and> s_magic sb = VSNFS_SB_MAGIC \<and> s_dev sb = anon \<and>
    s_fs_info sb = Some server \<and> cl_rpc_ops server = Some VsnfsClientops \<and> cl_rpcclient server = Some c \<and>
    mnt_path server = Some path \<and> root_fh server = fh \<and>
    s_root sb = Some i \<and> ci_op i = DirOps \<and> ci_private i = Some fh \<and> \<not> ci_locked i"
proof -
  let ?server0 = "(zero_server :: 'c vsnfs_server)\<lparr>cl_rpc_ops := Some VsnfsClientops\<rparr>"
  have "length (ip_addr ?server0) = 16" by (simp add: zero_server_def)
  from parse_mount_options_ok [OF dev this, of raw r] obtain server rc where
    i: "vsnfs_init_server (m_parse E) (zero_server :: 'c vsnfs_server) (ip @ COLON # path @ 0 # r) raw = Inr (server, rc)"
    and rc: "\<not> rc < 0" and p: "mnt_path server = Some path" and ops: "cl_rpc_ops server = Some VsnfsClientops"
    by (auto simp: vsnfs_init_server_def)
  let ?server = "server\<lparr>cl_rpcclient := Some c, root_fh := fh\<rparr>"
  have cr: "vsnfs_create_rpcclient (m_rpc E) (m_rpc_create E) (m_resp E) n server = Inr (n', ?server, 0)"
    using p ops mem clnt call by (simp add: vsnfs_create_rpcclient_def rpc_ops_of_def vsnfs_clientops_def)
  have s: "m_sget E (\<lambda>s. vsnfs_set_super (m_set_anon E) s ?server)
      = Ptr (sb0\<lparr>s_fs_info := Some ?server, s_dev := anon\<rparr>)"
    by (subst sget(1)) (simp_all add: vsnfs_set_super_def sget(3))
  show ?thesis
    using i rc cr s mem sget(2) iget ty obt p ops
    by (simp add: vsnfs_get_sb_def vsnfs_get_root_def client_defs vsnfs_superblock_set_dummy_root_def
        vsnfs_fill_super_def with_ops_def Let_def split: option.split)
qed

text \<open>
  C19. A mount that goes well: with a well-formed device name, an RPC client, an answer to GETROOT that is a
  directory handle, and a superblock, the mount returns 0 with an active superblock whose private server
  has the client, the operations, the path and the handle, and whose root inode is an unlocked directory with that
  handle; the mounted dentry is the alias of the root inode, with operations.
\<close>

theorem mount_gets_root:
  fixes E :: "('n, 'c) mount_env"
  assumes dev: "0 \<notin> set ip" "COLON \<notin> set ip" "0 \<notin> set path" "length ip \<le> 15" "length path \<le> 1024"
      "kstrndup_ok (m_parse E)"
    and mem: "m_kzalloc E" "m_resp E = Some resp" "m_d_alloc E"
    and clnt: "\<And>server. m_rpc_create E server = Ptr c"
    and call: "vsnfs_proc_getroot (m_rpc E) n \<lparr>ga_path = path, ga_len = word_of_nat (length path)\<rparr> resp = (n', fh, 0)"
      and ty: "fh_type fh = VSNFS_DIR"
    and sget: "\<And>set. snd (set sb0) = 0 \<Longrightarrow> m_sget E set = Ptr (fst (set sb0))" "s_root sb0 = None"
      "\<And>s. m_set_anon E s = (s\<lparr>s_dev := anon\<rparr>, 0)"
    and iget: "m_iget E (m_strtoul E (fh_data fh @ le_bytes (fh_type fh))) = IgetNew inode"
    and obt: "\<And>i. m_d_obtain E i = Ptr (al i)"
  shows "\<exists>sb server i. vsnfs_get_sb E n (ip @ COLON # path @ 0 # r) raw
      = Inr (n', Some (sb, with_ops (al i)), 0, False) \<and>
    s_active sb \<and> s_magic sb = VSNFS_SB_MAGIC \<and> s_dev sb = anon \<and>
    s_fs_info sb = Some server \<and> cl_rpc_ops server = Some VsnfsClientops \<and> cl_rpcclient server = Some c \<and>
    mnt_path server = Some path \<and> root_fh server = fh \<and>
    s_root sb = Some i \<and> ci_op i = DirOps \<and> ci_private i = Some fh \<and> \<not> ci_locked i"
  by (rule get_sb_mounts [OF assms])

definition blank_sb :: "unit super_block" where
  "blank_sb = \<lparr>s_dev = 0, s_fs_info = None, s_blocksize_bits = 0, s_blocksize = 0, s_magic = 0, s_id = [], s_maxbytes = 0,
     s_op_set = False, s_root = None, s_active = False, s_fs_freed = False\<rparr>"

text \<open>A client kernel that has everything, with the network given.\<close>

definition client_env :: "'n rpc_api \<Rightarrow> ('n, unit) mount_env" where
  "client_env R = \<lparr>m_parse = mount_ref, m_rpc = R,
     m_rpc_create = (\<lambda>s. Ptr ()), m_kzalloc = True, m_resp = Some zero_fh, m_set_anon = (\<lambda>s. (s\<lparr>s_dev := 19\<rparr>, 0)),
     m_sget = (\<lambda>set. case set blank_sb of (s, e) \<Rightarrow> if e = 0 then Ptr s else ErrPtr e),
     m_iget = (\<lambda>n. IgetNew blank_inode), m_strtoul = (\<lambda>s. 7), m_d_alloc = True,
     m_d_obtain = (\<lambda>i. Ptr (blank_dentry\<lparr>cd_inode := Some i\<rparr>))\<rparr>"

text \<open>A server whose every answer is a directory handle.\<close>

definition demo_mount :: "(unit, unit) mount_env" where
  "demo_mount = client_env \<lparr>rpc_call_sync =
     (\<lambda>n k a r page. (n, Some (RespFh \<lparr>fh_data = [55, 0, 0, 0, 0, 0, 0, 0], fh_type = 2\<rparr>), page, 0))\<rparr>"

theorem mount_gets_root_witness:
  "\<exists>sb server i. vsnfs_get_sb demo_mount () ([49, 46, 49] @ COLON # [47, 101] @ 0 # []) None
       = Inr ((), Some (sb, with_ops (blank_dentry\<lparr>cd_inode := Some i\<rparr>)), 0, False) \<and>
     s_active sb \<and> s_magic sb = VSNFS_SB_MAGIC \<and> s_dev sb = 19 \<and>
     s_fs_info sb = Some server \<and> cl_rpc_ops server = Some VsnfsClientops \<and> cl_rpcclient server = Some () \<and>
     mnt_path server = Some [47, 101] \<and> root_fh server = \<lparr>fh_data = [55, 0, 0, 0, 0, 0, 0, 0], fh_type = 2\<rparr> \<and>
     s_root sb = Some i \<and> ci_op i = DirOps \<and>
     ci_private i = Some \<lparr>fh_data = [55, 0, 0, 0, 0, 0, 0, 0], fh_type = 2\<rparr> \<and> \<not> ci_locked i"
  by (rule mount_gets_root [of _ _ _ zero_fh _ _ "()" _ blank_sb 19 blank_inode "\<lambda>i. blank_dentry\<lparr>cd_inode := Some i\<rparr>"])
    (auto simp: demo_mount_def client_env_def mount_ref_def blank_sb_def vsnfs_proc_getroot_def split: prod.split)

text \<open>The identification of the superblock of device 5:13 (in hexadecimal).\<close>

lemma fill_super_id: "s_id (vsnfs_fill_super (blank_sb\<lparr>s_dev := 0x500013\<rparr>)) = [53, 58, 49, 51]"
  by code_simp

end
