(* ===== verification/ServerXdr.thy ===== *)
theory ServerXdr
  imports Xdr
begin

text \<open>
  \<open>server/vsnfsxdr.c\<close> and \<open>server/xdr.h\<close>: the server's marshalling.  Argument decoders read
  the argument vector of the request; result encoders write the reply head; the filler
  \<open>vsnfssvc_encode_entry\<close> encodes directory entries into a reply page as the file system
  enumerates them.

  A decoder that returns 0 in the source returns \<open>None\<close> here, one that returns 1 returns the
  decoded arguments.
\<close>

unbundle bit_operations_syntax

section \<open>Arguments and results\<close>

record vsnfsd_nullargs =
  dna_dummy :: u32

record vsnfsd_nullres =
  dnr_dummy :: u32

text \<open>\<open>drda_buffer\<close> and \<open>dra_buffer\<close> are the numbers of the reply page taken for the data.\<close>

record vsnfsd_readdirargs =
  drda_fh :: vsnfs_fh
  drda_count :: u32
  drda_buffer :: nat

record vsnfsd_readdirres =
  drr_count :: int
  drr_err :: be32
  drr_buffer :: nat
  drr_buflen :: int
  drr_offset :: "nat option"

record vsnfsd_readargs =
  dra_fh :: vsnfs_fh
  dra_offset :: u32
  dra_count :: u32
  dra_buffer :: nat

record vsnfsd_readres =
  dres_count :: u64

record vsnfsd_getrootargs =
  dga_path :: "byte list"
  dga_len :: u32

record vsnfsd_lookupargs =
  dla_fh :: vsnfs_fh
  dla_filename :: "byte list"
  dla_len :: u32

text \<open>The part of \<open>struct svc_rqst\<close> the server works on.\<close>

record svc_rqst =
  rq_arg :: kvec
  rq_res :: kvec
  rq_res_page_len :: nat
  rq_respages :: "mem list"
  rq_resused :: nat

section \<open>Argument decoders\<close>

definition vsnfssvc_decode_nullargs ::
  "xdr_api \<Rightarrow> svc_rqst \<Rightarrow> nat \<Rightarrow> (svc_rqst \<times> vsnfsd_nullargs option) run" where
  "vsnfssvc_decode_nullargs X rqstp p =
     bindF (ld32 (iov_base (rq_arg rqstp)) p) (\<lambda>w.
     Inr (rqstp,
       if xdr_argsize_check X (rq_arg rqstp) (p + 4) then Some \<lparr>dna_dummy = ntohl w\<rparr> else None))"

definition decode_fh :: "mem \<Rightarrow> nat \<Rightarrow> (vsnfs_fh \<times> nat) run" where
  "decode_fh m p =
     bindF (mem_read m p VSNFS_FHSIZE) (\<lambda>d.
     let p = p + 4 * (VSNFS_FHSIZE div 4) in
     bindF (ld32 m p) (\<lambda>t. Inr (zero_fh\<lparr>fh_data := d, fh_type := ntohl t\<rparr>, p + 4)))"

text \<open>The loop over the characters of a name: does one of the first \<open>n\<close> satisfy \<open>bad\<close>?\<close>

fun name_scan :: "(byte \<Rightarrow> bool) \<Rightarrow> byte list \<Rightarrow> nat \<Rightarrow> bool run" where
  "name_scan bad s 0 = Inr False"
| "name_scan bad [] (Suc n) = Inl OutOfBounds"
| "name_scan bad (c # s) (Suc n) = (if bad c then Inr True else name_scan bad s n)"

definition decode_filename :: "xdr_api \<Rightarrow> mem \<Rightarrow> nat \<Rightarrow> (byte list \<times> u32 \<times> nat) option run" where
  "decode_filename X m p =
     bindF (xdr_decode_string_inplace X m p (word_of_nat VSNFS_MAXNAMLEN)) (\<lambda>r.
     case r of
       None \<Rightarrow> Inr None
     | Some (namp, len, p) \<Rightarrow>
         bindF (name_scan (\<lambda>c. c = 0 \<or> c = SLASH) namp (unat len)) (\<lambda>hit.
         Inr (if hit then None else Some (namp, len, p))))"

definition decode_pathname :: "xdr_api \<Rightarrow> mem \<Rightarrow> nat \<Rightarrow> (byte list \<times> u32 \<times> nat) option run" where
  "decode_pathname X m p =
     bindF (xdr_decode_string_inplace X m p (word_of_nat VSNFS_MAXPATHLEN)) (\<lambda>r.
     case r of
       None \<Rightarrow> Inr None
     | Some (namp, len, p) \<Rightarrow>
         bindF (name_scan (\<lambda>c. c = 0) namp (unat len)) (\<lambda>hit.
         Inr (if hit then None else Some (namp, len, p))))"

definition vsnfssvc_decode_getrootargs ::
  "xdr_api \<Rightarrow> svc_rqst \<Rightarrow> nat \<Rightarrow> (svc_rqst \<times> vsnfsd_getrootargs option) run" where
  "vsnfssvc_decode_getrootargs X rqstp p =
     bindF (decode_pathname X (iov_base (rq_arg rqstp)) p) (\<lambda>r.
     case r of
       None \<Rightarrow> Inr (rqstp, None)
     | Some (path, len, p) \<Rightarrow>
         Inr (rqstp,
           if xdr_argsize_check X (rq_arg rqstp) p then Some \<lparr>dga_path = path, dga_len = len\<rparr>
           else None))"

definition vsnfssvc_decode_lookupargs ::
  "xdr_api \<Rightarrow> svc_rqst \<Rightarrow> nat \<Rightarrow> (svc_rqst \<times> vsnfsd_lookupargs option) run" where
  "vsnfssvc_decode_lookupargs X rqstp p =
     bindF (decode_fh (iov_base (rq_arg rqstp)) p) (\<lambda>(fh, p).
     bindF (decode_filename X (iov_base (rq_arg rqstp)) p) (\<lambda>r.
     case r of
       None \<Rightarrow> Inr (rqstp, None)
     | Some (name, len, p) \<Rightarrow>
         Inr (rqstp,
           if xdr_argsize_check X (rq_arg rqstp) p
           then Some \<lparr>dla_fh = fh, dla_filename = name, dla_len = len\<rparr> else None)))"

text \<open>\<open>page_address (rqstp->rq_respages[rqstp->rq_resused++])\<close>: the next unused reply page.\<close>

definition take_respage :: "svc_rqst \<Rightarrow> (svc_rqst \<times> nat) run" where
  "take_respage rqstp =
     bindF (check OutOfBounds (rq_resused rqstp < length (rq_respages rqstp))) (\<lambda>_.
     Inr (rqstp\<lparr>rq_resused := Suc (rq_resused rqstp)\<rparr>, rq_resused rqstp))"

definition vsnfssvc_decode_readdirargs ::
  "xdr_api \<Rightarrow> svc_rqst \<Rightarrow> nat \<Rightarrow> (svc_rqst \<times> vsnfsd_readdirargs option) run" where
  "vsnfssvc_decode_readdirargs X rqstp p =
     bindF (decode_fh (iov_base (rq_arg rqstp)) p) (\<lambda>(fh, p).
     bindF (ld32 (iov_base (rq_arg rqstp)) p) (\<lambda>w.
     let count = ntohl w;
         count = (if word_of_nat PAGE_SIZE < count then word_of_nat PAGE_SIZE else count)
     in bindF (take_respage rqstp) (\<lambda>(rqstp, page).
        Inr (rqstp,
          if xdr_argsize_check X (rq_arg rqstp) (p + 4)
          then Some \<lparr>drda_fh = fh, drda_count = count, drda_buffer = page\<rparr> else None))))"

definition vsnfssvc_decode_readargs ::
  "xdr_api \<Rightarrow> svc_rqst \<Rightarrow> nat \<Rightarrow> (svc_rqst \<times> vsnfsd_readargs option) run" where
  "vsnfssvc_decode_readargs X rqstp p =
     bindF (decode_fh (iov_base (rq_arg rqstp)) p) (\<lambda>(fh, p).
     bindF (ld32 (iov_base (rq_arg rqstp)) p) (\<lambda>offset.
     bindF (ld32 (iov_base (rq_arg rqstp)) (p + 4)) (\<lambda>w.
     let len = ntohl w;
         len = (if word_of_nat PAGE_SIZE < len then word_of_nat PAGE_SIZE else len)
     in bindF (take_respage rqstp) (\<lambda>(rqstp, page).
        Inr (rqstp,
          if xdr_argsize_check X (rq_arg rqstp) (p + 8)
          then Some \<lparr>dra_fh = fh, dra_offset = ntohl offset, dra_count = len, dra_buffer = page\<rparr>
          else None)))))"

section \<open>Result encoders\<close>

text \<open>
  Storing into the reply head and \<open>xdr_ressize_check (rqstp, p)\<close>, which sets the length of the
  head to \<open>p\<close> and says whether it is within a page.
\<close>

definition ressize_check :: "xdr_api \<Rightarrow> svc_rqst \<Rightarrow> mem \<Rightarrow> nat \<Rightarrow> svc_rqst \<times> bool" where
  "ressize_check X rqstp m p =
     (let (v, ok) = xdr_ressize_check X ((rq_res rqstp)\<lparr>iov_base := m\<rparr>) p
      in (rqstp\<lparr>rq_res := v\<rparr>, ok))"

definition vsnfssvc_encode_nullres ::
  "xdr_api \<Rightarrow> svc_rqst \<Rightarrow> nat \<Rightarrow> vsnfsd_nullres \<Rightarrow> (svc_rqst \<times> bool) run" where
  "vsnfssvc_encode_nullres X rqstp p resp =
     bindF (st32 (iov_base (rq_res rqstp)) p (htonl (dnr_dummy resp))) (\<lambda>m.
     Inr (ressize_check X rqstp m (p + 4)))"

definition encode_fh :: "mem \<Rightarrow> nat \<Rightarrow> vsnfs_fh \<Rightarrow> (mem \<times> nat) run" where
  "encode_fh m p fhp =
     bindF (memcpy m p (fh_data fhp) 0 VSNFS_FHSIZE) (\<lambda>m. Inr (m, p + 4 * (VSNFS_FHSIZE div 4)))"

definition vsnfssvc_encode_fhandle ::
  "xdr_api \<Rightarrow> svc_rqst \<Rightarrow> nat \<Rightarrow> vsnfs_fh \<Rightarrow> (svc_rqst \<times> bool) run" where
  "vsnfssvc_encode_fhandle X rqstp p resp =
     bindF (encode_fh (iov_base (rq_res rqstp)) p resp) (\<lambda>(m, p).
     bindF (st32 m p (htonl (fh_type resp))) (\<lambda>m.
     Inr (ressize_check X rqstp m (p + 4))))"

text \<open>
  \<open>(((unsigned long)p - 1) & ~PAGE_MASK) + 1\<close> of a pointer at offset \<open>p\<close> of a page-aligned
  buffer; \<open>p - 1\<close> wraps around at the base of the page.
\<close>

definition page_len_of :: "nat \<Rightarrow> nat" where
  "page_len_of p = (p + PAGE_SIZE - 1) mod PAGE_SIZE + 1"

definition vsnfssvc_encode_readdirres ::
  "xdr_api \<Rightarrow> svc_rqst \<Rightarrow> nat \<Rightarrow> mem \<Rightarrow> vsnfsd_readdirres \<Rightarrow> (svc_rqst \<times> mem \<times> bool) run" where
  "vsnfssvc_encode_readdirres X rqstp p page resp =
     (let (rqstp, _) = ressize_check X rqstp (iov_base (rq_res rqstp)) p; p = drr_buffer resp in
      bindF (st32 page p 0) (\<lambda>page.
      bindF (st32 page (p + 4) (htonl (if drr_err resp = vsnfs_ok then 1 else 0))) (\<lambda>page.
      Inr (rqstp\<lparr>rq_res_page_len := page_len_of (p + 8)\<rparr>, page, True))))"

definition vsnfssvc_encode_readres ::
  "xdr_api \<Rightarrow> svc_rqst \<Rightarrow> nat \<Rightarrow> vsnfsd_readres \<Rightarrow> (svc_rqst \<times> bool) run" where
  "vsnfssvc_encode_readres X rqstp p res =
     bindF (st32 (iov_base (rq_res rqstp)) p (htonl (ucast (dres_count res)))) (\<lambda>m.
     let rqstp = rqstp\<lparr>rq_res_page_len := page_len_of (p + 4)\<rparr> in
     Inr (ressize_check X rqstp m (p + 4)))"

section \<open>The directory filler\<close>

text \<open>The arguments a file system hands to the filler for one entry.\<close>

record dirent =
  de_name :: "byte list"
  de_namlen :: nat
  de_offset :: int
  de_ino :: u64
  de_type :: u32

text \<open>
  \<open>stk p\<close> are the eight bytes the stack slot of the local handle holds when the entry at
  offset \<open>p\<close> is written: the code prints the inode number into them and sends all eight.
\<close>

definition vsnfssvc_encode_entry ::
  "xdr_api \<Rightarrow> (nat \<Rightarrow> byte list) \<Rightarrow> dirent \<Rightarrow> mem \<times> vsnfsd_readdirres
   \<Rightarrow> ((mem \<times> vsnfsd_readdirres) \<times> int) run" where
  "vsnfssvc_encode_entry X stk d buf =
     (let (m, res) = buf; p = drr_buffer res in
      if 2 ^ 32 - 1 < de_offset d
      then Inr ((m, res\<lparr>drr_err := vsnfserr VSNFSERR_FBIG\<rparr>), - EINVAL)
      else
      bindF (case drr_offset res of
               None \<Rightarrow> Inr m
             | Some q \<Rightarrow> st32 m q (htonl (word_of_int (de_offset d)))) (\<lambda>m.
      let namlen = (if VSNFS_MAXNAMLEN < de_namlen d then VSNFS_MAXNAMLEN else de_namlen d);
          slen = XDR_QUADLEN (word_of_nat namlen);
          buflen = drr_buflen res - int slen - (5 + int (XDR_QUADLEN (word_of_nat VSNFS_FHSIZE)))
      in
      if buflen < 0
      then Inr ((m, res\<lparr>drr_err := vsnfserr VSNFSERR_TOOSMALL\<rparr>), - EINVAL)
      else if 2 ^ 32 - 1 < de_ino d
      then Inr ((m, res\<lparr>drr_err := vsnfserr VSNFSERR_FBIG\<rparr>), - EINVAL)
      else
      bindF (st32 m p (htonl 1)) (\<lambda>m.
      bindF (st32 m (p + 4) (htonl (ucast (de_ino d)))) (\<lambda>m.
      bindF (xdr_encode_array X m (p + 8) (de_name d) (word_of_nat namlen)) (\<lambda>(m, q).
      bindF (snprintf_ld (stk p) VSNFS_FHSIZE (de_ino d)) (\<lambda>data.
      let fh = \<lparr>fh_data = data, fh_type = de_type d\<rparr> in
      bindF (encode_fh m q fh) (\<lambda>(m, q).
      bindF (st32 m q (htonl (fh_type fh))) (\<lambda>m.
      bindF (st32 m (q + 4) (htonl (- 1))) (\<lambda>m.
      Inr ((m, res\<lparr>drr_offset := Some (q + 4), drr_buflen := buflen, drr_buffer := q + 8\<rparr>), 0))))))))))"

section \<open>Lemmas\<close>

lemma decode_fh_wire:
  assumes "fh_wf fh" and "holds m p (wire_fh fh)"
  shows "decode_fh m p = Inr (fh, p + length (wire_fh fh))"
proof -
  from assms have "mem_read m p 8 = Inr (fh_data fh)" and "ld32 m (p + 8) = Inr (htonl (fh_type fh))"
    by (simp_all add: wire_fh_def fh_wf_def holds_append mem_simps)
  with assms(1) show ?thesis by (simp add: decode_fh_def zero_fh_def)
qed

interpretation server_fh: codec wire_fh decode_fh fh_wf
  by unfold_locales (rule decode_fh_wire)

lemma decode_fh_InrD:
  assumes "decode_fh m p = Inr (fh, q)"
  shows "fh_wf fh \<and> q = p + 12 \<and> q \<le> length m"
proof -
  from assms obtain d t where "mem_read m p 8 = Inr d" and t: "ld32 m (p + 8) = Inr t"
    and fh: "fh = zero_fh\<lparr>fh_data := d, fh_type := ntohl t\<rparr>" and q: "q = p + 12"
    by (auto simp: decode_fh_def bindF_eq_Inr)
  then have "length d = 8" using read_holds by blast
  moreover have "p + 12 \<le> length m" using t ld32_cases [of m "p + 8"] by auto
  ultimately show ?thesis by (simp add: fh q fh_wf_def)
qed

text \<open>The scan finds exactly the names with a bad character among their first \<open>n\<close> bytes.\<close>

lemma name_scan_spec:
  "n \<le> length s \<Longrightarrow> name_scan bad s n = Inr (\<exists>c \<in> set (take n s). bad c)"
  by (induction bad s n rule: name_scan.induct) auto

lemma name_scan_False:
  "name_scan bad s n = Inr False \<Longrightarrow> n \<le> length s \<and> (\<forall>c \<in> set (take n s). \<not> bad c)"
  by (induction bad s n rule: name_scan.induct) (auto split: if_splits)

lemma page_len_of_eq: "0 < p \<Longrightarrow> p \<le> PAGE_SIZE \<Longrightarrow> page_len_of p = p"
  by (cases p) (simp_all add: page_len_of_def)

end
