(* ===== verification/Server.thy ===== *)
theory Server
  imports ServerXdr Errno
begin

text \<open>
  What the server relies on from the kernel, and the state it keeps: the interface to the file
  system, the memory allocator and the number parser as parameters (\<open>vfs_api\<close>) with their
  documented behaviour (\<open>kernel_vfs\<close>), the table that maps inode numbers to path names, and the
  mapping between file handles and table entries.
\<close>

unbundle bit_operations_syntax

section \<open>Inodes and files\<close>

record inode =
  i_ino :: u64
  i_mode :: u32

text \<open>A dentry is known by its inode, \<open>None\<close> when \<open>d_inode\<close> is NULL.\<close>

type_synonym dentry = "inode option"

definition S_ISREG :: "u32 \<Rightarrow> bool" where "S_ISREG m \<longleftrightarrow> m AND 0xF000 = 0x8000"
definition S_ISDIR :: "u32 \<Rightarrow> bool" where "S_ISDIR m \<longleftrightarrow> m AND 0xF000 = 0x4000"

type_synonym filep = nat

section \<open>The kernel services the server calls\<close>

text \<open>The places in the source that allocate memory.\<close>

datatype alloc_site =
    OpenPath
  | LookupPath | LookupNd | LookupNode | LookupNodePath
  | RootNd | RootPath | RootNode | RootNodePath

type_synonym dirbuf = "mem \<times> vsnfsd_readdirres"

text \<open>
  \<open>kmalloc\<close> gives the contents of the new object or \<open>None\<close>.  \<open>path_lookup\<close> gives the return value
  and the dentry in the name data, \<open>None\<close> where there is none to use.  \<open>vfs_read\<close> gives the
  new contents of the buffer, the return value and the new position.  \<open>stk_fh\<close> and
  \<open>stk_pos\<close> are the contents of stack slots the code uses without initialising them.
\<close>

record vfs_api =
  kmalloc :: "alloc_site \<Rightarrow> nat \<Rightarrow> mem option"
  simple_strtoul :: "byte list \<Rightarrow> u64"
  path_lookup :: "byte list \<Rightarrow> int \<times> dentry option"
  filp_open :: "byte list \<Rightarrow> filep err_ptr"
  filp_close :: "filep \<Rightarrow> int"
  vfs_readdir :: "filep \<Rightarrow> (dirent \<Rightarrow> dirbuf \<Rightarrow> (dirbuf \<times> int) run) \<Rightarrow> dirbuf \<Rightarrow> (dirbuf \<times> int) run"
  vfs_read :: "filep \<Rightarrow> mem \<Rightarrow> nat \<Rightarrow> int \<Rightarrow> mem \<times> int \<times> int"
  svc_reserve_auth :: "svc_rqst \<Rightarrow> u32 \<Rightarrow> svc_rqst"
  stk_fh :: "nat \<Rightarrow> byte list"
  stk_pos :: int

section \<open>State of the server\<close>

record lp_node =
  n_ino :: u64
  n_path :: "byte list"

text \<open>
  \<open>lp_tab\<close> is the list behind \<open>vsnfs_lp_tab.list\<close>, \<open>None\<close> while the list head still holds the
  zeros it starts with.  The counters are the live allocations, the dentry references and the
  open files the server holds.
\<close>

record srv =
  lp_tab :: "lp_node list option"
  s_kmem :: int
  s_drefs :: int
  s_files :: int

text \<open>The search loops \<open>list_for_each_entry\<close> over the table, and \<open>list_add\<close>.\<close>

fun lp_find :: "lp_node list \<Rightarrow> u64 \<Rightarrow> lp_node option" where
  "lp_find [] ino = None"
| "lp_find (node # tab) ino = (if n_ino node = ino then Some node else lp_find tab ino)"

definition lp_add :: "lp_node \<Rightarrow> lp_node list \<Rightarrow> lp_node list" where
  "lp_add node tab = node # tab"

text \<open>The memory from the first byte of a handle on, as \<open>simple_strtoul\<close> sees it.\<close>

definition fh_mem :: "vsnfs_fh \<Rightarrow> byte list" where
  "fh_mem fh = fh_data fh @ le_bytes (fh_type fh)"

text \<open>Passing a buffer as a C string: it has to be terminated.\<close>

definition as_cstr :: "mem \<Rightarrow> byte list run" where
  "as_cstr m = bindF (strlen m) (\<lambda>n. Inr (take n m))"

section \<open>From a handle to a path\<close>

definition vsnfsd_fh_to_path :: "vfs_api \<Rightarrow> srv \<Rightarrow> vsnfs_fh \<Rightarrow> mem \<Rightarrow> nat \<Rightarrow> (int \<times> mem) run" where
  "vsnfsd_fh_to_path V s fh path len =
     (let ino = simple_strtoul V (fh_mem fh) in
      if ino = 0 then Inr (- 1, path)
      else bindF (deref (lp_tab s)) (\<lambda>tab.
        case lp_find tab ino of
          Some node \<Rightarrow> bindF (strncpy path (n_path node @ [0]) len) (\<lambda>path. Inr (0, path))
        | None \<Rightarrow> Inr (- 1, path)))"

section \<open>Opening, listing and reading files\<close>

definition vsnfsd_open :: "vfs_api \<Rightarrow> srv \<Rightarrow> vsnfs_fh \<Rightarrow> (srv \<times> be32 \<times> filep option) run" where
  "vsnfsd_open V s fhp =
     (case kmalloc V OpenPath VSNFS_MAXPATHLEN of
        None \<Rightarrow> Inr (s, vsnfserr VSNFSERR_NOSPC, None)
      | Some path \<Rightarrow>
          bindF (vsnfsd_fh_to_path V s fhp path VSNFS_MAXPATHLEN) (\<lambda>(ret, path).
          if ret \<noteq> 0 then Inr (s, vsnfserr VSNFSERR_NOENT, None)
          else bindF (as_cstr path) (\<lambda>name.
            case filp_open V name of
              ErrPtr e \<Rightarrow> Inr (s, vsnfserr VSNFSERR_IO, None)
            | Ptr filp \<Rightarrow> Inr (s\<lparr>s_files := s_files s + 1\<rparr>, vsnfs_ok, Some filp))))"

definition vsnfsd_close :: "vfs_api \<Rightarrow> srv \<Rightarrow> filep \<Rightarrow> srv \<times> be32" where
  "vsnfsd_close V s filp =
     (s\<lparr>s_files := s_files s - 1\<rparr>,
      if filp_close V filp \<noteq> 0 then vsnfserr VSNFSERR_IO else vsnfs_ok)"

definition vsnfsd_readdir ::
  "xdr_api \<Rightarrow> vfs_api \<Rightarrow> srv \<Rightarrow> vsnfs_fh \<Rightarrow> dirbuf \<Rightarrow> (srv \<times> dirbuf \<times> be32) run" where
  "vsnfsd_readdir X V s fhp buf =
     bindF (vsnfsd_open V s fhp) (\<lambda>(s, err, filp).
     if err \<noteq> 0 then Inr (s, buf, err)
     else bindF (deref filp) (\<lambda>file.
       bindF (vfs_readdir V file (vsnfssvc_encode_entry X (stk_fh V)) buf) (\<lambda>(buf, ret).
       let err = (if ret < 0 then vsnfserrno ret else err);
           (s, _) = vsnfsd_close V s file
       in Inr (s, buf, err))))"

definition vsnfsd_read ::
  "vfs_api \<Rightarrow> srv \<Rightarrow> vsnfs_fh \<Rightarrow> mem \<Rightarrow> nat \<Rightarrow> int \<Rightarrow> (srv \<times> mem \<times> int \<times> be32) run" where
  "vsnfsd_read V s fhp buffer count pos =
     bindF (vsnfsd_open V s fhp) (\<lambda>(s, err, filp).
     if err \<noteq> vsnfs_ok then Inr (s, buffer, pos, err)
     else bindF (deref filp) (\<lambda>file.
       let (buffer, host_err, pos) = vfs_read V file buffer count pos;
           (pos, err) = (if host_err \<ge> 0 then (host_err, err) else (pos, vsnfserrno host_err));
           (s, _) = vsnfsd_close V s file
       in Inr (s, buffer, pos, err)))"

section \<open>What the kernel promises\<close>

locale kernel_vfs =
  fixes V :: vfs_api
  assumes kmalloc_size: "kmalloc V site n = Some m \<Longrightarrow> length m = n"
    and strtoul_decimal: "n < 2 ^ 64 \<Longrightarrow> simple_strtoul V (dec_digits n @ 0 # r) = word_of_nat n"
    and strtoul_empty: "simple_strtoul V (0 # r) = 0"
    and path_lookup_result:
      "path_lookup V p = (ret, d) \<Longrightarrow> (ret = 0 \<and> (\<exists>i. d = Some (Some i))) \<or> (ret < 0 \<and> d = None)"
    and path_lookup_slash:
      "path_lookup V p = (0, Some (Some i)) \<Longrightarrow> S_ISDIR (i_mode i) \<Longrightarrow>
       path_lookup V (p @ [SLASH]) = (0, Some (Some i))"
    and stack_size: "length (stk_fh V q) = VSNFS_FHSIZE"

text \<open>
  Enumerating a directory: the file system calls the filler on the entries in order.  When the filler refuses one
  it reports success; otherwise it gives \<open>err\<close> once it can read no more: 0 at the end of the directory, a negative
  error number where reading failed, as for a file that is no directory (\<open>- ENOTDIR\<close>, with no entries) or a
  medium that cannot be read.
\<close>

fun readdir_iter ::
  "(dirent \<Rightarrow> 'b \<Rightarrow> ('b \<times> int) run) \<Rightarrow> int \<Rightarrow> dirent list \<Rightarrow> 'b \<Rightarrow> ('b \<times> int) run" where
  "readdir_iter filler err [] b = Inr (b, err)"
| "readdir_iter filler err (d # ds) b =
     bindF (filler d b) (\<lambda>(b, ret). if ret \<noteq> 0 then Inr (b, 0) else readdir_iter filler err ds b)"

locale kernel_readdir = kernel_vfs +
  fixes entries :: "filep \<Rightarrow> dirent list"
    and rd_err :: "filep \<Rightarrow> int"
  assumes readdir_entries: "vfs_readdir V file filler b = readdir_iter filler (rd_err file) (entries file) b"
    and rd_err_sign: "rd_err file \<le> 0"
    and entries_valid: "d \<in> set (entries file) \<Longrightarrow> de_namlen d \<le> length (de_name d)"

section \<open>The table as an interface\<close>

text \<open>
  What the server needs of its table: an entry is found after it was added, adding does not
  disturb other keys, and only what was added is found.
\<close>

locale ino_table =
  fixes find :: "'t \<Rightarrow> 'k \<Rightarrow> 'n option"
    and add :: "'n \<Rightarrow> 't \<Rightarrow> 't"
    and empty :: 't
    and key :: "'n \<Rightarrow> 'k"
    and entries :: "'t \<Rightarrow> 'n set"
  assumes find_empty: "find empty k = None"
    and find_add: "find (add n t) k = (if key n = k then Some n else find t k)"
    and entries_empty: "entries empty = {}"
    and entries_add: "entries (add n t) = insert n (entries t)"
    and find_entry: "find t k = Some n \<Longrightarrow> n \<in> entries t \<and> key n = k"
begin

text \<open>Adding under a fresh key keeps every answer the table gave before.\<close>

lemma add_fresh_keeps: "find t (key m) = None \<Longrightarrow> find t k = Some n \<Longrightarrow> find (add m t) k = Some n"
  by (auto simp: find_add)

text \<open>A property of all entries survives adding an entry that has it, and holds of what is found.\<close>

lemma add_ball: "(\<forall>n \<in> entries (add m t). P n) \<longleftrightarrow> P m \<and> (\<forall>n \<in> entries t. P n)"
  by (simp add: entries_add)

lemma find_ball: "\<forall>n \<in> entries t. P n \<Longrightarrow> find t k = Some n \<Longrightarrow> P n \<and> key n = k"
  using find_entry by blast

lemma find_singleton: "find (add n empty) k = (if key n = k then Some n else None)"
  by (simp add: find_add find_empty)

end

lemma lp_find_entry: "lp_find tab ino = Some node \<Longrightarrow> node \<in> set tab \<and> n_ino node = ino"
  by (induction tab ino rule: lp_find.induct) (auto split: if_splits)

interpretation lp: ino_table lp_find lp_add "[]" n_ino set
  by unfold_locales (auto simp: lp_add_def dest: lp_find_entry)

lemma lp_find_None_iff: "lp_find tab ino = None \<longleftrightarrow> ino \<notin> n_ino ` set tab"
  by (induction tab ino rule: lp_find.induct) auto

end
