(* ===== verification/ServerProc.thy ===== *)
theory ServerProc
  imports Server
begin

text \<open>
  \<open>server/vsnfsproc.c\<close>: the five procedures of the server.  Each takes the state of the server and the
  decoded arguments and gives the new state, the result structure and the status as the
  \<open>__be32\<close> the code returns, which need not be a status of the protocol: the code negates swapped
  values and stores host errors into it.
\<close>

section \<open>NULL\<close>

definition vsnfsd_proc_null :: "vsnfsd_nullargs \<Rightarrow> vsnfsd_nullres \<Rightarrow> vsnfsd_nullres \<times> be32" where
  "vsnfsd_proc_null argp resp = (resp\<lparr>dnr_dummy := dna_dummy argp + 1\<rparr>, vsnfs_ok)"

section \<open>LOOKUP\<close>

text \<open>The file type stored into the handle; the field stays for other kinds of files.\<close>

definition type_of_inode :: "inode \<Rightarrow> u32 \<Rightarrow> u32" where
  "type_of_inode i old =
     (if S_ISREG (i_mode i) then VSNFS_REG else if S_ISDIR (i_mode i) then VSNFS_DIR else old)"

text \<open>The path of the directory with the name appended, in the buffer of \<open>VSNFS_MAXPATHLEN + 1\<close> bytes.\<close>

definition lookup_path :: "mem \<Rightarrow> lp_node \<Rightarrow> vsnfsd_lookupargs \<Rightarrow> mem run" where
  "lookup_path path node argp =
     (let len = length (n_path node) in
      bindF (mem_write path 0 (n_path node @ [0])) (\<lambda>path.
      bindF (strchr path 0) (\<lambda>nullt.
      bindF (deref nullt) (\<lambda>at.
      bindF (memcpy path at (dla_filename argp) 0 (unat (dla_len argp))) (\<lambda>path.
      mem_write path (unat (dla_len argp) + len) [0])))))"

text \<open>A directory's path gets a slash at its end.\<close>

definition add_slash :: "mem \<Rightarrow> mem run" where
  "add_slash path =
     bindF (strlen path) (\<lambda>len.
     bindF (check OutOfBounds (0 < len)) (\<lambda>_.
     bindF (byte_at path (len - 1)) (\<lambda>c.
     if c \<noteq> SLASH
     then bindF (mem_write path len [SLASH]) (\<lambda>path. mem_write path (len + 1) [0])
     else Inr path)))"

text \<open>
  Entering a new inode into the table.  The node's allocation is not checked; when the second
  one fails the node is neither linked nor freed.
\<close>

definition lookup_add :: "vfs_api \<Rightarrow> srv \<Rightarrow> lp_node list \<Rightarrow> u64 \<Rightarrow> mem \<Rightarrow> be32 \<Rightarrow> (srv \<times> be32) run" where
  "lookup_add V s tab ino path rc =
     bindF (deref (kmalloc V LookupNode 0)) (\<lambda>_.
     let s = s\<lparr>s_kmem := s_kmem s + 1\<rparr> in
     bindF (strlen path) (\<lambda>len.
     case kmalloc V LookupNodePath (len + 2) of
       None \<Rightarrow> Inr (s, - vsnfserr VSNFSERR_NOSPC)
     | Some npath \<Rightarrow>
         bindF (memcpy npath 0 path 0 (len + 1)) (\<lambda>npath.
         Inr (s\<lparr>s_kmem := s_kmem s + 1,
                lp_tab := Some (lp_add \<lparr>n_ino = ino, n_path = cstr npath\<rparr> tab)\<rparr>, rc))))"

text \<open>
  From the assembled path on: resolve it, fill in the handle and enter the inode into the table
  unless it is there.  \<open>rc\<close> is unsigned, so the test for a failed look-up never holds and the
  dentry is used whatever \<open>path_lookup\<close> said.
\<close>

definition lookup_resolve ::
  "vfs_api \<Rightarrow> srv \<Rightarrow> lp_node list \<Rightarrow> mem \<Rightarrow> vsnfs_fh \<Rightarrow> (srv \<times> vsnfs_fh \<times> be32) run" where
  "lookup_resolve V s tab path resp =
     (case kmalloc V LookupNd 0 of
        None \<Rightarrow> Inr (s, resp, - vsnfserr VSNFSERR_NOSPC)
      | Some nd \<Rightarrow>
      bindF (as_cstr path) (\<lambda>name.
      let (ret, dentry) = path_lookup V name; rc = word_of_int ret in
      bindF (deref dentry) (\<lambda>d_inode.
      bindF (deref d_inode) (\<lambda>i.
      let s = s\<lparr>s_drefs := s_drefs s + 1\<rparr> in
      bindF (snprintf_ld (fh_data resp) VSNFS_FHSIZE (i_ino i)) (\<lambda>data.
      let resp = \<lparr>fh_data = data, fh_type = type_of_inode i (fh_type resp)\<rparr> in
      bindF (if \<not> S_ISREG (i_mode i) \<and> S_ISDIR (i_mode i) then add_slash path else Inr path) (\<lambda>path.
      bindF (case lp_find tab (i_ino i) of
               Some _ \<Rightarrow> Inr (s, rc)
             | None \<Rightarrow> lookup_add V s tab (i_ino i) path rc) (\<lambda>(s, rc).
      Inr (s\<lparr>s_drefs := s_drefs s - 1\<rparr>, resp, rc))))))))"

definition vsnfsd_proc_lookup ::
  "vfs_api \<Rightarrow> srv \<Rightarrow> vsnfsd_lookupargs \<Rightarrow> vsnfs_fh \<Rightarrow> (srv \<times> vsnfs_fh \<times> be32) run" where
  "vsnfsd_proc_lookup V s argp resp =
     (let ino = simple_strtoul V (fh_mem (dla_fh argp)) in
      bindF (deref (lp_tab s)) (\<lambda>tab.
      case lp_find tab ino of
        None \<Rightarrow> Inr (s, resp, vsnfs_ok)
      | Some node \<Rightarrow>
      case kmalloc V LookupPath (VSNFS_MAXPATHLEN + 1) of
        None \<Rightarrow> Inr (s, resp, - vsnfserr VSNFSERR_NOSPC)
      | Some path \<Rightarrow>
      bindF (lookup_path path node argp) (\<lambda>path.
      lookup_resolve V s tab path resp)))"

section \<open>GETROOT\<close>

text \<open>The path copied and closed with a slash; \<open>path[argp->len - 1]\<close> is outside for an empty path.\<close>

definition root_path :: "mem \<Rightarrow> vsnfsd_getrootargs \<Rightarrow> mem run" where
  "root_path path argp =
     (let len = unat (dga_len argp) in
      bindF (memcpy path 0 (dga_path argp) 0 len) (\<lambda>path.
      bindF (check OutOfBounds (0 < len)) (\<lambda>_.
      bindF (byte_at path (len - 1)) (\<lambda>c.
      if c \<noteq> SLASH
      then bindF (mem_write path len [SLASH]) (\<lambda>path. mem_write path (len + 1) [0])
      else mem_write path len [0]))))"

definition vsnfsd_proc_getroot ::
  "vfs_api \<Rightarrow> srv \<Rightarrow> vsnfsd_getrootargs \<Rightarrow> vsnfs_fh \<Rightarrow> (srv \<times> vsnfs_fh \<times> be32) run" where
  "vsnfsd_proc_getroot V s argp resp =
     (case kmalloc V RootNd 0 of
        None \<Rightarrow> Inr (s, resp, - vsnfserr VSNFSERR_NOSPC)
      | Some nd \<Rightarrow>
      case kmalloc V RootPath (unat (dga_len argp) + 2) of
        None \<Rightarrow> Inr (s, resp, - vsnfserr VSNFSERR_NOSPC)
      | Some path \<Rightarrow>
      bindF (root_path path argp) (\<lambda>path.
      bindF (as_cstr path) (\<lambda>name.
      let (r, root) = path_lookup V name; ret = word_of_int r in
      bindF (deref root) (\<lambda>d_inode.
      bindF (deref d_inode) (\<lambda>i.
      let s = s\<lparr>s_drefs := s_drefs s + 1\<rparr> in
      bindF (snprintf_ld (fh_data resp) VSNFS_FHSIZE (i_ino i)) (\<lambda>data.
      let resp = resp\<lparr>fh_data := data\<rparr> in
      if S_ISREG (i_mode i) then Inr (s\<lparr>s_drefs := s_drefs s - 1\<rparr>, resp, - vsnfserr VSNFSERR_NOTDIR)
      else
      let resp = (if S_ISDIR (i_mode i) then resp\<lparr>fh_type := VSNFS_DIR\<rparr> else resp);
          s = s\<lparr>lp_tab := Some []\<rparr>
      in
      bindF (deref (kmalloc V RootNode 0)) (\<lambda>_.
      let s = s\<lparr>s_kmem := s_kmem s + 1\<rparr> in
      case kmalloc V RootNodePath (unat (dga_len argp) + 2) of
        None \<Rightarrow> Inr (s\<lparr>s_drefs := s_drefs s - 1\<rparr>, resp, - vsnfserr VSNFSERR_NOSPC)
      | Some npath \<Rightarrow>
      bindF (memcpy npath 0 path 0 (length name + 1)) (\<lambda>npath.
      Inr (s\<lparr>s_kmem := s_kmem s + 1, s_drefs := s_drefs s - 1,
             lp_tab := Some (lp_add \<lparr>n_ino = i_ino i, n_path = cstr npath\<rparr> [])\<rparr>,
           resp, ret)))))))))"

section \<open>READDIR\<close>

definition vsnfsd_proc_readdir ::
  "xdr_api \<Rightarrow> vfs_api \<Rightarrow> srv \<Rightarrow> mem \<Rightarrow> vsnfsd_readdirargs \<Rightarrow> vsnfsd_readdirres
   \<Rightarrow> (srv \<times> mem \<times> vsnfsd_readdirres \<times> be32) run" where
  "vsnfsd_proc_readdir X V s page argp resp =
     (let count = int (unat (drda_count argp) div 4) - 2;
          count = (if count < 0 then 0 else count);
          resp = resp\<lparr>drr_buffer := 0, drr_offset := None, drr_buflen := count, drr_err := vsnfs_ok\<rparr>
      in
      bindF (vsnfsd_readdir X V s (drda_fh argp) (page, resp)) (\<lambda>(s, (page, resp), vfserr).
      let resp = (if vfserr \<noteq> 0 \<and> drr_err resp = vsnfs_ok then resp\<lparr>drr_err := vfserr\<rparr> else resp);
          resp = resp\<lparr>drr_count := int (drr_buffer resp div 4)\<rparr>
      in Inr (s, page, resp, vfserr)))"

section \<open>READ\<close>

text \<open>The local \<open>pos\<close> is handed to the read before anything is stored into it.\<close>

definition vsnfsd_proc_read ::
  "vfs_api \<Rightarrow> srv \<Rightarrow> svc_rqst \<Rightarrow> mem \<Rightarrow> vsnfsd_readargs \<Rightarrow> vsnfsd_readres
   \<Rightarrow> (srv \<times> svc_rqst \<times> mem \<times> vsnfsd_readres \<times> be32) run" where
  "vsnfsd_proc_read V s rqstp page argp resp =
     (let rqstp = svc_reserve_auth V rqstp (2 + dra_count argp) in
      bindF (vsnfsd_read V s (dra_fh argp) page (unat (dra_count argp)) (stk_pos V)) (\<lambda>(s, page, pos, err).
      Inr (s, rqstp, page, resp\<lparr>dres_count := word_of_int pos\<rparr>, err)))"

section \<open>Shutting down\<close>

text \<open>\<open>vsnfsd_last_thread\<close> of \<open>server/vsnfssvc.c\<close>: every node and its path are freed.\<close>

fun free_nodes :: "lp_node list \<Rightarrow> srv \<Rightarrow> srv" where
  "free_nodes [] s = s\<lparr>lp_tab := Some []\<rparr>"
| "free_nodes (node # tab) s = free_nodes tab (s\<lparr>s_kmem := s_kmem s - 2\<rparr>)"

end
