(* ===== verification/ServerSvc.thy ===== *)
theory ServerSvc
  imports ServerProc
begin

text \<open>
  The server as an RPC service: the procedure table of \<open>server/vsnfsproc.c\<close>, and
  \<open>server/vsnfssvc.c\<close>: dispatching a request, the loop of the daemon, starting and stopping the
  service.

  The procedures have different argument and result structures, which the source hides behind casts
  of function pointers.  Here they are the two sums \<open>svc_args\<close> and \<open>svc_res\<close>; a function that is
  handed the wrong structure faults.
\<close>

section \<open>The procedure table\<close>

datatype svc_args =
    ANull vsnfsd_nullargs
  | AGetroot vsnfsd_getrootargs
  | ALookup vsnfsd_lookupargs
  | AReaddir vsnfsd_readdirargs
  | ARead vsnfsd_readargs

text \<open>The pointer \<open>buffer\<close> in the result of READDIR is a page and an offset into it.\<close>

datatype svc_res =
    NullRes vsnfsd_nullres
  | FhRes vsnfs_fh
  | ReaddirRes nat vsnfsd_readdirres
  | ReadRes vsnfsd_readres

text \<open>The zeroed result structure a procedure is handed.\<close>

definition zero_nullres :: svc_res where "zero_nullres = NullRes \<lparr>dnr_dummy = 0\<rparr>"
definition zero_fhres :: svc_res where "zero_fhres = FhRes zero_fh"
definition zero_readdirres :: svc_res where
  "zero_readdirres = ReaddirRes 0
     \<lparr>drr_count = 0, drr_err = 0, drr_buffer = 0, drr_buflen = 0, drr_offset = None\<rparr>"
definition zero_readres :: svc_res where "zero_readres = ReadRes \<lparr>dres_count = 0\<rparr>"

record svc_procedure =
  pc_func :: "xdr_api \<Rightarrow> vfs_api \<Rightarrow> srv \<Rightarrow> svc_rqst \<Rightarrow> svc_args \<Rightarrow> svc_res
              \<Rightarrow> (srv \<times> svc_rqst \<times> svc_res \<times> be32) run"
  pc_decode :: "xdr_api \<Rightarrow> svc_rqst \<Rightarrow> nat \<Rightarrow> (svc_rqst \<times> svc_args option) run"
  pc_encode :: "xdr_api \<Rightarrow> svc_rqst \<Rightarrow> nat \<Rightarrow> svc_res \<Rightarrow> (svc_rqst \<times> bool) run"
  pc_zero :: svc_res
  pc_argsize :: "nat \<Rightarrow> nat"
  pc_ressize :: "nat \<Rightarrow> nat"
  pc_xdrressize :: nat

text \<open>
  The size of a structure, from the sizes and alignments of its fields: every field at the next
  multiple of its alignment, the whole rounded up to the largest alignment.  Pointers and \<open>unsigned long\<close> have the size
  \<open>w\<close> of the machine's words, 4 or 8.
\<close>

definition round_up :: "nat \<Rightarrow> nat \<Rightarrow> nat" where
  "round_up n a = (n + a - 1) div a * a"

definition sizeof :: "(nat \<times> nat) list \<Rightarrow> nat" where
  "sizeof flds =
     round_up (foldl (\<lambda>off (size, align). round_up off align + size) 0 flds) (Max (snd ` set flds))"

abbreviation (input) c_int :: "nat \<times> nat" where "c_int \<equiv> (4, 4)"
abbreviation (input) c_ptr :: "nat \<Rightarrow> nat \<times> nat" where "c_ptr w \<equiv> (w, w)"
abbreviation (input) c_long :: "nat \<Rightarrow> nat \<times> nat" where "c_long w \<equiv> (w, w)"
abbreviation (input) c_fh :: "nat \<times> nat" where "c_fh \<equiv> (VSNFS_FHSIZE + 4, 4)"

definition sizeof_nullargs :: "nat \<Rightarrow> nat" where "sizeof_nullargs w = sizeof [c_int]"
definition sizeof_nullres :: "nat \<Rightarrow> nat" where "sizeof_nullres w = sizeof [c_int]"
definition sizeof_getrootargs :: "nat \<Rightarrow> nat" where "sizeof_getrootargs w = sizeof [c_ptr w, c_int]"
definition sizeof_lookupargs :: "nat \<Rightarrow> nat" where "sizeof_lookupargs w = sizeof [c_fh, c_ptr w, c_int]"
definition sizeof_readdirargs :: "nat \<Rightarrow> nat" where "sizeof_readdirargs w = sizeof [c_fh, c_int, c_ptr w]"
definition sizeof_readdirres :: "nat \<Rightarrow> nat" where "sizeof_readdirres w = sizeof [c_int, c_int, c_ptr w, c_int, c_ptr w]"
definition sizeof_readargs :: "nat \<Rightarrow> nat" where "sizeof_readargs w = sizeof [c_fh, c_int, c_int, c_ptr w]"
definition sizeof_readres :: "nat \<Rightarrow> nat" where "sizeof_readres w = sizeof [c_long w]"
definition sizeof_fh :: "nat \<Rightarrow> nat" where "sizeof_fh w = sizeof [(VSNFS_FHSIZE, 1), c_int]"

text \<open>The union \<open>vsnfsd_xdrstore\<close>, which has no member for the arguments of READ nor for any result.\<close>

definition VSNFS_SVC_XDRSIZE :: "nat \<Rightarrow> nat" where
  "VSNFS_SVC_XDRSIZE w =
     Max {sizeof_nullargs w, sizeof_getrootargs w, sizeof_lookupargs w, sizeof_readdirargs w}"

abbreviation (input) VSNFSSVC_MAXBLKSIZE :: nat where "VSNFSSVC_MAXBLKSIZE \<equiv> 8 * 1024"
abbreviation (input) VSNFS_NRSERVS :: int where "VSNFS_NRSERVS \<equiv> 1"

text \<open>Calls through the casts \<open>svc_procfunc\<close> and \<open>kxdrproc_t\<close>.\<close>

definition dec_as ::
  "('a \<Rightarrow> svc_args) \<Rightarrow> (svc_rqst \<times> 'a option) run \<Rightarrow> (svc_rqst \<times> svc_args option) run" where
  "dec_as con r = bindF r (\<lambda>(rqstp, a). Inr (rqstp, map_option con a))"

definition func_null ::
  "xdr_api \<Rightarrow> vfs_api \<Rightarrow> srv \<Rightarrow> svc_rqst \<Rightarrow> svc_args \<Rightarrow> svc_res
   \<Rightarrow> (srv \<times> svc_rqst \<times> svc_res \<times> be32) run" where
  "func_null X V s rqstp a r =
     (case (a, r) of
        (ANull argp, NullRes resp) \<Rightarrow>
          (let (resp, e) = vsnfsd_proc_null argp resp in Inr (s, rqstp, NullRes resp, e))
      | _ \<Rightarrow> Inl BadDeref)"

definition func_getroot ::
  "xdr_api \<Rightarrow> vfs_api \<Rightarrow> srv \<Rightarrow> svc_rqst \<Rightarrow> svc_args \<Rightarrow> svc_res
   \<Rightarrow> (srv \<times> svc_rqst \<times> svc_res \<times> be32) run" where
  "func_getroot X V s rqstp a r =
     (case (a, r) of
        (AGetroot argp, FhRes resp) \<Rightarrow>
          bindF (vsnfsd_proc_getroot V s argp resp) (\<lambda>(s, resp, e). Inr (s, rqstp, FhRes resp, e))
      | _ \<Rightarrow> Inl BadDeref)"

definition func_lookup ::
  "xdr_api \<Rightarrow> vfs_api \<Rightarrow> srv \<Rightarrow> svc_rqst \<Rightarrow> svc_args \<Rightarrow> svc_res
   \<Rightarrow> (srv \<times> svc_rqst \<times> svc_res \<times> be32) run" where
  "func_lookup X V s rqstp a r =
     (case (a, r) of
        (ALookup argp, FhRes resp) \<Rightarrow>
          bindF (vsnfsd_proc_lookup V s argp resp) (\<lambda>(s, resp, e). Inr (s, rqstp, FhRes resp, e))
      | _ \<Rightarrow> Inl BadDeref)"

text \<open>A reply page by its number, and storing it back.\<close>

definition get_page :: "svc_rqst \<Rightarrow> nat \<Rightarrow> mem run" where
  "get_page rqstp n =
     (if n < length (rq_respages rqstp) then Inr (rq_respages rqstp ! n) else Inl OutOfBounds)"

definition put_page :: "svc_rqst \<Rightarrow> nat \<Rightarrow> mem \<Rightarrow> svc_rqst" where
  "put_page rqstp n page = rqstp\<lparr>rq_respages := (rq_respages rqstp)[n := page]\<rparr>"

definition func_readdir ::
  "xdr_api \<Rightarrow> vfs_api \<Rightarrow> srv \<Rightarrow> svc_rqst \<Rightarrow> svc_args \<Rightarrow> svc_res
   \<Rightarrow> (srv \<times> svc_rqst \<times> svc_res \<times> be32) run" where
  "func_readdir X V s rqstp a r =
     (case (a, r) of
        (AReaddir argp, ReaddirRes _ resp) \<Rightarrow>
          bindF (get_page rqstp (drda_buffer argp)) (\<lambda>page.
          bindF (vsnfsd_proc_readdir X V s page argp resp) (\<lambda>(s, page, resp, e).
          Inr (s, put_page rqstp (drda_buffer argp) page, ReaddirRes (drda_buffer argp) resp, e)))
      | _ \<Rightarrow> Inl BadDeref)"

definition func_read ::
  "xdr_api \<Rightarrow> vfs_api \<Rightarrow> srv \<Rightarrow> svc_rqst \<Rightarrow> svc_args \<Rightarrow> svc_res
   \<Rightarrow> (srv \<times> svc_rqst \<times> svc_res \<times> be32) run" where
  "func_read X V s rqstp a r =
     (case (a, r) of
        (ARead argp, ReadRes resp) \<Rightarrow>
          bindF (get_page rqstp (dra_buffer argp)) (\<lambda>page.
          bindF (vsnfsd_proc_read V s rqstp page argp resp) (\<lambda>(s, rqstp, page, resp, e).
          Inr (s, put_page rqstp (dra_buffer argp) page, ReadRes resp, e)))
      | _ \<Rightarrow> Inl BadDeref)"

definition enc_null :: "xdr_api \<Rightarrow> svc_rqst \<Rightarrow> nat \<Rightarrow> svc_res \<Rightarrow> (svc_rqst \<times> bool) run" where
  "enc_null X rqstp p r =
     (case r of NullRes resp \<Rightarrow> vsnfssvc_encode_nullres X rqstp p resp | _ \<Rightarrow> Inl BadDeref)"

definition enc_fh :: "xdr_api \<Rightarrow> svc_rqst \<Rightarrow> nat \<Rightarrow> svc_res \<Rightarrow> (svc_rqst \<times> bool) run" where
  "enc_fh X rqstp p r =
     (case r of FhRes resp \<Rightarrow> vsnfssvc_encode_fhandle X rqstp p resp | _ \<Rightarrow> Inl BadDeref)"

definition enc_readdir :: "xdr_api \<Rightarrow> svc_rqst \<Rightarrow> nat \<Rightarrow> svc_res \<Rightarrow> (svc_rqst \<times> bool) run" where
  "enc_readdir X rqstp p r =
     (case r of
        ReaddirRes n resp \<Rightarrow>
          bindF (get_page rqstp n) (\<lambda>page.
          bindF (vsnfssvc_encode_readdirres X rqstp p page resp) (\<lambda>(rqstp, page, ok).
          Inr (put_page rqstp n page, ok)))
      | _ \<Rightarrow> Inl BadDeref)"

definition enc_read :: "xdr_api \<Rightarrow> svc_rqst \<Rightarrow> nat \<Rightarrow> svc_res \<Rightarrow> (svc_rqst \<times> bool) run" where
  "enc_read X rqstp p r =
     (case r of ReadRes resp \<Rightarrow> vsnfssvc_encode_readres X rqstp p resp | _ \<Rightarrow> Inl BadDeref)"

text \<open>The entries of \<open>vsnfsd_procedures1\<close>; the slots without an initialiser have no function.\<close>

definition vsnfsd_procedures1 :: "nat \<Rightarrow> svc_procedure option" where
  "vsnfsd_procedures1 n =
     (if n = VSNFSPROC_NULL then Some
        \<lparr>pc_func = func_null, pc_decode = (\<lambda>X r p. dec_as ANull (vsnfssvc_decode_nullargs X r p)),
         pc_encode = enc_null, pc_zero = zero_nullres,
         pc_argsize = sizeof_nullargs, pc_ressize = sizeof_nullres, pc_xdrressize = 1 + 1\<rparr>
      else if n = VSNFSPROC_GETROOT then Some
        \<lparr>pc_func = func_getroot,
         pc_decode = (\<lambda>X r p. dec_as AGetroot (vsnfssvc_decode_getrootargs X r p)),
         pc_encode = enc_fh, pc_zero = zero_fhres,
         pc_argsize = sizeof_getrootargs, pc_ressize = sizeof_fh, pc_xdrressize = 1 + 8\<rparr>
      else if n = VSNFSPROC_LOOKUP then Some
        \<lparr>pc_func = func_lookup,
         pc_decode = (\<lambda>X r p. dec_as ALookup (vsnfssvc_decode_lookupargs X r p)),
         pc_encode = enc_fh, pc_zero = zero_fhres,
         pc_argsize = sizeof_lookupargs, pc_ressize = sizeof_fh, pc_xdrressize = 1 + 8\<rparr>
      else if n = VSNFSPROC_READDIR then Some
        \<lparr>pc_func = func_readdir,
         pc_decode = (\<lambda>X r p. dec_as AReaddir (vsnfssvc_decode_readdirargs X r p)),
         pc_encode = enc_readdir, pc_zero = zero_readdirres,
         pc_argsize = sizeof_readdirargs, pc_ressize = sizeof_readdirres, pc_xdrressize = 1\<rparr>
      else if n = VSNFSPROC_READ then Some
        \<lparr>pc_func = func_read,
         pc_decode = (\<lambda>X r p. dec_as ARead (vsnfssvc_decode_readargs X r p)),
         pc_encode = enc_read, pc_zero = zero_readres,
         pc_argsize = sizeof_readargs, pc_ressize = sizeof_readres, pc_xdrressize = 1 + VSNFSSVC_MAXBLKSIZE div 4\<rparr>
      else None)"

section \<open>Dispatch\<close>

abbreviation (input) rpc_garbage_args :: be32 where "rpc_garbage_args \<equiv> htonl 4"
abbreviation (input) rpc_system_err :: be32 where "rpc_system_err \<equiv> htonl 5"

text \<open>
  The result is the state, the request with its reply and \<open>*statp\<close>, which the function is
  handed as \<open>statp\<close>; the return value of the source is always 1.
\<close>

definition vsnfsd_dispatch ::
  "xdr_api \<Rightarrow> vfs_api \<Rightarrow> srv \<Rightarrow> svc_procedure \<Rightarrow> svc_rqst \<Rightarrow> be32 \<Rightarrow> (srv \<times> svc_rqst \<times> be32) run" where
  "vsnfsd_dispatch X V s proc rqstp statp =
     bindF (pc_decode proc X rqstp 0) (\<lambda>(rqstp, args).
     case args of
       None \<Rightarrow> Inr (s, rqstp, rpc_garbage_args)
     | Some argp \<Rightarrow>
         let nfserrp = iov_len (rq_res rqstp);
             rqstp = rqstp\<lparr>rq_res := (rq_res rqstp)\<lparr>iov_len := nfserrp + 4\<rparr>\<rparr>
         in
         bindF (pc_func proc X V s rqstp argp (pc_zero proc)) (\<lambda>(s, rqstp, resp, nfserr).
         bindF (st32 (iov_base (rq_res rqstp)) nfserrp nfserr) (\<lambda>m.
         let rqstp = rqstp\<lparr>rq_res := (rq_res rqstp)\<lparr>iov_base := m\<rparr>\<rparr> in
         if nfserr = 0
         then bindF (pc_encode proc X rqstp (nfserrp + 4) resp) (\<lambda>(rqstp, ok).
              Inr (s, rqstp, if ok then statp else rpc_system_err))
         else Inr (s, rqstp, statp))))"

section \<open>The daemon\<close>

text \<open>
  The loop of \<open>vsnfsd\<close> over what \<open>svc_recv\<close> returns: the events are its return values with the
  request received.  \<open>process\<close> is \<open>svc_process\<close>.  \<open>None\<close> means that the events have run out and
  the daemon still waits; the last component is \<open>preverr\<close>.
\<close>

fun vsnfsd_loop ::
  "('s \<Rightarrow> 'r \<Rightarrow> 's run) \<Rightarrow> (int \<times> 'r) list \<Rightarrow> int \<Rightarrow> 's \<Rightarrow> ('s \<times> int) option run" where
  "vsnfsd_loop process [] preverr s = Inr None"
| "vsnfsd_loop process ((err, rqstp) # evs) preverr s =
     (if err = - EAGAIN then vsnfsd_loop process evs preverr s
      else if err = - EINTR then Inr (Some (s, preverr))
      else if err < 0 then vsnfsd_loop process evs (if err \<noteq> preverr then err else preverr) s
      else bindF (process s rqstp) (\<lambda>s. vsnfsd_loop process evs preverr s))"

section \<open>Starting and stopping\<close>

text \<open>
  The part of \<open>struct svc_serv\<close> the code looks at, and the counter of \<open>lockd_up\<close> calls.
\<close>

record svc_serv =
  sv_permsocks :: nat
  sv_nrthreads :: int
  sv_lockd :: int

text \<open>Emptying the table, then one \<open>lockd_down\<close> per permanent socket.\<close>

definition vsnfsd_last_thread :: "srv \<Rightarrow> svc_serv \<Rightarrow> (srv \<times> svc_serv) run" where
  "vsnfsd_last_thread s serv =
     bindF (deref (lp_tab s)) (\<lambda>tab.
     Inr (free_nodes tab s, serv\<lparr>sv_lockd := sv_lockd serv - int (sv_permsocks serv)\<rparr>))"

datatype svc_proto = Udp | Tcp

text \<open>
  What the RPC library gives: a new service or none, the result of adding a socket and of starting the lock
  daemon at the n-th call, the result of setting the number of threads and the service after it,
  and whether giving up a reference was the last one.
\<close>

record svc_api =
  svc_create_pooled :: "svc_serv option"
  svc_create_xprt :: "svc_proto \<Rightarrow> nat \<Rightarrow> int"
  lockd_up :: "nat \<Rightarrow> int"
  svc_set_num_threads :: "svc_serv \<Rightarrow> int \<Rightarrow> svc_serv \<times> int"
  svc_destroy_last :: "svc_serv \<Rightarrow> bool"

definition vsnfsd_create_serv :: "svc_api \<Rightarrow> svc_serv option \<times> int" where
  "vsnfsd_create_serv S =
     (case svc_create_pooled S of None \<Rightarrow> (None, - ENOMEM) | Some serv \<Rightarrow> (Some serv, 0))"

definition vsnfsd_init_socks :: "svc_api \<Rightarrow> svc_serv \<Rightarrow> nat \<Rightarrow> svc_serv \<times> int" where
  "vsnfsd_init_socks S serv port =
     (if sv_permsocks serv \<noteq> 0 then (serv, 0)
      else let error = svc_create_xprt S Udp port in
      if error < 0 then (serv, error)
      else let serv = serv\<lparr>sv_permsocks := sv_permsocks serv + 1\<rparr>; error = lockd_up S 0 in
      if error < 0 then (serv, error)
      else let serv = serv\<lparr>sv_lockd := sv_lockd serv + 1\<rparr>; error = svc_create_xprt S Tcp port in
      if error < 0 then (serv, error)
      else let serv = serv\<lparr>sv_permsocks := sv_permsocks serv + 1\<rparr>; error = lockd_up S 1 in
      if error < 0 then (serv, error)
      else (serv\<lparr>sv_lockd := sv_lockd serv + 1\<rparr>, 0))"

text \<open>
  \<open>svc_destroy\<close> gives up one reference to the service and runs the shutdown function when it was the last one;
  \<open>None\<close> is a service that is gone.
\<close>

definition svc_destroy :: "svc_api \<Rightarrow> srv \<Rightarrow> svc_serv \<Rightarrow> (srv \<times> svc_serv option) run" where
  "svc_destroy S s serv =
     (if svc_destroy_last S serv
      then bindF (vsnfsd_last_thread s serv) (\<lambda>(s, serv). Inr (s, None))
      else Inr (s, Some (serv\<lparr>sv_nrthreads := sv_nrthreads serv - 1\<rparr>)))"

text \<open>
  The thread: the loop, unless the thread gets no file system context of its own, and then \<open>svc_exit_thread\<close>, which
  gives up the thread's reference to the service.  The last component of the result is \<open>preverr\<close>.
\<close>

definition vsnfsd_thread ::
  "svc_api \<Rightarrow> int \<Rightarrow> (srv \<Rightarrow> 'r \<Rightarrow> srv run) \<Rightarrow> (int \<times> 'r) list \<Rightarrow> srv \<Rightarrow> svc_serv
   \<Rightarrow> (srv \<times> svc_serv option \<times> int) option run" where
  "vsnfsd_thread S unshare_fs_struct process evs s serv =
     bindF (if unshare_fs_struct < 0 then Inr (Some (s, 0)) else vsnfsd_loop process evs 0 s) (\<lambda>r.
     case r of
       None \<Rightarrow> Inr None
     | Some (s, preverr) \<Rightarrow>
         bindF (svc_destroy S s serv) (\<lambda>(s, serv). Inr (Some (s, serv, preverr))))"

definition vsnfsd_svc :: "svc_api \<Rightarrow> srv \<Rightarrow> nat \<Rightarrow> int \<Rightarrow> (srv \<times> svc_serv option \<times> int) run" where
  "vsnfsd_svc S s port nrservs =
     (case vsnfsd_create_serv S of
        (None, error) \<Rightarrow> Inr (s, None, error)
      | (Some serv, _) \<Rightarrow>
          let (serv, error) = vsnfsd_init_socks S serv port;
              (serv, error) =
                (if error \<noteq> 0 then (serv, error)
                 else let (serv, error) = svc_set_num_threads S serv nrservs
                      in (serv, if error = 0 then sv_nrthreads serv - 1 else error))
          in bindF (svc_destroy S s serv) (\<lambda>(s, serv). Inr (s, serv, error)))"

definition init_vsnfsd :: "svc_api \<Rightarrow> srv \<Rightarrow> (srv \<times> svc_serv option \<times> int) run" where
  "init_vsnfsd S s =
     bindF (vsnfsd_svc S s VSNFS_PORT VSNFS_NRSERVS) (\<lambda>(s, serv, rc). Inr (s, serv, 0))"

text \<open>Unloading the module neither stops the threads nor frees the table; only a comment asks whether it should.\<close>

definition exit_vsnfsd :: "srv \<Rightarrow> svc_serv option \<Rightarrow> srv \<times> svc_serv option" where
  "exit_vsnfsd s serv = (s, serv)"

end
