(* ===== verification/ServerTable.thy ===== *)
theory ServerTable
  imports ServerProc
begin

text \<open>
  Handles and the table of the server: what LOOKUP and GETROOT compute, the invariant that every
  table entry names the inode it is filed under, and that a handle the server has given out
  leads back to its file.
\<close>

section \<open>String buffers\<close>

lemma mem_write_prefix:
  "length bs \<le> length m \<Longrightarrow> mem_write m 0 bs = Inr (bs @ drop (length bs) m)"
  by (simp add: mem_write_def)

lemma mem_write_after:
  "length bs \<le> length r \<Longrightarrow> mem_write (a @ r) (length a) bs = Inr (a @ bs @ drop (length bs) r)"
  by (simp add: mem_write_def)

lemma as_cstr_zero [simp]: "0 \<notin> set p \<Longrightarrow> as_cstr (p @ 0 # r) = Inr p"
  by (simp add: as_cstr_def mem_simps)

lemma as_cstr_InrD: "as_cstr m = Inr p \<Longrightarrow> 0 \<notin> set p \<and> (\<exists>r. m = p @ 0 # r)"
proof -
  assume a: "as_cstr m = Inr p"
  then have z: "0 \<in> set m" by (auto simp: as_cstr_def strlen_def split: if_splits)
  then obtain r where "m = cstr m @ 0 # r" by (rule cstr_split)
  moreover from a z have "p = take (length (cstr m)) m" by (simp add: as_cstr_def strlen_def)
  ultimately show ?thesis using cstr_no_zero [of m] by (metis append_eq_conv_conj)
qed

lemma byte_at_last: "p \<noteq> [] \<Longrightarrow> byte_at (p @ s) (length p - 1) = Inr (last p)"
  by (cases p rule: rev_cases) (simp_all add: byte_at_def)

text \<open>The path buffer of LOOKUP holds directory path and name, or the copy runs out of it.\<close>

lemma lookup_path_eq:
  assumes "0 \<notin> set (n_path node)"
  shows "lookup_path path node argp =
    (if unat (dla_len argp) \<le> length (dla_filename argp) \<and>
        length (n_path node) + unat (dla_len argp) < length path
     then Inr (n_path node @ take (unat (dla_len argp)) (dla_filename argp) @
               0 # drop (length (n_path node) + unat (dla_len argp) + 1) path)
     else Inl OutOfBounds)"
proof (cases "length (n_path node) < length path")
  case False
  then show ?thesis by (simp add: lookup_path_def mem_write_def)
next
  case True
  let ?np = "n_path node" and ?n = "unat (dla_len argp)" and ?fn = "dla_filename argp"
  have w0: "mem_write path 0 (?np @ [0]) = Inr (?np @ 0 # drop (Suc (length ?np)) path)"
    using True by (simp add: mem_write_prefix)
  have sc: "strchr (?np @ 0 # drop (Suc (length ?np)) path) 0 = Inr (Some (length ?np))"
    by (rule strchr_found) (use assms in auto)
  let ?m = "?np @ 0 # drop (Suc (length ?np)) path"
  have lm: "length ?m = length path" using True by simp
  have eq: "lookup_path path node argp =
      bindF (mem_read ?fn 0 ?n) (\<lambda>bs. mem_write ?m (length ?np) (bs @ [0]))"
  proof (cases "mem_read ?fn 0 ?n")
    case (Inl e)
    then show ?thesis by (simp add: lookup_path_def w0 sc memcpy_def)
  next
    case (Inr bs)
    then have "length bs = ?n" using read_holds by blast
    with Inr show ?thesis
      using mem_write_append [of ?m "length ?np" bs "[0]"]
      by (simp add: lookup_path_def w0 sc memcpy_def add.commute)
  qed
  show ?thesis
  proof (cases "?n \<le> length ?fn \<and> length ?np + ?n < length path")
    case True
    then have "mem_write ?m (length ?np) (take ?n ?fn @ [0])
        = Inr (?np @ take ?n ?fn @ 0 # drop (length ?np + ?n + 1) path)"
      using mem_write_after [of "take ?n ?fn @ [0]" "0 # drop (Suc (length ?np)) path" ?np]
      by (auto simp: add.commute)
    with True show ?thesis by (simp add: eq mem_read_def)
  next
    case False
    then show ?thesis using lm by (auto simp: eq mem_read_def mem_write_def)
  qed
qed

lemma add_slash_eq:
  assumes "0 \<notin> set p" and "p \<noteq> []"
  shows "add_slash (p @ 0 # r) =
    (if last p = SLASH then Inr (p @ 0 # r)
     else if r = [] then Inl OutOfBounds
     else Inr (p @ SLASH # 0 # tl r))"
proof -
  have len: "strlen (p @ 0 # r) = Inr (length p)" using assms(1) by (simp add: mem_simps)
  have last: "byte_at (p @ 0 # r) (length p - Suc 0) = Inr (last p)"
    using byte_at_last [of p "0 # r"] assms(2) by simp
  have w: "mem_write (p @ 0 # r) (length p) [SLASH] = Inr ((p @ [SLASH]) @ r)"
    using mem_write_after [of "[SLASH]" "0 # r" p] by simp
  have w1: "mem_write ((p @ [SLASH]) @ r) (Suc (length p)) [0]
      = (if r = [] then Inl OutOfBounds else Inr (p @ SLASH # 0 # tl r))"
    using mem_write_after [of "[0]" r "p @ [SLASH]"]
    by (cases r) (simp_all add: mem_write_def)
  show ?thesis
    unfolding add_slash_def len using assms(2) by (simp add: last w w1 del: append_assoc)
qed

lemma root_path_eq:
  assumes "length path = unat (dga_len argp) + 2" and "unat (dga_len argp) \<le> length (dga_path argp)"
    and "0 < unat (dga_len argp)"
  shows "let p = take (unat (dga_len argp)) (dga_path argp) in
    \<exists>r. root_path path argp = Inr ((if last p = SLASH then p else p @ [SLASH]) @ 0 # r)"
proof -
  let ?n = "unat (dga_len argp)" and ?p = "take (unat (dga_len argp)) (dga_path argp)"
  have len: "length ?p = ?n" using assms(2) by simp
  obtain x y where xy: "drop ?n path = [x, y]"
  proof -
    have "length (drop ?n path) = 2" using assms(1) by simp
    then show ?thesis using that
      by (cases "drop ?n path"; cases "tl (drop ?n path)") (auto simp: numeral_2_eq_2)
  qed
  have w: "memcpy path 0 (dga_path argp) 0 ?n = Inr (?p @ [x, y])"
    using assms(1,2) len xy by (simp add: memcpy_def mem_read_def mem_write_prefix)
  have last: "byte_at (?p @ [x, y]) (?n - Suc 0) = Inr (last ?p)"
  proof -
    have "?p \<noteq> []" using len assms(3) by fastforce
    from byte_at_last [OF this, of "[x, y]"] len show ?thesis by simp
  qed
  have ws: "mem_write (?p @ a # b) ?n [c] = Inr (?p @ c # b)" for a b c
    using mem_write_after [of "[c]" "a # b" ?p] len by simp
  have ws1: "mem_write (?p @ [a, b]) (Suc ?n) [c] = Inr (?p @ [a, c])" for a b c
    using mem_write_after [of "[c]" "[b]" "?p @ [a]"] len by simp
  show ?thesis
    using assms(3) by (auto simp: root_path_def Let_def w last ws ws1)
qed

section \<open>The invariant of the table\<close>

text \<open>
  Every node's path is a proper string, and looking it up leads to the inode the node is filed
  under; no inode is filed twice.
\<close>

definition node_ok :: "vfs_api \<Rightarrow> lp_node \<Rightarrow> bool" where
  "node_ok V n \<longleftrightarrow> n_path n \<noteq> [] \<and> 0 \<notin> set (n_path n) \<and>
     (\<exists>i. path_lookup V (n_path n) = (0, Some (Some i)) \<and> i_ino i = n_ino n)"

definition tab_ok :: "vfs_api \<Rightarrow> lp_node list \<Rightarrow> bool" where
  "tab_ok V tab \<longleftrightarrow> (\<forall>n \<in> set tab. node_ok V n) \<and> distinct (map n_ino tab)"

definition srv_ok :: "vfs_api \<Rightarrow> srv \<Rightarrow> bool" where
  "srv_ok V s \<longleftrightarrow> (case lp_tab s of None \<Rightarrow> True | Some tab \<Rightarrow> tab_ok V tab)"

lemma tab_ok_find: "tab_ok V tab \<Longrightarrow> lp_find tab ino = Some n \<Longrightarrow> node_ok V n \<and> n_ino n = ino"
  unfolding tab_ok_def by (rule lp.find_ball) auto

lemma tab_ok_add:
  "tab_ok V tab \<Longrightarrow> node_ok V n \<Longrightarrow> lp_find tab (n_ino n) = None \<Longrightarrow> tab_ok V (lp_add n tab)"
  by (simp add: tab_ok_def lp_add_def lp_find_None_iff)

lemma tab_ok_single: "node_ok V n \<Longrightarrow> tab_ok V (lp_add n [])"
  by (simp add: tab_ok_def lp_add_def)

text \<open>Entering a node: what \<open>lookup_add\<close> does when it returns.\<close>

lemma lookup_add_InrD:
  assumes "kernel_vfs V" and "0 \<notin> set p"
    and "lookup_add V s tab ino (p @ 0 # r) rc = Inr (s', rc')"
  shows "(rc' = rc \<and> lp_tab s' = Some (lp_add \<lparr>n_ino = ino, n_path = p\<rparr> tab) \<and>
            s' = s\<lparr>lp_tab := lp_tab s', s_kmem := s_kmem s + 2\<rparr>) \<or>
         (rc' = - vsnfserr VSNFSERR_NOSPC \<and> s' = s\<lparr>s_kmem := s_kmem s + 1\<rparr>)"
proof (cases "kmalloc V LookupNodePath (length p + 2)")
  case None
  with assms show ?thesis by (auto simp: lookup_add_def bindF_eq_Inr mem_simps)
next
  case (Some np)
  then have np: "length np = length p + 2"
    using kernel_vfs.kmalloc_size [OF assms(1)] by blast
  have "memcpy np 0 (p @ 0 # r) 0 (length p + 1) = Inr (p @ 0 # drop (length p + 1) np)"
    using np by (simp add: memcpy_def mem_read_def mem_write_prefix)
  with assms Some show ?thesis
    by (auto simp: lookup_add_def bindF_eq_Inr mem_simps cstr_append_zero)
qed

text \<open>A name as the decoder of LOOKUP accepts it.\<close>

definition name_ok :: "vsnfsd_lookupargs \<Rightarrow> bool" where
  "name_ok argp \<longleftrightarrow> unat (dla_len argp) \<le> length (dla_filename argp) \<and>
     0 \<notin> set (take (unat (dla_len argp)) (dla_filename argp))"

abbreviation name_of :: "vsnfsd_lookupargs \<Rightarrow> byte list" where
  "name_of argp \<equiv> take (unat (dla_len argp)) (dla_filename argp)"

text \<open>The path a found inode is filed under: directories get a slash.\<close>

definition filed_path :: "inode \<Rightarrow> byte list \<Rightarrow> byte list" where
  "filed_path i p =
     (if \<not> S_ISREG (i_mode i) \<and> S_ISDIR (i_mode i) \<and> last p \<noteq> SLASH then p @ [SLASH] else p)"

lemma filed_path_ok:
  assumes "kernel_vfs V" and "p \<noteq> []" and "0 \<notin> set p" and "path_lookup V p = (0, Some (Some i))"
  shows "node_ok V \<lparr>n_ino = i_ino i, n_path = filed_path i p\<rparr>"
  using assms kernel_vfs.path_lookup_slash [OF assms(1,4)]
  by (auto simp: node_ok_def filed_path_def)

lemma add_slash_filed:
  assumes "0 \<notin> set p" and "p \<noteq> []"
    and "(if \<not> S_ISREG (i_mode i) \<and> S_ISDIR (i_mode i) then add_slash (p @ 0 # r) else Inr (p @ 0 # r))
         = Inr m"
  shows "\<exists>r'. m = filed_path i p @ 0 # r'"
  using assms add_slash_eq [OF assms(1,2), of r]
  by (auto simp: filed_path_def split: if_splits)

text \<open>Every way LOOKUP can return.\<close>

lemma lookup_resolve_cases:
  assumes V: "kernel_vfs V" and p: "p \<noteq> []" "0 \<notin> set p"
    and run: "lookup_resolve V s tab (p @ 0 # r) resp = Inr (s', resp', rc)"
  shows "s' = s \<or>
    (s' = s\<lparr>s_kmem := s_kmem s + 1\<rparr> \<and> rc = - vsnfserr VSNFSERR_NOSPC) \<or>
    (\<exists>i. path_lookup V p = (0, Some (Some i)) \<and> lp_find tab (i_ino i) = None \<and>
       s' = s\<lparr>lp_tab := Some (lp_add \<lparr>n_ino = i_ino i, n_path = filed_path i p\<rparr> tab),
              s_kmem := s_kmem s + 2\<rparr>)"
proof (cases "kmalloc V LookupNd 0")
  case None
  with run show ?thesis by (simp add: lookup_resolve_def)
next
  case (Some nd)
  let ?s = "s\<lparr>s_drefs := s_drefs s + 1\<rparr>"
  obtain ret d where look: "path_lookup V p = (ret, d)" by (cases "path_lookup V p")
  with run Some p(2) obtain i where i: "d = Some (Some i)"
    by (auto simp: lookup_resolve_def bindF_eq_Inr Let_def)
  with look have look0: "path_lookup V p = (0, Some (Some i))"
    using kernel_vfs.path_lookup_result [OF V look] by auto
  let ?slash = "if \<not> S_ISREG (i_mode i) \<and> S_ISDIR (i_mode i) then add_slash (p @ 0 # r)
                else Inr (p @ 0 # r)"
  let ?enter = "\<lambda>m. case lp_find tab (i_ino i) of
                Some _ \<Rightarrow> Inr (?s, 0) | None \<Rightarrow> lookup_add V ?s tab (i_ino i) m 0"
  from run have "bindF (snprintf_ld (fh_data resp) 8 (i_ino i)) (\<lambda>data. bindF ?slash (\<lambda>m.
      bindF (?enter m) (\<lambda>(s, rc). Inr (s\<lparr>s_drefs := s_drefs s - 1\<rparr>,
        \<lparr>fh_data = data, fh_type = type_of_inode i (fh_type resp)\<rparr>, rc))))
      = Inr (s', resp', rc)"
    by (simp add: lookup_resolve_def Some p(2) look0 Let_def split del: if_split cong: option.case_cong)
  then obtain m s1 where m: "?slash = Inr m" and s1: "?enter m = Inr (s1, rc)"
    and s': "s' = s1\<lparr>s_drefs := s_drefs s1 - 1\<rparr>"
    by (elim bindF_InrE, split prod.split_asm) (rule that, assumption, simp, simp)
  from add_slash_filed [OF p(2,1) m] obtain r' where r': "m = filed_path i p @ 0 # r'" by blast
  have z: "0 \<notin> set (filed_path i p)" using p(2) by (auto simp: filed_path_def)
  show ?thesis
  proof (cases "lp_find tab (i_ino i)")
    case (Some n)
    with s1 s' show ?thesis by auto
  next
    case None
    with s1 have "lookup_add V ?s tab (i_ino i) (filed_path i p @ 0 # r') 0 = Inr (s1, rc)"
      by (simp add: r')
    from lookup_add_InrD [OF V z this] s' look0 None show ?thesis by auto
  qed
qed

lemma lookup_cases:
  assumes V: "kernel_vfs V" and name: "name_ok argp" and ok: "srv_ok V s"
    and run: "vsnfsd_proc_lookup V s argp resp = Inr (s', resp', rc)"
  obtains (keep) "s' = s"
  | (leak) "s' = s\<lparr>s_kmem := s_kmem s + 1\<rparr>" "rc = - vsnfserr VSNFSERR_NOSPC"
  | (enter) tab dir i where "lp_tab s = Some tab" "node_ok V dir"
      "lp_find tab (simple_strtoul V (fh_mem (dla_fh argp))) = Some dir"
      "path_lookup V (n_path dir @ name_of argp) = (0, Some (Some i))"
      "lp_find tab (i_ino i) = None"
      "s' = s\<lparr>lp_tab := Some (lp_add \<lparr>n_ino = i_ino i,
                  n_path = filed_path i (n_path dir @ name_of argp)\<rparr> tab),
             s_kmem := s_kmem s + 2\<rparr>"
proof -
  from run obtain tab where tab: "lp_tab s = Some tab"
    by (auto simp: vsnfsd_proc_lookup_def bindF_eq_Inr Let_def)
  show ?thesis
  proof (cases "lp_find tab (simple_strtoul V (fh_mem (dla_fh argp)))")
    case None
    with run tab keep show ?thesis by (simp add: vsnfsd_proc_lookup_def)
  next
    case (Some dir)
    with ok tab have dir: "node_ok V dir" by (auto simp: srv_ok_def dest: tab_ok_find)
    let ?p = "n_path dir @ name_of argp"
    have p: "?p \<noteq> []" "0 \<notin> set ?p" using dir name by (auto simp: node_ok_def name_ok_def)
    consider "s' = s" | path1 where "lookup_resolve V s tab path1 resp = Inr (s', resp', rc)"
        "\<exists>path. lookup_path path dir argp = Inr path1"
      using run tab Some by (auto simp: vsnfsd_proc_lookup_def bindF_eq_Inr split: option.splits)
    then show ?thesis
    proof cases
      case 1
      then show ?thesis by (rule keep)
    next
      case (2 path1)
      then obtain r where "path1 = ?p @ 0 # r"
        using lookup_path_eq [of dir _ argp] dir by (auto simp: node_ok_def split: if_splits)
      with 2 lookup_resolve_cases [OF V p] show ?thesis
        using keep leak enter [OF tab dir Some] by blast
    qed
  qed
qed

section \<open>The invariant is kept\<close>

lemma lookup_keeps_ok:
  assumes V: "kernel_vfs V" and name: "name_ok argp" and ok: "srv_ok V s"
    and run: "vsnfsd_proc_lookup V s argp resp = Inr (s', resp', rc)"
  shows "srv_ok V s'"
  using V name ok run
proof (cases rule: lookup_cases)
  case keep
  then show ?thesis using ok by simp
next
  case leak
  then show ?thesis using ok by (simp add: srv_ok_def)
next
  case (enter tab dir i)
  from enter(2) name have "n_path dir @ name_of argp \<noteq> []" "0 \<notin> set (n_path dir @ name_of argp)"
    by (auto simp: node_ok_def name_ok_def)
  from filed_path_ok [OF V this enter(4)]
  have "node_ok V \<lparr>n_ino = i_ino i, n_path = filed_path i (n_path dir @ name_of argp)\<rparr>" .
  with enter ok show ?thesis by (auto simp: srv_ok_def intro: tab_ok_add)
qed

text \<open>What GETROOT is asked: a path without zero bytes, of the length its length field says.\<close>

definition path_ok :: "vsnfsd_getrootargs \<Rightarrow> bool" where
  "path_ok argp \<longleftrightarrow> unat (dga_len argp) \<le> length (dga_path argp) \<and>
     0 \<notin> set (take (unat (dga_len argp)) (dga_path argp))"

definition mount_path :: "vsnfsd_getrootargs \<Rightarrow> byte list" where
  "mount_path argp =
     (let p = take (unat (dga_len argp)) (dga_path argp) in if last p = SLASH then p else p @ [SLASH])"

lemma root_path_mount:
  assumes "length path = unat (dga_len argp) + 2" and "path_ok argp" and "0 < unat (dga_len argp)"
  shows "\<exists>r. root_path path argp = Inr (mount_path argp @ 0 # r)"
  using root_path_eq [OF assms(1) _ assms(3)] assms(2) by (simp add: path_ok_def mount_path_def Let_def)

lemma mount_path_facts:
  "path_ok argp \<Longrightarrow> mount_path argp \<noteq> [] \<or> unat (dga_len argp) = 0"
  "path_ok argp \<Longrightarrow> 0 \<notin> set (mount_path argp)"
  "path_ok argp \<Longrightarrow> length (mount_path argp) \<le> unat (dga_len argp) + 1"
  by (auto simp: path_ok_def mount_path_def Let_def)

lemma root_path_nonempty: "root_path path argp = Inr m \<Longrightarrow> 0 < unat (dga_len argp)"
  by (auto simp: root_path_def bindF_eq_Inr Let_def)

lemma root_node_copy:
  assumes "kernel_vfs V" and "path_ok argp" and "kmalloc V RootNodePath (unat (dga_len argp) + 2) = Some np"
  shows "memcpy np 0 (mount_path argp @ 0 # r) 0 (Suc (length (mount_path argp))) =
    Inr (mount_path argp @ 0 # drop (Suc (length (mount_path argp))) np)"
  using kernel_vfs.kmalloc_size [OF assms(1,3)] mount_path_facts(3) [OF assms(2)]
  by (simp add: memcpy_def mem_read_def mem_write_prefix)

lemma getroot_cases:
  assumes V: "kernel_vfs V" and path: "path_ok argp"
    and run: "vsnfsd_proc_getroot V s argp resp = Inr (s', resp', rc)"
  shows "lp_tab s' = lp_tab s \<or> lp_tab s' = Some [] \<or>
    (\<exists>i. path_lookup V (mount_path argp) = (0, Some (Some i)) \<and> \<not> S_ISREG (i_mode i) \<and>
       0 < unat (dga_len argp) \<and>
       lp_tab s' = Some (lp_add \<lparr>n_ino = i_ino i, n_path = mount_path argp\<rparr> []))"
proof (cases "kmalloc V RootNd 0 = None \<or> kmalloc V RootPath (unat (dga_len argp) + 2) = None")
  case True
  with run show ?thesis by (auto simp: vsnfsd_proc_getroot_def split: option.splits)
next
  case False
  then obtain nd pb where alloc: "kmalloc V RootNd 0 = Some nd"
      "kmalloc V RootPath (unat (dga_len argp) + 2) = Some pb" by auto
  with run have pos: "0 < unat (dga_len argp)"
    by (auto simp: vsnfsd_proc_getroot_def bindF_eq_Inr dest: root_path_nonempty)
  have pb: "length pb = unat (dga_len argp) + 2"
    by (rule kernel_vfs.kmalloc_size [OF V alloc(2)])
  from root_path_mount [OF pb path pos] obtain r where
    r: "root_path pb argp = Inr (mount_path argp @ 0 # r)" by blast
  note z = mount_path_facts(2) [OF path]
  obtain ret d where look: "path_lookup V (mount_path argp) = (ret, d)"
    by (cases "path_lookup V (mount_path argp)")
  with run alloc r z obtain i where i: "d = Some (Some i)"
    by (auto simp: vsnfsd_proc_getroot_def bindF_eq_Inr Let_def)
  with look have look0: "path_lookup V (mount_path argp) = (0, Some (Some i))"
    using kernel_vfs.path_lookup_result [OF V look] by auto
  note cp = root_node_copy [OF V path]
  show ?thesis
    using run alloc r z look0 pos
    by (auto simp: vsnfsd_proc_getroot_def bindF_eq_Inr Let_def cp cstr_append_zero
        split: option.splits if_splits)
qed

lemma getroot_keeps_ok:
  assumes V: "kernel_vfs V" and path: "path_ok argp" and ok: "srv_ok V s"
    and run: "vsnfsd_proc_getroot V s argp resp = Inr (s', resp', rc)"
  shows "srv_ok V s'"
proof -
  consider "lp_tab s' = lp_tab s" | "lp_tab s' = Some []"
    | i where "path_lookup V (mount_path argp) = (0, Some (Some i))" "0 < unat (dga_len argp)"
        "lp_tab s' = Some (lp_add \<lparr>n_ino = i_ino i, n_path = mount_path argp\<rparr> [])"
    using getroot_cases [OF V path run] by blast
  then show ?thesis
  proof cases
    case 1
    then show ?thesis using ok by (simp add: srv_ok_def)
  next
    case 2
    then show ?thesis by (simp add: srv_ok_def tab_ok_def)
  next
    case (3 i)
    then have "mount_path argp \<noteq> []" using mount_path_facts(1) [OF path] by simp
    with 3 mount_path_facts(2) [OF path] show ?thesis
      by (simp add: srv_ok_def tab_ok_single node_ok_def)
  qed
qed

text \<open>Opening, listing and reading leave the table alone, and every file that is opened is closed.\<close>

lemma open_state:
  assumes "vsnfsd_open V s fhp = Inr (s', err, f)"
  shows "s' = (if err = 0 then s\<lparr>s_files := s_files s + 1\<rparr> else s)"
  using assms
  by (auto simp: vsnfsd_open_def bindF_eq_Inr vsnfserr_def
      split: option.split_asm if_split_asm err_ptr.split_asm) (metis err_ptr.exhaust)+

lemma readdir_state:
  assumes "vsnfsd_readdir X V s fhp buf = Inr (s', buf', err)"
  shows "s' = s"
proof -
  obtain s1 e f where o: "vsnfsd_open V s fhp = Inr (s1, e, f)"
    using assms by (cases "vsnfsd_open V s fhp") (auto simp: vsnfsd_readdir_def)
  show ?thesis using assms open_state [OF o]
    by (auto simp: vsnfsd_readdir_def o bindF_eq_Inr vsnfsd_close_def Let_def split: if_split_asm)
qed

lemma read_state:
  assumes "vsnfsd_read V s fhp buf count pos = Inr (s', buf', pos', err)"
  shows "s' = s"
proof -
  obtain s1 e f where o: "vsnfsd_open V s fhp = Inr (s1, e, f)"
    using assms by (cases "vsnfsd_open V s fhp") (auto simp: vsnfsd_read_def)
  show ?thesis using assms open_state [OF o]
    by (auto simp: vsnfsd_read_def o bindF_eq_Inr vsnfsd_close_def Let_def
        split: if_split_asm prod.split_asm) (metis prod_cases3)
qed

section \<open>What LOOKUP finds, and where its handles lead\<close>

definition alloc_ok :: "vfs_api \<Rightarrow> bool" where
  "alloc_ok V \<longleftrightarrow> (\<forall>site n. kmalloc V site n \<noteq> None)"

lemma alloc_okD: "alloc_ok V \<Longrightarrow> \<exists>m. kmalloc V site n = Some m"
  by (auto simp: alloc_ok_def)

lemma add_slash_room:
  assumes "0 \<notin> set p" and "p \<noteq> []" and "r \<noteq> []"
  shows "\<exists>r'. (if \<not> S_ISREG (i_mode i) \<and> S_ISDIR (i_mode i) then add_slash (p @ 0 # r)
              else Inr (p @ 0 # r)) = Inr (filed_path i p @ 0 # r')"
  using assms add_slash_eq [OF assms(1,2), of r] by (auto simp: filed_path_def)

lemma lookup_add_ok:
  assumes "kernel_vfs V" and "alloc_ok V" and "0 \<notin> set p"
  shows "lookup_add V s tab ino (p @ 0 # r) rc =
    Inr (s\<lparr>lp_tab := Some (lp_add \<lparr>n_ino = ino, n_path = p\<rparr> tab), s_kmem := s_kmem s + 2\<rparr>, rc)"
proof -
  obtain nn np where alloc: "kmalloc V LookupNode 0 = Some nn"
      "kmalloc V LookupNodePath (length p + 2) = Some np"
    using alloc_okD [OF assms(2)] by metis
  have "memcpy np 0 (p @ 0 # r) 0 (length p + 1) = Inr (p @ 0 # drop (length p + 1) np)"
    using kernel_vfs.kmalloc_size [OF assms(1) alloc(2)]
    by (simp add: memcpy_def mem_read_def mem_write_prefix)
  with alloc assms(3) show ?thesis by (simp add: lookup_add_def mem_simps cstr_append_zero)
qed

lemma lookup_resolve_finds:
  assumes V: "kernel_vfs V" and A: "alloc_ok V" and p: "p \<noteq> []" "0 \<notin> set p" and r: "r \<noteq> []"
    and look: "path_lookup V p = (0, Some (Some i))" and resp: "length (fh_data resp) = 8"
  shows "lookup_resolve V s tab (p @ 0 # r) resp =
    Inr (case lp_find tab (i_ino i) of
           Some _ \<Rightarrow> s
         | None \<Rightarrow> s\<lparr>lp_tab := Some (lp_add \<lparr>n_ino = i_ino i, n_path = filed_path i p\<rparr> tab),
                      s_kmem := s_kmem s + 2\<rparr>,
         \<lparr>fh_data = handle_data (fh_data resp) (i_ino i), fh_type = type_of_inode i (fh_type resp)\<rparr>,
         vsnfs_ok)"
proof -
  obtain nd where nd: "kmalloc V LookupNd 0 = Some nd" using alloc_okD [OF A] by blast
  obtain r' where r': "(if \<not> S_ISREG (i_mode i) \<and> S_ISDIR (i_mode i) then add_slash (p @ 0 # r)
      else Inr (p @ 0 # r)) = Inr (filed_path i p @ 0 # r')"
    using add_slash_room [OF p(2,1) r] by blast
  have z: "0 \<notin> set (filed_path i p)" using p(2) by (auto simp: filed_path_def)
  show ?thesis
    by (simp add: lookup_resolve_def nd p(2) look r' resp lookup_add_ok [OF V A z] Let_def
        split: option.split split del: if_split)
qed

lemma lookup_finds:
  assumes V: "kernel_vfs V" and A: "alloc_ok V" and tab: "lp_tab s = Some tab"
    and dir: "lp_find tab (simple_strtoul V (fh_mem (dla_fh argp))) = Some dir" "node_ok V dir"
    and name: "name_ok argp" and room: "length (n_path dir) + unat (dla_len argp) < 1024"
    and look: "path_lookup V (n_path dir @ name_of argp) = (0, Some (Some i))"
    and resp: "length (fh_data resp) = 8"
  shows "vsnfsd_proc_lookup V s argp resp =
    Inr (case lp_find tab (i_ino i) of
           Some _ \<Rightarrow> s
         | None \<Rightarrow> s\<lparr>lp_tab := Some (lp_add \<lparr>n_ino = i_ino i,
                       n_path = filed_path i (n_path dir @ name_of argp)\<rparr> tab),
                      s_kmem := s_kmem s + 2\<rparr>,
         \<lparr>fh_data = handle_data (fh_data resp) (i_ino i), fh_type = type_of_inode i (fh_type resp)\<rparr>,
         vsnfs_ok)"
proof -
  obtain path where path: "kmalloc V LookupPath 1025 = Some path" using alloc_okD [OF A] by blast
  then have len: "length path = 1025" using kernel_vfs.kmalloc_size [OF V] by blast
  let ?p = "n_path dir @ name_of argp"
  have p: "?p \<noteq> []" "0 \<notin> set ?p" using dir(2) name by (auto simp: node_ok_def name_ok_def)
  let ?r = "drop (length (n_path dir) + unat (dla_len argp) + 1) path"
  have "lookup_path path dir argp = Inr (?p @ 0 # ?r)" and "?r \<noteq> []"
    using lookup_path_eq [of dir path argp] dir(2) name room len
    by (auto simp: node_ok_def name_ok_def)
  then show ?thesis
    using lookup_resolve_finds [OF V A p _ look resp]
    by (simp add: vsnfsd_proc_lookup_def tab dir path del: append_assoc append.simps)
qed

text \<open>A handle of an inode number below ten million is read back as that number.\<close>

lemma strtoul_handle:
  assumes "kernel_vfs V" and "unat ino < 10 ^ 7"
  shows "simple_strtoul V (handle_data buf ino @ x) = ino"
proof -
  have "handle_data buf ino = dec_digits (unat ino) @ 0 # drop (Suc (length (dec_digits (unat ino)))) buf"
    using handle_data_short [OF assms(2), of buf] by simp
  moreover have "unat ino < 2 ^ 64" using assms(2) by simp
  ultimately show ?thesis
    using kernel_vfs.strtoul_decimal [OF assms(1), of "unat ino"] by simp
qed

lemma strncpy_terminated:
  assumes "0 \<notin> set p" and "length p < n" and "length path = n"
  shows "strncpy path (p @ [0]) n = Inr (p @ replicate (n - length p) 0)"
proof -
  have c: "cstr (p @ [0]) = p" using cstr_append_zero [OF assms(1), of "[]"] by simp
  then show ?thesis using assms by (simp add: strncpy_def mem_write_def)
qed

lemma fh_to_path_finds:
  assumes V: "kernel_vfs V" and tab: "lp_tab s = Some tab" and ino: "unat ino < 10 ^ 7" "ino \<noteq> 0"
    and n: "lp_find tab ino = Some n" "node_ok V n" "length (n_path n) < 1024"
    and path: "length path = 1024"
  shows "\<exists>m. vsnfsd_fh_to_path V s \<lparr>fh_data = handle_data buf ino, fh_type = t\<rparr> path 1024 = Inr (0, m) \<and>
    as_cstr m = Inr (n_path n)"
proof -
  have i: "simple_strtoul V (fh_mem \<lparr>fh_data = handle_data buf ino, fh_type = t\<rparr>) = ino"
    using strtoul_handle [OF V ino(1)] by (simp add: fh_mem_def)
  have z: "0 \<notin> set (n_path n)" using n(2) by (simp add: node_ok_def)
  obtain k where k: "1024 - length (n_path n) = Suc k" using n(3) by (metis Suc_diff_Suc)
  from strncpy_terminated [OF z n(3) path] i n(1) ino(2) tab z show ?thesis
    by (simp add: vsnfsd_fh_to_path_def k)
qed

end
