(* ===== verification/KernelRef.thy ===== *)
theory KernelRef
  imports Server
begin

text \<open>
  An instance of the kernel services the server relies on: a number parser with base
  detection, a file tree given as a table from path names to inodes and directory contents, and an
  allocator that succeeds.  It shows that the promises of \<open>kernel_vfs\<close> and \<open>kernel_readdir\<close> can
  hold together, for any tree, and it is what concrete runs of the model are evaluated on.
\<close>

section \<open>Parsing numbers\<close>

definition digit_val :: "byte \<Rightarrow> nat option" where
  "digit_val c =
     (let n = unat c in
      if 48 \<le> n \<and> n \<le> 57 then Some (n - 48)
      else if 97 \<le> n \<and> n \<le> 102 then Some (n - 87)
      else if 65 \<le> n \<and> n \<le> 70 then Some (n - 55)
      else None)"

fun strtoul_loop :: "nat \<Rightarrow> nat \<Rightarrow> byte list \<Rightarrow> nat" where
  "strtoul_loop base acc [] = acc"
| "strtoul_loop base acc (c # s) =
     (case digit_val c of
        Some v \<Rightarrow> if v < base then strtoul_loop base (acc * base + v) s else acc
      | None \<Rightarrow> acc)"

definition strtoul_ref :: "byte list \<Rightarrow> u64" where
  "strtoul_ref s = word_of_nat
     (case s of
        c # x # h # t \<Rightarrow>
          if c = 48 \<and> (x = 120 \<or> x = 88) \<and> digit_val h \<noteq> None then strtoul_loop 16 0 (h # t)
          else if c = 48 then strtoul_loop 8 0 (x # h # t)
          else strtoul_loop 10 0 s
      | _ \<Rightarrow> strtoul_loop 10 0 s)"

lemma digit_val_digit: "d < 10 \<Longrightarrow> digit_val (word_of_nat (48 + d)) = Some d"
  by (simp add: digit_val_def digit_unat Let_def del: of_nat_add)

lemma strtoul_loop_dec: "strtoul_loop 10 0 (dec_digits n @ s) = strtoul_loop 10 n s"
proof (induction n arbitrary: s rule: dec_digits.induct)
  case (1 n)
  show ?case
  proof (cases "n < 10")
    case True
    then show ?thesis by (simp add: dec_digits.simps [of n] digit_val_digit del: of_nat_add)
  next
    case False
    have "strtoul_loop 10 0 (dec_digits n @ s)
        = strtoul_loop 10 0 (dec_digits (n div 10) @ word_of_nat (48 + n mod 10) # s)"
      using False by (simp add: dec_digits.simps [of n] del: of_nat_add)
    also have "\<dots> = strtoul_loop 10 (n div 10) (word_of_nat (48 + n mod 10) # s)"
      by (rule "1.IH" [OF False])
    also have "\<dots> = strtoul_loop 10 n s"
      by (simp add: digit_val_digit del: of_nat_add)
    finally show ?thesis .
  qed
qed

lemma dec_digits_hd: "0 < n \<Longrightarrow> hd (dec_digits n) \<noteq> 48"
proof (induction n rule: dec_digits.induct)
  case (1 n)
  show ?case
  proof (cases "n < 10")
    case True
    have "(word_of_nat (48 + n) :: byte) \<noteq> 48"
    proof
      assume "(word_of_nat (48 + n) :: byte) = 48"
      then have "unat (word_of_nat (48 + n) :: byte) = 48" by simp
      with digit_unat [OF True] "1.prems" show False by simp
    qed
    with True show ?thesis by (simp add: dec_digits.simps [of n])
  next
    case False
    with "1.IH" have "hd (dec_digits (n div 10)) \<noteq> 48" by simp
    with False show ?thesis by (simp add: dec_digits.simps [of n])
  qed
qed

lemma strtoul_ref_base10: "hd s \<noteq> 48 \<Longrightarrow> strtoul_ref s = word_of_nat (strtoul_loop 10 0 s)"
  unfolding strtoul_ref_def by (cases s) (auto split: list.split)

lemma strtoul_ref_decimal: "strtoul_ref (dec_digits n @ 0 # r) = word_of_nat n"
proof (cases "n = 0")
  case True
  then show ?thesis
    by (simp add: strtoul_ref_def dec_digits.simps digit_val_def split: list.split)
next
  case False
  then have hd: "hd (dec_digits n @ 0 # r) \<noteq> 48"
    using dec_digits_hd [of n] by simp
  have "strtoul_ref (dec_digits n @ 0 # r) = word_of_nat (strtoul_loop 10 0 (dec_digits n @ 0 # r))"
    by (rule strtoul_ref_base10 [OF hd])
  also have "strtoul_loop 10 0 (dec_digits n @ 0 # r) = n"
    by (simp add: strtoul_loop_dec digit_val_def)
  finally show ?thesis .
qed

section \<open>A file tree\<close>

record fs_node =
  fs_path :: "byte list"
  fs_inode :: inode
  fs_dirents :: "dirent list"

text \<open>Path names are compared without trailing slashes.\<close>

definition strip_slash :: "byte list \<Rightarrow> byte list" where
  "strip_slash p = rev (dropWhile (\<lambda>c. c = SLASH) (rev p))"

definition fs_lookup :: "fs_node list \<Rightarrow> byte list \<Rightarrow> fs_node option" where
  "fs_lookup fs p = find (\<lambda>n. strip_slash (fs_path n) = strip_slash p) fs"

text \<open>An open file is the position of its node in the tree.\<close>

fun index_of :: "('a \<Rightarrow> bool) \<Rightarrow> 'a list \<Rightarrow> nat option" where
  "index_of P [] = None"
| "index_of P (x # xs) = (if P x then Some 0 else map_option Suc (index_of P xs))"

definition fs_entries :: "fs_node list \<Rightarrow> filep \<Rightarrow> dirent list" where
  "fs_entries fs f =
     (if f < length fs then filter (\<lambda>d. de_namlen d \<le> length (de_name d)) (fs_dirents (fs ! f)) else [])"

definition vfs_ref :: "fs_node list \<Rightarrow> vfs_api" where
  "vfs_ref fs =
    \<lparr>kmalloc = (\<lambda>site n. Some (replicate n 0)),
     simple_strtoul = strtoul_ref,
     path_lookup = (\<lambda>p. case fs_lookup fs p of
        None \<Rightarrow> (- ENOENT, None) | Some n \<Rightarrow> (0, Some (Some (fs_inode n)))),
     filp_open = (\<lambda>p. case index_of (\<lambda>n. strip_slash (fs_path n) = strip_slash p) fs of
        None \<Rightarrow> ErrPtr (- ENOENT) | Some f \<Rightarrow> Ptr f),
     filp_close = (\<lambda>f. 0),
     vfs_readdir = (\<lambda>f filler b. readdir_iter filler 0 (fs_entries fs f) b),
     vfs_read = (\<lambda>f buffer count pos. (buffer, 0, pos)),
     svc_reserve_auth = (\<lambda>rqstp space. rqstp),
     stk_fh = (\<lambda>p. replicate 8 170),
     stk_pos = 0\<rparr>"

lemma strip_slash_snoc [simp]: "strip_slash (p @ [47]) = strip_slash p"
  by (simp add: strip_slash_def)

lemma fs_lookup_slash [simp]: "fs_lookup fs (p @ [47]) = fs_lookup fs p"
  by (simp add: fs_lookup_def)

interpretation ref_vfs: kernel_readdir "vfs_ref fs" "fs_entries fs" "\<lambda>_. 0" for fs
proof unfold_locales
  show "simple_strtoul (vfs_ref fs) (0 # r) = 0" for r
    by (simp add: vfs_ref_def strtoul_ref_def digit_val_def split: list.split)
qed (auto simp: vfs_ref_def strtoul_ref_decimal fs_entries_def split: option.splits if_splits)

end
