(* ===== verification/ServerReq.thy ===== *)
theory ServerReq
  imports ServerSvc ServerTable KernelRef
begin

text \<open>
  The server over its lifetime: a step relation whose steps are dispatched requests, with any bytes
  as arguments, and the shutdown of the service; the states it can reach; and what holds in all of
  them.
\<close>

section \<open>What the decoders let through\<close>

lemma decode_filename_ok:
  assumes "decode_filename X m p = Inr (Some (name, len, q))"
  shows "unat len \<le> length name \<and> (\<forall>c \<in> set (take (unat len) name). c \<noteq> 0 \<and> c \<noteq> SLASH)"
  using assms by (auto simp: decode_filename_def bindF_eq_Inr split: option.splits if_splits
      dest!: name_scan_False)

lemma decode_pathname_ok:
  assumes "decode_pathname X m p = Inr (Some (path, len, q))"
  shows "unat len \<le> length path \<and> (\<forall>c \<in> set (take (unat len) path). c \<noteq> 0)"
  using assms by (auto simp: decode_pathname_def bindF_eq_Inr split: option.splits if_splits
      dest!: name_scan_False)

lemma decode_lookupargs_ok:
  assumes "vsnfssvc_decode_lookupargs X rqstp p = Inr (rqstp', Some argp)"
  shows "name_ok argp \<and> SLASH \<notin> set (name_of argp) \<and> fh_wf (dla_fh argp)"
proof -
  from assms obtain fh q r where fh: "decode_fh (iov_base (rq_arg rqstp)) p = Inr (fh, q)"
    and r: "decode_filename X (iov_base (rq_arg rqstp)) q = Inr r"
    by (auto simp: vsnfssvc_decode_lookupargs_def bindF_eq_Inr)
  with assms obtain name len q' where r': "r = Some (name, len, q')"
    by (cases r) (auto simp: vsnfssvc_decode_lookupargs_def)
  from decode_filename_ok [OF r [unfolded r']] decode_fh_InrD [OF fh] assms fh r r' show ?thesis
    by (auto simp: vsnfssvc_decode_lookupargs_def name_ok_def split: if_splits)
qed

lemma decode_getrootargs_ok:
  assumes "vsnfssvc_decode_getrootargs X rqstp p = Inr (rqstp', Some argp)"
  shows "path_ok argp"
proof -
  from assms obtain r where r: "decode_pathname X (iov_base (rq_arg rqstp)) p = Inr r"
    by (auto simp: vsnfssvc_decode_getrootargs_def bindF_eq_Inr)
  with assms obtain path len q where r': "r = Some (path, len, q)"
    by (cases r) (auto simp: vsnfssvc_decode_getrootargs_def)
  from decode_pathname_ok [OF r [unfolded r']] assms r r' show ?thesis
    by (auto simp: vsnfssvc_decode_getrootargs_def path_ok_def split: if_splits)
qed

section \<open>What a procedure does to the counters\<close>

lemma getroot_counters:
  assumes "vsnfsd_proc_getroot V s argp resp = Inr (s', resp', rc)"
  shows "s_files s' = s_files s \<and> s_drefs s' = s_drefs s \<and>
    (lp_tab s' = lp_tab s \<and> s_kmem s' = s_kmem s \<or>
     lp_tab s' = Some [] \<and> s_kmem s' = s_kmem s + 1 \<or>
     (\<exists>n. lp_tab s' = Some [n]) \<and> s_kmem s' = s_kmem s + 2)"
  using assms
  by (auto simp: vsnfsd_proc_getroot_def bindF_eq_Inr Let_def lp_add_def case_prod_beta
      split: option.splits if_splits)

definition resources_ok :: "srv \<Rightarrow> bool" where
  "resources_ok s \<longleftrightarrow> s_files s = 0 \<and> s_drefs s = 0 \<and> 0 \<le> s_kmem s \<and>
     (case lp_tab s of None \<Rightarrow> True | Some tab \<Rightarrow> 2 * int (length tab) \<le> s_kmem s)"

definition srv_inv :: "vfs_api \<Rightarrow> srv \<Rightarrow> bool" where
  "srv_inv V s \<longleftrightarrow> srv_ok V s \<and> resources_ok s"

lemma getroot_keeps:
  assumes "kernel_vfs V" and "path_ok argp" and "srv_inv V s"
    and "vsnfsd_proc_getroot V s argp resp = Inr (s', resp', rc)"
  shows "srv_inv V s'"
  using getroot_keeps_ok [OF assms(1,2) _ assms(4)] getroot_counters [OF assms(4)] assms(3)
  by (auto simp: srv_inv_def resources_ok_def split: option.splits)

lemma lookup_keeps:
  assumes V: "kernel_vfs V" and n: "name_ok argp" and inv: "srv_inv V s"
    and run: "vsnfsd_proc_lookup V s argp resp = Inr (s', resp', rc)"
  shows "srv_inv V s'"
proof -
  from inv have ok: "srv_ok V s" by (simp add: srv_inv_def)
  from V n ok run have "resources_ok s'"
    by (cases rule: lookup_cases)
      (use inv in \<open>auto simp: srv_inv_def resources_ok_def lp_add_def split: option.splits\<close>)
  with lookup_keeps_ok [OF V n ok run] show ?thesis by (simp add: srv_inv_def)
qed

lemma proc_readdir_state:
  "vsnfsd_proc_readdir X V s page argp resp = Inr (s', page', resp', e) \<Longrightarrow> s' = s"
  by (auto simp: vsnfsd_proc_readdir_def bindF_eq_Inr Let_def split: prod.splits dest!: readdir_state)

lemma proc_read_state:
  "vsnfsd_proc_read V s rqstp page argp resp = Inr (s', rqstp', page', resp', e) \<Longrightarrow> s' = s"
  by (auto simp: vsnfsd_proc_read_def bindF_eq_Inr Let_def split: prod.splits dest!: read_state)

section \<open>Requests\<close>

text \<open>What a procedure of the table may assume of its arguments: that its decoder let them through.\<close>

definition args_ok :: "svc_args \<Rightarrow> bool" where
  "args_ok a = (case a of AGetroot argp \<Rightarrow> path_ok argp | ALookup argp \<Rightarrow> name_ok argp | _ \<Rightarrow> True)"

lemmas func_defs = func_null_def func_getroot_def func_lookup_def func_readdir_def func_read_def

lemma procedure_cases:
  assumes "vsnfsd_procedures1 n = Some proc"
  obtains "pc_func proc = func_null" | "pc_func proc = func_getroot" | "pc_func proc = func_lookup"
  | "pc_func proc = func_readdir" | "pc_func proc = func_read"
  using assms by (auto simp: vsnfsd_procedures1_def split: if_splits)

lemma decoded_args_ok:
  assumes "vsnfsd_procedures1 n = Some proc" and "pc_decode proc X rqstp p = Inr (rqstp', Some argp)"
  shows "args_ok argp"
  using assms
  by (auto simp: vsnfsd_procedures1_def dec_as_def bindF_eq_Inr args_ok_def split: if_splits
      dest!: decode_lookupargs_ok decode_getrootargs_ok)

lemma func_keeps:
  assumes V: "kernel_vfs V" and "vsnfsd_procedures1 n = Some proc" and a: "args_ok argp"
    and inv: "srv_inv V s" and run: "pc_func proc X V s rqstp argp resp = Inr (s', rqstp', resp', e)"
  shows "srv_inv V s'"
  using assms(2)
proof (cases rule: procedure_cases)
  case 1
  with run inv show ?thesis
    by (auto simp: func_null_def split: svc_args.splits svc_res.splits prod.splits)
next
  case 2
  with run a show ?thesis
    by (auto simp: func_getroot_def bindF_eq_Inr args_ok_def split: svc_args.splits svc_res.splits
        intro: getroot_keeps [OF V _ inv])
next
  case 3
  with run a show ?thesis
    by (auto simp: func_lookup_def bindF_eq_Inr args_ok_def split: svc_args.splits svc_res.splits
        intro: lookup_keeps [OF V _ inv])
next
  case 4
  with run inv show ?thesis
    by (auto simp: func_readdir_def bindF_eq_Inr split: svc_args.splits svc_res.splits
        dest!: proc_readdir_state)
next
  case 5
  with run inv show ?thesis
    by (auto simp: func_read_def bindF_eq_Inr split: svc_args.splits svc_res.splits
        dest!: proc_read_state)
qed

lemma dispatch_state:
  assumes "vsnfsd_dispatch X V s proc rqstp statp = Inr (s', rqstp', statp')"
  obtains "s' = s"
  | rqstp1 rqstp2 argp rqstp3 resp e where "pc_decode proc X rqstp 0 = Inr (rqstp1, Some argp)"
      "pc_func proc X V s rqstp2 argp (pc_zero proc) = Inr (s', rqstp3, resp, e)"
  using assms
  by (auto simp: vsnfsd_dispatch_def bindF_eq_Inr Let_def split: option.splits if_splits)

lemma dispatch_keeps:
  assumes "kernel_vfs V" and "vsnfsd_procedures1 n = Some proc" and "srv_inv V s"
    and "vsnfsd_dispatch X V s proc rqstp statp = Inr (s', rqstp', statp')"
  shows "srv_inv V s'"
  using assms(4)
proof (rule dispatch_state)
  assume "s' = s"
  with assms(3) show ?thesis by simp
next
  fix rqstp1 rqstp2 argp rqstp3 resp e
  assume "pc_decode proc X rqstp 0 = Inr (rqstp1, Some argp)"
    and run: "pc_func proc X V s rqstp2 argp (pc_zero proc) = Inr (s', rqstp3, resp, e)"
  from func_keeps [OF assms(1,2) decoded_args_ok [OF assms(2) this(1)] assms(3) run]
  show ?thesis .
qed

section \<open>Shutdown\<close>

lemma free_nodes_eq: "free_nodes tab s = s\<lparr>lp_tab := Some [], s_kmem := s_kmem s - 2 * int (length tab)\<rparr>"
  by (induction tab arbitrary: s) simp_all

lemma last_thread_keeps:
  assumes "srv_inv V s" and "vsnfsd_last_thread s serv = Inr (s', serv')"
  shows "srv_inv V s'"
  using assms
  by (auto simp: vsnfsd_last_thread_def bindF_eq_Inr free_nodes_eq srv_inv_def srv_ok_def tab_ok_def
      resources_ok_def)

section \<open>Reachable states\<close>

definition srv_start :: srv where
  "srv_start = \<lparr>lp_tab = None, s_kmem = 0, s_drefs = 0, s_files = 0\<rparr>"

inductive srv_step :: "xdr_api \<Rightarrow> vfs_api \<Rightarrow> srv \<Rightarrow> srv \<Rightarrow> bool" for X V where
  request: "vsnfsd_procedures1 n = Some proc \<Longrightarrow>
    vsnfsd_dispatch X V s proc rqstp statp = Inr (s', rqstp', statp') \<Longrightarrow> srv_step X V s s'"
| shutdown: "vsnfsd_last_thread s serv = Inr (s', serv') \<Longrightarrow> srv_step X V s s'"

inductive srv_reachable :: "xdr_api \<Rightarrow> vfs_api \<Rightarrow> srv \<Rightarrow> bool" for X V where
  start: "srv_reachable X V srv_start"
| more: "srv_reachable X V s \<Longrightarrow> srv_step X V s s' \<Longrightarrow> srv_reachable X V s'"

inductive_cases srv_stepE: "srv_step X V s s'"

lemma step_keeps: "kernel_vfs V \<Longrightarrow> srv_inv V s \<Longrightarrow> srv_step X V s s' \<Longrightarrow> srv_inv V s'"
  by (auto elim!: srv_stepE intro: dispatch_keeps last_thread_keeps)

lemma reachable_inv:
  assumes "srv_reachable X V s" and "kernel_vfs V"
  shows "srv_inv V s"
  using assms
proof (induction rule: srv_reachable.induct)
  case start
  show ?case by (simp add: srv_inv_def srv_ok_def resources_ok_def srv_start_def)
next
  case more
  then show ?case using step_keeps by blast
qed

end
