(* ===== verification/ServerServes.thy ===== *)
theory ServerServes
  imports ServerReq
begin

text \<open>
  The properties of the server's procedures: where handles lead, what holds over its lifetime, which
  requests it refuses, and the cases it does not handle.
\<close>

section \<open>A tree for concrete runs\<close>

text \<open>A directory \<open>/e/\<close> (inode 7) that holds a file \<open>a\<close> (inode 9) and a directory \<open>d\<close> (inode 8).\<close>

definition demo_fs :: "fs_node list" where
  "demo_fs =
    [\<lparr>fs_path = [47, 101], fs_inode = \<lparr>i_ino = 7, i_mode = 0x41ED\<rparr>,
      fs_dirents =
        [\<lparr>de_name = [97], de_namlen = 1, de_offset = 0, de_ino = 9, de_type = 8\<rparr>,
         \<lparr>de_name = [100], de_namlen = 1, de_offset = 1, de_ino = 8, de_type = 4\<rparr>]\<rparr>,
     \<lparr>fs_path = [47, 101, 47, 97], fs_inode = \<lparr>i_ino = 9, i_mode = 0x81A4\<rparr>, fs_dirents = []\<rparr>,
     \<lparr>fs_path = [47, 101, 47, 100], fs_inode = \<lparr>i_ino = 8, i_mode = 0x41ED\<rparr>, fs_dirents = []\<rparr>]"

abbreviation demo :: vfs_api where "demo \<equiv> vfs_ref demo_fs"

lemma demo_vfs: "kernel_vfs demo"
  using ref_vfs.kernel_vfs_axioms .

lemma demo_alloc: "alloc_ok (vfs_ref fs)"
  by (simp add: alloc_ok_def vfs_ref_def)

definition demo_root :: lp_node where
  "demo_root = \<lparr>n_ino = 7, n_path = [47, 101, 47]\<rparr>"

definition demo_srv :: srv where
  "demo_srv = \<lparr>lp_tab = Some [demo_root], s_kmem = 2, s_drefs = 0, s_files = 0\<rparr>"

definition demo_lookup :: vsnfsd_lookupargs where
  "demo_lookup =
    \<lparr>dla_fh = \<lparr>fh_data = [55, 0, 0, 0, 0, 0, 0, 0], fh_type = 2\<rparr>, dla_filename = [100], dla_len = 1\<rparr>"

lemma demo_lookup_facts:
  "simple_strtoul demo (fh_mem (dla_fh demo_lookup)) = 7"
  "name_ok demo_lookup" "name_of demo_lookup = [100]"
  "path_lookup demo [47, 101, 47, 100] = (0, Some (Some \<lparr>i_ino = 8, i_mode = 0x41ED\<rparr>))"
  "path_lookup demo [47, 101, 47] = (0, Some (Some \<lparr>i_ino = 7, i_mode = 0x41ED\<rparr>))"
  by code_simp+

lemma demo_srv_ok: "srv_ok demo demo_srv"
  using demo_lookup_facts(5)
  by (simp add: demo_srv_def srv_ok_def tab_ok_def node_ok_def demo_root_def)

section \<open>Handles\<close>

lemma lookup_leads_back:
  assumes V: "kernel_vfs V" and A: "alloc_ok V" and ok: "srv_ok V s" and tab: "lp_tab s = Some tab"
    and dir: "lp_find tab (simple_strtoul V (fh_mem (dla_fh argp))) = Some dir"
    and name: "name_ok argp" and room: "length (n_path dir) + unat (dla_len argp) < 1023"
    and look: "path_lookup V (n_path dir @ name_of argp) = (0, Some (Some i))"
    and ino: "i_ino i \<noteq> 0" "unat (i_ino i) < 10 ^ 7"
    and short: "\<forall>n \<in> set tab. length (n_path n) < 1024" and buf: "length buf = 1024"
  shows "\<exists>s' h m p j. vsnfsd_proc_lookup V s argp zero_fh = Inr (s', h, vsnfs_ok) \<and>
    fh_wf h \<and> fh_type h = type_of_inode i 0 \<and>
    vsnfsd_fh_to_path V s' h buf 1024 = Inr (0, m) \<and> as_cstr m = Inr p \<and>
    path_lookup V p = (0, Some (Some j)) \<and> i_ino j = i_ino i"
proof -
  have tok: "tab_ok V tab" using ok tab by (simp add: srv_ok_def)
  have dok: "node_ok V dir" using tab_ok_find [OF tok dir] by simp
  let ?p = "n_path dir @ name_of argp"
  let ?n = "\<lparr>n_ino = i_ino i, n_path = filed_path i ?p\<rparr>"
  have p: "?p \<noteq> []" "0 \<notin> set ?p" using dok name by (auto simp: node_ok_def name_ok_def)
  have len: "length (name_of argp) = unat (dla_len argp)" using name by (simp add: name_ok_def)
  have nok: "node_ok V ?n" by (rule filed_path_ok [OF V p look])
  have nlen: "length (n_path ?n) < 1024" using room len by (simp add: filed_path_def)
  obtain s' where run: "vsnfsd_proc_lookup V s argp zero_fh = Inr (s',
      \<lparr>fh_data = handle_data (fh_data zero_fh) (i_ino i), fh_type = type_of_inode i (fh_type zero_fh)\<rparr>,
      vsnfs_ok)" and s': "s' = (case lp_find tab (i_ino i) of Some _ \<Rightarrow> s
        | None \<Rightarrow> s\<lparr>lp_tab := Some (lp_add ?n tab), s_kmem := s_kmem s + 2\<rparr>)"
    using lookup_finds [OF V A tab dir dok name _ look] room fh_wf_zero by (simp add: fh_wf_def)
  obtain tab' n where t': "lp_tab s' = Some tab'" and n: "lp_find tab' (i_ino i) = Some n"
      and nn: "node_ok V n" "length (n_path n) < 1024" "n_ino n = i_ino i"
  proof (cases "lp_find tab (i_ino i)")
    case None
    then have "lp_find (lp_add ?n tab) (i_ino i) = Some ?n" by (simp add: lp.find_add)
    then show ?thesis using that [of "lp_add ?n tab" ?n] None s' nok nlen by simp
  next
    case (Some n)
    then show ?thesis
      using that [of tab n] s' tab tab_ok_find [OF tok Some] short lp_find_entry [OF Some] by simp
  qed
  from nn obtain j where j: "path_lookup V (n_path n) = (0, Some (Some j))" "i_ino j = i_ino i"
    by (auto simp: node_ok_def)
  let ?h = "\<lparr>fh_data = handle_data (fh_data zero_fh) (i_ino i), fh_type = type_of_inode i (fh_type zero_fh)\<rparr>"
  have "fh_wf ?h \<and> fh_type ?h = type_of_inode i 0"
    by (simp add: fh_wf_def zero_fh_def length_handle_data)
  with fh_to_path_finds [OF V t' ino(2,1) n nn(1,2) buf] run j show ?thesis by blast
qed

text \<open>
  C13. LOOKUP gives out handles that lead back to the file: when a name is found in a directory the server
  knows, LOOKUP succeeds, and mapping the handle it returns back to a path, as READDIR and READ
  do, succeeds with a path that resolves to the inode that was found. It holds for inode numbers of
  up to seven digits and path names that fit the buffers.
\<close>

theorem lookup_handle_leads_back:
  assumes "kernel_vfs V" and "alloc_ok V" and "srv_ok V s" and "lp_tab s = Some tab"
    and "lp_find tab (simple_strtoul V (fh_mem (dla_fh argp))) = Some dir"
    and "name_ok argp" and "length (n_path dir) + unat (dla_len argp) < 1023"
    and "path_lookup V (n_path dir @ name_of argp) = (0, Some (Some i))"
    and "i_ino i \<noteq> 0" and "unat (i_ino i) < 10 ^ 7"
    and "\<forall>n \<in> set tab. length (n_path n) < 1024" and "length buf = 1024"
  shows "\<exists>s' h m p j. vsnfsd_proc_lookup V s argp zero_fh = Inr (s', h, vsnfs_ok) \<and>
    vsnfsd_fh_to_path V s' h buf 1024 = Inr (0, m) \<and> as_cstr m = Inr p \<and>
    path_lookup V p = (0, Some (Some j)) \<and> i_ino j = i_ino i"
  using lookup_leads_back [OF assms] by blast

theorem lookup_handle_leads_back_witness:
  "\<exists>s' h m p j. vsnfsd_proc_lookup demo demo_srv demo_lookup zero_fh = Inr (s', h, vsnfs_ok) \<and>
    vsnfsd_fh_to_path demo s' h (replicate 1024 0) 1024 = Inr (0, m) \<and> as_cstr m = Inr p \<and>
    path_lookup demo p = (0, Some (Some j)) \<and> i_ino j = 8"
proof -
  have n: "demo_root = \<lparr>n_ino = 7, n_path = [47, 101, 47]\<rparr>" by (rule demo_root_def)
  show ?thesis
    using lookup_handle_leads_back [OF demo_vfs demo_alloc demo_srv_ok, of "[demo_root]" demo_lookup
      demo_root "\<lparr>i_ino = 8, i_mode = 0x41ED\<rparr>" "replicate 1024 0"] demo_lookup_facts
    by (simp add: demo_srv_def n demo_lookup_def)
qed

lemma getroot_leads_back:
  assumes V: "kernel_vfs V" and A: "alloc_ok V" and path: "path_ok argp"
    and len: "0 < unat (dga_len argp)" "unat (dga_len argp) < 1023"
    and look: "path_lookup V (mount_path argp) = (0, Some (Some i))" and dir: "S_ISDIR (i_mode i)"
    and ino: "i_ino i \<noteq> 0" "unat (i_ino i) < 10 ^ 7" and buf: "length buf = 1024"
  shows "\<exists>s' h m. vsnfsd_proc_getroot V s argp zero_fh = Inr (s', h, vsnfs_ok) \<and>
    lp_tab s' = Some [\<lparr>n_ino = i_ino i, n_path = mount_path argp\<rparr>] \<and> fh_type h = VSNFS_DIR \<and> fh_wf h \<and>
    vsnfsd_fh_to_path V s' h buf 1024 = Inr (0, m) \<and> as_cstr m = Inr (mount_path argp)"
proof -
  have reg: "\<not> S_ISREG (i_mode i)" using dir by (simp add: S_ISREG_def S_ISDIR_def)
  obtain nd pb nn np where alloc: "kmalloc V RootNd 0 = Some nd"
      "kmalloc V RootPath (unat (dga_len argp) + 2) = Some pb" "kmalloc V RootNode 0 = Some nn"
      "kmalloc V RootNodePath (unat (dga_len argp) + 2) = Some np"
    using alloc_okD [OF A] by metis
  have pb: "length pb = unat (dga_len argp) + 2"
    by (rule kernel_vfs.kmalloc_size [OF V alloc(2)])
  from root_path_mount [OF pb path len(1)] obtain r where
    r: "root_path pb argp = Inr (mount_path argp @ 0 # r)" by blast
  note z = mount_path_facts(2) [OF path]
  note cp = root_node_copy [OF V path alloc(4)]
  let ?n = "\<lparr>n_ino = i_ino i, n_path = mount_path argp\<rparr>"
  let ?h = "\<lparr>fh_data = handle_data (fh_data zero_fh) (i_ino i), fh_type = VSNFS_DIR\<rparr>"
  obtain s' where run: "vsnfsd_proc_getroot V s argp zero_fh = Inr (s', ?h, vsnfs_ok)"
    and s': "lp_tab s' = Some [?n]"
    using alloc r z look reg dir cp
    by (simp add: vsnfsd_proc_getroot_def Let_def cstr_append_zero lp_add_def zero_fh_def)
  have nok: "node_ok V ?n"
    using look mount_path_facts(1) [OF path] z len by (simp add: node_ok_def)
  have "length (n_path ?n) < 1024" using mount_path_facts(3) [OF path] len(2) by simp
  moreover have "fh_wf ?h" by (simp add: fh_wf_def length_handle_data zero_fh_def)
  ultimately show ?thesis
    using fh_to_path_finds [OF V s' ino(2,1) _ nok _ buf, of "fh_data zero_fh" VSNFS_DIR] run s' by auto
qed

text \<open>
  GETROOT installs the export: for a directory path the server can resolve it returns a handle of type
  directory for its inode, the table holds exactly that entry, under the path closed with a slash,
  and the handle leads back to the path.
\<close>

lemma getroot_installs_root:
  assumes V: "kernel_vfs V" and A: "alloc_ok V" and path: "path_ok argp"
    and len: "0 < unat (dga_len argp)" "unat (dga_len argp) < 1023"
    and look: "path_lookup V (mount_path argp) = (0, Some (Some i))" and dir: "S_ISDIR (i_mode i)"
    and ino: "i_ino i \<noteq> 0" "unat (i_ino i) < 10 ^ 7" and buf: "length buf = 1024"
  shows "\<exists>s' h m. vsnfsd_proc_getroot V s argp zero_fh = Inr (s', h, vsnfs_ok) \<and>
    lp_tab s' = Some [\<lparr>n_ino = i_ino i, n_path = mount_path argp\<rparr>] \<and> fh_type h = VSNFS_DIR \<and>
    vsnfsd_fh_to_path V s' h buf 1024 = Inr (0, m) \<and> as_cstr m = Inr (mount_path argp)"
  using getroot_leads_back [OF assms] by blast

definition demo_getroot :: vsnfsd_getrootargs where
  "demo_getroot = \<lparr>dga_path = [47, 101], dga_len = 2\<rparr>"

lemma getroot_installs_root_example:
  "\<exists>s' h m. vsnfsd_proc_getroot demo srv_start demo_getroot zero_fh = Inr (s', h, vsnfs_ok) \<and>
    lp_tab s' = Some [\<lparr>n_ino = 7, n_path = [47, 101, 47]\<rparr>] \<and> fh_type h = VSNFS_DIR \<and>
    vsnfsd_fh_to_path demo s' h (replicate 1024 0) 1024 = Inr (0, m) \<and> as_cstr m = Inr [47, 101, 47]"
proof -
  have f: "path_ok demo_getroot" "unat (dga_len demo_getroot) = 2"
      "mount_path demo_getroot = [47, 101, 47]" "S_ISDIR 0x41ED" by code_simp+
  from getroot_installs_root [OF demo_vfs demo_alloc f(1), of "\<lparr>i_ino = 7, i_mode = 0x41ED\<rparr>"
      "replicate 1024 0" srv_start] f demo_lookup_facts(5)
  show ?thesis by simp
qed

section \<open>The lifetime of the server\<close>

text \<open>
  C3. Whatever requests arrive, with whatever bytes, and whenever the service is shut down: every entry of
  the table has a proper path that resolves to the inode it is filed under, no inode is filed
  twice, no file is left open and no dentry reference is kept, and the memory in use covers the
  table.  The file tree does not change meanwhile.
\<close>

theorem server_invariant:
  assumes "kernel_vfs V" and "srv_reachable X V s"
  shows "srv_ok V s \<and> s_files s = 0 \<and> s_drefs s = 0 \<and>
    (\<forall>tab. lp_tab s = Some tab \<longrightarrow> 2 * int (length tab) \<le> s_kmem s)"
  using reachable_inv [OF assms(2,1)] by (auto simp: srv_inv_def resources_ok_def)

text \<open>A request as it comes in: GETROOT of \<open>/e\<close>.\<close>

definition demo_rqst :: "byte list \<Rightarrow> svc_rqst" where
  "demo_rqst args =
    \<lparr>rq_arg = \<lparr>iov_base = args, iov_len = length args\<rparr>,
     rq_res = \<lparr>iov_base = replicate 24 0, iov_len = 4\<rparr>,
     rq_res_page_len = 0, rq_respages = [replicate 64 0], rq_resused = 0\<rparr>"

definition demo_state :: srv where
  "demo_state = (case vsnfsd_procedures1 1 of
     Some proc \<Rightarrow> (case vsnfsd_dispatch xdr_ref demo srv_start proc
                      (demo_rqst [0, 0, 0, 2, 47, 101, 0, 0]) 0 of
        Inr (s, _, _) \<Rightarrow> s | Inl _ \<Rightarrow> srv_start)
   | None \<Rightarrow> srv_start)"

lemma demo_state_tab: "lp_tab demo_state = Some [demo_root]"
  by code_simp

lemma demo_reachable: "srv_reachable xdr_ref demo demo_state"
proof -
  obtain proc where p: "vsnfsd_procedures1 1 = Some proc"
    by (simp add: vsnfsd_procedures1_def)
  show ?thesis
  proof (cases "vsnfsd_dispatch xdr_ref demo srv_start proc
                  (demo_rqst [0, 0, 0, 2, 47, 101, 0, 0]) 0")
    case (Inl e)
    then show ?thesis
      using srv_reachable.start by (simp add: demo_state_def p [unfolded One_nat_def])
  next
    case (Inr r)
    then obtain s1 r1 st where "r = (s1, r1, st)" by (cases r)
    with Inr show ?thesis
      using srv_reachable.more [OF srv_reachable.start srv_step.request [OF p, of xdr_ref demo srv_start]]
      by (simp add: demo_state_def p [unfolded One_nat_def])
  qed
qed

theorem server_invariant_witness:
  "lp_tab demo_state = Some [demo_root] \<and> srv_ok demo demo_state \<and> s_files demo_state = 0 \<and>
   s_drefs demo_state = 0 \<and> 2 \<le> s_kmem demo_state"
  using server_invariant [OF demo_vfs demo_reachable] demo_state_tab by simp

section \<open>Requests that are refused\<close>

lemma dispatch_garbage:
  assumes "pc_decode proc X rqstp 0 = Inr (rqstp', None)"
  shows "vsnfsd_dispatch X V s proc rqstp statp = Inr (s, rqstp', rpc_garbage_args)"
  using assms by (simp add: vsnfsd_dispatch_def)

lemma decode_filename_bad:
  assumes X: "sunrpc_xdr X" and h: "holds m p (wire_array name)" and len: "length name \<le> 255"
    and bad: "0 \<in> set name \<or> SLASH \<in> set name"
  shows "decode_filename X m p = Inr None"
proof -
  have d: "xdr_decode_string_inplace X m p 255 =
      Inr (Some (drop (p + 4) m, word_of_nat (length name), p + length (wire_array name)))"
    using sunrpc_xdr.decode_string_holds [OF X h] len by simp
  have u: "unat (word_of_nat (length name) :: u32) = length name" using len by (simp add: unat_of_nat)
  have n: "holds m (p + 4) name" using h by (simp add: wire_array_def holds_append)
  then have "take (length name) (drop (p + 4) m) = name" "length name \<le> length (drop (p + 4) m)"
    by (auto simp: holds_def)
  with name_scan_spec [of "length name" "drop (p + 4) m" "\<lambda>c. c = 0 \<or> c = SLASH"] bad
  have "name_scan (\<lambda>c. c = 0 \<or> c = SLASH) (drop (p + 4) m) (length name) = Inr True" by auto
  then show ?thesis by (simp add: decode_filename_def d u)
qed

text \<open>
  C10. A name is a single component of a path: a LOOKUP request whose name has a slash or a zero byte in it is
  answered with "garbage arguments" and changes nothing.
\<close>

theorem lookup_bad_name_rejected:
  assumes X: "sunrpc_xdr X" and fh: "fh_wf fh" and len: "length name \<le> 255"
    and h: "holds (iov_base (rq_arg rqstp)) 0 (wire_fh fh @ wire_array name)"
    and bad: "0 \<in> set name \<or> SLASH \<in> set name"
  shows "\<exists>proc. vsnfsd_procedures1 VSNFSPROC_LOOKUP = Some proc \<and>
    vsnfsd_dispatch X V s proc rqstp statp = Inr (s, rqstp, rpc_garbage_args)"
proof -
  from h fh have "decode_fh (iov_base (rq_arg rqstp)) 0 = Inr (fh, 12)"
    and "holds (iov_base (rq_arg rqstp)) 12 (wire_array name)"
    by (auto simp: holds_append decode_fh_wire)
  with decode_filename_bad [OF X this(2) len bad]
  have "vsnfssvc_decode_lookupargs X rqstp 0 = Inr (rqstp, None)"
    by (simp add: vsnfssvc_decode_lookupargs_def)
  then show ?thesis by (simp add: vsnfsd_procedures1_def dispatch_garbage dec_as_def)
qed

theorem lookup_bad_name_rejected_witness:
  "\<exists>proc. vsnfsd_procedures1 VSNFSPROC_LOOKUP = Some proc \<and>
    vsnfsd_dispatch xdr_ref demo demo_srv proc
      (demo_rqst ([55, 0, 0, 0, 0, 0, 0, 0, 0, 0, 0, 2, 0, 0, 0, 2, 47, 97, 0, 0])) 0
    = Inr (demo_srv, demo_rqst ([55, 0, 0, 0, 0, 0, 0, 0, 0, 0, 0, 2, 0, 0, 0, 2, 47, 97, 0, 0]), rpc_garbage_args)"
proof (rule lookup_bad_name_rejected [OF ref_xdr.sunrpc_xdr_axioms,
    of "\<lparr>fh_data = [55, 0, 0, 0, 0, 0, 0, 0], fh_type = 2\<rparr>" "[47, 97]"])
  show "holds (iov_base (rq_arg (demo_rqst
      [55, 0, 0, 0, 0, 0, 0, 0, 0, 0, 0, 2, 0, 0, 0, 2, 47, 97, 0, 0]))) 0
      (wire_fh \<lparr>fh_data = [55, 0, 0, 0, 0, 0, 0, 0], fh_type = 2\<rparr> @ wire_array [47, 97])"
    by code_simp
qed (simp_all add: fh_wf_def)

end
