(* ===== verification/DirSpec.thy ===== *)
theory DirSpec
  imports ServerXdr
begin

text \<open>
  What the directory filler promises, and that the code keeps it.  The specification works on a
  list of entries and a number of free words; the code works on a page, a cursor, a
  back-patched offset word and an error field.  \<open>dir_rel\<close> relates the two.
  The simulation says that one call of \<open>vsnfssvc_encode_entry\<close> is one
  step of the specification, it never writes outside the page, and the bytes of the page are
  always the layout of the specified entries.
\<close>

section \<open>The specification\<close>

record dstate =
  ds_ents :: "wentry list"
  ds_room :: int
  ds_err :: be32

definition sent_name :: "dirent \<Rightarrow> byte list" where
  "sent_name d = take (min VSNFS_MAXNAMLEN (de_namlen d)) (de_name d)"

definition wentry_of :: "byte list \<Rightarrow> dirent \<Rightarrow> wentry" where
  "wentry_of buf d =
     \<lparr>we_ino = ucast (de_ino d), we_name = sent_name d,
      we_fh = \<lparr>fh_data = handle_data buf (de_ino d), fh_type = de_type d\<rparr>,
      we_off = - 1\<rparr>"

text \<open>The last entry learns the offset of the entry that follows it.\<close>

definition patch_last :: "u32 \<Rightarrow> wentry list \<Rightarrow> wentry list" where
  "patch_last off es = (if es = [] then [] else butlast es @ [(last es)\<lparr>we_off := off\<rparr>])"

definition entry_words :: "dirent \<Rightarrow> nat" where
  "entry_words d = 7 + (length (sent_name d) + 3) div 4"

definition dir_step :: "(nat \<Rightarrow> byte list) \<Rightarrow> dirent \<Rightarrow> dstate \<Rightarrow> dstate \<times> int" where
  "dir_step stk d s =
     (if 2 ^ 32 - 1 < de_offset d then (s\<lparr>ds_err := vsnfserr VSNFSERR_FBIG\<rparr>, - EINVAL)
      else let s = s\<lparr>ds_ents := patch_last (word_of_int (de_offset d)) (ds_ents s)\<rparr> in
        if ds_room s < int (entry_words d)
        then (s\<lparr>ds_err := vsnfserr VSNFSERR_TOOSMALL\<rparr>, - EINVAL)
        else if 2 ^ 32 - 1 < de_ino d then (s\<lparr>ds_err := vsnfserr VSNFSERR_FBIG\<rparr>, - EINVAL)
        else (s\<lparr>ds_ents := ds_ents s @ [wentry_of (stk (length (wire_entries (ds_ents s)))) d],
                ds_room := ds_room s - int (entry_words d)\<rparr>, 0))"

definition dirent_wf :: "dirent \<Rightarrow> bool" where
  "dirent_wf d \<longleftrightarrow> de_namlen d \<le> length (de_name d)"

definition stk_wf :: "(nat \<Rightarrow> byte list) \<Rightarrow> bool" where
  "stk_wf stk \<longleftrightarrow> (\<forall>p. length (stk p) = VSNFS_FHSIZE)"

section \<open>How page and specification agree\<close>

definition dir_rel :: "mem \<times> vsnfsd_readdirres \<Rightarrow> dstate \<Rightarrow> bool" where
  "dir_rel buf s \<longleftrightarrow>
     (let (m, res) = buf in
      holds m 0 (wire_entries (ds_ents s)) \<and> list_all wentry_wf (ds_ents s) \<and>
      drr_buffer res = length (wire_entries (ds_ents s)) \<and>
      drr_offset res = (if ds_ents s = [] then None else Some (drr_buffer res - 4)) \<and>
      drr_buflen res = ds_room s \<and> drr_err res = ds_err s \<and> 0 \<le> ds_room s \<and>
      int (drr_buffer res) + 4 * ds_room s + 8 \<le> int (length m))"

lemma length_sent_name: "dirent_wf d \<Longrightarrow> length (sent_name d) = min 255 (de_namlen d)"
  by (simp add: sent_name_def dirent_wf_def min_def)

lemma wentry_of_wf: "dirent_wf d \<Longrightarrow> length buf = 8 \<Longrightarrow> wentry_wf (wentry_of buf d)"
  by (simp add: wentry_wf_def wentry_of_def fh_wf_def length_handle_data length_sent_name)

lemma length_wire_wentry_of:
  "dirent_wf d \<Longrightarrow> length buf = 8 \<Longrightarrow> length (wire_entry (wentry_of buf d)) = 4 * entry_words d"
  by (simp add: length_wire_entry wentry_of_wf entry_words_def) (simp add: wentry_of_def)

text \<open>Everything of an entry before its offset word.\<close>

definition wire_entry_head :: "wentry \<Rightarrow> byte list" where
  "wire_entry_head e = net32 1 @ net32 (we_ino e) @ wire_array (we_name e) @ wire_fh (we_fh e)"

lemma wire_entry_split: "wire_entry e = wire_entry_head e @ net32 (we_off e)"
  by (simp add: wire_entry_def wire_entry_head_def)

lemma wire_entry_head_off [simp]: "wire_entry_head (e\<lparr>we_off := off\<rparr>) = wire_entry_head e"
  by (simp add: wire_entry_head_def)

lemma patch_last_snoc [simp]: "patch_last off (es @ [e]) = es @ [e\<lparr>we_off := off\<rparr>]"
  by (simp add: patch_last_def)

lemma patch_last_Nil [simp]: "patch_last off [] = []"
  by (simp add: patch_last_def)

lemma length_wire_patch_last [simp]:
  "length (wire_entries (patch_last off es)) = length (wire_entries es)"
  by (cases es rule: rev_cases) (simp_all add: wire_entry_split)

lemma wf_patch_last: "list_all wentry_wf es \<Longrightarrow> list_all wentry_wf (patch_last off es)"
  by (cases es rule: rev_cases) (simp_all add: wentry_wf_def)

lemma patch_last_eq_Nil [simp]: "patch_last off es = [] \<longleftrightarrow> es = []"
  by (simp add: patch_last_def)

text \<open>Back-patching the offset word of the last entry.\<close>

lemma patch_write:
  assumes "holds m 0 (wire_entries (es @ [e]))"
  shows "\<exists>m'. st32 m (length (wire_entries (es @ [e])) - 4) (htonl off) = Inr m' \<and>
    holds m' 0 (wire_entries (es @ [e\<lparr>we_off := off\<rparr>])) \<and> length m' = length m"
proof -
  let ?a = "wire_entries es @ wire_entry_head e"
  have split: "wire_entries (es @ [e]) = ?a @ net32 (we_off e)"
    by (simp add: wire_entry_split)
  with assms have a: "holds m 0 ?a" and "holds m (length ?a) (net32 (we_off e))"
    by (metis holds_append add_0)+
  then obtain m' where m': "mem_write m (length ?a) (net32 off) = Inr m'"
    using mem_write_ok [of "length ?a" "net32 off" m] by (auto simp: holds_def)
  from mem_write_holds_other [OF m', of 0 ?a] a have "holds m' 0 ?a" by simp
  with mem_write_holds [OF m'] have "holds m' 0 (?a @ net32 off)"
    by (simp only: holds_append add_0)
  then show ?thesis
    using m' mem_write_length [OF m'] by (simp add: split mem_simps wire_entry_split)
qed

lemma patch_refines:
  assumes "dir_rel (m, res) s"
  shows "\<exists>m'. (case drr_offset res of
                 None \<Rightarrow> Inr m | Some q \<Rightarrow> st32 m q (htonl off)) = Inr m' \<and>
    dir_rel (m', res) (s\<lparr>ds_ents := patch_last off (ds_ents s)\<rparr>) \<and> length m' = length m"
proof (cases "ds_ents s" rule: rev_cases)
  case Nil
  then show ?thesis using assms by (auto simp: dir_rel_def)
next
  case (snoc es e)
  with assms have "holds m 0 (wire_entries (es @ [e]))" by (simp add: dir_rel_def)
  from patch_write [OF this, of off] obtain m' where
      "st32 m (length (wire_entries (es @ [e])) - 4) (htonl off) = Inr m'"
    and "holds m' 0 (wire_entries (es @ [e\<lparr>we_off := off\<rparr>]))" and "length m' = length m"
    by blast
  then show ?thesis
    using assms snoc wf_patch_last [of "es @ [e]" off] length_wire_patch_last [of off "es @ [e]"]
    by (auto simp: dir_rel_def)
qed

text \<open>The writes of one entry are one write of its layout.\<close>

lemma entry_writes:
  assumes "sunrpc_xdr X" and "dirent_wf d" and "length buf = 8"
  shows "bindF (st32 m p (htonl 1)) (\<lambda>m.
      bindF (st32 m (p + 4) (htonl (ucast (de_ino d)))) (\<lambda>m.
      bindF (xdr_encode_array X m (p + 8) (de_name d)
               (word_of_nat (min 255 (de_namlen d)))) (\<lambda>(m, q).
      bindF (snprintf_ld buf 8 (de_ino d)) (\<lambda>data.
      bindF (encode_fh m q \<lparr>fh_data = data, fh_type = de_type d\<rparr>) (\<lambda>(m, q).
      bindF (st32 m q (htonl (de_type d))) (\<lambda>m.
      bindF (st32 m (q + 4) (htonl (- 1))) (\<lambda>m. f m q))))))) =
    bindF (mem_write m p (wire_entry (wentry_of buf d)))
      (\<lambda>m. f m (p + length (wire_entry (wentry_of buf d)) - 8))"
proof -
  let ?n = "min 255 (de_namlen d)"
  have u: "unat (word_of_nat ?n :: u32) = ?n" by (simp add: unat_of_nat)
  have len: "length (wire_entry (wentry_of buf d)) = 24 + length (wire_array (sent_name d))"
    using assms by (simp add: length_wire_wentry_of entry_words_def length_wire_array)
  have arr: "xdr_encode_array X m q (de_name d) (word_of_nat ?n) =
      bindF (mem_write m q (wire_array (sent_name d)))
        (\<lambda>m'. Inr (m', q + length (wire_array (sent_name d))))" for m q
    using assms(2) sunrpc_xdr.encode_array [OF assms(1), of "word_of_nat ?n" "de_name d" m q]
      XDR_QUADLEN_nat [of "word_of_nat ?n"] length_sent_name [OF assms(2)]
    by (simp add: u dirent_wf_def length_wire_array sent_name_def add.assoc)
  have hd: "memcpy m q (handle_data buf i) 0 8 = mem_write m q (handle_data buf i)" for m q i
    using assms(3) by (simp add: mem_simps length_handle_data)
  show ?thesis
    using assms(3)
    by (simp add: len arr hd encode_fh_def wire_entry_def wentry_of_def wire_fh_def mem_simps
        mem_write_append [symmetric] bindF_assoc length_handle_data add.assoc add.commute add.left_commute)
qed

lemma append_refines:
  assumes "sunrpc_xdr X" and "stk_wf stk" and "dirent_wf d"
    and "dir_rel (m, res) s" and "int (entry_words d) \<le> ds_room s"
  defines "e \<equiv> wentry_of (stk (drr_buffer res)) d"
  shows "\<exists>m'. mem_write m (drr_buffer res) (wire_entry e) = Inr m' \<and> length m' = length m \<and>
    dir_rel (m', res\<lparr>drr_offset := Some (drr_buffer res + length (wire_entry e) - 4),
                     drr_buflen := ds_room s - int (entry_words d),
                     drr_buffer := drr_buffer res + length (wire_entry e)\<rparr>)
      (s\<lparr>ds_ents := ds_ents s @ [e], ds_room := ds_room s - int (entry_words d)\<rparr>)"
proof -
  from assms(2) have buf: "length (stk (drr_buffer res)) = 8" by (simp add: stk_wf_def)
  have len: "length (wire_entry e) = 4 * entry_words d"
    unfolding e_def by (rule length_wire_wentry_of [OF assms(3) buf])
  have wf: "wentry_wf e" unfolding e_def by (rule wentry_of_wf [OF assms(3) buf])
  from assms(4) have rel: "holds m 0 (wire_entries (ds_ents s))" "list_all wentry_wf (ds_ents s)"
      "drr_buffer res = length (wire_entries (ds_ents s))" "drr_err res = ds_err s"
      "int (drr_buffer res) + 4 * ds_room s + 8 \<le> int (length m)"
    by (simp_all add: dir_rel_def)
  obtain m' where m': "mem_write m (drr_buffer res) (wire_entry e) = Inr m'"
    using mem_write_ok [of "drr_buffer res" "wire_entry e" m] rel(5) assms(5) by (auto simp: len)
  have "holds m' 0 (wire_entries (ds_ents s))"
    using mem_write_holds_other [OF m', of 0 "wire_entries (ds_ents s)"] rel(1,3) by simp
  then have "holds m' 0 (wire_entries (ds_ents s @ [e]))"
    using mem_write_holds [OF m'] rel(3) by (simp add: holds_append)
  then show ?thesis
    using m' mem_write_length [OF m'] wf rel assms(5) len by (auto simp: dir_rel_def)
qed

lemma sent_words:
  assumes "dirent_wf d"
  shows "(if VSNFS_MAXNAMLEN < de_namlen d then VSNFS_MAXNAMLEN else de_namlen d) = min 255 (de_namlen d)"
    and "XDR_QUADLEN (word_of_nat (min 255 (de_namlen d))) = (length (sent_name d) + 3) div 4"
  using XDR_QUADLEN_nat [of "word_of_nat (min 255 (de_namlen d))"] assms
  by (simp_all add: length_sent_name unat_of_nat)

text \<open>An entry that fits is appended, behind the one whose offset is patched.\<close>

lemma encode_entry_fits:
  assumes X: "sunrpc_xdr X" and stk: "stk_wf stk" and d: "dirent_wf d"
    and m1: "(case drr_offset res of None \<Rightarrow> Inr m | Some q \<Rightarrow> st32 m q (htonl (word_of_int (de_offset d)))) = Inr m1"
    and rel: "dir_rel (m1, res) s"
    and fits: "\<not> 2 ^ 32 - 1 < de_offset d" "int (entry_words d) \<le> ds_room s" "\<not> 2 ^ 32 - 1 < de_ino d"
  defines "e \<equiv> wentry_of (stk (drr_buffer res)) d"
  shows "\<exists>m' res'. vsnfssvc_encode_entry X stk d (m, res) = Inr ((m', res'), 0) \<and> length m' = length m1 \<and>
    dir_rel (m', res') (s\<lparr>ds_ents := ds_ents s @ [e], ds_room := ds_room s - int (entry_words d)\<rparr>)"
proof -
  from stk have buf: "length (stk (drr_buffer res)) = 8" by (simp add: stk_wf_def)
  have len: "length (wire_entry e) = 4 * entry_words d" unfolding e_def by (rule length_wire_wentry_of [OF d buf])
  have room: "drr_buflen res = ds_room s" using rel by (simp add: dir_rel_def)
  from append_refines [OF X stk d rel fits(2)] obtain m2 where
      m2: "mem_write m1 (drr_buffer res) (wire_entry e) = Inr m2" and "length m2 = length m1"
    and "dir_rel (m2, res\<lparr>drr_offset := Some (drr_buffer res + length (wire_entry e) - 4),
          drr_buflen := ds_room s - int (entry_words d), drr_buffer := drr_buffer res + length (wire_entry e)\<rparr>)
        (s\<lparr>ds_ents := ds_ents s @ [e], ds_room := ds_room s - int (entry_words d)\<rparr>)"
    unfolding e_def by auto
  moreover have "entry_words d \<ge> 7" by (simp add: entry_words_def)
  with fits m1 room m2 len have "vsnfssvc_encode_entry X stk d (m, res) = Inr ((m2,
      res\<lparr>drr_offset := Some (drr_buffer res + length (wire_entry e) - 4),
          drr_buflen := ds_room s - int (entry_words d), drr_buffer := drr_buffer res + length (wire_entry e)\<rparr>), 0)"
    unfolding e_def
    by (simp add: vsnfssvc_encode_entry_def sent_words [OF d] entry_words_def Let_def entry_writes [OF X d buf])
  ultimately show ?thesis by blast
qed

lemma encode_entry_sim:
  assumes "sunrpc_xdr X" and "stk_wf stk" and "dirent_wf d" and "dir_rel (m, res) s"
  shows "\<exists>m' res'. vsnfssvc_encode_entry X stk d (m, res) = Inr ((m', res'), snd (dir_step stk d s)) \<and>
    dir_rel (m', res') (fst (dir_step stk d s)) \<and> length m' = length m"
proof -
  let ?off = "word_of_int (de_offset d) :: u32"
  let ?s1 = "s\<lparr>ds_ents := patch_last ?off (ds_ents s)\<rparr>"
  obtain m1 where m1: "(case drr_offset res of None \<Rightarrow> Inr m | Some q \<Rightarrow> st32 m q (htonl ?off)) = Inr m1"
    and rel1: "dir_rel (m1, res) ?s1" and len1: "length m1 = length m"
    using patch_refines [OF assms(4), of ?off] by blast
  have room: "drr_buflen res = ds_room s" and pos: "drr_buffer res = length (wire_entries (ds_ents s))"
    using assms(4) by (simp_all add: dir_rel_def)
  note step = vsnfssvc_encode_entry_def dir_step_def sent_words [OF assms(3)] entry_words_def dir_rel_def
  consider (off) "2 ^ 32 - 1 < de_offset d"
    | (refused) "\<not> 2 ^ 32 - 1 < de_offset d" "ds_room s < int (entry_words d) \<or> 2 ^ 32 - 1 < de_ino d"
    | (fits) "\<not> 2 ^ 32 - 1 < de_offset d" "int (entry_words d) \<le> ds_room ?s1" "\<not> 2 ^ 32 - 1 < de_ino d"
    by fastforce
  then show ?thesis
  proof cases
    case off
    then show ?thesis using assms(4) by (auto simp: step)
  next
    case refused
    then show ?thesis using m1 rel1 len1 room by (cases "ds_room s < int (entry_words d)") (auto simp: step)
  next
    case fits
    from encode_entry_fits [OF assms(1-3) m1 rel1 fits] fits pos len1 show ?thesis
      by (auto simp: dir_step_def Let_def)
  qed
qed

text \<open>
  C7. The directory filler refines its specification: on a page that holds the entries of
  \<open>s\<close>, a call with any directory entry returns without a fault, with the result of
  \<open>dir_step\<close>, and leaves the page holding the entries of the next state; the space
  accounting keeps room for the end marker.
\<close>

theorem encode_entry_refines:
  assumes "sunrpc_xdr X" and "stk_wf stk" and "dirent_wf d" and "dir_rel (m, res) s"
  shows "\<exists>m' res'. vsnfssvc_encode_entry X stk d (m, res) = Inr ((m', res'), snd (dir_step stk d s)) \<and>
    dir_rel (m', res') (fst (dir_step stk d s)) \<and> length m' = length m"
  by (rule encode_entry_sim [OF assms])

text \<open>A directory entry for a file \<open>a\<close> of inode 7, entered into an empty page.\<close>

theorem encode_entry_refines_witness:
  "\<exists>m' res'. vsnfssvc_encode_entry xdr_ref (\<lambda>p. replicate 8 170)
       \<lparr>de_name = [97], de_namlen = 1, de_offset = 1, de_ino = 7, de_type = 8\<rparr>
       (replicate 48 0, \<lparr>drr_count = 0, drr_err = 0, drr_buffer = 0, drr_buflen = 10, drr_offset = None\<rparr>)
     = Inr ((m', res'), 0) \<and>
     dir_rel (m', res')
       \<lparr>ds_ents = [\<lparr>we_ino = 7, we_name = [97],
          we_fh = \<lparr>fh_data = [55, 0, 170, 170, 170, 170, 170, 170], fh_type = 8\<rparr>, we_off = - 1\<rparr>],
        ds_room = 2, ds_err = 0\<rparr>"
proof -
  let ?stk = "\<lambda>p::nat. replicate 8 (170::byte)"
  let ?d = "\<lparr>de_name = [97], de_namlen = 1, de_offset = 1, de_ino = 7, de_type = 8\<rparr>"
  let ?s = "\<lparr>ds_ents = [], ds_room = 10, ds_err = 0\<rparr>"
  have step: "dir_step ?stk ?d ?s =
     (\<lparr>ds_ents = [\<lparr>we_ino = 7, we_name = [97],
          we_fh = \<lparr>fh_data = [55, 0, 170, 170, 170, 170, 170, 170], fh_type = 8\<rparr>, we_off = - 1\<rparr>],
        ds_room = 2, ds_err = 0\<rparr>, 0)"
    by code_simp
  have "dir_rel (replicate 48 0,
      \<lparr>drr_count = 0, drr_err = 0, drr_buffer = 0, drr_buflen = 10, drr_offset = None\<rparr>) ?s"
    by (simp add: dir_rel_def holds_def)
  from encode_entry_refines [OF ref_xdr.sunrpc_xdr_axioms _ _ this, of ?stk ?d] step
  show ?thesis by (auto simp: stk_wf_def dirent_wf_def)
qed

end
