(* ===== verification/ServerListing.thy ===== *)
theory ServerListing
  imports DirSpec ServerTable
begin

text \<open>
  READDIR on the server: enumerating a directory through the filler is a run of the specification
  of \<open>DirSpec\<close>, and the reply page is the layout of the entries that run collects.
\<close>

section \<open>A run of the specification\<close>

fun dir_run :: "(nat \<Rightarrow> byte list) \<Rightarrow> dirent list \<Rightarrow> dstate \<Rightarrow> dstate" where
  "dir_run stk [] s = s"
| "dir_run stk (d # ds) s =
     (let (s, ret) = dir_step stk d s in if ret \<noteq> 0 then s else dir_run stk ds s)"

definition dir_start :: "int \<Rightarrow> dstate" where
  "dir_start room = \<lparr>ds_ents = [], ds_room = room, ds_err = vsnfs_ok\<rparr>"

lemma readdir_iter_sim:
  assumes X: "sunrpc_xdr X" and stk: "stk_wf stk"
    and "\<forall>d \<in> set ds. dirent_wf d" and "dir_rel (m, res) s"
  shows "\<exists>m' res' ret. readdir_iter (vsnfssvc_encode_entry X stk) err ds (m, res) = Inr ((m', res'), ret) \<and>
    ret \<in> {0, err} \<and> dir_rel (m', res') (dir_run stk ds s) \<and> length m' = length m"
  using assms(3,4)
proof (induction ds arbitrary: m res s)
  case Nil
  then show ?case by auto
next
  case (Cons d ds)
  then have "dirent_wf d" by simp
  from encode_entry_sim [OF X stk this Cons.prems(2)] obtain m1 res1 where
    1: "vsnfssvc_encode_entry X stk d (m, res) = Inr ((m1, res1), snd (dir_step stk d s))"
      "dir_rel (m1, res1) (fst (dir_step stk d s))" "length m1 = length m" by blast
  show ?case
  proof (cases "snd (dir_step stk d s) = 0")
    case True
    from Cons.IH [OF _ 1(2)] Cons.prems(1) 1 True show ?thesis
      by (auto simp: case_prod_beta)
  next
    case False
    with 1 show ?thesis by (auto simp: case_prod_beta)
  qed
qed

section \<open>The reply page\<close>

definition room_for :: "u32 \<Rightarrow> int" where
  "room_for count = max 0 (int (unat count div 4) - 2)"

text \<open>The page READDIR fills, once the handle is open; a status other than 0 only where the enumeration failed.\<close>

lemma vsnfsd_readdir_run:
  assumes V: "kernel_readdir V entries rd_err" and X: "sunrpc_xdr X"
    and op: "vsnfsd_open V s fhp = Inr (s1, 0, Some f)" and rel: "dir_rel (m, res) d"
  shows "\<exists>m' res' e. vsnfsd_readdir X V s fhp (m, res) = Inr (s, (m', res'), e) \<and> (rd_err f = 0 \<longrightarrow> e = 0) \<and>
    dir_rel (m', res') (dir_run (stk_fh V) (entries f) d) \<and> length m' = length m"
proof -
  have stk: "stk_wf (stk_fh V)"
    using V kernel_vfs.stack_size unfolding kernel_readdir_def stk_wf_def by blast
  have wf: "\<forall>d \<in> set (entries f). dirent_wf d"
    using kernel_readdir.entries_valid [OF V] by (auto simp: dirent_wf_def)
  from readdir_iter_sim [OF X stk wf rel, of "rd_err f"] obtain m' res' ret where
    "readdir_iter (vsnfssvc_encode_entry X (stk_fh V)) (rd_err f) (entries f) (m, res) = Inr ((m', res'), ret)"
    "ret \<in> {0, rd_err f}" "dir_rel (m', res') (dir_run (stk_fh V) (entries f) d)" "length m' = length m" by blast
  moreover have "s1 = s\<lparr>s_files := s_files s + 1\<rparr>" using open_state [OF op] by simp
  ultimately show ?thesis
    by (auto simp: vsnfsd_readdir_def op kernel_readdir.readdir_entries [OF V] vsnfsd_close_def)
qed

lemma dir_rel_start:
  assumes "length page = PAGE_SIZE" and "unat count \<le> PAGE_SIZE"
  shows "dir_rel (page, \<lparr>drr_count = c, drr_err = 0, drr_buffer = 0,
    drr_buflen = room_for count, drr_offset = None\<rparr>) (dir_start (room_for count))"
  using assms by (auto simp: dir_rel_def dir_start_def room_for_def holds_def)

text \<open>
  The end marker goes behind the entries; then the page is the layout of the whole listing and
  its length is what the page part of the reply is set to.
\<close>

lemma encode_readdirres_page:
  assumes X: "sunrpc_xdr X" and rel: "dir_rel (m, res) d" and len: "length m = PAGE_SIZE"
  shows "\<exists>rqstp' m'. vsnfssvc_encode_readdirres X rqstp p m res = Inr (rqstp', m', True) \<and>
    holds m' 0 (wire_dir (ds_ents d) (ds_err d = vsnfs_ok)) \<and>
    rq_res_page_len rqstp' = length (wire_dir (ds_ents d) (ds_err d = vsnfs_ok)) \<and>
    length m' = PAGE_SIZE"
proof -
  let ?es = "wire_entries (ds_ents d)" and ?mark = "net32 0 @ net32 (if ds_err d = vsnfs_ok then 1 else 0)"
  from rel have h: "holds m 0 ?es" and pos: "drr_buffer res = length ?es"
    and room: "length ?es + 8 \<le> length m" and err: "drr_err res = ds_err d"
    by (auto simp: dir_rel_def)
  obtain m' where m': "mem_write m (length ?es) ?mark = Inr m'"
    using mem_write_ok [of "length ?es" ?mark m] room by auto
  have w: "bindF (st32 m (length ?es) 0) (\<lambda>m. bindF (st32 m (length ?es + 4)
      (htonl (if ds_err d = vsnfs_ok then 1 else 0))) f) = bindF (mem_write m (length ?es) ?mark) f" for f
    using st32_raw [of m "length ?es" 0]
    by (simp add: mem_simps mem_write_append [symmetric] bindF_assoc)
  have "holds m' 0 ?es"
    using mem_write_holds_other [OF m', of 0 ?es] h by simp
  then have "holds m' 0 (wire_dir (ds_ents d) (ds_err d = vsnfs_ok))"
    using mem_write_holds [OF m'] by (simp add: wire_dir_def holds_append)
  moreover have "page_len_of (length ?es + 8) = length ?es + 8"
    using room len by (intro page_len_of_eq) simp_all
  ultimately show ?thesis
    using m' mem_write_length [OF m'] len
    by (simp add: vsnfssvc_encode_readdirres_def pos err w [unfolded vsnfs_ok_0] wire_dir_def ressize_check_def case_prod_beta
        Let_def split del: if_split)
qed

section \<open>What a run collects\<close>

text \<open>An entry the protocol can carry: offset and inode number fit 32 bits.\<close>

definition dirent_fits :: "dirent \<Rightarrow> bool" where
  "dirent_fits d \<longleftrightarrow> dirent_wf d \<and> de_offset d < 2 ^ 32 \<and> de_ino d < 2 ^ 32"

lemma ino_fits: "(i :: u64) < 2 ^ 32 \<Longrightarrow> \<not> 2 ^ 32 - 1 < i"
  by (simp add: word_less_nat_alt)

lemma dir_step_fits:
  assumes "dirent_fits d"
  shows "dir_step stk d s =
    (if ds_room s < int (entry_words d)
     then (s\<lparr>ds_ents := patch_last (word_of_int (de_offset d)) (ds_ents s), ds_err := vsnfserr VSNFSERR_TOOSMALL\<rparr>, - EINVAL)
     else (s\<lparr>ds_ents := patch_last (word_of_int (de_offset d)) (ds_ents s) @
               [wentry_of (stk (length (wire_entries (ds_ents s)))) d],
             ds_room := ds_room s - int (entry_words d)\<rparr>, 0))"
  using assms ino_fits [of "de_ino d"] by (simp add: dir_step_def dirent_fits_def Let_def)

text \<open>What a reader of the listing sees of an entry, before offsets are filled in.\<close>

abbreviation seen :: "wentry \<Rightarrow> byte list \<times> u32 \<times> u32" where
  "seen e \<equiv> (we_name e, we_ino e, fh_type (we_fh e))"

definition seen_of :: "dirent \<Rightarrow> byte list \<times> u32 \<times> u32" where
  "seen_of d = (sent_name d, ucast (de_ino d), de_type d)"

lemma seen_patch_last [simp]: "map seen (patch_last off es) = map seen es"
  by (cases es rule: rev_cases) simp_all

lemma seen_wentry_of [simp]: "seen (wentry_of buf d) = seen_of d"
  by (simp add: wentry_of_def seen_of_def)

lemma dir_run_all:
  assumes "list_all dirent_fits ds" and "(\<Sum>d\<leftarrow>ds. int (entry_words d)) \<le> ds_room s"
  shows "map seen (ds_ents (dir_run stk ds s)) = map seen (ds_ents s) @ map seen_of ds \<and>
    ds_err (dir_run stk ds s) = ds_err s"
  using assms
proof (induction ds arbitrary: s)
  case (Cons d ds)
  have "0 \<le> (\<Sum>d\<leftarrow>ds. int (entry_words d))" by (induction ds) simp_all
  with Cons.prems have "\<not> ds_room s < int (entry_words d)" by simp
  with Cons show ?case by (simp add: dir_step_fits wentry_of_def seen_of_def)
qed simp

lemma dir_run_short:
  assumes "list_all dirent_fits ds" and "ds_room s < (\<Sum>d\<leftarrow>ds. int (entry_words d))" and "0 \<le> ds_room s"
  shows "ds_err (dir_run stk ds s) = vsnfserr VSNFSERR_TOOSMALL \<and>
    (\<exists>k < length ds. map seen (ds_ents (dir_run stk ds s)) = map seen (ds_ents s) @ map seen_of (take k ds))"
  using assms
proof (induction ds arbitrary: s)
  case (Cons d ds)
  show ?case
  proof (cases "ds_room s < int (entry_words d)")
    case True
    then show ?thesis using Cons.prems by (auto simp: dir_step_fits intro: exI [of _ 0])
  next
    case False
    let ?s = "s\<lparr>ds_ents := patch_last (word_of_int (de_offset d)) (ds_ents s) @
               [wentry_of (stk (length (wire_entries (ds_ents s)))) d],
             ds_room := ds_room s - int (entry_words d)\<rparr>"
    have run: "dir_run stk (d # ds) s = dir_run stk ds ?s"
      using False Cons.prems by (simp add: dir_step_fits)
    from Cons.IH [of ?s] Cons.prems False obtain k where
      "ds_err (dir_run stk ds ?s) = vsnfserr VSNFSERR_TOOSMALL" "k < length ds"
      "map seen (ds_ents (dir_run stk ds ?s)) = map seen (ds_ents s) @ seen_of d # map seen_of (take k ds)"
      by (auto simp: wentry_of_def seen_of_def)
    then show ?thesis unfolding run by (auto intro!: exI [of _ "Suc k"])
  qed
qed simp

lemma room_for_page [simp]: "room_for 4096 = 1022"
  by (simp add: room_for_def)

end
