(* ===== verification/ServerReply.thy ===== *)
theory ServerReply
  imports ServerServes ServerListing
begin

text \<open>
  What a dispatched request leaves in the reply: the status word and, behind it, the result, in the layout
  of the protocol.
\<close>

section \<open>Decoding what is laid out\<close>

lemma decode_filename_wire:
  assumes X: "sunrpc_xdr X" and h: "holds m p (wire_array name)" and len: "length name \<le> 255"
    and good: "0 \<notin> set name" "SLASH \<notin> set name"
  shows "decode_filename X m p =
    Inr (Some (drop (p + 4) m, word_of_nat (length name), p + length (wire_array name)))"
proof -
  have d: "xdr_decode_string_inplace X m p 255 =
      Inr (Some (drop (p + 4) m, word_of_nat (length name), p + length (wire_array name)))"
    using sunrpc_xdr.decode_string_holds [OF X h] len by simp
  have u: "unat (word_of_nat (length name) :: u32) = length name" using len by (simp add: unat_of_nat)
  have "holds m (p + 4) name" using h by (simp add: wire_array_def holds_append)
  then have "take (length name) (drop (p + 4) m) = name" "length name \<le> length (drop (p + 4) m)"
    by (auto simp: holds_def)
  with name_scan_spec [of "length name" "drop (p + 4) m" "\<lambda>c. c = 0 \<or> c = SLASH"] good
  have "name_scan (\<lambda>c. c = 0 \<or> c = SLASH) (drop (p + 4) m) (length name) = Inr False" by auto
  then show ?thesis by (simp add: decode_filename_def d u)
qed

lemma decode_pathname_wire:
  assumes X: "sunrpc_xdr X" and h: "holds m p (wire_array path)" and len: "length path \<le> 1024"
    and good: "0 \<notin> set path"
  shows "decode_pathname X m p =
    Inr (Some (drop (p + 4) m, word_of_nat (length path), p + length (wire_array path)))"
proof -
  have d: "xdr_decode_string_inplace X m p 1024 =
      Inr (Some (drop (p + 4) m, word_of_nat (length path), p + length (wire_array path)))"
    using sunrpc_xdr.decode_string_holds [OF X h] len by simp
  have u: "unat (word_of_nat (length path) :: u32) = length path" using len by (simp add: unat_of_nat)
  have "holds m (p + 4) path" using h by (simp add: wire_array_def holds_append)
  then have "take (length path) (drop (p + 4) m) = path" "length path \<le> length (drop (p + 4) m)"
    by (auto simp: holds_def)
  with name_scan_spec [of "length path" "drop (p + 4) m" "\<lambda>c. c = 0"] good
  have "name_scan (\<lambda>c. c = 0) (drop (p + 4) m) (length path) = Inr False" by auto
  then show ?thesis by (simp add: decode_pathname_def d u)
qed

text \<open>A request that carries the bytes \<open>args\<close> as its arguments.\<close>

definition carries :: "svc_rqst \<Rightarrow> byte list \<Rightarrow> bool" where
  "carries rqstp args \<longleftrightarrow>
     holds (iov_base (rq_arg rqstp)) 0 args \<and> length args \<le> iov_len (rq_arg rqstp)"

lemma decode_lookupargs_wire:
  assumes X: "sunrpc_xdr X" and c: "carries rqstp (wire_fh fh @ wire_array name)" and fh: "fh_wf fh"
    and len: "length name \<le> 255" and good: "0 \<notin> set name" "SLASH \<notin> set name"
  shows "\<exists>argp. vsnfssvc_decode_lookupargs X rqstp 0 = Inr (rqstp, Some argp) \<and> dla_fh argp = fh \<and>
    name_of argp = name \<and> unat (dla_len argp) = length name \<and> name_ok argp"
proof -
  let ?m = "iov_base (rq_arg rqstp)"
  have u: "unat (word_of_nat (length name) :: u32) = length name" using len by (simp add: unat_of_nat)
  from c fh have f: "decode_fh ?m 0 = Inr (fh, 12)" and h: "holds ?m 12 (wire_array name)"
    by (auto simp: carries_def holds_append decode_fh_wire)
  have sz: "xdr_argsize_check X (rq_arg rqstp) (12 + length (wire_array name))"
    using c fh by (simp add: carries_def sunrpc_xdr.argsize_check [OF X])
  have "holds ?m 16 name" using h by (simp add: wire_array_def holds_append)
  then have t: "take (length name) (drop 16 ?m) = name" "length name \<le> length (drop 16 ?m)"
    by (auto simp: holds_def)
  then show ?thesis
    using decode_filename_wire [OF X h len good] f sz u good
    by (simp add: vsnfssvc_decode_lookupargs_def name_ok_def)
qed

lemma decode_getrootargs_wire:
  assumes X: "sunrpc_xdr X" and c: "carries rqstp (wire_array path)"
    and len: "length path \<le> 1024" and good: "0 \<notin> set path"
  shows "\<exists>argp. vsnfssvc_decode_getrootargs X rqstp 0 = Inr (rqstp, Some argp) \<and>
    take (unat (dga_len argp)) (dga_path argp) = path \<and> unat (dga_len argp) = length path \<and> path_ok argp"
proof -
  let ?m = "iov_base (rq_arg rqstp)"
  have u: "unat (word_of_nat (length path) :: u32) = length path" using len by (simp add: unat_of_nat)
  from c have h: "holds ?m 0 (wire_array path)" by (simp add: carries_def)
  have sz: "xdr_argsize_check X (rq_arg rqstp) (length (wire_array path))"
    using c by (simp add: carries_def sunrpc_xdr.argsize_check [OF X])
  have "holds ?m 4 path" using h by (simp add: wire_array_def holds_append)
  then have t: "take (length path) (drop 4 ?m) = path" "length path \<le> length (drop 4 ?m)"
    by (auto simp: holds_def)
  then show ?thesis
    using decode_pathname_wire [OF X h len good] sz u good
    by (simp add: vsnfssvc_decode_getrootargs_def path_ok_def)
qed

lemma decode_readdirargs_wire:
  assumes X: "sunrpc_xdr X" and c: "carries rqstp (wire_fh fh @ net32 count)" and fh: "fh_wf fh"
    and page: "rq_resused rqstp < length (rq_respages rqstp)"
  shows "vsnfssvc_decode_readdirargs X rqstp 0 =
    Inr (rqstp\<lparr>rq_resused := Suc (rq_resused rqstp)\<rparr>,
      Some \<lparr>drda_fh = fh, drda_count = (if 4096 < count then 4096 else count),
            drda_buffer = rq_resused rqstp\<rparr>)"
proof -
  let ?m = "iov_base (rq_arg rqstp)"
  from c fh have f: "decode_fh ?m 0 = Inr (fh, 12)" and "holds ?m 12 (net32 count)"
    by (auto simp: carries_def holds_append decode_fh_wire)
  then have w: "ld32 ?m 12 = Inr (htonl count)" by (simp add: ld32_holds)
  have "xdr_argsize_check X (rq_arg rqstp) 16"
    using c fh by (simp add: carries_def sunrpc_xdr.argsize_check [OF X])
  with f w page show ?thesis
    by (simp add: vsnfssvc_decode_readdirargs_def take_respage_def Let_def
        sunrpc_xdr.argsize_check [OF X])
qed

lemma decode_readargs_wire:
  assumes X: "sunrpc_xdr X" and c: "carries rqstp (wire_fh fh @ net32 off @ net32 len)" and fh: "fh_wf fh"
    and page: "rq_resused rqstp < length (rq_respages rqstp)"
  shows "vsnfssvc_decode_readargs X rqstp 0 =
    Inr (rqstp\<lparr>rq_resused := Suc (rq_resused rqstp)\<rparr>,
      Some \<lparr>dra_fh = fh, dra_offset = off, dra_count = (if 4096 < len then 4096 else len),
            dra_buffer = rq_resused rqstp\<rparr>)"
proof -
  let ?m = "iov_base (rq_arg rqstp)"
  from c fh have f: "decode_fh ?m 0 = Inr (fh, 12)" and "holds ?m 12 (net32 off)" "holds ?m 16 (net32 len)"
    by (auto simp: carries_def holds_append decode_fh_wire)
  then have w: "ld32 ?m 12 = Inr (htonl off)" "ld32 ?m 16 = Inr (htonl len)" by (simp_all add: ld32_holds)
  have "xdr_argsize_check X (rq_arg rqstp) 20"
    using c fh by (simp add: carries_def sunrpc_xdr.argsize_check [OF X])
  with f w page show ?thesis
    by (simp add: vsnfssvc_decode_readargs_def take_respage_def Let_def
        sunrpc_xdr.argsize_check [OF X])
qed

lemma decode_nullargs_wire:
  assumes X: "sunrpc_xdr X" and c: "carries rqstp (net32 x)"
  shows "vsnfssvc_decode_nullargs X rqstp 0 = Inr (rqstp, Some \<lparr>dna_dummy = x\<rparr>)"
proof -
  from c have "ld32 (iov_base (rq_arg rqstp)) 0 = Inr (htonl x)" and "4 \<le> iov_len (rq_arg rqstp)"
    by (auto simp: carries_def intro: ld32_holds)
  then show ?thesis by (simp add: vsnfssvc_decode_nullargs_def sunrpc_xdr.argsize_check [OF X])
qed

section \<open>Replies\<close>

text \<open>The reply head has room for \<open>n\<close> more bytes, and they stay within a page.\<close>

definition reply_room :: "svc_rqst \<Rightarrow> nat \<Rightarrow> bool" where
  "reply_room rqstp n \<longleftrightarrow> iov_len (rq_res rqstp) + n \<le> length (iov_base (rq_res rqstp)) \<and>
     iov_len (rq_res rqstp) + n \<le> PAGE_SIZE"

abbreviation with_status :: "svc_rqst \<Rightarrow> svc_rqst" where
  "with_status rqstp \<equiv> rqstp\<lparr>rq_res := (rq_res rqstp)\<lparr>iov_len := iov_len (rq_res rqstp) + 4\<rparr>\<rparr>"

lemma dispatch_fh:
  assumes X: "sunrpc_xdr X" and enc: "pc_encode proc = enc_fh"
    and dec: "pc_decode proc X rqstp 0 = Inr (rqstp, Some argp)"
    and run: "pc_func proc X V s (with_status rqstp) argp (pc_zero proc) =
      Inr (s', with_status rqstp, FhRes fh, vsnfs_ok)"
    and fh: "fh_wf fh" and room: "reply_room rqstp 16"
  shows "\<exists>rqstp'. vsnfsd_dispatch X V s proc rqstp statp = Inr (s', rqstp', statp) \<and>
    holds (iov_base (rq_res rqstp')) (iov_len (rq_res rqstp)) (net32 0 @ wire_fh fh) \<and>
    iov_len (rq_res rqstp') = iov_len (rq_res rqstp) + 16"
proof -
  let ?m = "iov_base (rq_res rqstp)" and ?p = "iov_len (rq_res rqstp)"
  obtain m' where m': "mem_write ?m ?p (net32 0 @ wire_fh fh) = Inr m'"
    using mem_write_ok [of ?p "net32 0 @ wire_fh fh" ?m] room fh by (auto simp: reply_room_def)
  have data: "memcpy m q (fh_data fh) 0 8 = mem_write m q (fh_data fh)" for m q
    using fh by (simp add: fh_wf_def mem_simps)
  from m' fh obtain m1 m2 where m1: "st32 ?m ?p 0 = Inr m1"
    and m2: "mem_write m1 (?p + 4) (fh_data fh) = Inr m2"
    and m3: "st32 m2 (?p + 12) (htonl (fh_type fh)) = Inr m'"
    using st32_raw [of ?m ?p 0]
    by (auto simp: wire_fh_def fh_wf_def mem_simps mem_write_append [symmetric] bindF_eq_Inr add.assoc)
  have "vsnfsd_dispatch X V s proc rqstp statp =
      Inr (s', rqstp\<lparr>rq_res := (rq_res rqstp)\<lparr>iov_base := m', iov_len := ?p + 16\<rparr>\<rparr>, statp)"
    using m1 m2 m3 room
    by (simp add: vsnfsd_dispatch_def dec run enc enc_fh_def vsnfssvc_encode_fhandle_def encode_fh_def
        data ressize_check_def sunrpc_xdr.ressize_check [OF X] reply_room_def add.assoc)
  with mem_write_holds [OF m'] show ?thesis by simp
qed

lemma lookup_row:
  obtains proc where "vsnfsd_procedures1 8 = Some proc" "pc_encode proc = enc_fh" "pc_func proc = func_lookup"
    "pc_zero proc = FhRes zero_fh" "pc_decode proc = (\<lambda>X r p. dec_as ALookup (vsnfssvc_decode_lookupargs X r p))"
  by (simp add: vsnfsd_procedures1_def zero_fhres_def)

lemma dispatch_null:
  assumes X: "sunrpc_xdr X" and proc: "vsnfsd_procedures1 VSNFSPROC_NULL = Some proc"
    and c: "carries rqstp (net32 x)" and room: "reply_room rqstp 16"
  shows "\<exists>rqstp'. vsnfsd_dispatch X V s proc rqstp statp = Inr (s, rqstp', statp) \<and>
    holds (iov_base (rq_res rqstp')) (iov_len (rq_res rqstp)) (net32 0 @ net32 (x + 1)) \<and>
    iov_len (rq_res rqstp') = iov_len (rq_res rqstp) + 8"
proof -
  let ?m = "iov_base (rq_res rqstp)" and ?p = "iov_len (rq_res rqstp)"
  have dec: "pc_decode proc X rqstp 0 = Inr (rqstp, Some (ANull \<lparr>dna_dummy = x\<rparr>))"
    using proc decode_nullargs_wire [OF X c] by (auto simp: vsnfsd_procedures1_def dec_as_def)
  have fn: "pc_func proc X V s rq (ANull \<lparr>dna_dummy = x\<rparr>) (pc_zero proc)
      = Inr (s, rq, NullRes \<lparr>dnr_dummy = x + 1\<rparr>, 0)" for rq
    using proc by (auto simp: vsnfsd_procedures1_def func_null_def zero_nullres_def vsnfsd_proc_null_def)
  obtain m' where m': "mem_write ?m ?p (net32 0 @ net32 (x + 1)) = Inr m'"
    using mem_write_ok [of ?p "net32 0 @ net32 (x + 1)" ?m] room by (auto simp: reply_room_def)
  then obtain m1 where m1: "st32 ?m ?p 0 = Inr m1" and m2: "st32 m1 (?p + 4) (htonl (x + 1)) = Inr m'"
    using st32_raw [of ?m ?p 0] by (auto simp: mem_simps mem_write_append [symmetric] bindF_eq_Inr)
  have "pc_encode proc = enc_null" using proc by (auto simp: vsnfsd_procedures1_def)
  with m1 m2 room have "vsnfsd_dispatch X V s proc rqstp statp =
      Inr (s, rqstp\<lparr>rq_res := (rq_res rqstp)\<lparr>iov_base := m', iov_len := ?p + 8\<rparr>\<rparr>, statp)"
    by (simp add: vsnfsd_dispatch_def dec fn enc_null_def vsnfssvc_encode_nullres_def ressize_check_def
        sunrpc_xdr.ressize_check [OF X] reply_room_def)
  with mem_write_holds [OF m'] show ?thesis by simp
qed

lemma func_readdir_page:
  assumes X: "sunrpc_xdr X" and V: "kernel_readdir V entries rd_err"
    and proc: "vsnfsd_procedures1 VSNFSPROC_READDIR = Some proc"
    and op: "vsnfsd_open V s fh = Inr (s1, 0, Some f)" and count: "unat c \<le> PAGE_SIZE"
    and page: "k < length (rq_respages rqstp)" "length (rq_respages rqstp ! k) = PAGE_SIZE"
  shows "\<exists>m res e. pc_func proc X V s rqstp (AReaddir \<lparr>drda_fh = fh, drda_count = c, drda_buffer = k\<rparr>) (pc_zero proc) =
      Inr (s, put_page rqstp k m, ReaddirRes k res, e) \<and> (rd_err f = 0 \<longrightarrow> e = 0) \<and>
    (e = 0 \<longrightarrow> dir_rel (m, res) (dir_run (stk_fh V) (entries f) (dir_start (room_for c)))) \<and> length m = PAGE_SIZE"
proof -
  obtain m res e where r: "vsnfsd_readdir X V s fh (rq_respages rqstp ! k, \<lparr>drr_count = 0, drr_err = 0,
        drr_buffer = 0, drr_buflen = room_for c, drr_offset = None\<rparr>) = Inr (s, (m, res), e)" "rd_err f = 0 \<longrightarrow> e = 0"
      and rel: "dir_rel (m, res) (dir_run (stk_fh V) (entries f) (dir_start (room_for c)))" and len: "length m = PAGE_SIZE"
    using vsnfsd_readdir_run [OF V X op dir_rel_start [OF page(2) count, of 0]] page(2) by auto
  let ?res = "if e \<noteq> 0 \<and> drr_err res = 0 then res\<lparr>drr_err := e\<rparr> else res"
  have room_eq: "(if int (unat c div 4) - 2 < 0 then 0 else int (unat c div 4) - 2) = room_for c"
    by (simp add: room_for_def)
  have "pc_func proc X V s rqstp (AReaddir \<lparr>drda_fh = fh, drda_count = c, drda_buffer = k\<rparr>) (pc_zero proc) =
      Inr (s, put_page rqstp k m, ReaddirRes k (?res\<lparr>drr_count := int (drr_buffer ?res div 4)\<rparr>), e)"
    using proc page r room_eq
    by (auto simp: vsnfsd_procedures1_def func_readdir_def get_page_def zero_readdirres_def
        vsnfsd_proc_readdir_def Let_def split del: if_split)
  moreover have "e = 0 \<longrightarrow> dir_rel (m, ?res\<lparr>drr_count := int (drr_buffer ?res div 4)\<rparr>)
      (dir_run (stk_fh V) (entries f) (dir_start (room_for c)))"
    using rel by (simp add: dir_rel_def)
  ultimately show ?thesis using len r(2) by blast
qed

text \<open>The status word in front of the result.\<close>

lemma status_written:
  assumes "reply_room rqstp 4"
  obtains m where "st32 (iov_base (rq_res rqstp)) (iov_len (rq_res rqstp)) e = Inr m"
    "holds m (iov_len (rq_res rqstp)) (net32 (bswap32 e))" "length m = length (iov_base (rq_res rqstp))"
proof -
  let ?m = "iov_base (rq_res rqstp)" and ?p = "iov_len (rq_res rqstp)"
  obtain m where "mem_write ?m ?p (net32 (bswap32 e)) = Inr m"
    using mem_write_ok [of ?p "net32 (bswap32 e)" ?m] assms by (auto simp: reply_room_def)
  with that mem_write_holds mem_write_length st32_raw show ?thesis by metis
qed

text \<open>
  READDIR: the status goes to the reply head and, when it is 0, the listing to the page, whose length is announced; a
  directory that cannot be enumerated to its end is answered with a status alone.
\<close>

lemma dispatch_readdir:
  assumes X: "sunrpc_xdr X" and V: "kernel_readdir V entries rd_err"
    and proc: "vsnfsd_procedures1 VSNFSPROC_READDIR = Some proc"
    and carr: "carries rqstp (wire_fh fh @ net32 count)" and fh: "fh_wf fh"
    and page: "rq_resused rqstp < length (rq_respages rqstp)"
      "length (rq_respages rqstp ! rq_resused rqstp) = PAGE_SIZE"
    and room: "reply_room rqstp 4"
    and op: "vsnfsd_open V s fh = Inr (s1, 0, Some f)"
  defines "c \<equiv> if 4096 < count then 4096 else count"
  defines "d \<equiv> dir_run (stk_fh V) (entries f) (dir_start (room_for c))"
  shows "\<exists>rqstp' e. vsnfsd_dispatch X V s proc rqstp statp = Inr (s, rqstp', statp) \<and>
    (rd_err f = 0 \<longrightarrow> e = 0) \<and>
    holds (iov_base (rq_res rqstp')) (iov_len (rq_res rqstp)) (net32 (bswap32 e)) \<and>
    iov_len (rq_res rqstp') = iov_len (rq_res rqstp) + 4 \<and>
    (e = 0 \<longrightarrow>
      holds (rq_respages rqstp' ! rq_resused rqstp) 0 (wire_dir (ds_ents d) (ds_err d = vsnfs_ok)) \<and>
      length (rq_respages rqstp' ! rq_resused rqstp) = PAGE_SIZE \<and>
      rq_resused rqstp < length (rq_respages rqstp') \<and>
      rq_res_page_len rqstp' = length (wire_dir (ds_ents d) (ds_err d = vsnfs_ok)) \<and>
      list_all wentry_wf (ds_ents d))"
proof -
  let ?k = "rq_resused rqstp" and ?p = "iov_len (rq_res rqstp)"
  let ?r1 = "rqstp\<lparr>rq_resused := Suc ?k\<rparr>" and ?page = "rq_respages rqstp ! rq_resused rqstp"
  have count: "unat c \<le> PAGE_SIZE" unfolding c_def by (simp add: word_less_nat_alt)
  have argp: "pc_decode proc X rqstp 0 =
      Inr (?r1, Some (AReaddir \<lparr>drda_fh = fh, drda_count = c, drda_buffer = ?k\<rparr>))"
    using decode_readdirargs_wire [OF X carr fh page(1)] proc
    by (auto simp: vsnfsd_procedures1_def dec_as_def c_def)
  obtain m1 res e where rel: "e = 0 \<longrightarrow> dir_rel (m1, res) d" and len: "length m1 = PAGE_SIZE"
    and fn: "pc_func proc X V s (with_status ?r1) (AReaddir \<lparr>drda_fh = fh, drda_count = c, drda_buffer = ?k\<rparr>)
      (pc_zero proc) = Inr (s, put_page (with_status ?r1) ?k m1, ReaddirRes ?k res, e)"
    and e: "rd_err f = 0 \<longrightarrow> e = 0"
    using func_readdir_page [OF X V proc op count, of ?k "with_status ?r1"] page unfolding d_def by auto
  obtain m0 where m0: "st32 (iov_base (rq_res rqstp)) ?p e = Inr m0"
      and h0: "holds m0 ?p (net32 (bswap32 e))" using status_written [OF room] .
  show ?thesis
  proof (cases "e = 0")
    case False
    with m0 argp fn have "\<exists>r. vsnfsd_dispatch X V s proc rqstp statp = Inr (s, r, statp) \<and> iov_base (rq_res r) = m0 \<and>
        iov_len (rq_res r) = ?p + 4"
      by (simp add: vsnfsd_dispatch_def put_page_def)
    with h0 e False show ?thesis by blast
  next
    case True
    let ?r2 = "(put_page (with_status ?r1) ?k m1)\<lparr>rq_res := (rq_res (with_status ?r1))\<lparr>iov_base := m0\<rparr>\<rparr>"
    from encode_readdirres_page [OF X rel [rule_format, OF True] len, of ?r2 "?p + 4"] obtain r3 m3 where
      en: "vsnfssvc_encode_readdirres X ?r2 (?p + 4) m1 res = Inr (r3, m3, True)" and
      h: "holds m3 0 (wire_dir (ds_ents d) (ds_err d = vsnfs_ok))"
         "rq_res_page_len r3 = length (wire_dir (ds_ents d) (ds_err d = vsnfs_ok))"
         "length m3 = PAGE_SIZE" by blast
    from en have r3: "rq_respages r3 = rq_respages ?r2" "rq_res r3 = (rq_res ?r2)\<lparr>iov_len := ?p + 4\<rparr>"
      by (auto simp: vsnfssvc_encode_readdirres_def bindF_eq_Inr ressize_check_def Let_def
          sunrpc_xdr.ressize_check [OF X])
    have "vsnfsd_dispatch X V s proc rqstp statp = Inr (s, put_page r3 ?k m3, statp)"
      using proc page en m0 argp fn True
      by (simp add: vsnfsd_dispatch_def)
         (auto simp: vsnfsd_procedures1_def enc_readdir_def get_page_def put_page_def)
    moreover have "list_all wentry_wf (ds_ents d)" using rel True by (simp add: dir_rel_def)
    ultimately show ?thesis
      using h h0 r3 page True by (intro exI [of _ "put_page r3 ?k m3"] exI [of _ 0]) (simp add: put_page_def)
  qed
qed

text \<open>READDIR of a handle that does not open: the status alone.\<close>

lemma dispatch_readdir_refused:
  assumes X: "sunrpc_xdr X" and proc: "vsnfsd_procedures1 VSNFSPROC_READDIR = Some proc"
    and carr: "carries rqstp (wire_fh fh @ net32 count)" and fh: "fh_wf fh"
    and page: "rq_resused rqstp < length (rq_respages rqstp)" and room: "reply_room rqstp 4"
    and op: "vsnfsd_open V s fh = Inr (s, e, None)" "e \<noteq> 0"
  shows "\<exists>rqstp'. vsnfsd_dispatch X V s proc rqstp statp = Inr (s, rqstp', statp) \<and>
    holds (iov_base (rq_res rqstp')) (iov_len (rq_res rqstp)) (net32 (bswap32 e)) \<and>
    iov_len (rq_res rqstp') = iov_len (rq_res rqstp) + 4"
proof -
  let ?p = "iov_len (rq_res rqstp)"
  obtain m0 where m0: "st32 (iov_base (rq_res rqstp)) ?p e = Inr m0" "holds m0 ?p (net32 (bswap32 e))"
    using status_written [OF room] .
  with m0 op proc decode_readdirargs_wire [OF X carr fh page] page show ?thesis
    by (auto simp: vsnfsd_dispatch_def vsnfsd_procedures1_def dec_as_def func_readdir_def get_page_def
        zero_readdirres_def vsnfsd_proc_readdir_def vsnfsd_readdir_def put_page_def Let_def)
qed

section \<open>Requests that cannot go wrong\<close>

lemma decode_fh_holds:
  assumes "decode_fh m p = Inr (fh, q)"
  shows "holds m p (wire_fh fh)"
proof -
  from assms obtain d t where d: "mem_read m p 8 = Inr d" and t: "ld32 m (p + 8) = Inr t"
    and fh: "fh = zero_fh\<lparr>fh_data := d, fh_type := ntohl t\<rparr>"
    by (auto simp: decode_fh_def bindF_eq_Inr)
  have "le_bytes t = net32 (ntohl t)" using le_bytes_bswap32 [of "ntohl t"] by simp
  with read_holds [OF d] t show ?thesis by (simp add: fh wire_fh_def holds_append ld32_holds_le)
qed

lemma decode_fh_ok: "p + 12 \<le> length m \<Longrightarrow> \<exists>fh. decode_fh m p = Inr (fh, p + 12)"
  using ld32_ok [of "p + 8" m] by (auto simp: decode_fh_def mem_read_def)

text \<open>Opening by handle returns, whatever the handle, once the table is there and its paths fit the buffer.\<close>

lemma open_returns:
  assumes V: "kernel_vfs V" and ok: "srv_ok V s" and tab: "lp_tab s = Some tab"
    and short: "\<forall>n \<in> set tab. length (n_path n) < 1024"
  obtains (fails) e where "vsnfsd_open V s fh = Inr (s, e, None)" "e \<noteq> 0"
  | (opens) s1 f where "vsnfsd_open V s fh = Inr (s1, 0, Some f)"
proof (cases "kmalloc V OpenPath 1024")
  case None
  then show ?thesis using fails [of "vsnfserr VSNFSERR_NOSPC"] by (simp add: vsnfsd_open_def vsnfserr_eval)
next
  case (Some buf)
  have len: "length buf = 1024" by (rule kernel_vfs.kmalloc_size [OF V Some])
  let ?ino = "simple_strtoul V (fh_mem fh)"
  show ?thesis
  proof (cases "?ino = 0 \<or> lp_find tab ?ino = None")
    case True
    then have "vsnfsd_fh_to_path V s fh buf 1024 = Inr (- 1, buf)"
      using tab by (auto simp: vsnfsd_fh_to_path_def Let_def)
    with Some have "vsnfsd_open V s fh = Inr (s, vsnfserr VSNFSERR_NOENT, None)"
      by (simp add: vsnfsd_open_def)
    then show ?thesis by (rule fails) (simp add: vsnfserr_eval)
  next
    case False
    then obtain n where n: "lp_find tab ?ino = Some n" by auto
    have "tab_ok V tab" using ok tab by (simp add: srv_ok_def)
    with n have z: "0 \<notin> set (n_path n)" using tab_ok_find by (auto simp: node_ok_def)
    have l: "length (n_path n) < 1024" using short lp_find_entry [OF n] by simp
    then obtain k where k: "1024 - length (n_path n) = Suc k" by (metis Suc_diff_Suc)
    have p: "vsnfsd_fh_to_path V s fh buf 1024 = Inr (0, n_path n @ 0 # replicate k 0)"
      using strncpy_terminated [OF z l len] False n tab by (simp add: vsnfsd_fh_to_path_def k)
    show ?thesis
    proof (cases "filp_open V (n_path n)")
      case (ErrPtr e)
      with Some p z show ?thesis
        using fails [of "vsnfserr VSNFSERR_IO"] by (simp add: vsnfsd_open_def vsnfserr_eval)
    next
      case (Ptr f)
      with Some p z show ?thesis using opens by (simp add: vsnfsd_open_def)
    qed
  qed
qed

text \<open>
  C15. On a server that has been mounted, whose table holds resolvable paths of fewer than 1024 bytes, a READDIR request
  of at least sixteen readable bytes never makes the server fault, whatever these bytes are and whatever the file system
  answers, an error included: any handle and any count are answered, with "garbage arguments" exactly when the request
  is shorter than a handle and a count, and the server's state is unchanged: the opened directory is closed again.
\<close>

theorem readdir_request_safe:
  assumes X: "sunrpc_xdr X" and V: "kernel_readdir V entries rd_err" and ok: "srv_ok V s" and tab: "lp_tab s = Some tab"
    and short: "\<forall>n \<in> set tab. length (n_path n) < 1024"
    and args: "16 \<le> length (iov_base (rq_arg rqstp))"
    and page: "rq_resused rqstp < length (rq_respages rqstp)"
      "length (rq_respages rqstp ! rq_resused rqstp) = PAGE_SIZE"
    and room: "reply_room rqstp 4"
  shows "\<exists>proc rqstp' statp'. vsnfsd_procedures1 VSNFSPROC_READDIR = Some proc \<and>
    vsnfsd_dispatch X V s proc rqstp statp = Inr (s, rqstp', statp') \<and>
    statp' = (if iov_len (rq_arg rqstp) < 16 then rpc_garbage_args else statp)"
proof -
  let ?m = "iov_base (rq_arg rqstp)" and ?p = "iov_len (rq_res rqstp)"
  have kv: "kernel_vfs V" using V by (simp add: kernel_readdir_def)
  obtain proc where proc: "vsnfsd_procedures1 VSNFSPROC_READDIR = Some proc"
    by (simp add: vsnfsd_procedures1_def)
  obtain fh w where f: "decode_fh ?m 0 = Inr (fh, 12)" and w: "ld32 ?m 12 = Inr w"
    using decode_fh_ok [of 0 ?m] ld32_ok [of 12 ?m] args by auto
  have fh: "fh_wf fh" using decode_fh_InrD [OF f] by simp
  have "holds ?m 12 (net32 (ntohl w))" using w le_bytes_bswap32 [of "ntohl w"] by (simp add: ld32_holds_le)
  then have h: "holds ?m 0 (wire_fh fh @ net32 (ntohl w))"
    using decode_fh_holds [OF f] fh by (simp add: holds_append)
  show ?thesis
  proof (cases "16 \<le> iov_len (rq_arg rqstp)")
    case False
    then have "pc_decode proc X rqstp 0 = Inr (rqstp\<lparr>rq_resused := Suc (rq_resused rqstp)\<rparr>, None)"
      using proc f w page(1) by (auto simp: vsnfsd_procedures1_def dec_as_def vsnfssvc_decode_readdirargs_def
          take_respage_def sunrpc_xdr.argsize_check [OF X])
    from dispatch_garbage [OF this, of V s statp] proc False show ?thesis by auto
  next
    case True
    with h fh have carr: "carries rqstp (wire_fh fh @ net32 (ntohl w))" by (simp add: carries_def)
    from kv ok tab short show ?thesis
    proof (cases rule: open_returns [where fh = fh])
      case (opens s1 f)
      from dispatch_readdir [OF X V proc carr fh page room opens, of statp] proc True show ?thesis by auto
    next
      case (fails e)
      from dispatch_readdir_refused [OF X proc carr fh page(1) room fails, of statp] proc True show ?thesis by auto
    qed
  qed
qed

definition page_rqst :: "byte list \<Rightarrow> svc_rqst" where
  "page_rqst args = (demo_rqst args)\<lparr>rq_respages := [replicate PAGE_SIZE 0]\<rparr>"

theorem readdir_request_safe_witness:
  "\<exists>proc rqstp'. vsnfsd_procedures1 VSNFSPROC_READDIR = Some proc \<and>
    vsnfsd_dispatch xdr_ref demo demo_srv proc (page_rqst (replicate 16 255)) 0 = Inr (demo_srv, rqstp', 0)"
proof -
  have r: "16 \<le> length (iov_base (rq_arg (page_rqst (replicate 16 255))))"
    "rq_resused (page_rqst (replicate 16 255)) < length (rq_respages (page_rqst (replicate 16 255)))"
    "length (rq_respages (page_rqst (replicate 16 255)) ! rq_resused (page_rqst (replicate 16 255))) = PAGE_SIZE"
    "reply_room (page_rqst (replicate 16 255)) 4" "\<not> iov_len (rq_arg (page_rqst (replicate 16 255))) < 16"
    by (simp_all add: page_rqst_def demo_rqst_def reply_room_def)
  show ?thesis
    using readdir_request_safe [OF ref_xdr.sunrpc_xdr_axioms ref_vfs.kernel_readdir_axioms demo_srv_ok
        _ _ r(1-4), of "[demo_root]" 0] r(5)
    by (simp add: demo_srv_def demo_root_def)
qed

end
