(* ===== verification/Remote.thy ===== *)
theory Remote
  imports ClientListing ClientSuper ServerReply
begin

text \<open>
  Client and server together.  \<open>rpc_link\<close> says what the RPC library does between them: a call encodes its
  arguments with the encoder of the procedure's row, the bytes reach the server as the arguments of a request, the
  server's dispatcher runs, the bytes of its reply go to the buffers the client has set up, and the decoder of the row
  reads the result.  The lemmas in it follow one call of each kind from the client's code through the server's and back.
\<close>

section \<open>Sizes\<close>

lemma wire_args_fit:
  assumes "args_wf a" and "vsnfs_procedures (proc_of a) = Some pi"
  shows "length (wire_args a) \<le> 4 * p_arglen pi"
proof (cases a)
  case (GetrootArgs x)
  then have "(length (ga_path x) + 3) div 4 \<le> 256"
    using assms(1) div_le_mono [of "length (ga_path x) + 3" 1027 4] by simp
  with GetrootArgs assms show ?thesis by (auto simp: vsnfs_procedures_def PROC_def length_wire_array)
next
  case (LookupArgs x)
  then have "(length (la_filename x) + 3) div 4 \<le> 64"
    using assms(1) div_le_mono [of "length (la_filename x) + 3" 258 4] by simp
  with LookupArgs assms show ?thesis by (auto simp: vsnfs_procedures_def PROC_def length_wire_array)
qed (use assms in \<open>auto simp: vsnfs_procedures_def PROC_def\<close>)

lemma row_number: "vsnfs_procedures k = Some pi \<Longrightarrow> p_proc pi = k"
  by (auto simp: vsnfs_procedures_def PROC_def split: if_splits)

section \<open>Messages\<close>

text \<open>
  The reply on the wire: what the server has put into its reply head, and then as many bytes of the pages behind it as
  it has announced.
\<close>

definition reply_msg :: "svc_rqst \<Rightarrow> svc_rqst \<Rightarrow> byte list" where
  "reply_msg rqstp0 rqstp =
     take (iov_len (rq_res rqstp)) (iov_base (rq_res rqstp)) @
     take (rq_res_page_len rqstp) (concat (drop (rq_resused rqstp0) (rq_respages rqstp)))"

text \<open>
  Its way into the receive buffer: the head takes the first \<open>rb_head_len\<close> bytes, the page the next \<open>rb_page_len\<close>, at
  \<open>rb_page_base\<close>; what is not received stays as it was, and nothing goes beyond the memory there is.
\<close>

definition overlay :: "mem \<Rightarrow> nat \<Rightarrow> byte list \<Rightarrow> mem" where
  "overlay m p bs = take p m @ take (length m - p) bs @ drop (p + length bs) m"

definition recv_head :: "rcv_buf \<Rightarrow> byte list \<Rightarrow> mem" where
  "recv_head b msg = overlay (rb_head b) 0 (take (rb_head_len b) msg)"

definition recv_page :: "rcv_buf \<Rightarrow> byte list \<Rightarrow> mem \<Rightarrow> mem" where
  "recv_page b msg page = overlay page (rb_page_base b) (take (rb_page_len b) (drop (rb_head_len b) msg))"

lemma overlay_0_holds: "length bs \<le> length m \<Longrightarrow> holds (overlay m 0 bs) 0 bs"
  by (simp add: overlay_def holds_def)

lemma holds_take: "holds m p bs \<Longrightarrow> p + length bs \<le> n \<Longrightarrow> holds (take n m) p bs"
  by (auto simp: holds_def drop_take)

lemma holds_append_left: "holds pre p bs \<Longrightarrow> holds (pre @ r) p bs"
  by (auto simp: holds_def)

lemma holds_prefix: "holds m 0 pre \<Longrightarrow> holds pre p bs \<Longrightarrow> holds m p bs"
  using holds_append_left [of pre p bs "drop (length pre) m"] append_take_drop_id [of "length pre" m]
  by (simp add: holds_def [of m 0])

lemma recv_head_holds:
  assumes "holds msg p bs" and "p + length bs \<le> rb_head_len b" and "rb_head_len b \<le> length (rb_head b)"
  shows "holds (recv_head b msg) p bs"
proof -
  have "holds (recv_head b msg) 0 (take (rb_head_len b) msg)"
    unfolding recv_head_def using assms(3) by (intro overlay_0_holds) simp
  then show ?thesis using holds_take [OF assms(1,2)] by (rule holds_prefix)
qed

lemma reply_msg_head:
  assumes "holds (iov_base (rq_res rqstp)) p bs" and "p + length bs \<le> iov_len (rq_res rqstp)"
  shows "holds (reply_msg rqstp0 rqstp) p bs"
proof -
  have "holds (take (iov_len (rq_res rqstp)) (iov_base (rq_res rqstp))) p bs" by (rule holds_take [OF assms])
  then show ?thesis unfolding reply_msg_def by (rule holds_append_left)
qed

text \<open>What the client's decoder makes of a handle behind a status of 0.\<close>

lemma xdr_fh_reply:
  assumes "holds m p (net32 0 @ wire_fh h)" and "fh_wf h"
  shows "vsnfs_xdr_fh m p fh = Inr (0, h)"
proof -
  from assms have "ld32 m p = Inr 0" and "mem_read m (p + 4) 8 = Inr (fh_data h)"
    and "ld32 m (p + 12) = Inr (htonl (fh_type h))"
    using ld32_holds [of m p 0]
    by (simp_all add: wire_fh_def fh_wf_def holds_append mem_simps add.assoc)
  then show ?thesis by (simp add: vsnfs_xdr_fh_def add.assoc)
qed

section \<open>The link\<close>

text \<open>What the kernel reserves for the null authentication flavour, in words, for a call and its reply.\<close>

abbreviation (input) NUL_CALLSLACK :: nat where "NUL_CALLSLACK \<equiv> 4"
abbreviation (input) NUL_REPLYSLACK :: nat where "NUL_REPLYSLACK \<equiv> 2"

text \<open>
  \<open>send k a\<close> is the request the library allocates for a call of procedure \<open>k\<close>: a send buffer for the announced size of
  the arguments, the credential of the null flavour, and a receive buffer for a reply header, the slack of a call and the
  announced size of the reply.  \<open>mk bytes\<close> is the request the server receives: it carries the bytes, its reply head holds
  the header of an accepted reply, and there is a page for data.
\<close>

locale rpc_link = sunrpc_xdr X for X :: xdr_api +
  fixes V :: vfs_api
    and R :: "srv rpc_api"
    and send :: "nat \<Rightarrow> rpc_argp \<Rightarrow> rpc_rqst"
    and mk :: "byte list \<Rightarrow> svc_rqst"
  assumes send_buffer:
      "vsnfs_procedures k = Some pi \<Longrightarrow> 4 * p_arglen pi \<le> length (iov_base (rq_svec (send k a)))"
    and send_cred: "rq_cred (send k a) = Some NUL_REPLYSLACK"
    and recv_buffer:
      "vsnfs_procedures k = Some pi \<Longrightarrow>
       rb_head_len (rq_rcv_buf (send k a)) = 4 * (RPC_REPHDRSIZE X + NUL_CALLSLACK + p_replen pi) \<and>
       length (rb_head (rq_rcv_buf (send k a))) = 4 * (RPC_REPHDRSIZE X + NUL_CALLSLACK + p_replen pi) \<and>
       rb_page_len (rq_rcv_buf (send k a)) = 0"
    and mk_carries: "carries (mk bytes) bytes"
    and mk_header: "iov_len (rq_res (mk bytes)) = 4 * (RPC_REPHDRSIZE X + NUL_REPLYSLACK)"
    and mk_reply: "reply_room (mk bytes) 16"
    and mk_page: "rq_resused (mk bytes) < length (rq_respages (mk bytes))"
      "length (rq_respages (mk bytes) ! rq_resused (mk bytes)) = PAGE_SIZE"
    and call_link:
      "vsnfs_procedures k = Some pi \<Longrightarrow> p_encode pi X (send k a) 0 a = Inr (req, 0) \<Longrightarrow>
       bytes = take (rq_slen req) (iov_base (rq_svec req)) \<Longrightarrow>
       vsnfsd_procedures1 (p_proc pi) = Some proc \<Longrightarrow>
       vsnfsd_dispatch X V s proc (mk bytes) 0 = Inr (s', rqstp, 0) \<Longrightarrow> msg = reply_msg (mk bytes) rqstp \<Longrightarrow>
       p_decode pi X req (recv_head (rq_rcv_buf req) msg) (iov_len (rq_res (mk bytes))) resp
         = Inr (status, req', m', resp') \<Longrightarrow>
       rpc_call_sync R s k a resp page = (s', resp', recv_page (rq_rcv_buf req) msg page, status)"
begin

text \<open>
  What the client sends is the layout of its arguments; and the call returns what the decoder of its row makes of the
  server's reply.
\<close>

lemma call_returns:
  assumes wf: "args_wf a" and row: "vsnfs_procedures (proc_of a) = Some pi"
    and proc: "vsnfsd_procedures1 (proc_of a) = Some proc"
    and d: "vsnfsd_dispatch X V s proc (mk (wire_args a)) 0 = Inr (s', rqstp, 0)"
  obtains req where "rq_rcv_buf req = rcv_for X NUL_REPLYSLACK a (rq_rcv_buf (send (proc_of a) a))"
    "\<And>resp status req' m' resp' page.
       p_decode pi X req (recv_head (rq_rcv_buf req) (reply_msg (mk (wire_args a)) rqstp))
         (iov_len (rq_res (mk (wire_args a)))) resp = Inr (status, req', m', resp') \<Longrightarrow>
       rpc_call_sync R s (proc_of a) a resp page =
         (s', resp', recv_page (rq_rcv_buf req) (reply_msg (mk (wire_args a)) rqstp) page, status)"
proof -
  let ?send = "send (proc_of a) a"
  from wire_args_fit [OF wf row] send_buffer [OF row]
  have room: "0 + length (wire_args a) \<le> length (iov_base (rq_svec ?send))" by (metis add_0 le_trans)
  from p_encode_wire [OF sunrpc_xdr_axioms wf send_cred room row] obtain req where
    r: "p_encode pi X ?send 0 a = Inr (req, 0)" "rq_slen req = length (wire_args a)"
      "mem_write (iov_base (rq_svec ?send)) 0 (wire_args a) = Inr (iov_base (rq_svec req))"
      "rq_rcv_buf req = rcv_for X NUL_REPLYSLACK a (rq_rcv_buf ?send)" by auto
  have sent: "wire_args a = take (rq_slen req) (iov_base (rq_svec req))"
    using mem_write_holds [OF r(3)] r(2) by (auto simp: holds_def)
  have "vsnfsd_procedures1 (p_proc pi) = Some proc" using proc row_number [OF row] by simp
  from call_link [OF row r(1) sent this d refl] r(4) show ?thesis by (intro that) auto
qed

text \<open>The head of the reply reaches the decoder, as far as the receive buffer goes.\<close>

lemma head_received:
  assumes row: "vsnfs_procedures k = Some pi" and b: "b = rq_rcv_buf (send k a)"
    and h: "holds (iov_base (rq_res rqstp)) (iov_len (rq_res (mk bytes))) bs"
      "iov_len (rq_res rqstp) = iov_len (rq_res (mk bytes)) + length bs"
    and len: "length bs \<le> 4 * p_replen pi + 8"
  shows "holds (recv_head b (reply_msg rqstp0 rqstp)) (iov_len (rq_res (mk bytes))) bs"
  using recv_buffer [OF row, of a] mk_header [of bytes] len reply_msg_head [OF h(1), of rqstp0] h(2)
  by (intro recv_head_holds) (simp_all add: b)

text \<open>A call whose procedure succeeds with a handle returns it.\<close>

lemma call_fh_returns:
  assumes wf: "args_wf a" and row: "vsnfs_procedures (proc_of a) = Some pi" "p_decode pi = kx_fh" "p_replen pi = 10"
    and proc: "vsnfsd_procedures1 (proc_of a) = Some proc" "pc_encode proc = enc_fh"
    and inl: "\<And>X n b. rcv_for X n a b = b"
    and dec: "pc_decode proc X (mk (wire_args a)) 0 = Inr (mk (wire_args a), Some argp)"
    and run: "pc_func proc X V s (with_status (mk (wire_args a))) argp (pc_zero proc) =
      Inr (s', with_status (mk (wire_args a)), FhRes h, vsnfs_ok)"
    and h: "fh_wf h"
  shows "\<exists>page'. rpc_call_sync R s (proc_of a) a (Some (RespFh fh)) page = (s', Some (RespFh h), page', 0)"
proof -
  let ?mk = "mk (wire_args a)"
  from dispatch_fh [OF sunrpc_xdr_axioms proc(2) dec run h mk_reply, of 0] obtain rqstp where
    d: "vsnfsd_dispatch X V s proc ?mk 0 = Inr (s', rqstp, 0)" and
    b: "holds (iov_base (rq_res rqstp)) (iov_len (rq_res ?mk)) (net32 0 @ wire_fh h)"
      "iov_len (rq_res rqstp) = iov_len (rq_res ?mk) + 16"
    by blast
  from call_returns [OF wf row(1) proc(1) d] obtain req where
    req: "rq_rcv_buf req = rq_rcv_buf (send (proc_of a) a)" and
    ret: "\<And>resp status req' m' resp' page. p_decode pi X req (recv_head (rq_rcv_buf req) (reply_msg ?mk rqstp))
        (iov_len (rq_res ?mk)) resp = Inr (status, req', m', resp') \<Longrightarrow>
       rpc_call_sync R s (proc_of a) a resp page = (s', resp', recv_page (rq_rcv_buf req) (reply_msg ?mk rqstp) page, status)"
    unfolding inl by blast
  have "holds (recv_head (rq_rcv_buf req) (reply_msg ?mk rqstp)) (iov_len (rq_res ?mk)) (net32 0 @ wire_fh h)"
    using b h row(3) by (intro head_received [OF row(1) req]) simp_all
  from xdr_fh_reply [OF this h, of fh] show ?thesis using ret [of "Some (RespFh fh)"] by (simp add: row(2))
qed

text \<open>NULL answers with the successor of what it is sent.\<close>

lemma call_null_returns:
  "\<exists>page'. rpc_call_sync R s VSNFSPROC_NULL (NullArgs \<lparr>na_dummy = x\<rparr>) (Some (RespNull nres)) page =
     (s, Some (RespNull \<lparr>nr_dummy = x + 1\<rparr>), page', 0)"
proof -
  let ?a = "NullArgs \<lparr>na_dummy = x\<rparr>" and ?mk = "mk (net32 x)"
  obtain proc where proc: "vsnfsd_procedures1 VSNFSPROC_NULL = Some proc" by (simp add: vsnfsd_procedures1_def)
  obtain pi where row: "vsnfs_procedures VSNFSPROC_NULL = Some pi" "p_decode pi = kx_nullres" "p_replen pi = 1"
    by (simp add: vsnfs_procedures_def PROC_def)
  from dispatch_null [OF sunrpc_xdr_axioms proc mk_carries mk_reply, of V s x 0] obtain rqstp where
    d: "vsnfsd_dispatch X V s proc ?mk 0 = Inr (s, rqstp, 0)" and
    b: "holds (iov_base (rq_res rqstp)) (iov_len (rq_res ?mk)) (net32 0 @ net32 (x + 1))"
      "iov_len (rq_res rqstp) = iov_len (rq_res ?mk) + 8" by blast
  from call_returns [of ?a pi proc s s rqstp] row(1) proc d obtain req where
    req: "rq_rcv_buf req = rq_rcv_buf (send VSNFSPROC_NULL ?a)" and
    ret: "\<And>resp status req' m' resp' page. p_decode pi X req (recv_head (rq_rcv_buf req) (reply_msg ?mk rqstp))
        (iov_len (rq_res ?mk)) resp = Inr (status, req', m', resp') \<Longrightarrow>
       rpc_call_sync R s VSNFSPROC_NULL ?a resp page =
         (s, resp', recv_page (rq_rcv_buf req) (reply_msg ?mk rqstp) page, status)" by auto
  let ?m = "recv_head (rq_rcv_buf req) (reply_msg ?mk rqstp)"
  have "holds ?m (iov_len (rq_res ?mk)) (net32 0 @ net32 (x + 1))"
    using b row(3) by (intro head_received [OF row(1) req]) simp_all
  then have "ld32 ?m (iov_len (rq_res ?mk)) = Inr 0" and "ld32 ?m (iov_len (rq_res ?mk) + 4) = Inr (htonl (x + 1))"
    using ld32_holds [of _ _ 0] by (auto simp: holds_append intro: ld32_holds)
  then have "vsnfs_xdr_nullres ?m (iov_len (rq_res ?mk)) nres = Inr (0, \<lparr>nr_dummy = x + 1\<rparr>)"
    by (simp add: vsnfs_xdr_nullres_def)
  then show ?thesis using ret [of "Some (RespNull nres)"] by (simp add: row(2))
qed

text \<open>READDIR of a directory the server can open and enumerate fills the page with the listing.\<close>

lemma readdir_rows:
  obtains pi proc where "vsnfs_procedures VSNFSPROC_READDIR = Some pi" "p_decode pi = kx_readdirres" "p_replen pi = 1"
    "vsnfsd_procedures1 VSNFSPROC_READDIR = Some proc"
  by (simp add: vsnfs_procedures_def PROC_def vsnfsd_procedures1_def)

lemma readdir_call:
  assumes fh: "fh_wf fh" and proc: "vsnfsd_procedures1 VSNFSPROC_READDIR = Some proc"
    and d: "vsnfsd_dispatch X V s proc (mk (wire_fh fh @ net32 count)) 0 = Inr (s', rqstp, 0)"
    and b: "holds (iov_base (rq_res rqstp)) (iov_len (rq_res (mk (wire_fh fh @ net32 count)))) (net32 (bswap32 e))"
      "iov_len (rq_res rqstp) = iov_len (rq_res (mk (wire_fh fh @ net32 count))) + 4"
    and e: "if e = 0 then status = 0 else vsnfs_stat_to_errno (sint (bswap32 e)) = Inr status"
  defines "msg \<equiv> reply_msg (mk (wire_fh fh @ net32 count)) rqstp"
  shows "rpc_call_sync R s VSNFSPROC_READDIR (ReaddirArgs \<lparr>rda_fh = fh, rda_count = count\<rparr>) None page =
    (s', None, overlay page 0 (take (unat count) (drop (iov_len (rq_res rqstp)) msg)), status)"
proof -
  let ?a = "ReaddirArgs \<lparr>rda_fh = fh, rda_count = count\<rparr>" and ?mk = "mk (wire_fh fh @ net32 count)"
  obtain pi where row: "vsnfs_procedures VSNFSPROC_READDIR = Some pi" "p_decode pi = kx_readdirres" "p_replen pi = 1"
    by (rule readdir_rows)
  from call_returns [of ?a pi proc s s' rqstp] row(1) proc d fh obtain req where
    req: "rq_rcv_buf req = rcv_for X NUL_REPLYSLACK ?a (rq_rcv_buf (send VSNFSPROC_READDIR ?a))" and
    ret: "\<And>resp status req' m' resp' page. p_decode pi X req (recv_head (rq_rcv_buf req) msg)
        (iov_len (rq_res ?mk)) resp = Inr (status, req', m', resp') \<Longrightarrow>
       rpc_call_sync R s VSNFSPROC_READDIR ?a resp page = (s', resp', recv_page (rq_rcv_buf req) msg page, status)"
    by (auto simp: msg_def)
  let ?b = "rq_rcv_buf req" and ?m = "recv_head (rq_rcv_buf req) msg"
  have len: "rb_head_len ?b = iov_len (rq_res rqstp)" "rb_page_base ?b = 0" "rb_page_len ?b = unat count"
    using req mk_header b(2) by (simp_all add: algebra_simps)
  have "rb_head_len ?b \<le> length (rb_head ?b)" using recv_buffer [OF row(1), of ?a] row(3) req by simp
  moreover have "holds msg (iov_len (rq_res ?mk)) (net32 (bswap32 e))"
    unfolding msg_def using b(2) by (intro reply_msg_head [OF b(1)]) simp
  ultimately have "holds ?m (iov_len (rq_res ?mk)) (net32 (bswap32 e))"
    using b(2) len(1) by (intro recv_head_holds) simp_all
  from ld32_holds [OF this] have w: "ld32 ?m (iov_len (rq_res ?mk)) = Inr e" by simp
  have "sint (bswap32 e) \<noteq> 0" if "e \<noteq> 0" using that by (simp add: signed_eq_0_iff)
  with w e have "vsnfs_xdr_readdirres ?m (iov_len (rq_res ?mk)) = Inr status"
    by (cases "e = 0") (auto simp: vsnfs_xdr_readdirres_def)
  with ret [of None] len show ?thesis by (simp add: row(2) kx_readdirres_def recv_page_def)
qed

lemma call_readdir_returns:
  assumes V: "kernel_readdir V entries rd_err" and fh: "fh_wf fh"
    and op: "vsnfsd_open V s fh = Inr (s1, 0, Some f)" and err: "rd_err f = 0" and page: "length page = PAGE_SIZE"
  defines "d \<equiv> dir_run (stk_fh V) (entries f) (dir_start 1022)"
  shows "\<exists>page'. rpc_call_sync R s VSNFSPROC_READDIR (ReaddirArgs \<lparr>rda_fh = fh, rda_count = 4096\<rparr>) None page
      = (s, None, page', 0) \<and>
    holds page' 0 (wire_dir (ds_ents d) (ds_err d = vsnfs_ok)) \<and> list_all wentry_wf (ds_ents d)"
proof -
  let ?mk = "mk (wire_fh fh @ net32 4096)" and ?dir = "wire_dir (ds_ents d) (ds_err d = vsnfs_ok)"
  obtain proc where proc: "vsnfsd_procedures1 VSNFSPROC_READDIR = Some proc" by (rule readdir_rows)
  have room: "reply_room ?mk 4" using mk_reply [of "wire_fh fh @ net32 4096"] by (simp add: reply_room_def)
  let ?k = "rq_resused ?mk"
  from dispatch_readdir [OF sunrpc_xdr_axioms V proc mk_carries fh mk_page room op, of 0] err
  obtain rqstp where r: "vsnfsd_dispatch X V s proc ?mk 0 = Inr (s, rqstp, 0)"
      "holds (iov_base (rq_res rqstp)) (iov_len (rq_res ?mk)) (net32 (bswap32 0))"
      "iov_len (rq_res rqstp) = iov_len (rq_res ?mk) + 4"
    and pg: "holds (rq_respages rqstp ! ?k) 0 ?dir" "?k < length (rq_respages rqstp)"
      "length (rq_respages rqstp ! ?k) = PAGE_SIZE" "rq_res_page_len rqstp = length ?dir"
    and wf: "list_all wentry_wf (ds_ents d)" unfolding d_def by auto
  have "drop ?k (rq_respages rqstp) = (rq_respages rqstp ! ?k) # drop (Suc ?k) (rq_respages rqstp)"
    using pg(2) by (rule Cons_nth_drop_Suc [symmetric])
  then have "take (rq_res_page_len rqstp) (concat (drop ?k (rq_respages rqstp))) = ?dir"
    using pg(1,3,4) by (simp add: holds_def)
  moreover have "length (take (iov_len (rq_res rqstp)) (iov_base (rq_res rqstp))) = iov_len (rq_res rqstp)"
    using r(2,3) by (simp add: holds_def)
  ultimately have "drop (iov_len (rq_res rqstp)) (reply_msg ?mk rqstp) = ?dir" by (simp add: reply_msg_def)
  moreover have len: "length ?dir \<le> 4096" using pg(1,3) by (simp add: holds_def)
  ultimately have "rpc_call_sync R s VSNFSPROC_READDIR (ReaddirArgs \<lparr>rda_fh = fh, rda_count = 4096\<rparr>) None page
      = (s, None, overlay page 0 ?dir, 0)"
    using readdir_call [OF fh proc r(1,2,3), of 0 page] by simp
  with overlay_0_holds [of ?dir page] len page wf show ?thesis by simp
qed

text \<open>The listing at the client, for any caller of \<open>readdir\<close>.\<close>

lemma readdir_end_to_end:
  assumes V: "kernel_readdir V entries rd_err" and fh: "fh_wf fh"
    and op: "vsnfsd_open V s fh = Inr (s1, 0, Some f)" and err: "rd_err f = 0" and page: "length page = PAGE_SIZE"
  defines "d \<equiv> dir_run (stk_fh V) (entries f) (dir_start 1022)"
  assumes fill: "fill_spec filldir (ds_err d = vsnfs_ok) (map fill_of (ds_ents d)) b = (b', res, fin)"
  shows "vsnfs_readdir R (Some page) stk (Some fh) filldir s 0 b =
    Inr (s, if fin then 4096 else 0, if fin then 0 else 1, b', if res < 0 then res else 0)"
proof -
  from call_readdir_returns [OF V fh op err page] obtain page' where
    "rpc_call_sync R s VSNFSPROC_READDIR (ReaddirArgs \<lparr>rda_fh = fh, rda_count = 4096\<rparr>) None page = (s, None, page', 0)"
    "holds page' 0 (wire_dir (ds_ents d) (ds_err d = vsnfs_ok))" "list_all wentry_wf (ds_ents d)"
    unfolding d_def by auto
  from vsnfs_readdir_sim [OF this(1) _ this(3,2) fill] show ?thesis by simp
qed

text \<open>A directory that fits into a page arrives complete.\<close>

lemma listing_end_to_end:
  assumes V: "kernel_readdir V entries rd_err" and fh: "fh_wf fh"
    and op: "vsnfsd_open V s fh = Inr (s1, 0, Some f)" and err: "rd_err f = 0" and page: "length page = PAGE_SIZE"
    and fits: "list_all dirent_fits (entries f)" "(\<Sum>d\<leftarrow>entries f. int (entry_words d)) \<le> 1022"
    and some: "entries f \<noteq> []"
  shows "\<exists>fs. vsnfs_readdir R (Some page) stk (Some fh) collect s 0 [] = Inr (s, 4096, 0, fs, 0) \<and>
    vsnfs_readdir R (Some page) stk (Some fh) collect s 4096 fs = Inr (s, 4096, 0, fs, 0) \<and>
    map f_name fs = map sent_name (entries f) \<and> map f_ino fs = map de_ino (entries f) \<and>
    map f_type fs = map de_type (entries f)"
proof -
  let ?d = "dir_run (stk_fh V) (entries f) (dir_start 1022)"
  have seen: "map seen (ds_ents ?d) = map seen_of (entries f)" and complete: "ds_err ?d = vsnfs_ok"
    using dir_run_all [OF fits(1), of "dir_start 1022" "stk_fh V"] fits(2) by (simp_all add: dir_start_def)
  have "ds_ents ?d \<noteq> []" using seen some by auto
  then have spec: "fill_spec collect (ds_err ?d = vsnfs_ok) (map fill_of (ds_ents ?d)) []
      = (map fill_of (ds_ents ?d), 0, True)"
    using complete by (simp add: fill_spec_collect)
  have "map f_name (map fill_of (ds_ents ?d)) = map fst (map seen (ds_ents ?d))"
    and "map f_ino (map fill_of (ds_ents ?d)) = map (ucast \<circ> fst \<circ> snd) (map seen (ds_ents ?d))"
    and "map f_type (map fill_of (ds_ents ?d)) = map (snd \<circ> snd) (map seen (ds_ents ?d))"
    by (simp_all add: fill_of_def)
  moreover have "(ucast (ucast (de_ino d) :: u32) :: u64) = de_ino d" if "d \<in> set (entries f)" for d
  proof -
    have "unat (de_ino d) < 2 ^ 32"
      using fits(1) that by (auto simp: list_all_iff dirent_fits_def word_less_nat_alt)
    then show ?thesis by (simp add: unsigned_ucast_eq word_unat_eq_iff unsigned_take_bit_eq take_bit_nat_eq_self)
  qed
  ultimately show ?thesis
    using readdir_end_to_end [OF V fh op err page spec, of stk]
    by (auto simp: seen seen_of_def vsnfs_readdir_def)
qed

text \<open>GETROOT from the client.\<close>

lemma getroot_end_to_end:
  assumes V: "kernel_vfs V" and A: "alloc_ok V"
    and path: "0 \<notin> set path" "path \<noteq> []" "length path < 1023"
    and mp: "mp = (if last path = SLASH then path else path @ [SLASH])"
    and look: "path_lookup V mp = (0, Some (Some i))"
    and dir: "S_ISDIR (i_mode i)" and ino: "i_ino i \<noteq> 0" "unat (i_ino i) < 10 ^ 7" and buf: "length buf = 1024"
  shows "\<exists>s' h m. vsnfs_proc_getroot R s \<lparr>ga_path = path, ga_len = word_of_nat (length path)\<rparr> fh = (s', h, 0) \<and>
    fh_wf h \<and> fh_type h = VSNFS_DIR \<and> lp_tab s' = Some [\<lparr>n_ino = i_ino i, n_path = mp\<rparr>] \<and>
    vsnfsd_fh_to_path V s' h buf 1024 = Inr (0, m) \<and> as_cstr m = Inr mp"
proof -
  let ?a = "GetrootArgs \<lparr>ga_path = path, ga_len = word_of_nat (length path)\<rparr>"
  have wf: "args_wf ?a" using path by (simp add: unat_of_nat)
  obtain proc where p: "vsnfsd_procedures1 1 = Some proc" "pc_encode proc = enc_fh"
      "pc_func proc = func_getroot" "pc_zero proc = FhRes zero_fh"
      "pc_decode proc = (\<lambda>X r p. dec_as AGetroot (vsnfssvc_decode_getrootargs X r p))"
    by (simp add: vsnfsd_procedures1_def zero_fhres_def)
  have len: "length path \<le> 1024" using path(3) by simp
  have c: "carries (mk (wire_args ?a)) (wire_array path)" using mk_carries [of "wire_args ?a"] by simp
  obtain argp where a: "vsnfssvc_decode_getrootargs X (mk (wire_args ?a)) 0 = Inr (mk (wire_args ?a), Some argp)"
      "take (unat (dga_len argp)) (dga_path argp) = path" "unat (dga_len argp) = length path" "path_ok argp"
    using decode_getrootargs_wire [OF sunrpc_xdr_axioms c len path(1)] by blast
  have m: "mount_path argp = mp" using a(2) mp by (simp add: mount_path_def Let_def)
  have l: "0 < unat (dga_len argp)" "unat (dga_len argp) < 1023" using a(3) path by simp_all
  from getroot_leads_back [OF V A a(4) l look [folded m] dir ino buf, of s] obtain s' h m' where
    r: "vsnfsd_proc_getroot V s argp zero_fh = Inr (s', h, vsnfs_ok)"
      "lp_tab s' = Some [\<lparr>n_ino = i_ino i, n_path = mp\<rparr>]" "fh_type h = VSNFS_DIR" "fh_wf h"
      "vsnfsd_fh_to_path V s' h buf 1024 = Inr (0, m')" "as_cstr m' = Inr mp"
    unfolding m by blast
  obtain pi where row: "vsnfs_procedures (proc_of ?a) = Some pi" "p_decode pi = kx_fh" "p_replen pi = 10"
    by (simp add: vsnfs_procedures_def PROC_def)
  have "\<exists>page'. rpc_call_sync R s (proc_of ?a) ?a (Some (RespFh fh)) [] = (s', Some (RespFh h), page', 0)"
    by (rule call_fh_returns [OF wf row _ p(2) _ _ _ r(4), of "AGetroot argp"])
      (use p a r in \<open>auto simp: dec_as_def func_getroot_def\<close>)
  with r show ?thesis by (auto simp: vsnfs_proc_getroot_def)
qed

text \<open>LOOKUP from the client.\<close>

lemma lookup_end_to_end:
  assumes V: "kernel_vfs V" and A: "alloc_ok V" and ok: "srv_ok V s" and tab: "lp_tab s = Some tab"
    and ops: "cl_rpc_ops server = Some VsnfsClientops"
    and fh: "ci_private cdir = Some fh" "fh_wf fh"
    and dir: "lp_find tab (simple_strtoul V (fh_mem fh)) = Some dir"
    and name: "0 \<notin> set name" "SLASH \<notin> set name" "length name \<le> 255"
    and room: "length (n_path dir) + length name < 1023"
    and look: "path_lookup V (n_path dir @ name) = (0, Some (Some i))"
    and ino: "i_ino i \<noteq> 0" "unat (i_ino i) < 10 ^ 7"
    and short: "\<forall>n \<in> set tab. length (n_path n) < 1024" and buf: "length buf = 1024"
  shows "\<exists>s' h m p j. vsnfs_do_lookup R True s (Some server) cdir name (Some newfh) = Inr (s', Some h, 0) \<and>
    fh_wf h \<and> fh_type h = type_of_inode i 0 \<and>
    vsnfsd_fh_to_path V s' h buf 1024 = Inr (0, m) \<and> as_cstr m = Inr p \<and>
    path_lookup V p = (0, Some (Some j)) \<and> i_ino j = i_ino i"
proof -
  let ?a = "LookupArgs \<lparr>la_fh = fh, la_filename = name, la_len = word_of_nat (length name)\<rparr>"
  have wf: "args_wf ?a" using fh name by (simp add: unat_of_nat)
  obtain proc where p: "vsnfsd_procedures1 8 = Some proc" "pc_encode proc = enc_fh"
      "pc_func proc = func_lookup" "pc_zero proc = FhRes zero_fh"
      "pc_decode proc = (\<lambda>X r p. dec_as ALookup (vsnfssvc_decode_lookupargs X r p))" by (rule lookup_row)
  have c: "carries (mk (wire_args ?a)) (wire_fh fh @ wire_array name)" using mk_carries [of "wire_args ?a"] by simp
  obtain argp where a: "vsnfssvc_decode_lookupargs X (mk (wire_args ?a)) 0 = Inr (mk (wire_args ?a), Some argp)"
      "dla_fh argp = fh" "name_of argp = name" "unat (dla_len argp) = length name" "name_ok argp"
    using decode_lookupargs_wire [OF sunrpc_xdr_axioms c fh(2) name(3,1,2)] by blast
  have a': "lp_find tab (simple_strtoul V (fh_mem (dla_fh argp))) = Some dir"
      "length (n_path dir) + unat (dla_len argp) < 1023"
      "path_lookup V (n_path dir @ name_of argp) = (0, Some (Some i))"
    using a(2,3,4) dir room look by simp_all
  from lookup_leads_back [OF V A ok tab a'(1) a(5) a'(2,3) ino short buf] obtain s' h m q j where
    r: "vsnfsd_proc_lookup V s argp zero_fh = Inr (s', h, vsnfs_ok)"
      "fh_wf h" "fh_type h = type_of_inode i 0"
      "vsnfsd_fh_to_path V s' h buf 1024 = Inr (0, m)" "as_cstr m = Inr q"
      "path_lookup V q = (0, Some (Some j))" "i_ino j = i_ino i"
    by blast
  obtain pi where row: "vsnfs_procedures (proc_of ?a) = Some pi" "p_decode pi = kx_fh" "p_replen pi = 10"
    by (simp add: vsnfs_procedures_def PROC_def)
  have "\<exists>page'. rpc_call_sync R s (proc_of ?a) ?a (Some (RespFh newfh)) [] = (s', Some (RespFh h), page', 0)"
    by (rule call_fh_returns [OF wf row _ p(2) _ _ _ r(2), of "ALookup argp"])
      (use p a r in \<open>auto simp: dec_as_def func_lookup_def\<close>)
  with r fh ops show ?thesis by (auto simp: client_defs vsnfs_proc_lookup_def)
qed

end

section \<open>An instance of the link\<close>

text \<open>
  A link without loss: buffers of fixed sizes, the request handed over, the reply handed back.  When the server
  faults there is no answer, which the client sees as \<open>- ETIMEDOUT\<close>.
\<close>

definition send_ref :: "nat \<Rightarrow> rpc_argp \<Rightarrow> rpc_rqst" where
  "send_ref k a =
    (let size = 4 * (4 + NUL_CALLSLACK + (case vsnfs_procedures k of Some pi \<Rightarrow> p_replen pi | None \<Rightarrow> 0))
     in \<lparr>rq_svec = \<lparr>iov_base = replicate 2048 0, iov_len = 0\<rparr>, rq_slen = 0,
         rq_rcv_buf = \<lparr>rb_head = replicate size 0, rb_head_len = size, rb_page_base = 0, rb_page_len = 0\<rparr>,
         rq_cred = Some NUL_REPLYSLACK, rq_rcv_off = 4096\<rparr>)"

definition mk_ref :: "byte list \<Rightarrow> svc_rqst" where
  "mk_ref bytes = \<lparr>rq_arg = \<lparr>iov_base = bytes, iov_len = length bytes\<rparr>,
     rq_res = \<lparr>iov_base = replicate 4096 0, iov_len = 24\<rparr>, rq_res_page_len = 0,
     rq_respages = [replicate 4096 0], rq_resused = 0\<rparr>"

text \<open>A request that cannot be encoded or decoded, or that the server refuses as garbage, is an I/O error.\<close>

definition link_ref :: "vfs_api \<Rightarrow> srv rpc_api" where
  "link_ref V = \<lparr>rpc_call_sync = (\<lambda>s k a resp page.
     case vsnfs_procedures k of None \<Rightarrow> (s, resp, page, - EIO)
     | Some pi \<Rightarrow>
     case p_encode pi xdr_ref (send_ref k a) 0 a of Inl _ \<Rightarrow> (s, resp, page, - EIO)
     | Inr (req, _) \<Rightarrow>
     let rq = mk_ref (take (rq_slen req) (iov_base (rq_svec req))) in
     case vsnfsd_procedures1 (p_proc pi) of None \<Rightarrow> (s, resp, page, - EIO)
     | Some proc \<Rightarrow>
     case vsnfsd_dispatch xdr_ref V s proc rq 0 of Inl _ \<Rightarrow> (s, resp, page, - ETIMEDOUT)
     | Inr (s', rqstp, stat) \<Rightarrow>
     let msg = reply_msg rq rqstp; page' = recv_page (rq_rcv_buf req) msg page in
     if stat \<noteq> 0 then (s', resp, page, - EIO)
     else case p_decode pi xdr_ref req (recv_head (rq_rcv_buf req) msg) (iov_len (rq_res rq)) resp of
       Inl _ \<Rightarrow> (s', resp, page', - EIO)
     | Inr (status, _, _, resp') \<Rightarrow> (s', resp', page', status))\<rparr>"

interpretation ref_link: rpc_link xdr_ref V "link_ref V" send_ref mk_ref for V
proof unfold_locales
  show "vsnfs_procedures k = Some pi \<Longrightarrow> 4 * p_arglen pi \<le> length (iov_base (rq_svec (send_ref k a)))" for k a pi
    by (auto simp: vsnfs_procedures_def PROC_def send_ref_def Let_def split: if_splits)
next
  show "rpc_call_sync (link_ref V) s k a resp page = (s', resp', recv_page (rq_rcv_buf req) msg page, status)"
    if "vsnfs_procedures k = Some pi" "p_encode pi xdr_ref (send_ref k a) 0 a = Inr (req, 0)"
      "bytes = take (rq_slen req) (iov_base (rq_svec req))" "vsnfsd_procedures1 (p_proc pi) = Some proc"
      "vsnfsd_dispatch xdr_ref V s proc (mk_ref bytes) 0 = Inr (s', rqstp, 0)" "msg = reply_msg (mk_ref bytes) rqstp"
      "p_decode pi xdr_ref req (recv_head (rq_rcv_buf req) msg) (iov_len (rq_res (mk_ref bytes))) resp
        = Inr (status, req', m', resp')"
    for k pi a req bytes proc s s' rqstp msg resp status req' m' resp' page
    using that by (simp add: link_ref_def Let_def)
qed (auto simp: send_ref_def mk_ref_def carries_def holds_def reply_room_def xdr_ref_def Let_def)

end
