(* ===== verification/Simulation.thy ===== *)
theory Simulation
  imports Prelude
begin

text \<open>
  Sequences of labelled steps and the interface between a detailed system and its specification: every step of
  the one, from a state in which its invariant holds, is a step of the other with the same label.
\<close>

inductive steps :: "('s \<Rightarrow> 'e \<Rightarrow> 's \<Rightarrow> bool) \<Rightarrow> 's \<Rightarrow> 'e list \<Rightarrow> 's \<Rightarrow> bool" for R where
  steps_nil: "steps R s [] s"
| steps_cons: "R s e s1 \<Longrightarrow> steps R s1 es s' \<Longrightarrow> steps R s (e # es) s'"

inductive_simps steps_Nil [simp]: "steps R s [] s'"
inductive_simps steps_Cons: "steps R s (e # es) s'"

lemma steps_append: "steps R s (es @ fs) s' \<longleftrightarrow> (\<exists>s1. steps R s es s1 \<and> steps R s1 fs s')"
  by (induction es arbitrary: s) (auto simp: steps_Cons)

text \<open>A relation between states that every step with an admitted label preserves.\<close>

lemma steps_preserve:
  assumes "steps R s es s'" and "\<And>s e s'. e \<in> set es \<Longrightarrow> R s e s' \<Longrightarrow> P s \<Longrightarrow> P s'" and "P s"
  shows "P s'"
  using assms
proof (induction rule: steps.induct)
  case (steps_cons s e s1 es s')
  have "P s1" by (rule steps_cons.prems(1) [OF _ steps_cons.hyps(1) steps_cons.prems(2)]) simp
  moreover have "P t'" if "f \<in> set es" "R t f t'" "P t" for t f t'
    by (rule steps_cons.prems(1) [OF _ that(2,3)]) (simp add: that(1))
  ultimately show ?case using steps_cons.IH by blast
qed

locale step_simulation =
  fixes cstep :: "'c \<Rightarrow> 'e \<Rightarrow> 'c \<Rightarrow> bool"
    and astep :: "'a \<Rightarrow> 'e \<Rightarrow> 'a \<Rightarrow> bool"
    and abs :: "'c \<Rightarrow> 'a"
    and inv :: "'c \<Rightarrow> bool"
  assumes step_sim: "inv s \<Longrightarrow> cstep s e s' \<Longrightarrow> astep (abs s) e (abs s')"
    and step_inv: "inv s \<Longrightarrow> cstep s e s' \<Longrightarrow> inv s'"
begin

lemma steps_inv: "steps cstep s es s' \<Longrightarrow> inv s \<Longrightarrow> inv s'"
  by (induction rule: steps.induct) (auto dest: step_inv)

lemma steps_sim: "steps cstep s es s' \<Longrightarrow> inv s \<Longrightarrow> steps astep (abs s) es (abs s')"
  by (induction rule: steps.induct) (auto intro: steps_nil steps_cons step_sim step_inv)

text \<open>What holds of every state the specification reaches holds of the abstraction of every state the system reaches.\<close>

lemma steps_transfer:
  assumes "steps cstep s es s'" and "inv s" and "P (abs s)"
    and "\<And>a e a'. e \<in> set es \<Longrightarrow> astep a e a' \<Longrightarrow> P a \<Longrightarrow> P a'"
  shows "P (abs s')"
  by (rule steps_preserve [OF steps_sim [OF assms(1,2)], of P]) (use assms(3,4) in auto)

end

end
