(* ===== verification/ServerSpec.thy ===== *)
theory ServerSpec
  imports ServerServes Simulation "HOL-Library.Sublist"
begin

text \<open>
  The server as its clients see it: a partial map from inode numbers to path names, which mounts, look-ups and the
  shutdown change.  Every dispatched request of the server is a step of this specification, so what holds of
  the map over any sequence of events holds of the server's table.
\<close>

section \<open>The specification\<close>

text \<open>\<open>None\<close> until the first mount.\<close>

type_synonym tab_spec = "(u64 \<rightharpoonup> byte list) option"

text \<open>What a request is about: the path of a GETROOT, the directory and the name of a LOOKUP.\<close>

datatype srv_event = Mount "byte list" | Find u64 "byte list" | Quiet | Shutdown

definition root_of :: "byte list \<Rightarrow> byte list" where
  "root_of p = (if last p = SLASH then p else p @ [SLASH])"

inductive spec_step :: "vfs_api \<Rightarrow> tab_spec \<Rightarrow> srv_event \<Rightarrow> tab_spec \<Rightarrow> bool" for V where
  spec_idle: "e \<noteq> Shutdown \<Longrightarrow> spec_step V t e t"
| spec_mount: "p \<noteq> [] \<Longrightarrow> path_lookup V (root_of p) = (0, Some (Some i)) \<Longrightarrow> \<not> S_ISREG (i_mode i) \<Longrightarrow>
    spec_step V t (Mount p) (Some [i_ino i \<mapsto> root_of p])"
| spec_mount_cut: "spec_step V t (Mount p) (Some Map.empty)"
| spec_find: "m d = Some dir \<Longrightarrow> path_lookup V (dir @ name) = (0, Some (Some i)) \<Longrightarrow> m (i_ino i) = None \<Longrightarrow>
    spec_step V (Some m) (Find d name) (Some (m(i_ino i \<mapsto> filed_path i (dir @ name))))"
| spec_shutdown: "spec_step V (Some m) Shutdown (Some Map.empty)"

inductive_cases spec_stepE: "spec_step V t e t'"

section \<open>The server's steps with their events\<close>

definition event_of :: "vfs_api \<Rightarrow> svc_args \<Rightarrow> srv_event" where
  "event_of V a =
     (case a of
        AGetroot argp \<Rightarrow> Mount (take (unat (dga_len argp)) (dga_path argp))
      | ALookup argp \<Rightarrow> Find (simple_strtoul V (fh_mem (dla_fh argp))) (name_of argp)
      | _ \<Rightarrow> Quiet)"

text \<open>The event of a request by its bytes; a request whose arguments do not decode is none.\<close>

definition request_event :: "xdr_api \<Rightarrow> vfs_api \<Rightarrow> svc_procedure \<Rightarrow> svc_rqst \<Rightarrow> srv_event" where
  "request_event X V proc rqstp =
     (case pc_decode proc X rqstp 0 of Inr (_, Some a) \<Rightarrow> event_of V a | _ \<Rightarrow> Quiet)"

inductive srv_event_step :: "xdr_api \<Rightarrow> vfs_api \<Rightarrow> srv \<Rightarrow> srv_event \<Rightarrow> srv \<Rightarrow> bool" for X V where
  ev_request: "vsnfsd_procedures1 n = Some proc \<Longrightarrow>
    vsnfsd_dispatch X V s proc rqstp statp = Inr (s', rqstp', statp') \<Longrightarrow>
    srv_event_step X V s (request_event X V proc rqstp) s'"
| ev_shutdown: "vsnfsd_last_thread s serv = Inr (s', serv') \<Longrightarrow> srv_event_step X V s Shutdown s'"

inductive_cases srv_event_stepE: "srv_event_step X V s e s'"

lemma event_step_step: "srv_event_step X V s e s' \<Longrightarrow> srv_step X V s s'"
  by (auto elim!: srv_event_stepE intro: srv_step.intros)

section \<open>Abstraction\<close>

definition abs_tab :: "srv \<Rightarrow> tab_spec" where
  "abs_tab s = map_option (\<lambda>tab ino. map_option n_path (lp_find tab ino)) (lp_tab s)"

lemma abs_tab_None [simp]: "lp_tab s = None \<Longrightarrow> abs_tab s = None"
  by (simp add: abs_tab_def)

lemma abs_tab_empty [simp]: "lp_tab s = Some [] \<Longrightarrow> abs_tab s = Some Map.empty"
  by (simp add: abs_tab_def)

lemma abs_tab_add:
  assumes "lp_tab s' = Some (lp_add n tab)"
  shows "abs_tab s' = Some ((\<lambda>ino. map_option n_path (lp_find tab ino))(n_ino n \<mapsto> n_path n))"
  using assms by (auto simp: abs_tab_def lp.find_add)

lemma abs_tab_eq: "lp_tab s' = lp_tab s \<Longrightarrow> abs_tab s' = abs_tab s"
  by (simp add: abs_tab_def)

text \<open>What a handle leads to depends on the abstraction only.\<close>

lemma fh_to_path_abs:
  "vsnfsd_fh_to_path V s fh buf len =
     (let ino = simple_strtoul V (fh_mem fh) in
      if ino = 0 then Inr (- 1, buf)
      else bindF (deref (abs_tab s)) (\<lambda>m.
        case m ino of Some p \<Rightarrow> bindF (strncpy buf (p @ [0]) len) (\<lambda>path. Inr (0, path)) | None \<Rightarrow> Inr (- 1, buf)))"
  by (cases "lp_tab s") (auto simp: vsnfsd_fh_to_path_def abs_tab_def Let_def split: option.split)

section \<open>Every step is a step of the specification\<close>

lemma getroot_spec:
  assumes "kernel_vfs V" and "path_ok argp" and "vsnfsd_proc_getroot V s argp resp = Inr (s', resp', rc)"
  shows "spec_step V (abs_tab s) (event_of V (AGetroot argp)) (abs_tab s')"
proof -
  let ?p = "take (unat (dga_len argp)) (dga_path argp)"
  have r: "mount_path argp = root_of ?p" by (simp add: mount_path_def root_of_def Let_def)
  consider "lp_tab s' = lp_tab s" | "lp_tab s' = Some []"
    | i where "path_lookup V (root_of ?p) = (0, Some (Some i))" "\<not> S_ISREG (i_mode i)"
        "0 < unat (dga_len argp)" "lp_tab s' = Some (lp_add \<lparr>n_ino = i_ino i, n_path = root_of ?p\<rparr> [])"
    using getroot_cases [OF assms] unfolding r by blast
  then show ?thesis
  proof cases
    case 1
    then have "abs_tab s' = abs_tab s" by (rule abs_tab_eq)
    then show ?thesis by (simp add: event_of_def spec_idle)
  next
    case 2
    then show ?thesis by (simp add: event_of_def spec_mount_cut)
  next
    case (3 i)
    then have "?p \<noteq> []" using assms(2) by (auto simp: path_ok_def)
    from spec_mount [OF this 3(1,2), of "abs_tab s"] abs_tab_add [OF 3(4)] show ?thesis
      by (simp add: event_of_def)
  qed
qed

lemma lookup_spec:
  assumes "kernel_vfs V" and "name_ok argp" and "srv_ok V s"
    and "vsnfsd_proc_lookup V s argp resp = Inr (s', resp', rc)"
  shows "spec_step V (abs_tab s) (event_of V (ALookup argp)) (abs_tab s')"
  using assms
proof (cases rule: lookup_cases)
  case (enter tab dir i)
  let ?m = "\<lambda>ino. map_option n_path (lp_find tab ino)"
  have "?m (simple_strtoul V (fh_mem (dla_fh argp))) = Some (n_path dir)" using enter by simp
  moreover have "?m (i_ino i) = None" using enter by simp
  moreover have "abs_tab s' = Some (?m(i_ino i \<mapsto> filed_path i (n_path dir @ name_of argp)))"
    using abs_tab_add [of s' "\<lparr>n_ino = i_ino i, n_path = filed_path i (n_path dir @ name_of argp)\<rparr>" tab]
    by (simp add: enter(6))
  ultimately show ?thesis
    using enter(1,4) spec_find [of ?m] by (simp add: event_of_def abs_tab_def [of s])
qed (auto simp: event_of_def abs_tab_def intro: spec_idle)

lemma func_spec:
  assumes V: "kernel_vfs V" and "vsnfsd_procedures1 n = Some proc" and a: "args_ok argp"
    and ok: "srv_ok V s" and run: "pc_func proc X V s rqstp argp resp = Inr (s', rqstp', resp', e)"
  shows "spec_step V (abs_tab s) (event_of V argp) (abs_tab s')"
  using assms(2)
proof (cases rule: procedure_cases)
  case 1
  with run show ?thesis
    by (auto simp: func_null_def event_of_def split: svc_args.splits svc_res.splits prod.splits intro: spec_idle)
next
  case 2
  with run a show ?thesis
    by (auto simp: func_getroot_def bindF_eq_Inr args_ok_def split: svc_args.splits svc_res.splits
        intro: getroot_spec [OF V])
next
  case 3
  with run a show ?thesis
    by (auto simp: func_lookup_def bindF_eq_Inr args_ok_def split: svc_args.splits svc_res.splits
        intro: lookup_spec [OF V _ ok])
next
  case 4
  with run show ?thesis
    by (auto simp: func_readdir_def bindF_eq_Inr event_of_def split: svc_args.splits svc_res.splits
        dest!: proc_readdir_state intro: spec_idle)
next
  case 5
  with run show ?thesis
    by (auto simp: func_read_def bindF_eq_Inr event_of_def split: svc_args.splits svc_res.splits
        dest!: proc_read_state intro: spec_idle)
qed

lemma event_not_Shutdown: "request_event X V proc rqstp \<noteq> Shutdown"
  by (auto simp: request_event_def event_of_def split: sum.split option.split svc_args.split)

lemma dispatch_spec:
  assumes "kernel_vfs V" and "vsnfsd_procedures1 n = Some proc" and "srv_ok V s"
    and "vsnfsd_dispatch X V s proc rqstp statp = Inr (s', rqstp', statp')"
  shows "spec_step V (abs_tab s) (request_event X V proc rqstp) (abs_tab s')"
  using assms(4)
proof (rule dispatch_state)
  assume "s' = s"
  then show ?thesis using event_not_Shutdown by (auto intro: spec_idle)
next
  fix rqstp1 rqstp2 argp rqstp3 resp e
  assume d: "pc_decode proc X rqstp 0 = Inr (rqstp1, Some argp)"
    and run: "pc_func proc X V s rqstp2 argp (pc_zero proc) = Inr (s', rqstp3, resp, e)"
  from func_spec [OF assms(1,2) decoded_args_ok [OF assms(2) d] assms(3) run]
  show ?thesis by (simp add: request_event_def d)
qed

lemma last_thread_spec: "vsnfsd_last_thread s serv = Inr (s', serv') \<Longrightarrow> spec_step V (abs_tab s) Shutdown (abs_tab s')"
  by (auto simp: vsnfsd_last_thread_def bindF_eq_Inr free_nodes_eq abs_tab_def intro: spec_shutdown)

lemma event_step_spec:
  "kernel_vfs V \<Longrightarrow> srv_inv V s \<Longrightarrow> srv_event_step X V s e s' \<Longrightarrow> spec_step V (abs_tab s) e (abs_tab s')"
  by (auto elim!: srv_event_stepE intro: dispatch_spec last_thread_spec simp: srv_inv_def)

interpretation server_sim: step_simulation "srv_event_step X V" "spec_step V" abs_tab "\<lambda>s. kernel_vfs V \<and> srv_inv V s"
  for X V
  by unfold_locales (auto intro: event_step_spec step_keeps event_step_step)

text \<open>Reachable states are those at the end of a sequence of events.\<close>

lemma step_event: "srv_step X V s s' \<Longrightarrow> \<exists>e. srv_event_step X V s e s'"
  by (auto elim!: srv_stepE intro: srv_event_step.intros)

lemma reachable_events: "srv_reachable X V s \<Longrightarrow> \<exists>es. steps (srv_event_step X V) srv_start es s"
proof (induction rule: srv_reachable.induct)
  case start
  show ?case by (rule exI [of _ "[]"]) simp
next
  case (more s s')
  then obtain es e where "steps (srv_event_step X V) srv_start es s" "srv_event_step X V s e s'"
    using step_event by blast
  then have "steps (srv_event_step X V) srv_start (es @ [e]) s'" by (auto simp: steps_append steps_Cons)
  then show ?case by blast
qed

lemma start_inv: "kernel_vfs V \<Longrightarrow> srv_inv V srv_start"
  using reachable_inv srv_reachable.start by blast

lemma abs_start: "abs_tab srv_start = None"
  by (simp add: abs_tab_def srv_start_def)

section \<open>What the specification says\<close>

text \<open>Between mounts and shutdowns the map only grows.\<close>

lemma spec_step_grows:
  assumes "spec_step V t e t'" and "\<forall>p. e \<noteq> Mount p" and "e \<noteq> Shutdown" and "t = Some m"
  shows "\<exists>m'. t' = Some m' \<and> m \<subseteq>\<^sub>m m'"
  using assms by (auto elim!: spec_stepE simp: map_le_def)

lemma spec_steps_grow:
  assumes "steps (spec_step V) t es t'" and "\<forall>e \<in> set es. (\<forall>p. e \<noteq> Mount p) \<and> e \<noteq> Shutdown" and "t = Some m"
  shows "\<exists>m'. t' = Some m' \<and> m \<subseteq>\<^sub>m m'"
  by (rule steps_preserve [OF assms(1), of "\<lambda>t. \<exists>m'. t = Some m' \<and> m \<subseteq>\<^sub>m m'"])
    (use assms(2,3) in \<open>auto dest!: spec_step_grows intro: map_le_trans\<close>)

text \<open>All paths of the map begin with the path of its root, which is one of them.\<close>

definition under_root :: "tab_spec \<Rightarrow> bool" where
  "under_root t = (case t of None \<Rightarrow> True
     | Some m \<Rightarrow> m = Map.empty \<or> (\<exists>ino r. m ino = Some r \<and> (\<forall>p \<in> ran m. prefix r p)))"

lemma filed_path_prefix: "prefix p (filed_path i p)"
  by (simp add: filed_path_def)

lemma spec_step_under_root: "spec_step V t e t' \<Longrightarrow> under_root t \<Longrightarrow> under_root t'"
proof (induction rule: spec_step.induct)
  case (spec_find m d dir name i)
  then have "m \<noteq> Map.empty" by auto
  with spec_find(4) obtain ino r where r: "m ino = Some r" "\<forall>p \<in> ran m. prefix r p"
    by (auto simp: under_root_def)
  have "prefix r dir" using r(2) spec_find(1) by (auto simp: ran_def)
  then have "prefix r (filed_path i (dir @ name))"
    using filed_path_prefix [of "dir @ name" i] by (meson prefix_order.trans prefixI)
  moreover have "ino \<noteq> i_ino i" using r(1) spec_find(3) by auto
  ultimately show ?case using r spec_find(3) by (auto simp: under_root_def intro!: exI [of _ ino])
qed (auto simp: under_root_def)

lemma lp_find_distinct: "distinct (map n_ino tab) \<Longrightarrow> n \<in> set tab \<Longrightarrow> lp_find tab (n_ino n) = Some n"
  by (induction tab) (auto simp: image_iff)

section \<open>A run\<close>

text \<open>A request of procedure \<open>n\<close> with the given argument bytes, as an event and the state after it.\<close>

definition serve1 :: "vfs_api \<Rightarrow> srv \<Rightarrow> nat \<Rightarrow> byte list \<Rightarrow> (srv_event \<times> srv) option" where
  "serve1 V s n args =
     (case vsnfsd_procedures1 n of
        None \<Rightarrow> None
      | Some proc \<Rightarrow>
          (case vsnfsd_dispatch xdr_ref V s proc (demo_rqst args) 0 of
             Inl _ \<Rightarrow> None
           | Inr (s', _, _) \<Rightarrow> Some (request_event xdr_ref V proc (demo_rqst args), s')))"

lemma serve1_step: "serve1 V s n args = Some (e, s') \<Longrightarrow> srv_event_step xdr_ref V s e s'"
  by (auto simp: serve1_def split: option.splits sum.splits intro: ev_request)

text \<open>GETROOT of \<open>/e\<close>, then LOOKUP of the directory \<open>d\<close> in it.\<close>

definition looked_srv :: srv where
  "looked_srv = \<lparr>lp_tab = Some [\<lparr>n_ino = 8, n_path = [47, 101, 47, 100, 47]\<rparr>, demo_root],
     s_kmem = 4, s_drefs = 0, s_files = 0\<rparr>"

lemma demo_mounts: "srv_event_step xdr_ref demo srv_start (Mount [47, 101]) demo_srv"
proof -
  have "serve1 demo srv_start 1 [0, 0, 0, 2, 47, 101, 0, 0] = Some (Mount [47, 101], demo_srv)" by code_simp
  then show ?thesis by (rule serve1_step)
qed

lemma demo_finds: "srv_event_step xdr_ref demo demo_srv (Find 7 [100]) looked_srv"
proof -
  have "serve1 demo demo_srv 8 [55, 0, 0, 0, 0, 0, 0, 0, 0, 0, 0, 2, 0, 0, 0, 1, 100, 0, 0, 0]
      = Some (Find 7 [100], looked_srv)" by code_simp
  then show ?thesis by (rule serve1_step)
qed

lemma mounted_reachable: "srv_reachable xdr_ref demo demo_srv"
  using srv_reachable.more [OF srv_reachable.start event_step_step [OF demo_mounts]] .

lemma looked_reachable: "srv_reachable xdr_ref demo looked_srv"
  using srv_reachable.more [OF mounted_reachable event_step_step [OF demo_finds]] .

section \<open>Properties\<close>

text \<open>
  C2. The server implements its specification: over any sequence of requests, of any bytes, that the
  server answers and of shutdowns, its table goes through states of the abstract map by the steps the events allow.  The
  file tree does not change meanwhile.
\<close>

theorem server_refines_spec:
  assumes "kernel_vfs V" and "steps (srv_event_step X V) srv_start es s"
  shows "steps (spec_step V) None es (abs_tab s)"
  using server_sim.steps_sim [OF assms(2)] assms(1) start_inv abs_start by metis

theorem server_refines_spec_witness:
  "steps (spec_step demo) None [Mount [47, 101], Find 7 [100]] (abs_tab looked_srv) \<and>
   abs_tab looked_srv = Some [7 \<mapsto> [47, 101, 47], 8 \<mapsto> [47, 101, 47, 100, 47]]"
proof -
  have "steps (srv_event_step xdr_ref demo) srv_start [Mount [47, 101], Find 7 [100]] looked_srv"
    using demo_mounts demo_finds by (auto simp: steps_Cons)
  from server_refines_spec [OF demo_vfs this] show ?thesis
    by (auto simp: abs_tab_def looked_srv_def demo_root_def fun_eq_iff)
qed

text \<open>
  C12. Handles stay valid: from a reachable state, whatever requests arrive short of a mount and a shutdown, a handle
  that the server maps to a path is mapped to the same path afterwards, over a file tree that does not change.
\<close>

theorem handles_stay_valid:
  assumes V: "kernel_vfs V" and "srv_reachable X V s"
    and run: "steps (srv_event_step X V) s es s'" and es: "\<forall>e \<in> set es. (\<forall>p. e \<noteq> Mount p) \<and> e \<noteq> Shutdown"
    and path: "vsnfsd_fh_to_path V s fh buf len = Inr (0, m)"
  shows "vsnfsd_fh_to_path V s' fh buf len = Inr (0, m)"
proof -
  from path obtain t p where t: "abs_tab s = Some t" and p: "t (simple_strtoul V (fh_mem fh)) = Some p"
    by (auto simp: fh_to_path_abs Let_def bindF_eq_Inr split: if_splits option.splits)
  have "srv_inv V s" using reachable_inv [OF assms(2) V] .
  with run V have "steps (spec_step V) (abs_tab s) es (abs_tab s')" by (simp add: server_sim.steps_sim)
  from spec_steps_grow [OF this es t] obtain t' where t': "abs_tab s' = Some t'" "t \<subseteq>\<^sub>m t'" by blast
  with p have "t' (simple_strtoul V (fh_mem fh)) = Some p" by (auto simp: map_le_def dom_def)
  with path t t'(1) p show ?thesis by (auto simp: fh_to_path_abs Let_def split: if_splits)
qed

theorem handles_stay_valid_witness:
  "\<exists>m. vsnfsd_fh_to_path demo looked_srv (dla_fh demo_lookup) [1, 1, 1, 1] 4 = Inr (0, m) \<and> as_cstr m = Inr [47, 101, 47]"
proof -
  have p: "vsnfsd_fh_to_path demo demo_srv (dla_fh demo_lookup) [1, 1, 1, 1] 4 = Inr (0, [47, 101, 47, 0])" by code_simp
  have "steps (srv_event_step xdr_ref demo) demo_srv [Find 7 [100]] looked_srv"
    using demo_finds by (simp add: steps_Cons)
  from handles_stay_valid [OF demo_vfs mounted_reachable this _ p] show ?thesis
    using as_cstr_zero [of "[47, 101, 47]" "[]"] by simp
qed

text \<open>
  C18. Every path of the table extends the mounted one: in every reachable state with a table that is not empty, one
  of its entries is the root, and the path of every entry, as a string, begins with the path of the root.  (The
  name \<open>..\<close> extends a path like any other.)
\<close>

theorem table_under_root:
  assumes V: "kernel_vfs V" and r: "srv_reachable X V s" and tab: "lp_tab s = Some tab" "tab \<noteq> []"
  shows "\<exists>root \<in> set tab. \<forall>n \<in> set tab. prefix (n_path root) (n_path n)"
proof -
  from reachable_events [OF r] obtain es where "steps (srv_event_step X V) srv_start es s" by blast
  then have "under_root (abs_tab s)"
    by (rule server_sim.steps_transfer)
      (use V start_inv in \<open>auto simp: abs_start under_root_def [of None] intro: spec_step_under_root\<close>)
  moreover have "(\<lambda>ino. map_option n_path (lp_find tab ino)) \<noteq> Map.empty"
    using tab(2) by (cases tab) (auto simp: fun_eq_iff)
  ultimately obtain ino p where p: "map_option n_path (lp_find tab ino) = Some p"
    and pre: "\<forall>q \<in> ran (\<lambda>ino. map_option n_path (lp_find tab ino)). prefix p q"
    by (auto simp: under_root_def abs_tab_def tab(1))
  have d: "distinct (map n_ino tab)" using reachable_inv [OF r V] tab(1) by (simp add: srv_inv_def srv_ok_def tab_ok_def)
  have "prefix p (n_path n)" if "n \<in> set tab" for n
    using pre lp_find_distinct [OF d that] by (auto simp: ran_def)
  with p show ?thesis using lp_find_entry by fastforce
qed

theorem table_under_root_witness:
  "\<exists>root \<in> {\<lparr>n_ino = 8, n_path = [47, 101, 47, 100, 47]\<rparr>, demo_root}.
     prefix (n_path root) (n_path demo_root) \<and> prefix (n_path root) [47, 101, 47, 100, 47]"
  using table_under_root [OF demo_vfs looked_reachable, of "[\<lparr>n_ino = 8, n_path = [47, 101, 47, 100, 47]\<rparr>, demo_root]"]
  by (auto simp: looked_srv_def)

end
