(* ===== verification/Session.thy ===== *)
theory Session
  imports Remote ServerSpec
begin

text \<open>
  A session of a client with a fresh server: mounting, looking up a directory in the mounted one, and listing it, each
  call made with what the one before returned.
\<close>

text \<open>What a handle is mapped to, from the mapping of the handle to a path.\<close>

lemma fh_to_path_finds_node:
  assumes "vsnfsd_fh_to_path V s fh buf len = Inr (0, m)" and "lp_tab s = Some tab"
  shows "\<exists>node. lp_find tab (simple_strtoul V (fh_mem fh)) = Some node"
  using assms by (auto simp: vsnfsd_fh_to_path_def Let_def split: if_splits option.splits)

text \<open>A handle whose path opens, opens.\<close>

lemma open_by_path:
  assumes "kmalloc V OpenPath 1024 = Some buf" and "vsnfsd_fh_to_path V s fh buf 1024 = Inr (0, m)"
    and "as_cstr m = Inr p" and "filp_open V p = Ptr f"
  shows "vsnfsd_open V s fh = Inr (s\<lparr>s_files := s_files s + 1\<rparr>, 0, Some f)"
  using assms by (simp add: vsnfsd_open_def)

text \<open>The client turns a new handle of a directory into a directory inode.\<close>

lemma lookup_makes_inode:
  assumes "vsnfs_do_lookup R True n info dir name (Some newfh) = Inr (n', Some h, 0)" and "length name \<le> 255"
    and "fh_type h = VSNFS_DIR" and "\<And>k. iget k = IgetNew inode"
    and "info = Some server" and "cl_rpc_ops server = Some VsnfsClientops"
  shows "\<exists>dn i. vsnfs_lookup R iget strtoul attach True (Some newfh) n info dir dentry name = Inr (n', dn, Ptr None, 0) \<and>
    cd_inode dn = Some i \<and> cd_op dn = Some vsnfs_dentry_operations \<and> ci_op i = DirOps \<and> ci_private i = Some h"
  using assms by (simp add: vsnfs_lookup_def VSNFS_PROTO_set vsnfs_clientops_def vsnfs_fhget_def attach_def Let_def)

text \<open>
  A client that has what a mount needs: memory, an RPC client on the link, a new superblock and new inodes.
\<close>

definition client_ok ::
  "('n, 'c) mount_env \<Rightarrow> 'n rpc_api \<Rightarrow> vsnfs_fh \<Rightarrow> 'c super_block \<Rightarrow> cinode \<Rightarrow> (cinode \<Rightarrow> cdentry) \<Rightarrow> bool" where
  "client_ok E R resp sb0 inode al \<longleftrightarrow>
     m_rpc E = R \<and> kstrndup_ok (m_parse E) \<and> m_kzalloc E \<and> m_resp E = Some resp \<and> m_d_alloc E \<and>
     (\<exists>c. \<forall>server. m_rpc_create E server = Ptr c) \<and> s_root sb0 = None \<and>
     (\<exists>anon. \<forall>s. m_set_anon E s = (s\<lparr>s_dev := anon\<rparr>, 0)) \<and>
     (\<forall>set. snd (set sb0) = 0 \<longrightarrow> m_sget E set = Ptr (fst (set sb0))) \<and>
     (\<forall>k. m_iget E k = IgetNew inode) \<and> (\<forall>i. m_d_obtain E i = Ptr (al i))"

context rpc_link
begin

text \<open>Mounting: the superblock's root inode carries a handle, and the server's table is the root.\<close>

lemma mount_end_to_end:
  assumes V: "kernel_vfs V" and A: "alloc_ok V" and E: "client_ok E R resp sb0 inode al"
    and dev: "0 \<notin> set ip" "COLON \<notin> set ip" "length ip \<le> 15"
    and path: "0 \<notin> set path" "path \<noteq> []" "length path < 1023"
    and mp: "mp = (if last path = SLASH then path else path @ [SLASH])"
    and root: "path_lookup V mp = (0, Some (Some i))" "S_ISDIR (i_mode i)" "i_ino i \<noteq> 0" "unat (i_ino i) < 10 ^ 7"
  shows "\<exists>s1 sb server ri h. vsnfs_get_sb E s (ip @ COLON # path @ 0 # r) raw
      = Inr (s1, Some (sb, with_ops (al ri)), 0, False) \<and>
    s_active sb \<and> s_fs_info sb = Some server \<and> cl_rpc_ops server = Some VsnfsClientops \<and>
    s_root sb = Some ri \<and> ci_private ri = Some h \<and> fh_wf h \<and>
    srv_ok V s1 \<and> lp_tab s1 = Some [\<lparr>n_ino = i_ino i, n_path = mp\<rparr>] \<and>
    lp_find [\<lparr>n_ino = i_ino i, n_path = mp\<rparr>] (simple_strtoul V (fh_mem h)) = Some \<lparr>n_ino = i_ino i, n_path = mp\<rparr>"
proof -
  let ?n = "\<lparr>n_ino = i_ino i, n_path = mp\<rparr>"
  from getroot_end_to_end [OF V A path mp root, of "replicate 1024 0" s resp] obtain s1 h m where
    g: "vsnfs_proc_getroot R s \<lparr>ga_path = path, ga_len = word_of_nat (length path)\<rparr> resp = (s1, h, 0)"
      "fh_wf h" "fh_type h = VSNFS_DIR" "lp_tab s1 = Some [?n]"
      "vsnfsd_fh_to_path V s1 h (replicate 1024 0) 1024 = Inr (0, m)" by auto
  obtain c where c: "\<And>server. m_rpc_create E server = Ptr c" using E by (auto simp: client_ok_def)
  obtain anon where an: "\<And>s. m_set_anon E s = (s\<lparr>s_dev := anon\<rparr>, 0)" using E by (auto simp: client_ok_def)
  have call: "vsnfs_proc_getroot (m_rpc E) s \<lparr>ga_path = path, ga_len = word_of_nat (length path)\<rparr> resp = (s1, h, 0)"
    using g(1) E by (simp add: client_ok_def)
  obtain sb server ri where
      "vsnfs_get_sb E s (ip @ COLON # path @ 0 # r) raw = Inr (s1, Some (sb, with_ops (al ri)), 0, False)"
      "s_active sb" "s_fs_info sb = Some server" "cl_rpc_ops server = Some VsnfsClientops"
      "s_root sb = Some ri" "ci_private ri = Some h"
    using get_sb_mounts [OF dev(1,2) path(1) dev(3) _ _ _ _ _ c call g(3) _ _ an, of sb0 inode al r raw] E path(3)
    by (auto simp: client_ok_def)
  moreover have "node_ok V ?n" using path mp root(1) by (auto simp: node_ok_def)
  then have "srv_ok V s1" using g(4) tab_ok_single [of V ?n] by (simp add: srv_ok_def lp_add_def)
  moreover have "lp_find [?n] (simple_strtoul V (fh_mem h)) = Some ?n"
    using fh_to_path_finds_node [OF g(5,4)] by (auto split: if_splits)
  ultimately show ?thesis using g(2,4) by blast
qed

lemma session:
  assumes V: "kernel_readdir V entries rd_err" and A: "alloc_ok V" and E: "client_ok E R resp sb0 inode al"
    and dev: "0 \<notin> set ip" "COLON \<notin> set ip" "length ip \<le> 15"
    and path: "0 \<notin> set path" "path \<noteq> []" "length path < 1023"
    and mp: "mp = (if last path = SLASH then path else path @ [SLASH])"
    and root: "path_lookup V mp = (0, Some (Some i))" "S_ISDIR (i_mode i)" "i_ino i \<noteq> 0" "unat (i_ino i) < 10 ^ 7"
    and name: "0 \<notin> set name" "SLASH \<notin> set name" "length name \<le> 255" "length mp + length name < 1023"
    and sub: "path_lookup V (mp @ name) = (0, Some (Some j))" "S_ISDIR (i_mode j)" "i_ino j \<noteq> 0" "unat (i_ino j) < 10 ^ 7"
    and opens: "\<And>p k. path_lookup V p = (0, Some (Some k)) \<Longrightarrow> i_ino k = i_ino j \<Longrightarrow> filp_open V p = Ptr f"
    and fits: "list_all dirent_fits (entries f)" "(\<Sum>d\<leftarrow>entries f. int (entry_words d)) \<le> 1022" "entries f \<noteq> []"
    and reads: "rd_err f = 0" and page: "length page = PAGE_SIZE"
  shows "\<exists>s1 sb ri s2 dn di fs.
    vsnfs_get_sb E s (ip @ COLON # path @ 0 # r) raw = Inr (s1, Some (sb, with_ops (al ri)), 0, False) \<and>
    s_active sb \<and> s_root sb = Some ri \<and>
    vsnfs_lookup R (m_iget E) (m_strtoul E) attach True (Some newfh) s1 (s_fs_info sb) ri dentry name
      = Inr (s2, dn, Ptr None, 0) \<and>
    cd_inode dn = Some di \<and> cd_op dn = Some vsnfs_dentry_operations \<and> ci_op di = DirOps \<and>
    vsnfs_readdir R (Some page) stk (ci_private di) collect s2 0 [] = Inr (s2, 4096, 0, fs, 0) \<and>
    map f_name fs = map sent_name (entries f) \<and> map f_ino fs = map de_ino (entries f) \<and>
    map f_type fs = map de_type (entries f)"
proof -
  let ?n = "\<lparr>n_ino = i_ino i, n_path = mp\<rparr>"
  have kv: "kernel_vfs V" using V by (simp add: kernel_readdir_def)
  obtain buf where buf: "kmalloc V OpenPath 1024 = Some buf" using alloc_okD [OF A] by blast
  have len: "length buf = 1024" by (rule kernel_vfs.kmalloc_size [OF kv buf])
  from mount_end_to_end [OF kv A E dev path mp root, of s r raw] obtain s1 sb server ri h where
    mnt: "vsnfs_get_sb E s (ip @ COLON # path @ 0 # r) raw = Inr (s1, Some (sb, with_ops (al ri)), 0, False)"
      "s_active sb" "s_fs_info sb = Some server" "s_root sb = Some ri"
    and ops: "cl_rpc_ops server = Some VsnfsClientops"
    and h: "ci_private ri = Some h" "fh_wf h" and srv: "srv_ok V s1" "lp_tab s1 = Some [?n]"
    and fnd: "lp_find [?n] (simple_strtoul V (fh_mem h)) = Some ?n" by blast
  have short: "\<forall>n \<in> set [?n]. length (n_path n) < 1024" using path(3) mp by simp
  have lk: "length (n_path ?n) + length name < 1023" "path_lookup V (n_path ?n @ name) = (0, Some (Some j))"
    using name(4) sub(1) by simp_all
  from lookup_end_to_end [OF kv A srv ops h fnd name(1-3) lk sub(3,4) short len, of newfh]
  obtain s2 h2 m2 p k where l: "vsnfs_do_lookup R True s1 (Some server) ri name (Some newfh) = Inr (s2, Some h2, 0)"
      "fh_wf h2" "fh_type h2 = type_of_inode j 0" "vsnfsd_fh_to_path V s2 h2 buf 1024 = Inr (0, m2)"
      "as_cstr m2 = Inr p" "path_lookup V p = (0, Some (Some k))" "i_ino k = i_ino j" by blast
  have ty: "fh_type h2 = VSNFS_DIR" using l(3) sub(2) by (simp add: type_of_inode_def S_ISREG_def S_ISDIR_def)
  have iget: "m_iget E x = IgetNew inode" for x using E by (simp add: client_ok_def)
  from lookup_makes_inode [OF l(1) name(3) ty _ refl ops, where iget = "m_iget E" and inode = inode and strtoul = "m_strtoul E"
      and dentry = dentry]
  obtain dn di where
    di: "vsnfs_lookup R (m_iget E) (m_strtoul E) attach True (Some newfh) s1 (s_fs_info sb) ri dentry name
        = Inr (s2, dn, Ptr None, 0)"
      "cd_inode dn = Some di" "cd_op dn = Some vsnfs_dentry_operations" "ci_op di = DirOps" "ci_private di = Some h2"
    using iget by (auto simp: mnt(3))
  from listing_end_to_end [OF V l(2) open_by_path [OF buf l(4,5) opens [OF l(6,7)]] reads page fits, of stk]
  show ?thesis using mnt di by auto
qed

text \<open>Listing with a handle the server does not know.\<close>

lemma call_readdir_refused:
  assumes fh: "fh_wf fh" and op: "vsnfsd_open V s fh = Inr (s, vsnfserr VSNFSERR_NOENT, None)"
  shows "\<exists>page'. rpc_call_sync R s VSNFSPROC_READDIR (ReaddirArgs \<lparr>rda_fh = fh, rda_count = count\<rparr>) None page
    = (s, None, page', - ENOENT)"
proof -
  let ?mk = "mk (wire_fh fh @ net32 count)" and ?e = "vsnfserr VSNFSERR_NOENT"
  obtain proc where proc: "vsnfsd_procedures1 VSNFSPROC_READDIR = Some proc" by (rule readdir_rows)
  have room: "reply_room ?mk 4" using mk_reply [of "wire_fh fh @ net32 count"] by (simp add: reply_room_def)
  have ne: "?e \<noteq> 0" by (simp add: vsnfserr_eval)
  from dispatch_readdir_refused [OF sunrpc_xdr_axioms proc mk_carries fh mk_page(1) room op ne, of 0] obtain rqstp where
    r: "vsnfsd_dispatch X V s proc ?mk 0 = Inr (s, rqstp, 0)"
      "holds (iov_base (rq_res rqstp)) (iov_len (rq_res ?mk)) (net32 (bswap32 ?e))"
      "iov_len (rq_res rqstp) = iov_len (rq_res ?mk) + 4" by blast
  have "sint (bswap32 ?e) = 2" by code_simp
  moreover have "vsnfs_stat_to_errno 2 = Inr (- 2)" by (simp add: errno_tables)
  ultimately show ?thesis using readdir_call [OF fh proc r, of "- ENOENT" page] ne by simp
qed

lemma readdir_refused:
  assumes fh: "fh_wf fh" and op: "vsnfsd_open V s fh = Inr (s, vsnfserr VSNFSERR_NOENT, None)"
  shows "vsnfs_readdir R (Some page) stk (Some fh) filldir s 0 b = Inr (s, 0, 1, b, - ENOENT)"
  using call_readdir_refused [OF assms, of 4096 page]
  by (auto simp: vsnfs_readdir_def simple_readdir_def vsnfs_proc_readdir_def)

lemma open_unknown:
  assumes A: "alloc_ok V" and tab: "lp_tab s = Some tab" "lp_find tab (simple_strtoul V (fh_mem fh)) = None"
  shows "vsnfsd_open V s fh = Inr (s, vsnfserr VSNFSERR_NOENT, None)"
proof -
  obtain buf where "kmalloc V OpenPath 1024 = Some buf" using alloc_okD [OF A] by blast
  with tab show ?thesis by (auto simp: vsnfsd_open_def vsnfsd_fh_to_path_def Let_def)
qed

end

section \<open>A session\<close>

text \<open>
  C1. A session from beginning to end: a client mounts a directory of a server, looks up a directory in it and lists
  that one.  The mount returns 0 with an active superblock; the look-up on its root inode attaches a directory inode to
  the dentry; and \<open>readdir\<close> on that inode delivers exactly the entries of the directory on the server, in order, out of
  the bytes the server announced for its reply.  Within these limits: both inode numbers are neither 0 nor of more than
  seven digits; the mounted path, closed with a slash, and the name have fewer than 1023 bytes together; the listed
  directory is not empty, can be read to its end, its entries take at most 1022 words (so that they fit into one page),
  and their offsets and inode numbers fit 32 bits; allocations succeed.
\<close>

theorem remote_session:
  assumes L: "rpc_link X V R send mk" and V: "kernel_readdir V entries rd_err" and A: "alloc_ok V" and E: "client_ok E R resp sb0 inode al"
    and dev: "0 \<notin> set ip" "COLON \<notin> set ip" "length ip \<le> 15"
    and path: "0 \<notin> set path" "path \<noteq> []" "length path < 1023"
    and mp: "mp = (if last path = SLASH then path else path @ [SLASH])"
    and root: "path_lookup V mp = (0, Some (Some i))" "S_ISDIR (i_mode i)" "i_ino i \<noteq> 0" "unat (i_ino i) < 10 ^ 7"
    and name: "0 \<notin> set name" "SLASH \<notin> set name" "length name \<le> 255" "length mp + length name < 1023"
    and sub: "path_lookup V (mp @ name) = (0, Some (Some j))" "S_ISDIR (i_mode j)" "i_ino j \<noteq> 0" "unat (i_ino j) < 10 ^ 7"
    and opens: "\<And>p k. path_lookup V p = (0, Some (Some k)) \<Longrightarrow> i_ino k = i_ino j \<Longrightarrow> filp_open V p = Ptr f"
    and fits: "list_all dirent_fits (entries f)" "(\<Sum>d\<leftarrow>entries f. int (entry_words d)) \<le> 1022" "entries f \<noteq> []"
    and reads: "rd_err f = 0" and page: "length page = PAGE_SIZE"
  shows "\<exists>s1 sb ri s2 dn di fs.
    vsnfs_get_sb E s (ip @ COLON # path @ 0 # r) raw = Inr (s1, Some (sb, with_ops (al ri)), 0, False) \<and>
    s_active sb \<and> s_root sb = Some ri \<and>
    vsnfs_lookup R (m_iget E) (m_strtoul E) attach True (Some newfh) s1 (s_fs_info sb) ri dentry name
      = Inr (s2, dn, Ptr None, 0) \<and>
    cd_inode dn = Some di \<and> cd_op dn = Some vsnfs_dentry_operations \<and> ci_op di = DirOps \<and>
    vsnfs_readdir R (Some page) stk (ci_private di) collect s2 0 [] = Inr (s2, 4096, 0, fs, 0) \<and>
    map f_name fs = map sent_name (entries f) \<and> map f_ino fs = map de_ino (entries f) \<and>
    map f_type fs = map de_type (entries f)"
  by (rule rpc_link.session [OF assms])

text \<open>A directory \<open>/e\<close> with a directory \<open>d\<close>, in which there is a file \<open>b\<close>.\<close>

definition tree_fs :: "fs_node list" where
  "tree_fs =
    [\<lparr>fs_path = [47, 101], fs_inode = \<lparr>i_ino = 7, i_mode = 0x41ED\<rparr>,
      fs_dirents = [\<lparr>de_name = [100], de_namlen = 1, de_offset = 1, de_ino = 8, de_type = 4\<rparr>]\<rparr>,
     \<lparr>fs_path = [47, 101, 47, 100], fs_inode = \<lparr>i_ino = 8, i_mode = 0x41ED\<rparr>,
      fs_dirents = [\<lparr>de_name = [98], de_namlen = 1, de_offset = 0, de_ino = 9, de_type = 8\<rparr>]\<rparr>]"

definition tree_mount :: "(srv, unit) mount_env" where
  "tree_mount = client_env (link_ref (vfs_ref tree_fs))"

abbreviation tree_alias :: "cinode \<Rightarrow> cdentry" where
  "tree_alias i \<equiv> blank_dentry\<lparr>cd_inode := Some i\<rparr>"

lemma tree_client: "client_ok tree_mount (link_ref (vfs_ref tree_fs)) zero_fh blank_sb blank_inode tree_alias"
  by (auto simp: client_ok_def tree_mount_def client_env_def mount_ref_def blank_sb_def split: prod.split)

lemma tree_opens:
  assumes "path_lookup (vfs_ref tree_fs) p = (0, Some (Some k))" and "i_ino k = 8"
  shows "filp_open (vfs_ref tree_fs) p = Ptr 1"
  using assms by (auto simp: vfs_ref_def fs_lookup_def tree_fs_def split: if_splits)

theorem remote_session_witness:
  "\<exists>s1 sb ri s2 dn di fs. vsnfs_get_sb tree_mount srv_start ([49] @ COLON # [47, 101] @ 0 # []) None
      = Inr (s1, Some (sb, with_ops (tree_alias ri)), 0, False) \<and> s_active sb \<and> s_root sb = Some ri \<and>
    vsnfs_lookup (link_ref (vfs_ref tree_fs)) (m_iget tree_mount) (m_strtoul tree_mount) attach True (Some zero_fh) s1
      (s_fs_info sb) ri blank_dentry [100] = Inr (s2, dn, Ptr None, 0) \<and>
    cd_inode dn = Some di \<and> cd_op dn = Some vsnfs_dentry_operations \<and> ci_op di = DirOps \<and>
    vsnfs_readdir (link_ref (vfs_ref tree_fs)) (Some (replicate 4096 0)) blank_entry (ci_private di) collect s2 0 [] = Inr (s2, 4096, 0, fs, 0) \<and>
    map f_name fs = [[98]]"
proof -
  let ?V = "vfs_ref tree_fs"
  have e: "fs_entries tree_fs 1 = [\<lparr>de_name = [98], de_namlen = 1, de_offset = 0, de_ino = 9, de_type = 8\<rparr>]" by code_simp
  have f: "list_all dirent_fits (fs_entries tree_fs 1)" "(\<Sum>d\<leftarrow>fs_entries tree_fs 1. int (entry_words d)) \<le> 1022"
      "fs_entries tree_fs 1 \<noteq> []" "map sent_name (fs_entries tree_fs 1) = [[98]]"
    unfolding e by (simp_all add: dirent_fits_def dirent_wf_def entry_words_def sent_name_def)
  have p: "path_lookup ?V [47, 101, 47] = (0, Some (Some \<lparr>i_ino = 7, i_mode = 0x41ED\<rparr>))"
      "path_lookup ?V ([47, 101, 47] @ [100]) = (0, Some (Some \<lparr>i_ino = 8, i_mode = 0x41ED\<rparr>))" "S_ISDIR 0x41ED"
    by code_simp+
  have dev: "0 \<notin> set [49 :: byte]" "COLON \<notin> set [49 :: byte]" "length [49 :: byte] \<le> 15" by simp_all
  have "\<exists>s1 sb ri s2 dn di fs. vsnfs_get_sb tree_mount srv_start ([49] @ COLON # [47, 101] @ 0 # []) None
      = Inr (s1, Some (sb, with_ops (tree_alias ri)), 0, False) \<and> s_active sb \<and> s_root sb = Some ri \<and>
    vsnfs_lookup (link_ref ?V) (m_iget tree_mount) (m_strtoul tree_mount) attach True (Some zero_fh) s1
      (s_fs_info sb) ri blank_dentry [100] = Inr (s2, dn, Ptr None, 0) \<and>
    cd_inode dn = Some di \<and> cd_op dn = Some vsnfs_dentry_operations \<and> ci_op di = DirOps \<and>
    vsnfs_readdir (link_ref ?V) (Some (replicate 4096 0)) blank_entry (ci_private di) collect s2 0 [] = Inr (s2, 4096, 0, fs, 0) \<and>
    map f_name fs = map sent_name (fs_entries tree_fs 1) \<and> map f_ino fs = map de_ino (fs_entries tree_fs 1) \<and>
    map f_type fs = map de_type (fs_entries tree_fs 1)"
    by (rule remote_session [OF ref_link.rpc_link_axioms ref_vfs.kernel_readdir_axioms demo_alloc tree_client dev _ _ _ _ p(1)
          _ _ _ _ _ _ _ p(2) _ _ _ tree_opens f(1-3)])
      (use p(3) in auto)
  then show ?thesis unfolding f(4) by (elim exE conjE) (intro exI conjI; assumption)
qed

section \<open>Two clients\<close>

text \<open>
  C28. There is room for one client: when a second client mounts another directory of the same server, the first
  client's root is gone; listing it returns \<open>- ENOENT\<close>, and the page for the listing is not given back.
\<close>

theorem second_mount_breaks_first:
  assumes L: "rpc_link X V R send mk" and V: "kernel_vfs V" and A: "alloc_ok V"
    and E: "client_ok E R resp sb0 inode al" and E': "client_ok E' R resp' sb0' inode' al'"
    and dev: "0 \<notin> set ip" "COLON \<notin> set ip" "length ip \<le> 15"
    and path: "0 \<notin> set path" "path \<noteq> []" "length path < 1023"
    and root: "path_lookup V (root_of path) = (0, Some (Some i))" "S_ISDIR (i_mode i)" "i_ino i \<noteq> 0" "unat (i_ino i) < 10 ^ 7"
    and path': "0 \<notin> set path'" "path' \<noteq> []" "length path' < 1023"
    and root': "path_lookup V (root_of path') = (0, Some (Some j))" "S_ISDIR (i_mode j)" "i_ino j \<noteq> 0" "unat (i_ino j) < 10 ^ 7"
    and other: "i_ino i \<noteq> i_ino j"
  shows "\<exists>s1 sb ri s2 sb' ri'. vsnfs_get_sb E s (ip @ COLON # path @ 0 # r) raw
      = Inr (s1, Some (sb, with_ops (al ri)), 0, False) \<and>
    vsnfs_get_sb E' s1 (ip @ COLON # path' @ 0 # r') raw' = Inr (s2, Some (sb', with_ops (al' ri')), 0, False) \<and>
    s_root sb = Some ri \<and>
    vsnfs_readdir R (Some page) stk (ci_private ri) filldir s2 0 b = Inr (s2, 0, 1, b, - ENOENT)"
proof -
  note mount = rpc_link.mount_end_to_end [OF L V A _ dev]
  from mount [OF E path root_of_def root, of s r raw] obtain s1 sb ri h where
    m: "vsnfs_get_sb E s (ip @ COLON # path @ 0 # r) raw = Inr (s1, Some (sb, with_ops (al ri)), 0, False)"
      "s_root sb = Some ri" "ci_private ri = Some h" "fh_wf h"
      "lp_find [\<lparr>n_ino = i_ino i, n_path = root_of path\<rparr>] (simple_strtoul V (fh_mem h)) \<noteq> None" by blast
  from mount [OF E' path' root_of_def root', of s1 r' raw'] obtain s2 sb' ri' where
    m': "vsnfs_get_sb E' s1 (ip @ COLON # path' @ 0 # r') raw' = Inr (s2, Some (sb', with_ops (al' ri')), 0, False)"
      "lp_tab s2 = Some [\<lparr>n_ino = i_ino j, n_path = root_of path'\<rparr>]" by blast
  have "lp_find [\<lparr>n_ino = i_ino j, n_path = root_of path'\<rparr>] (simple_strtoul V (fh_mem h)) = None"
    using m(5) other by (auto split: if_splits)
  from rpc_link.readdir_refused [OF L m(4) rpc_link.open_unknown [OF L A m'(2) this], of page stk filldir b]
  show ?thesis using m m' by auto
qed

theorem second_mount_breaks_first_witness:
  "\<exists>s1 sb ri s2 sb' ri'. vsnfs_get_sb tree_mount srv_start ([49] @ COLON # [47, 101] @ 0 # []) None
      = Inr (s1, Some (sb, with_ops (tree_alias ri)), 0, False) \<and>
    vsnfs_get_sb tree_mount s1 ([49] @ COLON # [47, 101, 47, 100] @ 0 # []) None
      = Inr (s2, Some (sb', with_ops (tree_alias ri')), 0, False) \<and>
    s_root sb = Some ri \<and>
    vsnfs_readdir (link_ref (vfs_ref tree_fs)) (Some []) blank_entry (ci_private ri) collect s2 0 [] = Inr (s2, 0, 1, [], - ENOENT)"
proof -
  let ?V = "vfs_ref tree_fs"
  have p: "path_lookup ?V (root_of [47, 101]) = (0, Some (Some \<lparr>i_ino = 7, i_mode = 0x41ED\<rparr>))"
      "path_lookup ?V (root_of [47, 101, 47, 100]) = (0, Some (Some \<lparr>i_ino = 8, i_mode = 0x41ED\<rparr>))" "S_ISDIR 0x41ED"
    by code_simp+
  have dev: "0 \<notin> set [49 :: byte]" "COLON \<notin> set [49 :: byte]" "length [49 :: byte] \<le> 15" by simp_all
  show ?thesis
    by (rule second_mount_breaks_first [OF ref_link.rpc_link_axioms ref_vfs.kernel_vfs_axioms demo_alloc tree_client tree_client
          dev _ _ _ p(1) _ _ _ _ _ _ p(2)]) (use p(3) in auto)
qed

end
