(* ===== verification/ServerEquiv.thy ===== *)
theory ServerEquiv
  imports ServerServes
begin

text \<open>
  LOOKUP and GETROOT on every branch.  The handlers assemble paths in buffers, terminate and extend them in place and
  unwind through labels; \<open>lookup_result\<close> and \<open>getroot_result\<close> say what comes out, in terms of the table, the
  path and what the kernel resolves it to, with the cases in which the code leaves its buffers, uses a missing dentry or
  stores through the result of an allocation it does not check as faults.  The handlers are equal to them, whichever of
  their allocations fail.
\<close>

abbreviation nospc :: be32 where "nospc \<equiv> - vsnfserr VSNFSERR_NOSPC"

section \<open>LOOKUP\<close>

text \<open>
  Once the path \<open>p\<close> is assembled; \<open>full\<close> says that it fills its buffer, so that there is no room for a slash.  The path of
  a new entry needs \<open>length + 2\<close> bytes.
\<close>

definition lookup_found ::
  "vfs_api \<Rightarrow> srv \<Rightarrow> lp_node list \<Rightarrow> byte list \<Rightarrow> bool \<Rightarrow> vsnfs_fh \<Rightarrow> (srv \<times> vsnfs_fh \<times> be32) run" where
  "lookup_found V s tab p full resp =
     (if kmalloc V LookupNd 0 = None then Inr (s, resp, nospc)
      else
      (case path_lookup V p of
         (_, Some (Some i)) \<Rightarrow>
           let q = filed_path i p;
               h = \<lparr>fh_data = handle_data (fh_data resp) (i_ino i), fh_type = type_of_inode i (fh_type resp)\<rparr>
           in
           if full \<and> q \<noteq> p then Inl OutOfBounds
           else if lp_find tab (i_ino i) \<noteq> None then Inr (s, h, vsnfs_ok)
           else if kmalloc V LookupNode 0 = None then Inl BadDeref
           else if kmalloc V LookupNodePath (length q + 2) = None then Inr (s\<lparr>s_kmem := s_kmem s + 1\<rparr>, h, nospc)
           else Inr (s\<lparr>lp_tab := Some (lp_add \<lparr>n_ino = i_ino i, n_path = q\<rparr> tab), s_kmem := s_kmem s + 2\<rparr>, h, vsnfs_ok)
       | _ \<Rightarrow> Inl BadDeref))"

definition lookup_result ::
  "vfs_api \<Rightarrow> srv \<Rightarrow> vsnfsd_lookupargs \<Rightarrow> vsnfs_fh \<Rightarrow> (srv \<times> vsnfs_fh \<times> be32) run" where
  "lookup_result V s argp resp =
     (case lp_tab s of
        None \<Rightarrow> Inl BadDeref
      | Some tab \<Rightarrow>
          (case lp_find tab (simple_strtoul V (fh_mem (dla_fh argp))) of
             None \<Rightarrow> Inr (s, resp, vsnfs_ok)
           | Some dir \<Rightarrow>
               let p = n_path dir @ name_of argp in
               if kmalloc V LookupPath 1025 = None then Inr (s, resp, nospc)
               else if 1025 \<le> length p then Inl OutOfBounds
               else lookup_found V s tab p (length p = 1024) resp))"

lemma lookup_add_eq:
  assumes V: "kernel_vfs V" and z: "0 \<notin> set p"
  shows "lookup_add V s tab ino (p @ 0 # r) rc =
    (if kmalloc V LookupNode 0 = None then Inl BadDeref
     else if kmalloc V LookupNodePath (length p + 2) = None then Inr (s\<lparr>s_kmem := s_kmem s + 1\<rparr>, nospc)
     else Inr (s\<lparr>lp_tab := Some (lp_add \<lparr>n_ino = ino, n_path = p\<rparr> tab), s_kmem := s_kmem s + 2\<rparr>, rc))"
proof (cases "kmalloc V LookupNodePath (length p + 2)")
  case None
  then show ?thesis using z by (auto simp: lookup_add_def mem_simps)
next
  case (Some np)
  have "memcpy np 0 (p @ 0 # r) 0 (length p + 1) = Inr (p @ 0 # drop (length p + 1) np)"
    using kernel_vfs.kmalloc_size [OF V Some] by (simp add: memcpy_def mem_read_def mem_write_prefix)
  with Some z show ?thesis by (auto simp: lookup_add_def mem_simps cstr_append_zero)
qed

lemma lookup_resolve_eq:
  assumes V: "kernel_vfs V" and p: "p \<noteq> []" "0 \<notin> set p" and resp: "length (fh_data resp) = 8"
  shows "lookup_resolve V s tab (p @ 0 # r) resp = lookup_found V s tab p (r = []) resp"
proof (cases "kmalloc V LookupNd 0")
  case None
  then show ?thesis by (simp add: lookup_resolve_def lookup_found_def)
next
  case (Some nd)
  obtain ret d where look: "path_lookup V p = (ret, d)" by (cases "path_lookup V p")
  consider i where "ret = 0" "d = Some (Some i)" | "d = None" using kernel_vfs.path_lookup_result [OF V look] by auto
  then show ?thesis
  proof cases
    case (1 i)
    let ?slash = "if \<not> S_ISREG (i_mode i) \<and> S_ISDIR (i_mode i) then add_slash (p @ 0 # r) else Inr (p @ 0 # r)"
    have z: "0 \<notin> set (filed_path i p)" using p(2) by (auto simp: filed_path_def)
    have slash: "?slash = Inl OutOfBounds \<and> r = [] \<and> filed_path i p \<noteq> p \<or>
        \<not> (r = [] \<and> filed_path i p \<noteq> p) \<and> (\<exists>r'. ?slash = Inr (filed_path i p @ 0 # r'))"
      using add_slash_eq [OF p(2,1), of r] by (auto simp: filed_path_def)
    show ?thesis
    proof (cases "r = [] \<and> filed_path i p \<noteq> p")
      case True
      with slash have "?slash = Inl OutOfBounds" by blast
      with look 1 Some p(2) resp have "lookup_resolve V s tab (p @ 0 # r) resp = Inl OutOfBounds"
        by (simp add: lookup_resolve_def Let_def split del: if_split)
      with True look 1 Some show ?thesis by (simp add: lookup_found_def)
    next
      case False
      with slash obtain r' where "?slash = Inr (filed_path i p @ 0 # r')" by blast
      with look 1 Some p(2) resp have "lookup_resolve V s tab (p @ 0 # r) resp =
          bindF (case lp_find tab (i_ino i) of
              Some _ \<Rightarrow> Inr (s\<lparr>s_drefs := s_drefs s + 1\<rparr>, 0)
            | None \<Rightarrow> lookup_add V (s\<lparr>s_drefs := s_drefs s + 1\<rparr>) tab (i_ino i) (filed_path i p @ 0 # r') 0) (\<lambda>(s, rc).
          Inr (s\<lparr>s_drefs := s_drefs s - 1\<rparr>,
            \<lparr>fh_data = handle_data (fh_data resp) (i_ino i), fh_type = type_of_inode i (fh_type resp)\<rparr>, rc))"
        by (simp add: lookup_resolve_def Let_def cong: option.case_cong split del: if_split)
      with False look 1 Some show ?thesis
        by (auto simp: lookup_found_def lookup_add_eq [OF V z] Let_def split: option.split)
    qed
  next
    case 2
    with look Some p(2) show ?thesis by (simp add: lookup_resolve_def lookup_found_def)
  qed
qed

lemma proc_lookup_eq:
  assumes V: "kernel_vfs V" and ok: "srv_ok V s" and name: "name_ok argp" and resp: "fh_wf resp"
  shows "vsnfsd_proc_lookup V s argp resp = lookup_result V s argp resp"
proof (cases "lp_tab s")
  case None
  then show ?thesis by (simp add: vsnfsd_proc_lookup_def lookup_result_def)
next
  case (Some tab)
  note tab = Some
  show ?thesis
  proof (cases "lp_find tab (simple_strtoul V (fh_mem (dla_fh argp)))")
    case None
    with tab show ?thesis by (simp add: vsnfsd_proc_lookup_def lookup_result_def)
  next
    case (Some dir)
    note dir_found = Some
    let ?p = "n_path dir @ name_of argp"
    show ?thesis
    proof (cases "kmalloc V LookupPath 1025")
      case None
      with tab dir_found show ?thesis by (simp add: vsnfsd_proc_lookup_def lookup_result_def)
    next
      case (Some path)
      note path = Some
      then have len: "length path = 1025" using kernel_vfs.kmalloc_size [OF V] by blast
      have dir: "node_ok V dir" using ok tab dir_found tab_ok_find by (auto simp: srv_ok_def)
      have z: "0 \<notin> set (n_path dir)" using dir by (simp add: node_ok_def)
      have p: "?p \<noteq> []" "0 \<notin> set ?p" using dir name by (auto simp: node_ok_def name_ok_def)
      have pl: "length ?p = length (n_path dir) + unat (dla_len argp)" using name by (simp add: name_ok_def)
      let ?r = "drop (length ?p + 1) path"
      have lp: "lookup_path path dir argp = (if length ?p < 1025 then Inr (?p @ 0 # ?r) else Inl OutOfBounds)"
        using lookup_path_eq [OF z, of path argp] name len pl by (simp add: name_ok_def)
      show ?thesis
      proof (cases "length ?p < 1025")
        case True
        have r: "?r = [] \<longleftrightarrow> length ?p = 1024" using True len by auto
        have "vsnfsd_proc_lookup V s argp resp = lookup_resolve V s tab (?p @ 0 # ?r) resp"
          using True lp tab dir_found path by (simp add: vsnfsd_proc_lookup_def del: append_assoc append.simps)
        also have "\<dots> = lookup_result V s argp resp"
          unfolding lookup_resolve_eq [OF V p, of resp s tab ?r, OF fh_wf_def [THEN iffD1, OF resp]] r
          using True tab dir_found path by (simp add: lookup_result_def Let_def)
        finally show ?thesis .
      next
        case False
        with lp tab dir_found path show ?thesis by (simp add: vsnfsd_proc_lookup_def lookup_result_def)
      qed
    qed
  qed
qed

text \<open>
  C11. LOOKUP, on every branch. From any state whose table holds resolvable paths, as every state the server reaches
  does, and whichever allocations fail, the handler is equal to its result written out: no table is a fault; a handle
  that is not in the table is answered with success and the reply's handle as it was; without memory for the path or the
  name data the answer is minus the no-space status; a path of 1025 bytes or more, or a directory's path of 1024, leaves
  the buffer; a name that does not resolve is a fault, because the dentry is used all the same; and a name that
  resolves gets the handle of its inode, which is filed once, a directory under its path with the slash.  Without
  memory for the new node the handler stores through NULL; without memory for the node's path the status is no-space,
  the handle is filled in all the same, and the node is lost.
\<close>

theorem lookup_equiv:
  assumes "kernel_vfs V" and "srv_ok V s" and "name_ok argp" and "fh_wf resp"
  shows "vsnfsd_proc_lookup V s argp resp = lookup_result V s argp resp"
  using assms by (rule proc_lookup_eq)

text \<open>The demonstration tree on a kernel that has no memory for the paths of new nodes.\<close>

definition starved :: vfs_api where
  "starved = demo\<lparr>kmalloc := \<lambda>site n. if site = LookupNodePath then None else Some (replicate n 0)\<rparr>"

lemma starved_vfs: "kernel_vfs starved"
  using demo_vfs unfolding kernel_vfs_def by (auto simp: starved_def split: if_splits)

theorem lookup_equiv_witness:
  "vsnfsd_proc_lookup demo demo_srv demo_lookup zero_fh =
      Inr (demo_srv\<lparr>lp_tab := Some [\<lparr>n_ino = 8, n_path = [47, 101, 47, 100, 47]\<rparr>, demo_root], s_kmem := 4\<rparr>,
           \<lparr>fh_data = [56, 0, 0, 0, 0, 0, 0, 0], fh_type = VSNFS_DIR\<rparr>, vsnfs_ok) \<and>
   vsnfsd_proc_lookup starved demo_srv demo_lookup zero_fh =
      Inr (demo_srv\<lparr>s_kmem := 3\<rparr>, \<lparr>fh_data = [56, 0, 0, 0, 0, 0, 0, 0], fh_type = VSNFS_DIR\<rparr>, nospc)"
proof -
  have wf: "fh_wf zero_fh" by (simp add: fh_wf_def zero_fh_def)
  have ok: "srv_ok starved demo_srv"
    using demo_srv_ok by (simp add: srv_ok_def tab_ok_def node_ok_def starved_def demo_srv_def)
  have "lookup_result demo demo_srv demo_lookup zero_fh =
      Inr (demo_srv\<lparr>lp_tab := Some [\<lparr>n_ino = 8, n_path = [47, 101, 47, 100, 47]\<rparr>, demo_root], s_kmem := 4\<rparr>,
      \<lparr>fh_data = [56, 0, 0, 0, 0, 0, 0, 0], fh_type = VSNFS_DIR\<rparr>, vsnfs_ok)" by code_simp
  moreover have "lookup_result starved demo_srv demo_lookup zero_fh =
      Inr (demo_srv\<lparr>s_kmem := 3\<rparr>, \<lparr>fh_data = [56, 0, 0, 0, 0, 0, 0, 0], fh_type = VSNFS_DIR\<rparr>, nospc)" by code_simp
  ultimately show ?thesis
    using lookup_equiv [OF demo_vfs demo_srv_ok demo_lookup_facts(2) wf]
      lookup_equiv [OF starved_vfs ok demo_lookup_facts(2) wf] by simp
qed

section \<open>GETROOT\<close>

definition getroot_result ::
  "vfs_api \<Rightarrow> srv \<Rightarrow> vsnfsd_getrootargs \<Rightarrow> vsnfs_fh \<Rightarrow> (srv \<times> vsnfs_fh \<times> be32) run" where
  "getroot_result V s argp resp =
     (let size = unat (dga_len argp) + 2 in
      if kmalloc V RootNd 0 = None \<or> kmalloc V RootPath size = None then Inr (s, resp, nospc)
      else if dga_len argp = 0 then Inl OutOfBounds
      else
      (case path_lookup V (mount_path argp) of
         (_, Some (Some i)) \<Rightarrow>
           let h = resp\<lparr>fh_data := handle_data (fh_data resp) (i_ino i)\<rparr>;
               h' = (if S_ISDIR (i_mode i) then h\<lparr>fh_type := VSNFS_DIR\<rparr> else h)
           in
           if S_ISREG (i_mode i) then Inr (s, h, - vsnfserr VSNFSERR_NOTDIR)
           else if kmalloc V RootNode 0 = None then Inl BadDeref
           else if kmalloc V RootNodePath size = None
           then Inr (s\<lparr>lp_tab := Some [], s_kmem := s_kmem s + 1\<rparr>, h', nospc)
           else Inr (s\<lparr>lp_tab := Some [\<lparr>n_ino = i_ino i, n_path = mount_path argp\<rparr>], s_kmem := s_kmem s + 2\<rparr>,
                     h', vsnfs_ok)
       | _ \<Rightarrow> Inl BadDeref))"

lemma root_path_empty: "dga_len argp = 0 \<Longrightarrow> root_path path argp = Inl OutOfBounds"
  by (simp add: root_path_def memcpy_def mem_read_def mem_write_def)

lemma proc_getroot_eq:
  assumes V: "kernel_vfs V" and path: "path_ok argp" and resp: "fh_wf resp"
  shows "vsnfsd_proc_getroot V s argp resp = getroot_result V s argp resp"
proof (cases "kmalloc V RootNd 0 = None \<or> kmalloc V RootPath (unat (dga_len argp) + 2) = None \<or> dga_len argp = 0")
  case True
  then show ?thesis
    by (auto simp: vsnfsd_proc_getroot_def getroot_result_def root_path_empty split: option.split)
next
  case False
  then obtain nd pb where alloc: "kmalloc V RootNd 0 = Some nd"
      "kmalloc V RootPath (unat (dga_len argp) + 2) = Some pb" and len: "dga_len argp \<noteq> 0" by auto
  from len have pos: "0 < unat (dga_len argp)" by (simp add: unat_gt_0)
  obtain r where r: "root_path pb argp = Inr (mount_path argp @ 0 # r)"
    using root_path_mount [OF kernel_vfs.kmalloc_size [OF V alloc(2)] path pos] by blast
  note z = mount_path_facts(2) [OF path] and cp = root_node_copy [OF V path]
  obtain ret d where look: "path_lookup V (mount_path argp) = (ret, d)" by (cases "path_lookup V (mount_path argp)")
  consider i where "ret = 0" "d = Some (Some i)" | "d = None"
    using kernel_vfs.path_lookup_result [OF V look] by auto
  then show ?thesis
  proof cases
    case (1 i)
    with len alloc r z look resp show ?thesis
      by (cases "kmalloc V RootNode 0"; cases "kmalloc V RootNodePath (unat (dga_len argp) + 2)")
        (simp_all add: vsnfsd_proc_getroot_def getroot_result_def Let_def cstr_append_zero lp_add_def fh_wf_def cp)
  next
    case 2
    with len alloc r z look show ?thesis by (simp add: vsnfsd_proc_getroot_def getroot_result_def Let_def)
  qed
qed

text \<open>
  C9. GETROOT, on every branch. For a path without zero bytes, and whichever allocations fail, the handler is equal
  to its result written out: without memory for the name data or the path the answer is minus the no-space status; the
  empty path reads before the buffer; a path that does not resolve is a fault; a regular file is answered with minus the
  not-a-directory status and leaves the server as it was, the handle filled in all the same; and anything else becomes
  the only entry of a fresh table, whatever the old one held.  Without memory for the new node the handler stores
  through NULL; without memory for the node's path the status is no-space, the table is empty and the node is lost.
\<close>

theorem getroot_equiv:
  assumes "kernel_vfs V" and "path_ok argp" and "fh_wf resp"
  shows "vsnfsd_proc_getroot V s argp resp = getroot_result V s argp resp"
  using assms by (rule proc_getroot_eq)

theorem getroot_equiv_witness:
  "vsnfsd_proc_getroot demo (demo_srv\<lparr>lp_tab := Some []\<rparr>) demo_getroot zero_fh =
      Inr (demo_srv\<lparr>s_kmem := 4\<rparr>, \<lparr>fh_data = [55, 0, 0, 0, 0, 0, 0, 0], fh_type = VSNFS_DIR\<rparr>, vsnfs_ok)"
proof -
  have "path_ok demo_getroot" by code_simp
  moreover have "fh_wf zero_fh" by (simp add: fh_wf_def zero_fh_def)
  ultimately have "vsnfsd_proc_getroot demo (demo_srv\<lparr>lp_tab := Some []\<rparr>) demo_getroot zero_fh =
      getroot_result demo (demo_srv\<lparr>lp_tab := Some []\<rparr>) demo_getroot zero_fh"
    by (rule getroot_equiv [OF demo_vfs])
  also have "\<dots> = Inr (demo_srv\<lparr>s_kmem := 4\<rparr>,
      \<lparr>fh_data = [55, 0, 0, 0, 0, 0, 0, 0], fh_type = VSNFS_DIR\<rparr>, vsnfs_ok)" by code_simp
  finally show ?thesis .
qed

end
