(* ===== verification/ServerLimits.thy ===== *)
theory ServerLimits
  imports ServerReply ServerSpec ServerEquiv
begin

text \<open>
  Where the server's code stops doing what its protocol is for: handles of long inode numbers, the name \<open>..\<close>,
  requests before the first mount, reads at an offset, and a second mount.  Also the loop and the life of the daemon,
  and the size of the argument store for pointers of eight and of four bytes.
\<close>

section \<open>Handles that name two files\<close>

text \<open>
  C30. A handle has room for seven digits. LOOKUP of two regular files of one directory whose inode numbers
  are \<open>n\<close>, of more than seven digits, and \<open>n div 10\<close> gives the same handle for both.
\<close>

theorem lookup_handles_alias:
  assumes V: "kernel_vfs V" and A: "alloc_ok V" and ok: "srv_ok V s" and tab: "lp_tab s = Some tab"
    and dir: "lp_find tab (simple_strtoul V (fh_mem (dla_fh argp))) = Some dir" "dla_fh argp' = dla_fh argp"
    and name: "name_ok argp" "name_ok argp'"
    and room: "length (n_path dir) + unat (dla_len argp) < 1024"
      "length (n_path dir) + unat (dla_len argp') < 1024"
    and look: "path_lookup V (n_path dir @ name_of argp) = (0, Some (Some i))"
      "path_lookup V (n_path dir @ name_of argp') = (0, Some (Some j))"
    and reg: "S_ISREG (i_mode i)" "S_ISREG (i_mode j)"
    and ino: "i_ino i = word_of_nat n" "i_ino j = word_of_nat (n div 10)" "10 ^ 7 \<le> n" "n < 2 ^ 63"
  shows "\<exists>s1 s2 h. vsnfsd_proc_lookup V s argp zero_fh = Inr (s1, h, vsnfs_ok) \<and>
    vsnfsd_proc_lookup V s argp' zero_fh = Inr (s2, h, vsnfs_ok)"
proof -
  have "tab_ok V tab" using ok tab by (simp add: srv_ok_def)
  from tab_ok_find [OF this dir(1)] have dok: "node_ok V dir" by simp
  have z: "length (fh_data zero_fh) = 8" using fh_wf_zero by (simp add: fh_wf_def)
  have "handle_data (fh_data zero_fh) (i_ino i) = handle_data (fh_data zero_fh) (i_ino j)"
    using handle_data_long [OF ino(3,4)] ino(1,2) by simp
  with lookup_finds [OF V A tab dir(1) dok name(1) room(1) look(1) z]
    lookup_finds [OF V A tab dir(1) [folded dir(2)] dok name(2) room(2) look(2) z] reg
  show ?thesis by (simp add: type_of_inode_def)
qed

definition alias_fs :: "fs_node list" where
  "alias_fs =
    [\<lparr>fs_path = [47, 101], fs_inode = \<lparr>i_ino = 7, i_mode = 0x41ED\<rparr>, fs_dirents = []\<rparr>,
     \<lparr>fs_path = [47, 101, 47, 97], fs_inode = \<lparr>i_ino = 12345678, i_mode = 0x81A4\<rparr>, fs_dirents = []\<rparr>,
     \<lparr>fs_path = [47, 101, 47, 98], fs_inode = \<lparr>i_ino = 1234567, i_mode = 0x81A4\<rparr>, fs_dirents = []\<rparr>]"

abbreviation alias_lookup :: "byte \<Rightarrow> vsnfsd_lookupargs" where
  "alias_lookup c \<equiv> demo_lookup\<lparr>dla_filename := [c]\<rparr>"

theorem lookup_handles_alias_witness:
  "\<exists>s1 s2 h. vsnfsd_proc_lookup (vfs_ref alias_fs) demo_srv (alias_lookup 97) zero_fh = Inr (s1, h, vsnfs_ok) \<and>
    vsnfsd_proc_lookup (vfs_ref alias_fs) demo_srv (alias_lookup 98) zero_fh = Inr (s2, h, vsnfs_ok)"
proof -
  have root: "path_lookup (vfs_ref alias_fs) [47, 101, 47] = (0, Some (Some \<lparr>i_ino = 7, i_mode = 0x41ED\<rparr>))"
    by code_simp
  have ok: "srv_ok (vfs_ref alias_fs) demo_srv"
    using root by (simp add: demo_srv_def srv_ok_def tab_ok_def node_ok_def demo_root_def)
  have f: "simple_strtoul (vfs_ref alias_fs) (fh_mem (dla_fh (alias_lookup 97))) = 7"
      "name_ok (alias_lookup 97)" "name_ok (alias_lookup 98)"
      "path_lookup (vfs_ref alias_fs) [47, 101, 47, 97] = (0, Some (Some \<lparr>i_ino = 12345678, i_mode = 0x81A4\<rparr>))"
      "path_lookup (vfs_ref alias_fs) [47, 101, 47, 98] = (0, Some (Some \<lparr>i_ino = 1234567, i_mode = 0x81A4\<rparr>))"
      "S_ISREG 0x81A4" by code_simp+
  show ?thesis
    using lookup_handles_alias [OF ref_vfs.kernel_vfs_axioms demo_alloc ok, of "[demo_root]" "alias_lookup 97"
        demo_root "alias_lookup 98" "\<lparr>i_ino = 12345678, i_mode = 0x81A4\<rparr>"
        "\<lparr>i_ino = 1234567, i_mode = 0x81A4\<rparr>" 12345678] f
    by (simp add: demo_srv_def demo_root_def demo_lookup_def)
qed

section \<open>Names and handles that do not exist\<close>

text \<open>
  Looking up a name that does not exist crashes the server: \<open>path_lookup\<close> fails, the test for it
  compares an unsigned value with zero, and the missing dentry is used.
\<close>

lemma lookup_missing_faults:
  assumes V: "kernel_vfs V" and A: "alloc_ok V" and ok: "srv_ok V s" and tab: "lp_tab s = Some tab"
    and dir: "lp_find tab (simple_strtoul V (fh_mem (dla_fh argp))) = Some dir"
    and name: "name_ok argp" and room: "length (n_path dir) + unat (dla_len argp) < 1024"
    and look: "fst (path_lookup V (n_path dir @ name_of argp)) < 0"
  shows "vsnfsd_proc_lookup V s argp resp = Inl BadDeref"
proof -
  obtain path nd where alloc: "kmalloc V LookupPath 1025 = Some path" "kmalloc V LookupNd 0 = Some nd"
    using alloc_okD [OF A] by metis
  then have len: "length path = 1025" using kernel_vfs.kmalloc_size [OF V] by blast
  have "tab_ok V tab" using ok tab by (simp add: srv_ok_def)
  from tab_ok_find [OF this dir] have z: "0 \<notin> set (n_path dir)" by (simp add: node_ok_def)
  let ?p = "n_path dir @ name_of argp"
  have pz: "0 \<notin> set ?p" using z name by (auto simp: name_ok_def)
  obtain r where lp: "lookup_path path dir argp = Inr (?p @ 0 # r)"
    using lookup_path_eq [OF z, of path argp] name room len by (auto simp: name_ok_def)
  obtain e where e: "path_lookup V ?p = (e, None)"
    using kernel_vfs.path_lookup_result [OF V, of ?p] look by (cases "path_lookup V ?p") fastforce
  show ?thesis
    using tab dir alloc lp e as_cstr_zero [OF pz, of r]
    by (simp add: vsnfsd_proc_lookup_def lookup_resolve_def del: append_assoc append.simps)
qed

lemma lookup_missing_faults_example:
  "vsnfsd_proc_lookup demo demo_srv (alias_lookup 120) zero_fh = Inl BadDeref"
proof -
  have f: "simple_strtoul demo (fh_mem (dla_fh (alias_lookup 120))) = 7" "name_ok (alias_lookup 120)"
    "fst (path_lookup demo [47, 101, 47, 120]) < 0" by code_simp+
  show ?thesis
    using lookup_missing_faults [OF demo_vfs demo_alloc demo_srv_ok, of "[demo_root]" "alias_lookup 120"
        demo_root zero_fh] f
    by (simp add: demo_srv_def demo_root_def demo_lookup_def)
qed

text \<open>
  Paths have no bound but the buffer: when the directory's path and the name need more than the 1025 bytes the
  LOOKUP handler allocates, it writes outside its buffer, although path and name each respect their limit.
\<close>

lemma lookup_long_path_faults:
  assumes V: "kernel_vfs V" and A: "alloc_ok V" and ok: "srv_ok V s" and tab: "lp_tab s = Some tab"
    and dir: "lp_find tab (simple_strtoul V (fh_mem (dla_fh argp))) = Some dir"
    and long: "1025 \<le> length (n_path dir) + unat (dla_len argp)"
  shows "vsnfsd_proc_lookup V s argp resp = Inl OutOfBounds"
proof -
  obtain path where alloc: "kmalloc V LookupPath 1025 = Some path" using alloc_okD [OF A] by metis
  then have len: "length path = 1025" using kernel_vfs.kmalloc_size [OF V] by blast
  have "tab_ok V tab" using ok tab by (simp add: srv_ok_def)
  from tab_ok_find [OF this dir] have z: "0 \<notin> set (n_path dir)" by (simp add: node_ok_def)
  have "lookup_path path dir argp = Inl OutOfBounds" using lookup_path_eq [OF z, of path argp] long len by simp
  with tab dir alloc show ?thesis by (simp add: vsnfsd_proc_lookup_def)
qed

text \<open>The directory \<open>/e\<close> mounted by a path of 1024 bytes that ends in slashes.\<close>

definition long_root :: lp_node where
  "long_root = \<lparr>n_ino = 7, n_path = [47, 101] @ replicate 1022 47\<rparr>"

lemma strip_slash_many: "strip_slash (p @ replicate n 47) = strip_slash p"
  by (induction n) (simp_all add: replicate_append_same [symmetric] append_assoc [symmetric] del: append_assoc)

lemma long_root_ok: "node_ok demo long_root"
proof -
  have "path_lookup demo [47, 101] = (0, Some (Some \<lparr>i_ino = 7, i_mode = 0x41ED\<rparr>))" by code_simp
  then show ?thesis
    by (simp add: node_ok_def long_root_def vfs_ref_def fs_lookup_def strip_slash_many
        del: append.simps replicate.simps)
qed

lemma lookup_long_path_faults_example:
  "vsnfsd_proc_lookup demo (demo_srv\<lparr>lp_tab := Some [long_root]\<rparr>) demo_lookup zero_fh = Inl OutOfBounds"
proof -
  have ok: "srv_ok demo (demo_srv\<lparr>lp_tab := Some [long_root]\<rparr>)"
    using long_root_ok by (simp add: srv_ok_def tab_ok_def)
  have find: "lp_find [long_root] (simple_strtoul demo (fh_mem (dla_fh demo_lookup))) = Some long_root"
    using demo_lookup_facts(1) by (simp add: long_root_def)
  have "1025 \<le> length (n_path long_root) + unat (dla_len demo_lookup)"
    by (simp add: long_root_def demo_lookup_def)
  from lookup_long_path_faults [OF demo_vfs demo_alloc ok _ find this, of zero_fh] show ?thesis by simp
qed

text \<open>
  A GETROOT request with an empty path, which the decoder lets through, reads outside the copy of the path: the
  test for a trailing slash looks at the byte before its first.
\<close>

lemma getroot_empty_path_faults:
  assumes X: "sunrpc_xdr X" and V: "kernel_vfs V" and A: "alloc_ok V" and c: "carries rqstp (wire_array [])"
  shows "\<exists>proc. vsnfsd_procedures1 VSNFSPROC_GETROOT = Some proc \<and>
    vsnfsd_dispatch X V s proc rqstp statp = Inl OutOfBounds"
proof -
  from decode_getrootargs_wire [OF X c] obtain argp where
    a: "vsnfssvc_decode_getrootargs X rqstp 0 = Inr (rqstp, Some argp)" "unat (dga_len argp) = 0" by auto
  obtain nd path where alloc: "kmalloc V RootNd 0 = Some nd" "kmalloc V RootPath 2 = Some path"
    using alloc_okD [OF A] by metis
  have "root_path path argp = Inl OutOfBounds"
    using a(2) by (simp add: root_path_def memcpy_def mem_read_def mem_write_def)
  with a(2) alloc have "vsnfsd_proc_getroot V s argp zero_fh = Inl OutOfBounds"
    by (simp add: vsnfsd_proc_getroot_def numeral_2_eq_2)
  with a(1) show ?thesis
    by (simp add: vsnfsd_procedures1_def vsnfsd_dispatch_def dec_as_def func_getroot_def zero_fhres_def Let_def)
qed

lemma getroot_empty_path_faults_example:
  "\<exists>proc. vsnfsd_procedures1 VSNFSPROC_GETROOT = Some proc \<and>
    vsnfsd_dispatch xdr_ref demo srv_start proc (demo_rqst [0, 0, 0, 0]) 0 = Inl OutOfBounds"
proof -
  have "carries (demo_rqst [0, 0, 0, 0]) (wire_array [])" by code_simp
  from getroot_empty_path_faults [OF ref_xdr.sunrpc_xdr_axioms demo_vfs demo_alloc this] show ?thesis .
qed

text \<open>
  A LOOKUP with a handle that is not in the table is answered with success and a handle of zeros, so the
  client cannot tell a stale handle from a file.
\<close>

lemma lookup_stale_handle_succeeds:
  assumes X: "sunrpc_xdr X" and c: "carries rqstp (wire_fh fh @ wire_array name)" and fh: "fh_wf fh"
    and len: "length name \<le> 255" and good: "0 \<notin> set name" "SLASH \<notin> set name"
    and tab: "lp_tab s = Some tab" and stale: "lp_find tab (simple_strtoul V (fh_mem fh)) = None"
    and room: "reply_room rqstp 16"
  shows "\<exists>proc rqstp'. vsnfsd_procedures1 VSNFSPROC_LOOKUP = Some proc \<and>
    vsnfsd_dispatch X V s proc rqstp statp = Inr (s, rqstp', statp) \<and>
    holds (iov_base (rq_res rqstp')) (iov_len (rq_res rqstp)) (net32 0 @ replicate 8 0 @ net32 0)"
proof -
  obtain proc where p: "vsnfsd_procedures1 8 = Some proc" "pc_encode proc = enc_fh"
      "pc_func proc = func_lookup" "pc_zero proc = FhRes zero_fh"
      "pc_decode proc = (\<lambda>X r p. dec_as ALookup (vsnfssvc_decode_lookupargs X r p))" by (rule lookup_row)
  from decode_lookupargs_wire [OF X c fh len good] obtain argp where
    a: "vsnfssvc_decode_lookupargs X rqstp 0 = Inr (rqstp, Some argp)" "dla_fh argp = fh" by blast
  have "pc_func proc X V s (with_status rqstp) (ALookup argp) (pc_zero proc) =
      Inr (s, with_status rqstp, FhRes zero_fh, vsnfs_ok)"
    using a(2) tab stale by (simp add: p func_lookup_def vsnfsd_proc_lookup_def)
  from dispatch_fh [OF X p(2) _ this fh_wf_zero room, of statp] a p(1,5)
  show ?thesis by (simp add: dec_as_def wire_fh_def zero_fh_def) blast
qed

abbreviation stale_args :: "byte list" where
  "stale_args \<equiv> [53, 0, 0, 0, 0, 0, 0, 0, 0, 0, 0, 2, 0, 0, 0, 1, 97, 0, 0, 0]"

lemma lookup_stale_handle_succeeds_example:
  "\<exists>proc rqstp'. vsnfsd_procedures1 VSNFSPROC_LOOKUP = Some proc \<and>
    vsnfsd_dispatch xdr_ref demo demo_srv proc (demo_rqst stale_args) 0 = Inr (demo_srv, rqstp', 0) \<and>
    holds (iov_base (rq_res rqstp')) 4 (net32 0 @ replicate 8 0 @ net32 0)"
proof -
  have f: "carries (demo_rqst stale_args)
      (wire_fh \<lparr>fh_data = [53, 0, 0, 0, 0, 0, 0, 0], fh_type = 2\<rparr> @ wire_array [97])"
    "lp_find [demo_root] (simple_strtoul demo
        (fh_mem \<lparr>fh_data = [53, 0, 0, 0, 0, 0, 0, 0], fh_type = 2\<rparr>)) = None"
    "reply_room (demo_rqst stale_args) 16" "iov_len (rq_res (demo_rqst stale_args)) = 4" by code_simp+
  show ?thesis
    using lookup_stale_handle_succeeds [OF ref_xdr.sunrpc_xdr_axioms f(1) _ _ _ _ _ f(2,3), of demo_srv 0] f(4)
    by (simp add: fh_wf_def demo_srv_def)
qed

abbreviation (input) DOTDOT :: "byte list" where "DOTDOT \<equiv> [46, 46]"

text \<open>
  C29. The export can be left: a LOOKUP of the name \<open>..\<close> in a directory the server knows is answered with success and
  the handle of whatever the path \<open>dir/..\<close> resolves to, which is filed in the table, also when the directory is
  the root of the mount.  The decoder only refuses names with a slash or a zero byte.
\<close>

theorem lookup_dotdot_escapes:
  assumes X: "sunrpc_xdr X" and V: "kernel_vfs V" and A: "alloc_ok V" and ok: "srv_ok V s"
    and c: "carries rqstp (wire_fh fh @ wire_array DOTDOT)" and fh: "fh_wf fh" and room: "reply_room rqstp 16"
    and tab: "lp_tab s = Some tab" and dir: "lp_find tab (simple_strtoul V (fh_mem fh)) = Some dir"
    and short: "length (n_path dir) < 1022"
    and up: "path_lookup V (n_path dir @ DOTDOT) = (0, Some (Some i))" "S_ISDIR (i_mode i)"
    and new: "lp_find tab (i_ino i) = None"
  shows "\<exists>proc s' rqstp'. vsnfsd_procedures1 VSNFSPROC_LOOKUP = Some proc \<and>
    vsnfsd_dispatch X V s proc rqstp statp = Inr (s', rqstp', statp) \<and>
    lp_tab s' = Some (\<lparr>n_ino = i_ino i, n_path = n_path dir @ DOTDOT @ [SLASH]\<rparr> # tab) \<and>
    holds (iov_base (rq_res rqstp')) (iov_len (rq_res rqstp))
      (net32 0 @ wire_fh \<lparr>fh_data = handle_data (fh_data zero_fh) (i_ino i), fh_type = VSNFS_DIR\<rparr>)"
proof -
  obtain proc where p: "vsnfsd_procedures1 8 = Some proc" "pc_encode proc = enc_fh"
      "pc_func proc = func_lookup" "pc_zero proc = FhRes zero_fh"
      "pc_decode proc = (\<lambda>X r p. dec_as ALookup (vsnfssvc_decode_lookupargs X r p))" by (rule lookup_row)
  have "length DOTDOT \<le> 255" "0 \<notin> set DOTDOT" "SLASH \<notin> set DOTDOT" by simp_all
  from decode_lookupargs_wire [OF X c fh this] obtain argp where
    a: "vsnfssvc_decode_lookupargs X rqstp 0 = Inr (rqstp, Some argp)" "dla_fh argp = fh" "name_of argp = DOTDOT"
      "unat (dla_len argp) = length DOTDOT" "name_ok argp" by blast
  let ?h = "\<lparr>fh_data = handle_data (fh_data zero_fh) (i_ino i), fh_type = VSNFS_DIR\<rparr>"
  let ?s = "s\<lparr>lp_tab := Some (\<lparr>n_ino = i_ino i, n_path = n_path dir @ DOTDOT @ [SLASH]\<rparr> # tab), s_kmem := s_kmem s + 2\<rparr>"
  have nd: "node_ok V dir" using ok tab dir tab_ok_find by (auto simp: srv_ok_def)
  have kind: "\<not> S_ISREG (i_mode i)" using up(2) by (simp add: S_ISREG_def S_ISDIR_def)
  have wf: "fh_wf ?h" by (simp add: fh_wf_def length_handle_data zero_fh_def)
  have "vsnfsd_proc_lookup V s argp zero_fh = Inr (?s, ?h, vsnfs_ok)"
    using lookup_finds [OF V A tab, of argp dir i zero_fh] a dir nd short up new kind
    by (simp add: filed_path_def type_of_inode_def lp_add_def zero_fh_def)
  then have "pc_func proc X V s (with_status rqstp) (ALookup argp) (pc_zero proc) =
      Inr (?s, with_status rqstp, FhRes ?h, vsnfs_ok)"
    by (simp add: p func_lookup_def)
  from dispatch_fh [OF X p(2) _ this wf room, of statp] a(1) obtain rqstp' where
    "vsnfsd_dispatch X V s proc rqstp statp = Inr (?s, rqstp', statp)"
    "holds (iov_base (rq_res rqstp')) (iov_len (rq_res rqstp)) (net32 0 @ wire_fh ?h)"
    by (auto simp: p(5) dec_as_def)
  with p(1) show ?thesis by auto
qed

text \<open>The export \<open>/e\<close> in a tree whose root has the inode 2.\<close>

abbreviation above :: vfs_api where
  "above \<equiv> vfs_ref (\<lparr>fs_path = [47, 101, 47, 46, 46], fs_inode = \<lparr>i_ino = 2, i_mode = 0x41ED\<rparr>, fs_dirents = []\<rparr> # demo_fs)"

abbreviation dotdot_args :: "byte list" where
  "dotdot_args \<equiv> [55, 0, 0, 0, 0, 0, 0, 0, 0, 0, 0, 2, 0, 0, 0, 2, 46, 46, 0, 0]"

theorem lookup_dotdot_escapes_witness:
  "\<exists>proc s' rqstp'. vsnfsd_procedures1 VSNFSPROC_LOOKUP = Some proc \<and>
    vsnfsd_dispatch xdr_ref above demo_srv proc (demo_rqst dotdot_args) 0 = Inr (s', rqstp', 0) \<and>
    lp_tab s' = Some [\<lparr>n_ino = 2, n_path = [47, 101, 47, 46, 46, 47]\<rparr>, demo_root]"
proof -
  let ?fh = "\<lparr>fh_data = [55, 0, 0, 0, 0, 0, 0, 0], fh_type = 2\<rparr>"
  have f: "carries (demo_rqst dotdot_args) (wire_fh ?fh @ wire_array DOTDOT)" "fh_wf ?fh"
      "reply_room (demo_rqst dotdot_args) 16" "lp_tab demo_srv = Some [demo_root]"
      "lp_find [demo_root] (simple_strtoul above (fh_mem ?fh)) = Some demo_root"
    by code_simp+
  have g: "path_lookup above [47, 101, 47] = (0, Some (Some \<lparr>i_ino = 7, i_mode = 0x41ED\<rparr>))"
      "path_lookup above (n_path demo_root @ DOTDOT) = (0, Some (Some \<lparr>i_ino = 2, i_mode = 0x41ED\<rparr>))" "S_ISDIR 0x41ED"
    by code_simp+
  have ok: "srv_ok above demo_srv"
    using g(1) by (simp add: demo_srv_def srv_ok_def tab_ok_def node_ok_def demo_root_def)
  show ?thesis
    using lookup_dotdot_escapes [OF ref_xdr.sunrpc_xdr_axioms ref_vfs.kernel_vfs_axioms demo_alloc ok f(1-5) _ g(2), of 0] g(3)
    by (auto simp: demo_root_def)
qed

section \<open>Before the first mount\<close>

text \<open>Requests for which the server goes to its table: every LOOKUP, and listing or reading a file by a handle with a number.\<close>

definition uses_table :: "vfs_api \<Rightarrow> svc_args \<Rightarrow> bool" where
  "uses_table V a =
     (case a of
        ALookup x \<Rightarrow> True
      | AReaddir x \<Rightarrow> simple_strtoul V (fh_mem (drda_fh x)) \<noteq> 0 \<and> kmalloc V OpenPath 1024 \<noteq> None
      | ARead x \<Rightarrow> simple_strtoul V (fh_mem (dra_fh x)) \<noteq> 0 \<and> kmalloc V OpenPath 1024 \<noteq> None
      | _ \<Rightarrow> False)"

lemma open_unmounted:
  assumes "lp_tab s = None" and "simple_strtoul V (fh_mem fh) \<noteq> 0" and "kmalloc V OpenPath 1024 \<noteq> None"
  shows "vsnfsd_open V s fh = Inl BadDeref"
  using assms by (auto simp: vsnfsd_open_def vsnfsd_fh_to_path_def Let_def)

lemma decode_page:
  assumes "pc_decode proc X rqstp 0 = Inr (rqstp', Some a)" and "vsnfsd_procedures1 n = Some proc"
  shows "(\<forall>x. a = AReaddir x \<longrightarrow> drda_buffer x < length (rq_respages rqstp')) \<and>
    (\<forall>x. a = ARead x \<longrightarrow> dra_buffer x < length (rq_respages rqstp'))"
  using assms
  by (auto simp: vsnfsd_procedures1_def dec_as_def bindF_eq_Inr vsnfssvc_decode_readdirargs_def vsnfssvc_decode_readargs_def
      take_respage_def Let_def split: if_split_asm)

lemma func_unmounted:
  assumes proc: "vsnfsd_procedures1 n = Some proc" and tab: "lp_tab s = None" and use: "uses_table V a"
    and page: "\<forall>x. a = AReaddir x \<longrightarrow> drda_buffer x < length (rq_respages rq)"
      "\<forall>x. a = ARead x \<longrightarrow> dra_buffer x < length (rq_respages rq)"
  shows "pc_func proc X V s rq a (pc_zero proc) = Inl BadDeref"
  using proc
proof (cases rule: procedure_cases)
  case 1
  with use show ?thesis by (simp add: func_null_def uses_table_def split: svc_args.splits)
next
  case 2
  with use show ?thesis by (simp add: func_getroot_def uses_table_def split: svc_args.splits)
next
  case 3
  with use tab proc show ?thesis
    by (auto simp: func_lookup_def uses_table_def vsnfsd_proc_lookup_def split: svc_args.splits svc_res.splits)
next
  case 4
  with use tab page show ?thesis
    by (auto simp: func_readdir_def uses_table_def get_page_def vsnfsd_proc_readdir_def vsnfsd_readdir_def open_unmounted Let_def
        split: svc_args.splits svc_res.splits)
next
  case 5
  with use tab page show ?thesis
    by (auto simp: func_read_def uses_table_def get_page_def vsnfsd_proc_read_def vsnfsd_read_def open_unmounted Let_def
        split: svc_args.splits svc_res.splits)
qed

text \<open>
  C31. Before the first mount the server cannot be used: after any requests none of which is a GETROOT, of any bytes, the
  head of its list is still zero; then every LOOKUP request whose arguments decode, every READDIR and READ request
  whose handle has a number other than 0 (given memory for the path), and the shutdown of the service crash it.
\<close>

theorem unmounted_requests_fault:
  assumes V: "kernel_vfs V" and run: "steps (srv_event_step X V) srv_start es s" and es: "\<forall>p. Mount p \<notin> set es"
  shows "lp_tab s = None \<and>
    (\<forall>n proc rqstp rqstp' a statp. vsnfsd_procedures1 n = Some proc \<and> pc_decode proc X rqstp 0 = Inr (rqstp', Some a) \<and>
       uses_table V a \<longrightarrow> vsnfsd_dispatch X V s proc rqstp statp = Inl BadDeref) \<and>
    (\<forall>serv. vsnfsd_last_thread s serv = Inl BadDeref)"
proof -
  have "abs_tab s = None"
    by (rule server_sim.steps_transfer [OF run, of "\<lambda>t. t = None"])
      (use V es in \<open>auto simp: start_inv abs_start elim!: spec_stepE\<close>)
  then have tab: "lp_tab s = None" by (simp add: abs_tab_def)
  moreover have "vsnfsd_dispatch X V s proc rqstp statp = Inl BadDeref"
    if p: "vsnfsd_procedures1 n = Some proc" and d: "pc_decode proc X rqstp 0 = Inr (rqstp', Some a)"
      and u: "uses_table V a" for n proc rqstp rqstp' a statp
    using func_unmounted [OF p tab u, of "with_status rqstp'" X] decode_page [OF d p] d
    by (simp add: vsnfsd_dispatch_def Let_def)
  ultimately show ?thesis by (auto simp: vsnfsd_last_thread_def)
qed

text \<open>A NULL request, and then a READDIR of handle 7 and a shutdown.\<close>

theorem unmounted_requests_fault_witness:
  "\<exists>proc. vsnfsd_procedures1 VSNFSPROC_READDIR = Some proc \<and> lp_tab srv_start = None \<and>
    vsnfsd_dispatch xdr_ref demo srv_start proc (demo_rqst (wire_fh (dla_fh demo_lookup) @ net32 4096)) 0 = Inl BadDeref \<and>
    vsnfsd_last_thread srv_start \<lparr>sv_permsocks = 2, sv_nrthreads = 0, sv_lockd = 2\<rparr> = Inl BadDeref"
proof -
  let ?r = "demo_rqst (wire_fh (dla_fh demo_lookup) @ net32 4096)"
  have "serve1 demo srv_start 0 [0, 0, 0, 3] = Some (Quiet, srv_start)" by code_simp
  then have "steps (srv_event_step xdr_ref demo) srv_start [Quiet] srv_start"
    by (auto simp: steps_Cons dest: serve1_step)
  note fault = unmounted_requests_fault [OF demo_vfs this]
  obtain proc where p: "vsnfsd_procedures1 VSNFSPROC_READDIR = Some proc"
      "pc_decode proc = (\<lambda>X r p. dec_as AReaddir (vsnfssvc_decode_readdirargs X r p))" by (simp add: vsnfsd_procedures1_def)
  let ?a = "AReaddir \<lparr>drda_fh = dla_fh demo_lookup, drda_count = 4096, drda_buffer = 0\<rparr>"
  have "pc_decode proc xdr_ref ?r 0 = Inr (?r\<lparr>rq_resused := 1\<rparr>, Some ?a)" unfolding p(2) by code_simp
  moreover have "uses_table demo ?a" by code_simp
  ultimately show ?thesis using fault p(1) by auto
qed

section \<open>Reading\<close>

text \<open>READ does not use the offset it is asked for: the answer is the same for every offset.\<close>

lemma read_ignores_offset:
  "vsnfsd_proc_read V s rqstp page (argp\<lparr>dra_offset := off\<rparr>) resp
     = vsnfsd_proc_read V s rqstp page argp resp"
  by (simp add: vsnfsd_proc_read_def)

lemma proc_read_run:
  assumes op: "vsnfsd_open V s fh = Inr (s1, 0, Some f)" and rs: "svc_reserve_auth V rqstp (2 + dra_count argp) = rqstp"
    and fh: "dra_fh argp = fh"
    and rd: "vfs_read V f page (unat (dra_count argp)) (stk_pos V) = (data, n, pos)" and n: "0 \<le> n"
  shows "vsnfsd_proc_read V s rqstp page argp resp = Inr (s, rqstp, data, resp\<lparr>dres_count := word_of_int n\<rparr>, 0)"
  using open_state [OF op] op rs rd n fh
  by (simp add: vsnfsd_proc_read_def vsnfsd_read_def vsnfsd_close_def Let_def)

text \<open>
  C26. What READ answers: for a handle the server can open and a read that returns \<open>n\<close> bytes, the reply says
  success and \<open>n\<close>, and the page has the bytes from the position the stack happens to hold, not from the offset
  of the request; and the length of the data that go with the reply is the length of the reply's head, whatever
  \<open>n\<close> is.
\<close>

theorem read_reply:
  assumes X: "sunrpc_xdr X" and carr: "carries rqstp (wire_fh fh @ net32 off @ net32 len)" and fh: "fh_wf fh"
    and page: "rq_resused rqstp < length (rq_respages rqstp)" and room: "reply_room rqstp 8"
    and op: "vsnfsd_open V s fh = Inr (s1, 0, Some f)"
    and rs: "\<And>r n. svc_reserve_auth V r n = r"
    and rd: "vfs_read V f (rq_respages rqstp ! rq_resused rqstp) (min 4096 (unat len)) (stk_pos V) = (data, n, pos)"
      "0 \<le> n"
  shows "\<exists>proc rqstp'. vsnfsd_procedures1 VSNFSPROC_READ = Some proc \<and>
    vsnfsd_dispatch X V s proc rqstp statp = Inr (s, rqstp', statp) \<and>
    holds (iov_base (rq_res rqstp')) (iov_len (rq_res rqstp)) (net32 0 @ net32 (word_of_int n)) \<and>
    rq_respages rqstp' ! rq_resused rqstp = data \<and>
    rq_res_page_len rqstp' = iov_len (rq_res rqstp) + 8"
proof -
  let ?k = "rq_resused rqstp" and ?p = "iov_len (rq_res rqstp)" and ?m = "iov_base (rq_res rqstp)"
  let ?r1 = "rqstp\<lparr>rq_resused := Suc ?k\<rparr>" and ?c = "if 4096 < len then 4096 else len"
  let ?a = "\<lparr>dra_fh = fh, dra_offset = off, dra_count = ?c, dra_buffer = ?k\<rparr>"
  let ?res = "\<lparr>dres_count = word_of_int n\<rparr>" and ?w = "word_of_int n :: u32"
  obtain proc where p: "vsnfsd_procedures1 VSNFSPROC_READ = Some proc" "pc_func proc = func_read"
      "pc_decode proc = (\<lambda>X r p. dec_as ARead (vsnfssvc_decode_readargs X r p))" "pc_encode proc = enc_read"
      "pc_zero proc = ReadRes \<lparr>dres_count = 0\<rparr>" by (simp add: vsnfsd_procedures1_def zero_readres_def)
  have dec: "pc_decode proc X rqstp 0 = Inr (?r1, Some (ARead ?a))"
    using decode_readargs_wire [OF X carr fh page] by (simp add: p dec_as_def)
  have c: "unat ?c = min 4096 (unat len)" by (simp add: word_less_nat_alt)
  have run: "vsnfsd_proc_read V s (with_status ?r1) (rq_respages rqstp ! ?k) ?a \<lparr>dres_count = 0\<rparr>
      = Inr (s, with_status ?r1, data, ?res, 0)"
    using proc_read_run [OF op rs, of ?a "rq_respages rqstp ! ?k" data n pos "with_status ?r1" "\<lparr>dres_count = 0\<rparr>"] rd c by simp
  then have fn: "pc_func proc X V s (with_status ?r1) (ARead ?a) (pc_zero proc)
      = Inr (s, put_page (with_status ?r1) ?k data, ReadRes ?res, 0)"
    using page by (simp add: p func_read_def get_page_def)
  obtain m' where m': "mem_write ?m ?p (net32 0 @ net32 ?w) = Inr m'"
    using mem_write_ok [of ?p "net32 0 @ net32 ?w" ?m] room by (auto simp: reply_room_def)
  then obtain m1 where m1: "st32 ?m ?p 0 = Inr m1" and m2: "st32 m1 (?p + 4) (htonl ?w) = Inr m'"
    using st32_raw [of ?m ?p 0] by (auto simp: mem_simps mem_write_append [symmetric] bindF_eq_Inr)
  have u: "ucast (word_of_int n :: u64) = ?w" by (rule bit_word_eqI) (simp add: bit_simps)
  have l: "page_len_of (?p + 8) = ?p + 8" using room by (simp add: page_len_of_def reply_room_def mod_if)
  have "\<exists>rqstp'. vsnfsd_dispatch X V s proc rqstp statp = Inr (s, rqstp', statp) \<and> iov_base (rq_res rqstp') = m' \<and>
      rq_respages rqstp' = (rq_respages rqstp)[?k := data] \<and> rq_res_page_len rqstp' = ?p + 8"
    using m1 m2 room l
    by (simp add: vsnfsd_dispatch_def dec fn [simplified] p(4) enc_read_def vsnfssvc_encode_readres_def ressize_check_def put_page_def
        sunrpc_xdr.ressize_check [OF X] reply_room_def u Let_def add.commute split del: if_split)
  with mem_write_holds [OF m'] p(1) page show ?thesis by fastforce
qed

text \<open>A kernel that reads two bytes, whatever it is asked for.\<close>

definition reading :: vfs_api where
  "reading = demo\<lparr>vfs_read := \<lambda>f buffer count pos. (104 # 105 # drop 2 buffer, 2, pos + 2)\<rparr>"

theorem read_reply_witness:
  "\<exists>proc rqstp'. vsnfsd_procedures1 VSNFSPROC_READ = Some proc \<and>
    vsnfsd_dispatch xdr_ref reading demo_srv proc (demo_rqst (wire_fh (dla_fh demo_lookup) @ net32 9 @ net32 100)) 0 = Inr (demo_srv, rqstp', 0) \<and>
    holds (iov_base (rq_res rqstp')) 4 (net32 0 @ net32 2) \<and>
    take 2 (rq_respages rqstp' ! 0) = [104, 105] \<and> rq_res_page_len rqstp' = 12"
proof -
  let ?r = "demo_rqst (wire_fh (dla_fh demo_lookup) @ net32 9 @ net32 100)"
  have op: "vsnfsd_open reading demo_srv (dla_fh demo_lookup) = Inr (demo_srv\<lparr>s_files := 1\<rparr>, 0, Some 0)" by code_simp
  have fh: "fh_wf (dla_fh demo_lookup)" by (simp add: fh_wf_def demo_lookup_def)
  have carr: "carries ?r (wire_fh (dla_fh demo_lookup) @ net32 9 @ net32 100)" by (simp add: carries_def holds_def demo_rqst_def)
  have r: "rq_resused ?r < length (rq_respages ?r)" "reply_room ?r 8" "iov_len (rq_res ?r) = 4" "rq_resused ?r = 0"
    by (simp_all add: demo_rqst_def reply_room_def)
  have rs: "svc_reserve_auth reading q n = q" for q n by (simp add: reading_def vfs_ref_def)
  have rd: "vfs_read reading 0 (rq_respages ?r ! rq_resused ?r) (min 4096 (unat (100 :: u32))) (stk_pos reading)
      = (104 # 105 # drop 2 (rq_respages ?r ! rq_resused ?r), 2, 2)" by (simp add: reading_def vfs_ref_def)
  have "0 \<le> (2 :: int)" by simp
  from read_reply [OF ref_xdr.sunrpc_xdr_axioms carr fh r(1,2) op rs rd this, of 0] r(3,4) show ?thesis by auto
qed

section \<open>The daemon\<close>

text \<open>What the daemon is to do with the requests it receives.\<close>

fun process_all :: "('s \<Rightarrow> 'r \<Rightarrow> 's run) \<Rightarrow> 'r list \<Rightarrow> 's \<Rightarrow> 's run" where
  "process_all process [] s = Inr s"
| "process_all process (r # rs) s = bindF (process s r) (process_all process rs)"

lemma loop_processes:
  assumes "\<forall>e \<in> set evs. fst e \<noteq> - EINTR"
  shows "\<exists>perr. vsnfsd_loop process (evs @ (- EINTR, r) # later) preverr s =
      bindF (process_all process [snd e. e \<leftarrow> evs, 0 \<le> fst e] s) (\<lambda>s. Inr (Some (s, perr))) \<and>
    vsnfsd_loop process evs preverr s =
      bindF (process_all process [snd e. e \<leftarrow> evs, 0 \<le> fst e] s) (\<lambda>s. Inr None)"
  using assms
proof (induction evs arbitrary: preverr s)
  case Nil
  show ?case by simp
next
  case (Cons e evs)
  obtain err rq where e: "e = (err, rq)" by (cases e)
  from Cons.prems have IH: "\<And>pe s. \<exists>perr. vsnfsd_loop process (evs @ (- EINTR, r) # later) pe s =
      bindF (process_all process [snd e. e \<leftarrow> evs, 0 \<le> fst e] s) (\<lambda>s. Inr (Some (s, perr))) \<and>
    vsnfsd_loop process evs pe s =
      bindF (process_all process [snd e. e \<leftarrow> evs, 0 \<le> fst e] s) (\<lambda>s. Inr None)"
    using Cons.IH by simp
  show ?case
  proof (cases "0 \<le> err")
    case True
    then show ?thesis using IH e by (cases "process s rq") auto
  next
    case False
    then show ?thesis using IH [of preverr s] IH [of err s] Cons.prems e by auto
  qed
qed

text \<open>
  C24. The daemon processes every request it receives exactly once and in order, ignores time-outs and
  other errors of the socket, and leaves its loop at the first interrupt and only then.
\<close>

theorem daemon_processes_in_order:
  assumes "\<forall>e \<in> set evs. fst e \<noteq> - EINTR"
  shows "\<exists>perr. vsnfsd_loop process (evs @ (- EINTR, r) # later) preverr s =
      bindF (process_all process [snd e. e \<leftarrow> evs, 0 \<le> fst e] s) (\<lambda>s. Inr (Some (s, perr))) \<and>
    vsnfsd_loop process evs preverr s =
      bindF (process_all process [snd e. e \<leftarrow> evs, 0 \<le> fst e] s) (\<lambda>s. Inr None)"
  by (rule loop_processes [OF assms])

theorem daemon_processes_in_order_witness:
  "\<exists>perr. vsnfsd_loop (\<lambda>s r. Inr (s @ [r])) ([(- 11, 0), (5, 1), (- 71, 0), (5, 2)] @ (- EINTR, 0) # [(5, 3::nat)]) 0 []
     = Inr (Some ([1, 2], perr))"
  using daemon_processes_in_order [of "[(- 11, 0), (5, 1), (- 71, 0), (5, 2::nat)]"
      "\<lambda>s r. Inr (s @ [r])" 0 "[(5, 3)]" 0 "[]"] by auto






definition demo_svc :: svc_api where
  "demo_svc =
    \<lparr>svc_create_pooled = Some \<lparr>sv_permsocks = 0, sv_nrthreads = 1, sv_lockd = 0\<rparr>,
     svc_create_xprt = (\<lambda>p n. int n), lockd_up = (\<lambda>n. 0),
     svc_set_num_threads = (\<lambda>v n. (v\<lparr>sv_nrthreads := sv_nrthreads v + n\<rparr>, 0)),
     svc_destroy_last = (\<lambda>v. sv_nrthreads v = 1)\<rparr>"



text \<open>The start of the service with one thread.\<close>

lemma svc_starts:
  "vsnfsd_svc demo_svc srv_start 6789 1 =
     Inr (srv_start, Some \<lparr>sv_permsocks = 2, sv_nrthreads = 1, sv_lockd = 2\<rparr>, 1)"
  by code_simp

section \<open>Remounting\<close>

text \<open>
  C33. A second mount loses the table of the first: from any state the server reaches, with a table, a GETROOT of a path
  that resolves to something else than a regular file replaces the table by the new root alone; it allocates the two
  objects of the new entry and frees none; the shutdown frees these two, so that the objects of the old table, two for
  each of its entries, are still allocated when the table is empty.
\<close>

theorem remount_leaks_table:
  assumes V: "kernel_vfs V" and A: "alloc_ok V" and r: "srv_reachable X V s" and tab: "lp_tab s = Some tab"
    and path: "path_ok argp" "dga_len argp \<noteq> 0" and fh: "fh_wf resp"
    and look: "path_lookup V (mount_path argp) = (0, Some (Some i))" "\<not> S_ISREG (i_mode i)"
  shows "\<exists>s' h s'' serv'. vsnfsd_proc_getroot V s argp resp = Inr (s', h, vsnfs_ok) \<and>
    lp_tab s' = Some [\<lparr>n_ino = i_ino i, n_path = mount_path argp\<rparr>] \<and> s_kmem s' = s_kmem s + 2 \<and>
    vsnfsd_last_thread s' serv = Inr (s'', serv') \<and> lp_tab s'' = Some [] \<and>
    s_kmem s'' = s_kmem s \<and> 2 * int (length tab) \<le> s_kmem s''"
proof -
  have "\<And>site n. kmalloc V site n \<noteq> None" using A by (auto simp: alloc_ok_def)
  with proc_getroot_eq [OF V path(1) fh, of s] path(2) look
  obtain h where g: "vsnfsd_proc_getroot V s argp resp =
      Inr (s\<lparr>lp_tab := Some [\<lparr>n_ino = i_ino i, n_path = mount_path argp\<rparr>], s_kmem := s_kmem s + 2\<rparr>, h, vsnfs_ok)"
    by (simp add: getroot_result_def Let_def)
  have "2 * int (length tab) \<le> s_kmem s"
    using reachable_inv [OF r V] tab by (simp add: srv_inv_def resources_ok_def)
  with g show ?thesis by (simp add: vsnfsd_last_thread_def)
qed

theorem remount_leaks_table_witness:
  "\<exists>s' h s'' serv'. vsnfsd_proc_getroot demo looked_srv demo_getroot zero_fh = Inr (s', h, vsnfs_ok) \<and>
     lp_tab s' = Some [demo_root] \<and>
     vsnfsd_last_thread s' \<lparr>sv_permsocks = 2, sv_nrthreads = 0, sv_lockd = 2\<rparr> = Inr (s'', serv') \<and>
     lp_tab s'' = Some [] \<and> s_kmem s'' = 4"
proof -
  have f: "path_ok demo_getroot" "dga_len demo_getroot \<noteq> 0" "mount_path demo_getroot = [47, 101, 47]"
    "path_lookup demo (mount_path demo_getroot) = (0, Some (Some \<lparr>i_ino = 7, i_mode = 0x41ED\<rparr>))" "\<not> S_ISREG 0x41ED"
    by code_simp+
  have t: "lp_tab looked_srv = Some [\<lparr>n_ino = 8, n_path = [47, 101, 47, 100, 47]\<rparr>, demo_root]" by (simp add: looked_srv_def)
  from remount_leaks_table [OF demo_vfs demo_alloc looked_reachable t f(1,2) fh_wf_zero f(4), of
      "\<lparr>sv_permsocks = 2, sv_nrthreads = 0, sv_lockd = 2\<rparr>"] f(3,5)
  show ?thesis by (auto simp: looked_srv_def demo_root_def)
qed

section \<open>The argument store\<close>

lemma sizes64:
  "sizeof_nullargs 8 = 4" "sizeof_nullres 8 = 4" "sizeof_getrootargs 8 = 16" "sizeof_lookupargs 8 = 32"
  "sizeof_readdirargs 8 = 24" "sizeof_readdirres 8 = 32" "sizeof_readargs 8 = 32" "sizeof_readres 8 = 8"
  "sizeof_fh 8 = 12" "VSNFS_SVC_XDRSIZE 8 = 32"
  by code_simp+

text \<open>
  With pointers of eight bytes the store of the size of \<open>vsnfsd_xdrstore\<close> is large enough for every procedure of the
  table; with pointers of four bytes the arguments of READ, which the union has no member for, are four bytes larger.
\<close>

lemma svc_store_64:
  assumes "vsnfsd_procedures1 n = Some proc"
  shows "pc_argsize proc 8 \<le> VSNFS_SVC_XDRSIZE 8 \<and> pc_ressize proc 8 \<le> VSNFS_SVC_XDRSIZE 8"
  using assms by (auto simp: vsnfsd_procedures1_def sizes64 split: if_splits)

lemma svc_store_32:
  "\<exists>proc. vsnfsd_procedures1 VSNFSPROC_READ = Some proc \<and> pc_argsize proc 4 = 24 \<and> VSNFS_SVC_XDRSIZE 4 = 20"
proof -
  have "sizeof_readargs 4 = 24" "VSNFS_SVC_XDRSIZE 4 = 20" by code_simp+
  then show ?thesis by (simp add: vsnfsd_procedures1_def)
qed

end
