(* ===== verification/ServerTypes.thy ===== *)
theory ServerTypes
  imports ServerServes
begin

text \<open>
  The casts of the procedure table are safe: whatever bytes a request has, the decoder of a row gives the
  structure its procedure expects, within the limits of the protocol and of the request, and the procedure
  gives the structure its encoder expects.
\<close>

section \<open>Types of arguments and results\<close>

definition args_typed :: "nat \<Rightarrow> svc_rqst \<Rightarrow> svc_args \<Rightarrow> bool" where
  "args_typed n rqstp a =
     (case a of
        ANull x \<Rightarrow> n = VSNFSPROC_NULL
      | AGetroot x \<Rightarrow> n = VSNFSPROC_GETROOT \<and> path_ok x \<and> unat (dga_len x) \<le> VSNFS_MAXPATHLEN \<and>
          4 + unat (dga_len x) \<le> iov_len (rq_arg rqstp)
      | ALookup x \<Rightarrow> n = VSNFSPROC_LOOKUP \<and> fh_wf (dla_fh x) \<and> name_ok x \<and> SLASH \<notin> set (name_of x) \<and>
          unat (dla_len x) \<le> VSNFS_MAXNAMLEN \<and> 16 + unat (dla_len x) \<le> iov_len (rq_arg rqstp)
      | AReaddir x \<Rightarrow> n = VSNFSPROC_READDIR \<and> fh_wf (drda_fh x) \<and> unat (drda_count x) \<le> PAGE_SIZE \<and>
          drda_buffer x < length (rq_respages rqstp) \<and> 16 \<le> iov_len (rq_arg rqstp)
      | ARead x \<Rightarrow> n = VSNFSPROC_READ \<and> fh_wf (dra_fh x) \<and> unat (dra_count x) \<le> PAGE_SIZE \<and>
          dra_buffer x < length (rq_respages rqstp) \<and> 20 \<le> iov_len (rq_arg rqstp))"

definition res_typed :: "nat \<Rightarrow> svc_rqst \<Rightarrow> svc_res \<Rightarrow> bool" where
  "res_typed n rqstp r =
     (case r of
        NullRes x \<Rightarrow> n = VSNFSPROC_NULL
      | FhRes h \<Rightarrow> (n = VSNFSPROC_GETROOT \<or> n = VSNFSPROC_LOOKUP) \<and> fh_wf h
      | ReaddirRes k x \<Rightarrow> n = VSNFSPROC_READDIR \<and> k < length (rq_respages rqstp)
      | ReadRes x \<Rightarrow> n = VSNFSPROC_READ)"

text \<open>Room for what the encoder of a result stores: words in the reply head, or the end marker in the page.\<close>

definition enc_room :: "svc_rqst \<Rightarrow> nat \<Rightarrow> svc_res \<Rightarrow> bool" where
  "enc_room rqstp p r =
     (case r of
        NullRes x \<Rightarrow> p + 4 \<le> length (iov_base (rq_res rqstp))
      | FhRes h \<Rightarrow> p + 12 \<le> length (iov_base (rq_res rqstp))
      | ReaddirRes k x \<Rightarrow> k < length (rq_respages rqstp) \<and> drr_buffer x + 8 \<le> length (rq_respages rqstp ! k)
      | ReadRes x \<Rightarrow> p + 4 \<le> length (iov_base (rq_res rqstp)))"

section \<open>What the decoders let through\<close>

lemma quadlen_covers: "len \<le> 1024 \<Longrightarrow> unat len \<le> 4 * XDR_QUADLEN (len :: u32)"
proof -
  assume "len \<le> 1024"
  then have "unat len \<le> 1024" by (simp add: word_le_nat_alt)
  then show ?thesis using XDR_QUADLEN_nat [of len] by simp
qed

text \<open>A string that decodes is within the limit, and it and its length are within the bytes before the cursor.\<close>

lemma decode_string_bounds:
  assumes "sunrpc_xdr X" and "xdr_decode_string_inplace X m p maxlen = Inr (Some (s, len, q))" and "maxlen \<le> 1024"
  shows "len \<le> maxlen \<and> p + 4 + unat len \<le> q"
proof -
  from assms(2) have "len \<le> maxlen" and q: "q = p + 4 + 4 * XDR_QUADLEN len"
    by (auto simp: sunrpc_xdr.decode_string [OF assms(1)] bindF_eq_Inr Let_def split: if_splits)
  with quadlen_covers [of len] assms(3) show ?thesis by auto
qed

lemma decode_filename_bounds:
  assumes X: "sunrpc_xdr X" and "decode_filename X m p = Inr (Some (name, len, q))"
  shows "unat len \<le> 255 \<and> p + 4 + unat len \<le> q"
proof -
  from assms(2) have "xdr_decode_string_inplace X m p 255 = Inr (Some (name, len, q))"
    by (auto simp: decode_filename_def bindF_eq_Inr split: option.splits if_splits)
  from decode_string_bounds [OF X this] show ?thesis by (simp add: word_le_nat_alt)
qed

lemma decode_pathname_bounds:
  assumes X: "sunrpc_xdr X" and "decode_pathname X m p = Inr (Some (path, len, q))"
  shows "unat len \<le> 1024 \<and> p + 4 + unat len \<le> q"
proof -
  from assms(2) have "xdr_decode_string_inplace X m p 1024 = Inr (Some (path, len, q))"
    by (auto simp: decode_pathname_def bindF_eq_Inr split: option.splits if_splits)
  from decode_string_bounds [OF X this] show ?thesis by (simp add: word_le_nat_alt)
qed

lemma lookupargs_typed:
  assumes X: "sunrpc_xdr X" and d: "vsnfssvc_decode_lookupargs X rqstp 0 = Inr (rqstp', Some argp)"
  shows "args_typed VSNFSPROC_LOOKUP rqstp (ALookup argp)"
proof -
  from d obtain fh q r where fh: "decode_fh (iov_base (rq_arg rqstp)) 0 = Inr (fh, q)"
    and r: "decode_filename X (iov_base (rq_arg rqstp)) q = Inr r"
    by (auto simp: vsnfssvc_decode_lookupargs_def bindF_eq_Inr)
  with d obtain name len q' where r': "r = Some (name, len, q')"
    by (cases r) (auto simp: vsnfssvc_decode_lookupargs_def)
  have "q = 12" using decode_fh_InrD [OF fh] by simp
  with decode_filename_bounds [OF X r [unfolded r']] decode_lookupargs_ok [OF d] d fh r r' show ?thesis
    by (auto simp: vsnfssvc_decode_lookupargs_def args_typed_def sunrpc_xdr.argsize_check [OF X] split: if_splits)
qed

lemma getrootargs_typed:
  assumes X: "sunrpc_xdr X" and d: "vsnfssvc_decode_getrootargs X rqstp 0 = Inr (rqstp', Some argp)"
  shows "args_typed VSNFSPROC_GETROOT rqstp (AGetroot argp)"
proof -
  from d obtain r where r: "decode_pathname X (iov_base (rq_arg rqstp)) 0 = Inr r"
    by (auto simp: vsnfssvc_decode_getrootargs_def bindF_eq_Inr)
  with d obtain path len q where r': "r = Some (path, len, q)"
    by (cases r) (auto simp: vsnfssvc_decode_getrootargs_def)
  from decode_pathname_bounds [OF X r [unfolded r']] decode_getrootargs_ok [OF d] d r r' show ?thesis
    by (auto simp: vsnfssvc_decode_getrootargs_def args_typed_def sunrpc_xdr.argsize_check [OF X] split: if_splits)
qed

lemma readdirargs_typed:
  assumes X: "sunrpc_xdr X" and d: "vsnfssvc_decode_readdirargs X rqstp 0 = Inr (rqstp', Some argp)"
  shows "args_typed VSNFSPROC_READDIR rqstp (AReaddir argp)"
proof -
  from d obtain fh q where fh: "decode_fh (iov_base (rq_arg rqstp)) 0 = Inr (fh, q)"
    by (auto simp: vsnfssvc_decode_readdirargs_def bindF_eq_Inr)
  from decode_fh_InrD [OF fh] d fh show ?thesis
    by (auto simp: vsnfssvc_decode_readdirargs_def args_typed_def bindF_eq_Inr Let_def take_respage_def
        sunrpc_xdr.argsize_check [OF X] word_less_nat_alt split: if_split_asm)
qed

lemma readargs_typed:
  assumes X: "sunrpc_xdr X" and d: "vsnfssvc_decode_readargs X rqstp 0 = Inr (rqstp', Some argp)"
  shows "args_typed VSNFSPROC_READ rqstp (ARead argp)"
proof -
  from d obtain fh q where fh: "decode_fh (iov_base (rq_arg rqstp)) 0 = Inr (fh, q)"
    by (auto simp: vsnfssvc_decode_readargs_def bindF_eq_Inr)
  from decode_fh_InrD [OF fh] d fh show ?thesis
    by (auto simp: vsnfssvc_decode_readargs_def args_typed_def bindF_eq_Inr Let_def take_respage_def
        sunrpc_xdr.argsize_check [OF X] word_less_nat_alt split: if_split_asm)
qed

lemma nullargs_typed: "args_typed VSNFSPROC_NULL rqstp (ANull argp)"
  by (simp add: args_typed_def)

lemma decoded_args_typed:
  assumes X: "sunrpc_xdr X" and "vsnfsd_procedures1 n = Some proc" and "pc_decode proc X rqstp 0 = Inr (rqstp', Some a)"
  shows "args_typed n rqstp a"
  using assms(2,3)
  by (auto simp: vsnfsd_procedures1_def dec_as_def bindF_eq_Inr split: if_splits
      intro: nullargs_typed lookupargs_typed [OF X] getrootargs_typed [OF X, unfolded One_nat_def] readdirargs_typed [OF X]
        readargs_typed [OF X])

section \<open>What the procedures give\<close>

lemma lookup_resolve_fh:
  assumes "lookup_resolve V s tab path resp = Inr (s', resp', rc)" and "fh_wf resp"
  shows "fh_wf resp'"
  using assms
  by (auto simp: lookup_resolve_def bindF_eq_Inr Let_def fh_wf_def case_prod_beta length_handle_data
      split: option.splits)

lemma lookup_fh:
  assumes "vsnfsd_proc_lookup V s argp resp = Inr (s', resp', rc)" and "fh_wf resp"
  shows "fh_wf resp'"
  using assms
  by (auto simp: vsnfsd_proc_lookup_def bindF_eq_Inr Let_def split: option.splits dest: lookup_resolve_fh)

lemma getroot_fh:
  assumes "vsnfsd_proc_getroot V s argp resp = Inr (s', resp', rc)" and "fh_wf resp"
  shows "fh_wf resp'"
  using assms
  by (auto simp: vsnfsd_proc_getroot_def bindF_eq_Inr Let_def fh_wf_def case_prod_beta length_handle_data
      split: option.splits if_splits)

lemma func_typed:
  assumes "vsnfsd_procedures1 n = Some proc" and "args_typed n rqstp a"
    and "pc_func proc X V s rqstp2 a (pc_zero proc) = Inr (s', rqstp3, res, e)"
  shows "res_typed n rqstp res"
  using assms
  by (auto simp: vsnfsd_procedures1_def func_defs args_typed_def res_typed_def bindF_eq_Inr zero_nullres_def
      zero_fhres_def zero_readdirres_def zero_readres_def split: if_splits svc_args.splits prod.splits
      dest!: lookup_fh getroot_fh)

lemma st32_room: "p + 4 \<le> length m \<Longrightarrow> \<exists>m'. st32 m p w = Inr m' \<and> length m' = length m"
  using mem_write_ok [of p "net32 (bswap32 w)" m] mem_write_length by (force simp: st32_raw)

lemma encode_fh_room:
  assumes "fh_wf h" and "p + 8 \<le> length m"
  shows "\<exists>m'. encode_fh m p h = Inr (m', p + 8) \<and> length m' = length m"
proof -
  obtain m' where "mem_write m p (fh_data h) = Inr m'" using mem_write_ok [of p "fh_data h" m] assms by (auto simp: fh_wf_def)
  with mem_write_length [OF this] assms(1) show ?thesis by (simp add: encode_fh_def fh_wf_def mem_simps)
qed

text \<open>The encoder of a row takes the results of its procedure.\<close>

lemma enc_typed:
  assumes proc: "vsnfsd_procedures1 n = Some proc" and res: "res_typed n rqstp res" and room: "enc_room rq p res"
  shows "\<exists>rq' ok. pc_encode proc X rq p res = Inr (rq', ok)"
proof (cases res)
  case (NullRes x)
  then have "pc_encode proc = enc_null" using proc res by (auto simp: res_typed_def vsnfsd_procedures1_def)
  with NullRes room st32_room [of p "iov_base (rq_res rq)" "htonl (dnr_dummy x)"] show ?thesis
    by (auto simp: enc_room_def enc_null_def vsnfssvc_encode_nullres_def ressize_check_def case_prod_beta)
next
  case (FhRes h)
  then have enc: "pc_encode proc = enc_fh" and wf: "fh_wf h"
    using proc res by (auto simp: res_typed_def vsnfsd_procedures1_def)
  have "p + 8 \<le> length (iov_base (rq_res rq))" using FhRes room by (simp add: enc_room_def)
  from encode_fh_room [OF wf this] obtain m where m: "encode_fh (iov_base (rq_res rq)) p h = Inr (m, p + 8)"
    "length m = length (iov_base (rq_res rq))" by blast
  with FhRes room enc st32_room [of "p + 8" m "htonl (fh_type h)"] show ?thesis
    by (auto simp: enc_room_def enc_fh_def vsnfssvc_encode_fhandle_def ressize_check_def case_prod_beta)
next
  case (ReaddirRes k x)
  then have enc: "pc_encode proc = enc_readdir" using proc res by (auto simp: res_typed_def vsnfsd_procedures1_def)
  obtain m where "st32 (rq_respages rq ! k) (drr_buffer x) 0 = Inr m" "length m = length (rq_respages rq ! k)"
    using st32_room [of "drr_buffer x" "rq_respages rq ! k"] ReaddirRes room by (auto simp: enc_room_def)
  moreover obtain m' where "st32 m (drr_buffer x + 4) (htonl (if drr_err x = vsnfs_ok then 1 else 0)) = Inr m'"
    using calculation ReaddirRes room st32_room [of "drr_buffer x + 4" m] by (fastforce simp: enc_room_def)
  ultimately show ?thesis using ReaddirRes room enc
    by (auto simp: enc_room_def enc_readdir_def get_page_def vsnfssvc_encode_readdirres_def ressize_check_def
        case_prod_beta Let_def split del: if_split)
next
  case (ReadRes x)
  then have "pc_encode proc = enc_read" using proc res by (auto simp: res_typed_def vsnfsd_procedures1_def)
  with ReadRes room st32_room [of p "iov_base (rq_res rq)" "htonl (ucast (dres_count x))"] show ?thesis
    by (auto simp: enc_room_def enc_read_def vsnfssvc_encode_readres_def ressize_check_def case_prod_beta)
qed

text \<open>
  C16. The procedure table is well typed: for every procedure and every request, of any bytes, arguments that decode
  have the type of the procedure, with handles of eight bytes, strings within the limits of the protocol and
  within the bytes of the request, without zeros or slashes where they must not be, and counts within a page;
  a procedure that returns gives a result of the type that goes with it; and the encoder of the same row takes that
  result: given room for the words it stores, it returns.
\<close>

theorem procedures_well_typed:
  assumes "sunrpc_xdr X" and "vsnfsd_procedures1 n = Some proc" and "pc_decode proc X rqstp 0 = Inr (rqstp', Some a)"
  shows "args_typed n rqstp a \<and>
    (\<forall>V s rqstp2 s' rqstp3 res e. pc_func proc X V s rqstp2 a (pc_zero proc) = Inr (s', rqstp3, res, e) \<longrightarrow>
       res_typed n rqstp res \<and>
       (\<forall>rq p. enc_room rq p res \<longrightarrow> (\<exists>rq' ok. pc_encode proc X rq p res = Inr (rq', ok))))"
proof (intro conjI allI impI)
  show t: "args_typed n rqstp a" by (rule decoded_args_typed [OF assms])
  fix V s rqstp2 s' rqstp3 res e
  assume "pc_func proc X V s rqstp2 a (pc_zero proc) = Inr (s', rqstp3, res, e)"
  from func_typed [OF assms(2) t this] show r: "res_typed n rqstp res" .
  fix rq p
  assume "enc_room rq p res"
  then show "\<exists>rq' ok. pc_encode proc X rq p res = Inr (rq', ok)" by (rule enc_typed [OF assms(2) r])
qed

text \<open>READ of the demonstration directory: the arguments, the result and its encoding.\<close>

abbreviation read_args :: "byte list" where
  "read_args \<equiv> [55, 0, 0, 0, 0, 0, 0, 0, 0, 0, 0, 2, 0, 0, 0, 0, 0, 0, 0, 9]"

theorem procedures_well_typed_witness:
  "\<exists>proc rqstp' a s' rqstp3 res e rq' ok. vsnfsd_procedures1 VSNFSPROC_READ = Some proc \<and>
    pc_decode proc xdr_ref (demo_rqst read_args) 0 = Inr (rqstp', Some a) \<and>
    args_typed VSNFSPROC_READ (demo_rqst read_args) a \<and>
    pc_func proc xdr_ref demo demo_srv (demo_rqst read_args) a (pc_zero proc) = Inr (s', rqstp3, res, e) \<and>
    pc_encode proc xdr_ref (demo_rqst read_args) 4 res = Inr (rq', ok)"
proof -
  obtain proc where p: "vsnfsd_procedures1 VSNFSPROC_READ = Some proc" "pc_func proc = func_read"
      "pc_decode proc = (\<lambda>X r p. dec_as ARead (vsnfssvc_decode_readargs X r p))" "pc_zero proc = zero_readres"
    by (simp add: vsnfsd_procedures1_def)
  let ?r = "demo_rqst read_args"
  let ?x = "\<lparr>dra_fh = \<lparr>fh_data = [55, 0, 0, 0, 0, 0, 0, 0], fh_type = 2\<rparr>, dra_offset = 0, dra_count = 9, dra_buffer = 0\<rparr>"
  have d: "pc_decode proc xdr_ref ?r 0 = Inr (?r\<lparr>rq_resused := 1\<rparr>, Some (ARead ?x))"
    unfolding p(3) by code_simp
  have f: "\<exists>s' rqstp3 e. pc_func proc xdr_ref demo demo_srv ?r (ARead ?x) (pc_zero proc) = Inr (s', rqstp3, ReadRes \<lparr>dres_count = 0\<rparr>, e)"
  proof -
    have "map_sum id (\<lambda>(_, _, r, _). r) (func_read xdr_ref demo demo_srv ?r (ARead ?x) zero_readres)
        = Inr (ReadRes \<lparr>dres_count = 0\<rparr>)" by code_simp
    then show ?thesis unfolding p(2,4)
      by (cases "func_read xdr_ref demo demo_srv ?r (ARead ?x) zero_readres") auto
  qed
  then obtain s' rqstp3 e where
    f': "pc_func proc xdr_ref demo demo_srv ?r (ARead ?x) (pc_zero proc) = Inr (s', rqstp3, ReadRes \<lparr>dres_count = 0\<rparr>, e)" by blast
  have room: "enc_room ?r 4 (ReadRes \<lparr>dres_count = 0\<rparr>)" by code_simp
  from procedures_well_typed [OF ref_xdr.sunrpc_xdr_axioms p(1) d] d f' room p(1) show ?thesis by blast
qed

end
