(* ===== verification/TestClient.thy ===== *)
theory TestClient
  imports ServerReply
begin

text \<open>
  \<open>server/test\<close>: a program that calls the NULL procedure with a number from its command line and prints the answer,
  the stub \<open>rpcgen\<close> made for it (\<open>client_clnt.c\<close>) and the dispatcher and main program it made for a server of its
  own (\<open>client_svc.c\<close>).  The program numbers are those of the kernel server, so the program is run against that
  one; what it then prints is shown at the end.
\<close>

abbreviation (input) VSNFS_PROG :: nat where "VSNFS_PROG \<equiv> 110003"
abbreviation (input) VSNFS_VER1 :: nat where "VSNFS_VER1 \<equiv> 1"
abbreviation (input) VSNFS_PROC_NULL :: nat where "VSNFS_PROC_NULL \<equiv> 0"

section \<open>The client\<close>

text \<open>
  The RPC library of the C library: a handle for a host, program and version, or none; and a call of a procedure
  with an \<open>int\<close>, which gives the new contents of the result and the status, 0 for \<open>RPC_SUCCESS\<close>.
\<close>

record 'n clnt_api =
  clnt_create :: "byte list option \<Rightarrow> nat \<Rightarrow> nat \<Rightarrow> bool"
  clnt_call :: "'n \<Rightarrow> nat \<Rightarrow> u32 \<Rightarrow> u32 \<Rightarrow> 'n \<times> u32 \<times> int"

definition vsnfs_proc_null_1 :: "'n clnt_api \<Rightarrow> 'n \<Rightarrow> u32 \<Rightarrow> 'n \<times> u32 option" where
  "vsnfs_proc_null_1 C n argp =
     (let (n, clnt_res, stat) = clnt_call C n VSNFS_PROC_NULL argp 0
      in (n, if stat \<noteq> 0 then None else Some clnt_res))"

text \<open>\<open>argv[k]\<close>: the arguments, a NULL pointer behind them, and nothing beyond.\<close>

definition argv_at :: "byte list list \<Rightarrow> nat \<Rightarrow> byte list option run" where
  "argv_at argv k =
     (if k < length argv then Inr (Some (argv ! k)) else if k = length argv then Inr None else Inl OutOfBounds)"

text \<open>\<open>atoi\<close>: white space, a sign, decimal digits; the value in 32 bits.\<close>

definition digits_value :: "byte list \<Rightarrow> int" where
  "digits_value s = foldl (\<lambda>n c. 10 * n + (uint c - 48)) 0 (takeWhile (\<lambda>c. 48 \<le> c \<and> c \<le> 57) s)"

definition atoi :: "byte list \<Rightarrow> u32" where
  "atoi s =
     (case dropWhile (\<lambda>c. c = 32 \<or> 9 \<le> c \<and> c \<le> 13) s of
        [] \<Rightarrow> 0
      | c # t \<Rightarrow> word_of_int (if c = 45 then - digits_value t else if c = 43 then digits_value t else digits_value (c # t)))"

text \<open>The main program: the state of the network, the number it prints, if it prints one, and its exit code.\<close>

definition client_main :: "'n clnt_api \<Rightarrow> 'n \<Rightarrow> byte list list \<Rightarrow> ('n \<times> int option \<times> int) run" where
  "client_main C n argv =
     bindF (argv_at argv 1) (\<lambda>host.
     bindF (argv_at argv 2) (\<lambda>arg.
     bindF (deref arg) (\<lambda>arg.
     let dummy = atoi arg in
     if \<not> clnt_create C host VSNFS_PROG VSNFS_VER1 then Inr (n, None, 1)
     else
     let (n, result_1) = vsnfs_proc_null_1 C n dummy
     in Inr (n, map_option sint result_1, 1))))"

section \<open>The server rpcgen made\<close>

text \<open>
  The transport of a request: its argument, unless it does not decode, and whether the reply can be sent and the
  argument freed.  The service procedure itself is only declared; it is a parameter.
\<close>

record svc_xprt =
  svc_getargs :: "u32 option"
  svc_sendreply :: "u32 \<Rightarrow> bool"
  svc_freeargs :: bool

datatype svc_action = SvcNoproc | SvcDecode | SvcReply u32 | SvcSystemerr | SvcExit int

definition vsnfs_prog_1 :: "(u32 \<Rightarrow> u32 option) \<Rightarrow> nat \<Rightarrow> svc_xprt \<Rightarrow> svc_action list" where
  "vsnfs_prog_1 vsnfs_proc_null_1_svc rq_proc xprt =
     (if rq_proc \<noteq> VSNFS_PROC_NULL then [SvcNoproc]
      else case svc_getargs xprt of
        None \<Rightarrow> [SvcDecode]
      | Some argument \<Rightarrow>
          (case vsnfs_proc_null_1_svc argument of
             None \<Rightarrow> []
           | Some result \<Rightarrow> if svc_sendreply xprt result then [SvcReply result] else [SvcSystemerr]) @
          (if svc_freeargs xprt then [] else [SvcExit 1]))"

text \<open>The main program: the transports it registers, and whether it gets to serve; it exits with 1 in any case.\<close>

record svc_setup =
  svcudp_create :: bool
  svctcp_create :: bool
  svc_register :: "svc_proto \<Rightarrow> bool"

definition svc_main :: "svc_setup \<Rightarrow> svc_proto list \<times> bool \<times> int" where
  "svc_main S =
     (if \<not> svcudp_create S then ([], False, 1)
      else if \<not> svc_register S Udp then ([], False, 1)
      else if \<not> svctcp_create S then ([Udp], False, 1)
      else if \<not> svc_register S Tcp then ([Udp], False, 1)
      else ([Udp, Tcp], True, 1))"

section \<open>Against the kernel server\<close>

text \<open>
  What the two RPC libraries do between the program and a server in the kernel: the argument goes out as one word,
  the dispatcher of the server runs, and the first word of the reply's body is the result.
\<close>

locale int_link = sunrpc_xdr X for X :: xdr_api +
  fixes V :: vfs_api
    and C :: "srv clnt_api"
    and mk :: "byte list \<Rightarrow> svc_rqst"
  assumes mk_carries: "carries (mk bytes) bytes"
    and mk_reply: "reply_room (mk bytes) 16"
    and call_link:
      "vsnfsd_procedures1 n = Some proc \<Longrightarrow> vsnfsd_dispatch X V s proc (mk (net32 x)) 0 = Inr (s', rqstp, 0) \<Longrightarrow>
       ld32 (iov_base (rq_res rqstp)) (iov_len (rq_res (mk (net32 x)))) = Inr w \<Longrightarrow>
       clnt_call C s n x r = (s', ntohl w, 0)"
begin

lemma null_returns_status: "vsnfs_proc_null_1 C s x = (s, Some 0)"
proof -
  obtain proc where proc: "vsnfsd_procedures1 VSNFSPROC_NULL = Some proc" by (simp add: vsnfsd_procedures1_def)
  from dispatch_null [OF sunrpc_xdr_axioms proc mk_carries mk_reply, of V s x 0] obtain rqstp where
    d: "vsnfsd_dispatch X V s proc (mk (net32 x)) 0 = Inr (s, rqstp, 0)" and
    b: "holds (iov_base (rq_res rqstp)) (iov_len (rq_res (mk (net32 x)))) (net32 0 @ net32 (x + 1))" by blast
  from b have "ld32 (iov_base (rq_res rqstp)) (iov_len (rq_res (mk (net32 x)))) = Inr 0"
    using ld32_holds [of _ _ 0] by (auto simp: holds_append)
  from call_link [OF proc d this] show ?thesis by (simp add: vsnfs_proc_null_1_def)
qed

end

text \<open>An instance: the request handed over, the reply handed back.\<close>

definition mk_int :: "byte list \<Rightarrow> svc_rqst" where
  "mk_int bytes = \<lparr>rq_arg = \<lparr>iov_base = bytes, iov_len = length bytes\<rparr>,
     rq_res = \<lparr>iov_base = replicate 64 0, iov_len = 24\<rparr>, rq_res_page_len = 0,
     rq_respages = [replicate 4096 0], rq_resused = 0\<rparr>"

definition clnt_ref :: "vfs_api \<Rightarrow> srv clnt_api" where
  "clnt_ref V =
    \<lparr>clnt_create = (\<lambda>host prog vers. host \<noteq> None),
     clnt_call = (\<lambda>s n x r.
       case vsnfsd_procedures1 n of
         None \<Rightarrow> (s, r, 10)
       | Some proc \<Rightarrow>
           (case vsnfsd_dispatch xdr_ref V s proc (mk_int (net32 x)) 0 of
              Inl _ \<Rightarrow> (s, r, 5)
            | Inr (s', rqstp, _) \<Rightarrow>
                (case ld32 (iov_base (rq_res rqstp)) 24 of Inr w \<Rightarrow> (s', ntohl w, 0) | Inl _ \<Rightarrow> (s', r, 2))))\<rparr>"

interpretation ref_int: int_link xdr_ref V "clnt_ref V" mk_int for V
  by unfold_locales (auto simp: mk_int_def carries_def holds_def reply_room_def clnt_ref_def)

text \<open>
  C36. The test program does not see the answer of the kernel server: whatever number it is given, it prints 0, the
  status word the server puts before the result, where the interface it was generated from says the result is
  a single number.
\<close>

theorem test_client_prints_status:
  assumes "int_link X V C mk" and "clnt_create C (Some host) VSNFS_PROG VSNFS_VER1"
  shows "client_main C s [prog, host, number] = Inr (s, Some 0, 1)"
  using assms int_link.null_returns_status [OF assms(1)] by (simp add: client_main_def argv_at_def)

theorem test_client_prints_status_witness:
  "client_main (clnt_ref demo) srv_start [[97], [98], [52, 49]] = Inr (srv_start, Some 0, 1) \<and> atoi [52, 49] = 41"
proof -
  have "atoi [52, 49] = 41" by code_simp
  then show ?thesis
    using test_client_prints_status [OF ref_int.int_link_axioms, of demo "[98]" srv_start "[97]" "[52, 49]"]
    by (simp add: clnt_ref_def)
qed

end
