(* ===== verification/RpcTables.thy ===== *)
theory RpcTables
  imports ClientSuper ServerSvc
begin

text \<open>
  The tables by which calls find their procedures: the client's \<open>vsnfs_program\<close> and \<open>vsnfs_version1\<close>, the server's
  \<open>vsnfsd_program\<close> and \<open>vsnfsd_version1\<close>.  They are data for the RPC library.
\<close>

section \<open>The server's tables\<close>

record svc_version =
  vs_vers :: nat
  vs_nproc :: nat
  vs_proc :: "nat \<Rightarrow> svc_procedure option"
  vs_dispatch :: "xdr_api \<Rightarrow> vfs_api \<Rightarrow> srv \<Rightarrow> svc_procedure \<Rightarrow> svc_rqst \<Rightarrow> be32 \<Rightarrow> (srv \<times> svc_rqst \<times> be32) run"
  vs_xdrsize :: "nat \<Rightarrow> nat"

definition vsnfsd_version1 :: svc_version where
  "vsnfsd_version1 =
    \<lparr>vs_vers = 1, vs_nproc = VSNFS_NRPROCS, vs_proc = vsnfsd_procedures1, vs_dispatch = vsnfsd_dispatch,
     vs_xdrsize = VSNFS_SVC_XDRSIZE\<rparr>"

text \<open>An array with designated initialisers: the rows that have one; its size is one more than the largest index.\<close>

definition vsnfsd_versions :: "nat \<Rightarrow> svc_version option" where
  "vsnfsd_versions = [1 \<mapsto> vsnfsd_version1]"

definition VSNFSD_NRVERS :: nat where "VSNFSD_NRVERS = 2"

datatype auth_stat = SVC_OK | SVC_DENIED

definition vsnfs_authentication :: "svc_rqst \<Rightarrow> auth_stat" where
  "vsnfs_authentication rqst = SVC_OK"

record svc_program =
  pg_prog :: nat
  pg_nvers :: nat
  pg_vers :: "nat \<Rightarrow> svc_version option"
  pg_name :: string
  pg_class :: string
  pg_authenticate :: "svc_rqst \<Rightarrow> auth_stat"

definition vsnfsd_program :: svc_program where
  "vsnfsd_program =
    \<lparr>pg_prog = VSNFS_PROGRAM, pg_nvers = VSNFSD_NRVERS, pg_vers = vsnfsd_versions,
     pg_name = ''vsnfsd'', pg_class = ''vsnfsd'', pg_authenticate = vsnfs_authentication\<rparr>"

section \<open>The client's tables\<close>

record rpc_version =
  rv_number :: nat
  rv_nrprocs :: nat
  rv_procs :: "nat \<Rightarrow> rpc_procinfo option"

text \<open>The largest index of \<open>vsnfs_procedures\<close> is that of LOOKUP.\<close>

definition vsnfs_version1 :: rpc_version where
  "vsnfs_version1 = \<lparr>rv_number = 1, rv_nrprocs = VSNFSPROC_LOOKUP + 1, rv_procs = vsnfs_procedures\<rparr>"

definition vsnfs_version :: "nat \<Rightarrow> rpc_version option" where
  "vsnfs_version = [1 \<mapsto> vsnfs_version1]"

record rpc_program =
  rp_name :: string
  rp_number :: nat
  rp_nrvers :: nat
  rp_version :: "nat \<Rightarrow> rpc_version option"

definition vsnfs_program :: rpc_program where
  "vsnfs_program = \<lparr>rp_name = ''vsnfs'', rp_number = VSNFS_PROGRAM, rp_nrvers = 2, rp_version = vsnfs_version\<rparr>"

section \<open>Rows\<close>

text \<open>Both tables have rows for the same procedures.\<close>

lemma rows_match: "vsnfsd_procedures1 n \<noteq> None \<longleftrightarrow> vsnfs_procedures n \<noteq> None"
  by (simp add: vsnfsd_procedures1_def vsnfs_procedures_def)

end
