(* ===== verification/Spec2Isabelle.thy ===== *)
theory Spec2Isabelle
  imports Session ServerLimits ServerTypes ServerEquiv TestClient RpcTables
begin

text \<open>
  VSNFS is a small network file system for Linux: a client module (\<open>src/*.c\<close>) that mounts a directory
  exported by a server module (\<open>src/server/*.c\<close>), over the kernel's SunRPC library.  This development
  models both modules and proves what they do alone and together.

  \<^bold>\<open>Parts of the program and their theories.\<close>

  \<^item> \<open>Prelude\<close>, \<open>CMem\<close>: machine words, runs that may fault (\<open>'a run\<close>: a NULL dereference, an access outside
    a buffer, a \<open>BUG_ON\<close>), byte-addressed buffers, byte order of a little-endian host, C strings and
    \<open>snprintf\<close>.  Every load and store of the source is a checked access here, so a proof that a run is
    \<open>Inr\<close> is a proof that no access is outside its buffer.
  \<^item> \<open>Protocol\<close> (\<open>vsnfs.h\<close>, \<open>server/vsnfsd.h\<close>): constants, statuses, file handles.  A handle is the decimal
    inode number in eight bytes, with a type.
  \<^item> \<open>Errno\<close>: the two error tables, \<open>vsnfserrno\<close> of the server and \<open>vsnfs_stat_to_errno\<close> of the client.
  \<^item> \<open>Xdr\<close>: the marshalling routines of the RPC library as a parameter (\<open>xdr_api\<close>) with their contract
    (\<open>sunrpc_xdr\<close>), the layout of the protocol on the wire, and the interface \<open>codec\<close> of decoders
    that invert encoders.
  \<^item> \<open>ClientXdr\<close> (\<open>vsnfsXdr.c\<close>), \<open>ServerXdr\<close> (\<open>server/vsnfsxdr.c\<close>): encoders and decoders of both sides.
  \<^item> \<open>DirSpec\<close>: the specification of the directory filler, a step on a list of entries and a number of free
    words, and the simulation by \<open>vsnfssvc_encode_entry\<close>, which works on a page, a cursor and a
    back-patched word.
  \<^item> \<open>Server\<close> (\<open>server/vfs.c\<close>, \<open>vsnfsd_fh_to_path\<close>): the kernel services the server uses (\<open>vfs_api\<close>) with
    their contracts (\<open>kernel_vfs\<close>, \<open>kernel_readdir\<close>), the state of the server (\<open>srv\<close>: the table of inode
    numbers and paths, and counters of memory, dentry references and open files), opening, listing, reading;
    the table as the interface \<open>ino_table\<close>.  \<open>KernelRef\<close> is an instance of the kernel services on a
    file tree.
  \<^item> \<open>ServerProc\<close> (\<open>server/vsnfsproc.c\<close>): the procedures NULL, GETROOT, LOOKUP, READDIR and READ.
  \<^item> \<open>ServerSvc\<close> (\<open>server/vsnfssvc.c\<close> and the procedure table): dispatch, daemon, start and shutdown.
  \<^item> \<open>ServerTable\<close>: what LOOKUP and GETROOT compute, and the invariant of the table.  \<open>ServerListing\<close>: READDIR as a
    run of the filler's specification.  \<open>ServerReq\<close>: dispatched requests as steps of the server and the
    states they reach.  \<open>ServerReply\<close>: the bytes of a reply.
  \<^item> \<open>Simulation\<close>: runs of a step relation and the interface \<open>step_simulation\<close>, which carries runs and what they keep
    from a specification to an implementation.  \<open>ServerSpec\<close>: the server as an abstract map from inode numbers to
    paths with mounts, look-ups and shutdowns as its events, and the simulation by the dispatched requests.
  \<^item> \<open>ServerEquiv\<close>: LOOKUP and GETROOT equal to their results written out, on every branch, whichever allocations fail.  \<open>ServerTypes\<close>: the types
    of arguments and results of the procedure table.
  \<^item> \<open>ServerServes\<close>, \<open>ServerLimits\<close>: the properties of the server, those that hold of every use and those that
    say where its code does not do what the protocol is for.
  \<^item> \<open>ClientDir\<close> (\<open>vsnfsProc.c\<close>, the reading of directories in \<open>vsnfsDir.c\<close>) and \<open>ClientListing\<close>: remote calls over
    \<open>rpc_call_sync\<close> as a parameter, the decoding loop, and its specification \<open>fill_spec\<close>.
  \<^item> \<open>ClientMount\<close> (\<open>vsnfsMount.c\<close>): device name and options.  \<open>ClientSuper\<close> (\<open>vsnfsClient.c\<close>, look-ups of
    \<open>vsnfsDir.c\<close>, \<open>vsnfsFile.c\<close>, \<open>module.c\<close>): mounting, inodes, look-ups, stubs, and the vectors of
    operations \<open>vsnfs_clientops\<close> and \<open>vsnfs_dentry_operations\<close>.
  \<^item> \<open>Remote\<close>: the interface \<open>rpc_link\<close> of a completed call between the two modules.  A call goes through the encoder of
    the client's row, the server's dispatcher and the decoder of the client's row; what comes back is the reply's head and
    the \<open>page_len\<close> bytes the server announced, laid into the client's receive buffer, the head first and the page where
    \<open>xdr_inline_pages\<close> placed it.  Its lemmas are about NULL, GETROOT, LOOKUP and READDIR; its instance runs exactly these
    steps.
  \<^item> \<open>Session\<close>: mount, look-up and listing one after the other, and two clients on one server.
  \<^item> \<open>RpcTables\<close> (\<open>vsnfs_program\<close>, \<open>vsnfsd_program\<close> and what they point to): the tables the RPC library finds the
    procedures by.
  \<^item> \<open>TestClient\<close> (\<open>server/test\<close>): the program that calls NULL from user space, its stub and the generated server.
  \<^item> This theory: the properties of client and server together.

  \<^bold>\<open>How state and operations correspond.\<close>  A C structure is a record, with the source's field names where they do not
  clash; a function of the source is a definition of the same name, which takes the state it works on and
  returns it updated with its result.  A pointer into a buffer is an offset, a NULL pointer \<open>None\<close>,
  \<open>ERR_PTR\<close> the constructor \<open>ErrPtr\<close>.  A decoder that returns 0 at the server returns \<open>None\<close>.  A status the
  server stores is kept as the 32-bit word it is, since the code also stores negated and host-order values.
  What an uninitialised variable holds is a parameter (\<open>stk_fh\<close>, \<open>stk_pos\<close>, \<open>stk\<close>).

  \<^bold>\<open>What is shown.\<close>  Together: a client that mounts a directory, looks up another in it and lists that one gets what
  is on the server, out of the bytes the server announces and at the place in the page the client set up; each of the
  calls alone; the arguments of every procedure arrive as they were sent, and the results of every procedure but READ.
  Server: its table implements an abstract map, over all sequences of requests on a file tree that does not change, from
  which follow that handles stay valid between mounts and that every path extends that of the root; the invariant of the
  table, and that no file or dentry is kept; LOOKUP and GETROOT equal to their results on every branch, failing
  allocations included; the filler against its specification; the types of the procedure table, from decoder to encoder;
  READDIR requests of arbitrary bytes answered without a fault on a mounted server, whatever error the file system
  returns; the refusal of names with slashes; requests processed in order, and the life of the daemon thread up to the
  shutdown it may run.  Client: the layout its encoders write and its decoders read; the decoding loop, which returns on
  every page whose entries are delimited within it and leaves every other page; mount data, the option loop against a
  fold; the result of a mount.  Limits: handles of inode numbers of more than seven digits are shared, the name \<open>..\<close>
  leads out of the mounted directory, look-ups of missing names crash the server, long paths and empty ones leave their
  buffers, directories of more than a page cannot be listed, a second mount takes the first client's handles away and
  leaks its table, a server without a mount crashes on look-ups and at its shutdown, reads ignore their offset, the
  argument store is too small for READ with pointers of four bytes, and others.

  \<^bold>\<open>Bounds.\<close>  No fuel is used: the loops are structural recursions, or (\<open>vsnfs_do_filldir\<close>, \<open>parse_options\<close>)
  functions whose measure is the unread part of page or string.  The daemon's loop runs over the list of
  events received and says so (\<open>None\<close>) when it would wait for more.  Pages have 4096 bytes, of which a
  listing uses 1022 words and two for its end.

  \<^bold>\<open>Not modelled.\<close>  Tracing and \<open>printk\<close>; signal, freezer and umask settings of the daemon thread; locking, since the
  server runs one thread; the tables of inode and file operations, which the kernel calls through, are the tags
  \<open>DirOps\<close> and \<open>FileOps\<close>; statistics of the RPC library; build files.

  \<^bold>\<open>Plan.\<close>  Next: READ at the client over the link, where its reply lands in the receive buffer; a file tree that changes
  between requests; interleaved calls of several clients as runs of one step relation.
\<close>

section \<open>Client and server together\<close>

text \<open>
  C4. Listing a directory: for a handle the server can open and a directory that is not empty, can be read to its end and
  whose entries fit into one page (1022 words, offsets and inode numbers of 32 bits), one \<open>readdir\<close> at the client hands
  its caller exactly the entries of the directory on the server, in order, with their names (up to 255 bytes), inode
  numbers and types; it returns 0, holds no page and leaves the file at position 4096, where the next call reports the
  end.  What the client decodes are the bytes the server announced, at the place in the page the client set up.
\<close>

theorem remote_listing_complete:
  assumes L: "rpc_link X V R send mk" and V: "kernel_readdir V entries rd_err" and fh: "fh_wf fh"
    and op: "vsnfsd_open V s fh = Inr (s1, 0, Some f)" and reads: "rd_err f = 0" and page: "length page = PAGE_SIZE"
    and fits: "list_all dirent_fits (entries f)" "(\<Sum>d\<leftarrow>entries f. int (entry_words d)) \<le> 1022"
    and some: "entries f \<noteq> []"
  shows "\<exists>fs. vsnfs_readdir R (Some page) stk (Some fh) collect s 0 [] = Inr (s, 4096, 0, fs, 0) \<and>
    vsnfs_readdir R (Some page) stk (Some fh) collect s 4096 fs = Inr (s, 4096, 0, fs, 0) \<and>
    map f_name fs = map sent_name (entries f) \<and> map f_ino fs = map de_ino (entries f) \<and>
    map f_type fs = map de_type (entries f)"
  by (rule rpc_link.listing_end_to_end [OF assms])

text \<open>The directory \<open>/e\<close> of the demonstration tree: the files \<open>a\<close> and \<open>d\<close>.\<close>

abbreviation root_handle :: vsnfs_fh where
  "root_handle \<equiv> \<lparr>fh_data = [55, 0, 0, 0, 0, 0, 0, 0], fh_type = 2\<rparr>"

lemma demo_open: "vsnfsd_open demo demo_srv root_handle = Inr (demo_srv\<lparr>s_files := 1\<rparr>, 0, Some 0)"
  by code_simp

theorem remote_listing_complete_witness:
  "\<exists>fs. vsnfs_readdir (link_ref demo) (Some (replicate 4096 0)) blank_entry (Some root_handle) collect demo_srv 0 []
      = Inr (demo_srv, 4096, 0, fs, 0) \<and> map f_name fs = [[97], [100]]"
proof -
  have e: "fs_entries demo_fs 0 = [\<lparr>de_name = [97], de_namlen = 1, de_offset = 0, de_ino = 9, de_type = 8\<rparr>,
         \<lparr>de_name = [100], de_namlen = 1, de_offset = 1, de_ino = 8, de_type = 4\<rparr>]"
    by code_simp
  have f: "list_all dirent_fits (fs_entries demo_fs 0)"
      "(\<Sum>d\<leftarrow>fs_entries demo_fs 0. int (entry_words d)) \<le> 1022"
      "map sent_name (fs_entries demo_fs 0) = [[97], [100]]"
    unfolding e by (simp_all add: dirent_fits_def dirent_wf_def entry_words_def sent_name_def)
  show ?thesis
    using remote_listing_complete [OF ref_link.rpc_link_axioms ref_vfs.kernel_readdir_axioms _ demo_open _ _ f(1,2),
        of "replicate 4096 0" blank_entry] f(3)
    by (auto simp: e fh_wf_def)
qed

text \<open>
  C27. A directory that does not fit into a page cannot be listed, although it can be read to its end: the caller gets a
  proper prefix of the entries and then the error \<open>- EBADCOOKIE\<close>, the position stays at 0, so that the next call starts
  over, and the page is not given back.
\<close>

theorem remote_listing_truncated:
  assumes L: "rpc_link X V R send mk" and V: "kernel_readdir V entries rd_err" and fh: "fh_wf fh"
    and op: "vsnfsd_open V s fh = Inr (s1, 0, Some f)" and reads: "rd_err f = 0" and page: "length page = PAGE_SIZE"
    and fits: "list_all dirent_fits (entries f)" and big: "1022 < (\<Sum>d\<leftarrow>entries f. int (entry_words d))"
  shows "\<exists>fs k. vsnfs_readdir R (Some page) stk (Some fh) collect s 0 [] = Inr (s, 0, 1, fs, - EBADCOOKIE) \<and>
    k < length (entries f) \<and> map f_name fs = map sent_name (take k (entries f))"
proof -
  let ?d = "dir_run (stk_fh V) (entries f) (dir_start 1022)"
  from dir_run_short [OF fits, of "dir_start 1022" "stk_fh V"] big obtain k where
    err: "ds_err ?d = vsnfserr VSNFSERR_TOOSMALL" and k: "k < length (entries f)" and
    seen: "map seen (ds_ents ?d) = map seen_of (take k (entries f))"
    by (auto simp: dir_start_def)
  have "ds_err ?d \<noteq> vsnfs_ok" unfolding err vsnfserr_eval by simp
  then have spec: "fill_spec collect (ds_err ?d = vsnfs_ok) (map fill_of (ds_ents ?d)) []
      = (map fill_of (ds_ents ?d), - EBADCOOKIE, False)"
    by (simp add: fill_spec_collect)
  have "map f_name (map fill_of (ds_ents ?d)) = map fst (map seen (ds_ents ?d))"
    by (simp add: fill_of_def)
  then have "map f_name (map fill_of (ds_ents ?d)) = map sent_name (take k (entries f))"
    by (simp add: seen seen_of_def)
  with rpc_link.readdir_end_to_end [OF L V fh op reads page spec, of stk] k show ?thesis by auto
qed

text \<open>A directory of 128 files with names of one byte: eight words each, two too many for a page.\<close>

definition big_fs :: "fs_node list" where
  "big_fs = [\<lparr>fs_path = [47, 101], fs_inode = \<lparr>i_ino = 7, i_mode = 0x41ED\<rparr>,
     fs_dirents = replicate 128 \<lparr>de_name = [97], de_namlen = 1, de_offset = 0, de_ino = 9, de_type = 8\<rparr>\<rparr>]"

lemma big_open: "vsnfsd_open (vfs_ref big_fs) demo_srv root_handle = Inr (demo_srv\<lparr>s_files := 1\<rparr>, 0, Some 0)"
  by code_simp

theorem remote_listing_truncated_witness:
  "\<exists>fs k. vsnfs_readdir (link_ref (vfs_ref big_fs)) (Some (replicate 4096 0)) blank_entry (Some root_handle) collect demo_srv 0 []
      = Inr (demo_srv, 0, 1, fs, - EBADCOOKIE) \<and> k < 128 \<and> map f_name fs = replicate k [97]"
proof -
  let ?e = "\<lparr>de_name = [97], de_namlen = 1, de_offset = 0, de_ino = 9, de_type = 8\<rparr>"
  have e: "fs_entries big_fs 0 = replicate 128 ?e" by (simp add: fs_entries_def big_fs_def)
  have "dirent_fits ?e" "entry_words ?e = 8" "sent_name ?e = [97]"
    by (simp_all add: dirent_fits_def dirent_wf_def entry_words_def sent_name_def)
  then have f: "list_all dirent_fits (fs_entries big_fs 0)"
      "1022 < (\<Sum>d\<leftarrow>fs_entries big_fs 0. int (entry_words d))"
      "map sent_name (take k (fs_entries big_fs 0)) = replicate (min k 128) [97]" for k
    unfolding e by (simp_all add: list_all_iff sum_list_replicate)
  have "fh_wf root_handle" by (simp add: fh_wf_def)
  from remote_listing_truncated [OF ref_link.rpc_link_axioms ref_vfs.kernel_readdir_axioms this big_open _ _ f(1,2),
      of "replicate 4096 0" blank_entry] obtain fs k where
    "vsnfs_readdir (link_ref (vfs_ref big_fs)) (Some (replicate 4096 0)) blank_entry (Some root_handle) collect demo_srv 0 []
      = Inr (demo_srv, 0, 1, fs, - EBADCOOKIE)" "k < length (fs_entries big_fs 0)"
    "map f_name fs = map sent_name (take k (fs_entries big_fs 0))" by auto
  then show ?thesis using f(3) [of k] by (auto simp: e)
qed

text \<open>
  C6. Getting the root: the client's GETROOT call for a directory the server can resolve returns 0 and a directory
  handle, after which the server knows exactly that directory, and the handle leads back to its path.
\<close>

theorem remote_getroot:
  assumes "rpc_link X V R send mk" and "kernel_vfs V" and "alloc_ok V"
    and "0 \<notin> set path" and "path \<noteq> []" and "length path < 1023"
    and "mp = (if last path = SLASH then path else path @ [SLASH])"
    and "path_lookup V mp = (0, Some (Some i))" and "S_ISDIR (i_mode i)"
    and "i_ino i \<noteq> 0" and "unat (i_ino i) < 10 ^ 7" and "length buf = 1024"
  shows "\<exists>s' h m. vsnfs_proc_getroot R s \<lparr>ga_path = path, ga_len = word_of_nat (length path)\<rparr> fh = (s', h, 0) \<and>
    fh_type h = VSNFS_DIR \<and> lp_tab s' = Some [\<lparr>n_ino = i_ino i, n_path = mp\<rparr>] \<and>
    vsnfsd_fh_to_path V s' h buf 1024 = Inr (0, m) \<and> as_cstr m = Inr mp"
  using rpc_link.getroot_end_to_end [OF assms] by blast

theorem remote_getroot_witness:
  "\<exists>s' h m. vsnfs_proc_getroot (link_ref demo) srv_start \<lparr>ga_path = [47, 101], ga_len = 2\<rparr> zero_fh = (s', h, 0) \<and>
    fh_type h = VSNFS_DIR \<and> lp_tab s' = Some [\<lparr>n_ino = 7, n_path = [47, 101, 47]\<rparr>] \<and>
    vsnfsd_fh_to_path demo s' h (replicate 1024 0) 1024 = Inr (0, m) \<and> as_cstr m = Inr [47, 101, 47]"
proof -
  have d: "S_ISDIR 0x41ED" by code_simp
  show ?thesis
    using remote_getroot [OF ref_link.rpc_link_axioms demo_vfs demo_alloc, of "[47, 101]" "[47, 101, 47]"
        "\<lparr>i_ino = 7, i_mode = 0x41ED\<rparr>" "replicate 1024 0" srv_start zero_fh] demo_lookup_facts(5) d
    by simp
qed

text \<open>
  C5. Looking up a name: for a directory inode of the client whose handle the server knows and a name in that directory of
  a file whose inode number is not 0 and has at most seven digits, with a path of fewer than 1023 bytes and table paths
  of fewer than 1024, and with memory to allocate, the client's look-up returns 0 and a handle of the type of the file
  found; and the server maps the handle to a path that resolves to that file.  (Beyond seven digits handles are
  shared.)
\<close>

theorem remote_lookup:
  assumes "rpc_link X V R send mk" and "kernel_vfs V" and "alloc_ok V" and "srv_ok V s" and "lp_tab s = Some tab"
    and "cl_rpc_ops server = Some VsnfsClientops" and "ci_private cdir = Some fh" and "fh_wf fh"
    and "lp_find tab (simple_strtoul V (fh_mem fh)) = Some dir"
    and "0 \<notin> set name" and "SLASH \<notin> set name" and "length name \<le> 255"
    and "length (n_path dir) + length name < 1023"
    and "path_lookup V (n_path dir @ name) = (0, Some (Some i))"
    and "i_ino i \<noteq> 0" and "unat (i_ino i) < 10 ^ 7"
    and "\<forall>n \<in> set tab. length (n_path n) < 1024" and "length buf = 1024"
  shows "\<exists>s' h m p j. vsnfs_do_lookup R True s (Some server) cdir name (Some newfh) = Inr (s', Some h, 0) \<and>
    fh_type h = type_of_inode i 0 \<and>
    vsnfsd_fh_to_path V s' h buf 1024 = Inr (0, m) \<and> as_cstr m = Inr p \<and>
    path_lookup V p = (0, Some (Some j)) \<and> i_ino j = i_ino i"
  using rpc_link.lookup_end_to_end [OF assms] by blast

theorem remote_lookup_witness:
  "\<exists>s' h m p j. vsnfs_do_lookup (link_ref demo) True demo_srv (Some ready_server)
       (blank_inode\<lparr>ci_private := Some root_handle\<rparr>) [100] (Some zero_fh) = Inr (s', Some h, 0) \<and>
    fh_type h = VSNFS_DIR \<and>
    vsnfsd_fh_to_path demo s' h (replicate 1024 0) 1024 = Inr (0, m) \<and> as_cstr m = Inr p \<and>
    path_lookup demo p = (0, Some (Some j)) \<and> i_ino j = 8"
proof -
  have t: "type_of_inode \<lparr>i_ino = 8, i_mode = 0x41ED\<rparr> 0 = 2" by code_simp
  have f: "simple_strtoul demo (fh_mem root_handle) = 7" by code_simp
  show ?thesis
    using remote_lookup [OF ref_link.rpc_link_axioms demo_vfs demo_alloc demo_srv_ok, of "[demo_root]"
        ready_server "blank_inode\<lparr>ci_private := Some root_handle\<rparr>" root_handle demo_root "[100]"
        "\<lparr>i_ino = 8, i_mode = 0x41ED\<rparr>" "replicate 1024 0" zero_fh]
      demo_lookup_facts(4) t f
    by (simp add: demo_srv_def demo_root_def fh_wf_def ready_server_def)
qed

text \<open>
  C20. The NULL call: the client gets the successor, in 32 bits, of the number it sent, and the server does not
  change.
\<close>

theorem remote_null:
  assumes "rpc_link X V R send mk"
  shows "vsnfs_proc_null R stk s input out = (s, input + 1, 0)"
  using rpc_link.call_null_returns [OF assms, of s input stk "[]"] by (auto simp: vsnfs_proc_null_def)

theorem remote_null_witness: "vsnfs_proc_null (link_ref demo) \<lparr>nr_dummy = 0\<rparr> srv_start (- 1) 7 = (srv_start, 0, 0)"
  using remote_null [OF ref_link.rpc_link_axioms, of demo "\<lparr>nr_dummy = 0\<rparr>" srv_start "- 1" 7] by simp

section \<open>Arguments and replies on the wire\<close>

text \<open>
  When the arguments the server decodes are those the client was given: the same handle, name, path and numbers,
  where counts are limited to a page.
\<close>

fun args_agree :: "rpc_argp \<Rightarrow> svc_args \<Rightarrow> bool" where
  "args_agree (NullArgs a) (ANull b) = (dna_dummy b = na_dummy a)"
| "args_agree (GetrootArgs a) (AGetroot b) =
     (take (unat (dga_len b)) (dga_path b) = ga_path a \<and> unat (dga_len b) = length (ga_path a))"
| "args_agree (LookupArgs a) (ALookup b) =
     (dla_fh b = la_fh a \<and> name_of b = la_filename a \<and> unat (dla_len b) = length (la_filename a))"
| "args_agree (ReaddirArgs a) (AReaddir b) =
     (drda_fh b = rda_fh a \<and> unat (drda_count b) = min 4096 (unat (rda_count a)))"
| "args_agree (ReadArgs a) (ARead b) =
     (dra_fh b = ra_fh a \<and> dra_offset b = ra_offset a \<and> unat (dra_count b) = min 4096 (unat (ra_length a)))"
| "args_agree _ _ = False"

text \<open>Strings the server's decoders accept.\<close>

fun strings_ok :: "rpc_argp \<Rightarrow> bool" where
  "strings_ok (GetrootArgs a) = (0 \<notin> set (ga_path a))"
| "strings_ok (LookupArgs a) = (0 \<notin> set (la_filename a) \<and> SLASH \<notin> set (la_filename a))"
| "strings_ok _ = True"

lemma min_4096: "unat (if (4096 :: u32) < c then 4096 else c) = min 4096 (unat c)"
  by (simp add: word_less_nat_alt)

lemma decode_agrees:
  assumes X: "sunrpc_xdr X" and wf: "args_wf a" and str: "strings_ok a" and c: "carries rqstp (wire_args a)"
    and page: "rq_resused rqstp < length (rq_respages rqstp)"
    and proc: "vsnfsd_procedures1 (proc_of a) = Some proc"
  shows "\<exists>rqstp' b. pc_decode proc X rqstp 0 = Inr (rqstp', Some b) \<and> args_agree a b"
proof (cases a)
  case (NullArgs x)
  with c proc decode_nullargs_wire [OF X, of rqstp "na_dummy x"] show ?thesis
    by (auto simp: vsnfsd_procedures1_def dec_as_def)
next
  case (GetrootArgs x)
  with c wf str obtain b where "vsnfssvc_decode_getrootargs X rqstp 0 = Inr (rqstp, Some b)"
      "take (unat (dga_len b)) (dga_path b) = ga_path x" "unat (dga_len b) = length (ga_path x)"
    using decode_getrootargs_wire [OF X, of rqstp "ga_path x"] by auto
  with GetrootArgs proc show ?thesis by (auto simp: vsnfsd_procedures1_def dec_as_def)
next
  case (LookupArgs x)
  with c wf str have "\<exists>b. vsnfssvc_decode_lookupargs X rqstp 0 = Inr (rqstp, Some b) \<and> args_agree a (ALookup b)"
    using decode_lookupargs_wire [OF X, of rqstp "la_fh x" "la_filename x"] by auto
  with LookupArgs proc show ?thesis
    by (auto simp del: args_agree.simps simp: vsnfsd_procedures1_def dec_as_def)
next
  case (ReaddirArgs x)
  with c wf proc decode_readdirargs_wire [OF X _ _ page, of "rda_fh x" "rda_count x"] show ?thesis
    by (auto simp: vsnfsd_procedures1_def dec_as_def min_4096)
next
  case (ReadArgs x)
  with c wf proc decode_readargs_wire [OF X _ _ page, of "ra_fh x" "ra_offset x" "ra_length x"] show ?thesis
    by (auto simp: vsnfsd_procedures1_def dec_as_def min_4096)
qed

text \<open>
  C14. The server reads what the client wrote, for every procedure: the bytes the encoder of the client's row leaves in its
  send buffer, received as the arguments of a request, decode with the decoder of the server's row to the same handle,
  name, path and numbers, where counts of more than a page become 4096.
\<close>

theorem args_roundtrip:
  assumes X: "sunrpc_xdr X" and wf: "args_wf a" and str: "strings_ok a" and cred: "rq_cred req = Some slack"
    and room: "length (wire_args a) \<le> length (iov_base (rq_svec req))"
    and page: "rq_resused rqstp < length (rq_respages rqstp)"
  shows "\<exists>pi req' proc rqstp' b. vsnfs_procedures (proc_of a) = Some pi \<and> p_encode pi X req 0 a = Inr (req', 0) \<and>
    vsnfsd_procedures1 (proc_of a) = Some proc \<and>
    pc_decode proc X (rqstp\<lparr>rq_arg := rq_svec req'\<rparr>) 0 = Inr (rqstp', Some b) \<and> args_agree a b"
proof -
  obtain pi where row: "vsnfs_procedures (proc_of a) = Some pi" using procedure_known by blast
  from p_encode_wire [OF X wf cred _ row, of 0] room obtain req' where e: "p_encode pi X req 0 a = Inr (req', 0)"
      "mem_write (iov_base (rq_svec req)) 0 (wire_args a) = Inr (iov_base (rq_svec req'))"
      "iov_len (rq_svec req') = length (wire_args a)" by auto
  have c: "carries (rqstp\<lparr>rq_arg := rq_svec req'\<rparr>) (wire_args a)"
    using mem_write_holds [OF e(2)] e(3) by (simp add: carries_def)
  obtain proc where p: "vsnfsd_procedures1 (proc_of a) = Some proc"
    by (cases a) (simp_all add: vsnfsd_procedures1_def)
  from decode_agrees [OF X wf str c _ p] page e(1) p row show ?thesis by auto
qed

theorem args_roundtrip_witness:
  "\<exists>pi req' proc rqstp' b. vsnfs_procedures VSNFSPROC_READ = Some pi \<and>
    p_encode pi xdr_ref (send_ref VSNFSPROC_READ (NullArgs \<lparr>na_dummy = 0\<rparr>)) 0
      (ReadArgs \<lparr>ra_fh = root_handle, ra_offset = 5, ra_length = 9000\<rparr>) = Inr (req', 0) \<and>
    vsnfsd_procedures1 VSNFSPROC_READ = Some proc \<and>
    pc_decode proc xdr_ref (mk_ref []\<lparr>rq_arg := rq_svec req'\<rparr>) 0 = Inr (rqstp', Some b) \<and>
    args_agree (ReadArgs \<lparr>ra_fh = root_handle, ra_offset = 5, ra_length = 9000\<rparr>) b"
  using args_roundtrip [OF ref_xdr.sunrpc_xdr_axioms,
      of "ReadArgs \<lparr>ra_fh = root_handle, ra_offset = 5, ra_length = 9000\<rparr>"
        "send_ref VSNFSPROC_READ (NullArgs \<lparr>na_dummy = 0\<rparr>)" 2 "mk_ref []"]
  by (simp add: send_ref_def mk_ref_def fh_wf_def wire_fh_def Let_def)

text \<open>
  When the client's structure holds the server's result: the same number, the same handle; the result of READDIR is in the
  page, so that there is no structure.
\<close>

fun res_agree :: "svc_res \<Rightarrow> rpc_resp option \<Rightarrow> bool" where
  "res_agree (NullRes r) (Some (RespNull q)) = (nr_dummy q = dnr_dummy r)"
| "res_agree (FhRes h) (Some (RespFh q)) = (q = h)"
| "res_agree (ReaddirRes k r) None = True"
| "res_agree _ _ = False"

text \<open>The structure the callers of \<open>vsnfsProc.c\<close> hand over for a result of each kind.\<close>

fun resp_for :: "svc_res \<Rightarrow> rpc_resp option \<Rightarrow> bool" where
  "resp_for (NullRes r) (Some (RespNull q)) = True"
| "resp_for (FhRes h) (Some (RespFh q)) = True"
| "resp_for (ReaddirRes k r) None = True"
| "resp_for _ _ = False"

lemma enc_null_bytes:
  assumes "pc_encode proc X rq q (NullRes r) = Inr (rq', ok)" and "pc_encode proc = enc_null" and "sunrpc_xdr X"
  shows "mem_write (iov_base (rq_res rq)) q (net32 (dnr_dummy r)) = Inr (iov_base (rq_res rq'))"
  using assms(1)
  by (auto simp: assms(2) enc_null_def vsnfssvc_encode_nullres_def bindF_eq_Inr ressize_check_def mem_simps
      sunrpc_xdr.ressize_check [OF assms(3)])

lemma enc_fh_bytes:
  assumes "pc_encode proc X rq q (FhRes h) = Inr (rq', ok)" and "pc_encode proc = enc_fh" and "sunrpc_xdr X" and "fh_wf h"
  shows "mem_write (iov_base (rq_res rq)) q (wire_fh h) = Inr (iov_base (rq_res rq'))"
proof -
  from assms(1,4) obtain m where "mem_write (iov_base (rq_res rq)) q (fh_data h) = Inr m"
      "mem_write m (q + 8) (net32 (fh_type h)) = Inr (iov_base (rq_res rq'))"
    by (auto simp: assms(2) enc_fh_def vsnfssvc_encode_fhandle_def encode_fh_def bindF_eq_Inr ressize_check_def mem_simps
        fh_wf_def sunrpc_xdr.ressize_check [OF assms(3)])
  with assms(4) show ?thesis by (simp add: wire_fh_def fh_wf_def mem_write_append [symmetric])
qed

lemma enc_readdir_head:
  assumes "pc_encode proc X rq q (ReaddirRes k r) = Inr (rq', ok)" and "pc_encode proc = enc_readdir" and "sunrpc_xdr X"
  shows "iov_base (rq_res rq') = iov_base (rq_res rq)"
  using assms(1)
  by (auto simp: assms(2) enc_readdir_def vsnfssvc_encode_readdirres_def bindF_eq_Inr ressize_check_def Let_def put_page_def
      sunrpc_xdr.ressize_check [OF assms(3)])

text \<open>
  C35. The client reads what the server wrote, for every procedure but READ: behind a status of 0 the encoder of the
  server's row lays out a result of the procedure's type, given room for it, and the decoder of the client's row reads
  from there the status 0 and the same number or handle.  (The decoder of READ does not read the result, see
  \<open>read_result_not_decoded\<close>; the entries of READDIR are in the page.)
\<close>

theorem results_roundtrip:
  assumes X: "sunrpc_xdr X" and proc: "vsnfsd_procedures1 n = Some proc" and row: "vsnfs_procedures n = Some pi"
    and n: "n \<noteq> VSNFSPROC_READ" and res: "res_typed n rqstp0 res" and resp: "resp_for res resp"
    and status: "holds (iov_base (rq_res rq)) p (net32 0)" and room: "enc_room rq (p + 4) res"
  shows "\<exists>rq' ok resp'. pc_encode proc X rq (p + 4) res = Inr (rq', ok) \<and>
    p_decode pi X req (iov_base (rq_res rq')) p resp = Inr (0, req, iov_base (rq_res rq'), resp') \<and> res_agree res resp'"
proof -
  from enc_typed [OF proc res room] obtain rq' ok where e: "pc_encode proc X rq (p + 4) res = Inr (rq', ok)" by blast
  let ?m = "iov_base (rq_res rq')"
  have word: "ld32 m p = Inr 0" if "holds m p (net32 0)" for m using ld32_holds [OF that] by simp
  have keeps: "ld32 ?m p = Inr 0" if "mem_write (iov_base (rq_res rq)) (p + 4) bs = Inr ?m" for bs
    using mem_write_holds_other [OF that, of p "net32 0"] status by (intro word) simp
  show ?thesis
  proof (cases res)
    case (NullRes r)
    with resp obtain q where q: "resp = Some (RespNull q)" by (auto elim: resp_for.elims)
    have t: "pc_encode proc = enc_null" "p_decode pi = kx_nullres"
      using NullRes res proc row by (auto simp: res_typed_def vsnfsd_procedures1_def vsnfs_procedures_def PROC_def)
    note w = enc_null_bytes [OF e [unfolded NullRes] t(1) X]
    from keeps [OF w] ld32_holds [OF mem_write_holds [OF w]]
    have "vsnfs_xdr_nullres ?m p q = Inr (0, q\<lparr>nr_dummy := dnr_dummy r\<rparr>)" by (simp add: vsnfs_xdr_nullres_def)
    with e t(2) q NullRes show ?thesis by simp
  next
    case (FhRes h)
    with resp obtain q where q: "resp = Some (RespFh q)" by (auto elim: resp_for.elims)
    have t: "pc_encode proc = enc_fh" "p_decode pi = kx_fh" and wf: "fh_wf h"
      using FhRes res proc row by (auto simp: res_typed_def vsnfsd_procedures1_def vsnfs_procedures_def PROC_def)
    note w = enc_fh_bytes [OF e [unfolded FhRes] t(1) X wf]
    have "holds ?m p (net32 0 @ wire_fh h)"
      using mem_write_holds_other [OF w, of p "net32 0"] status mem_write_holds [OF w] by (simp add: holds_append)
    from xdr_fh_reply [OF this wf, of q] e t(2) q FhRes show ?thesis by simp
  next
    case (ReaddirRes k r)
    with resp have q: "resp = None" by (auto elim: resp_for.elims)
    have t: "pc_encode proc = enc_readdir" "p_decode pi = kx_readdirres"
      using ReaddirRes res proc row by (auto simp: res_typed_def vsnfsd_procedures1_def vsnfs_procedures_def PROC_def)
    from enc_readdir_head [OF e [unfolded ReaddirRes] t(1) X] word [OF status]
    have "vsnfs_xdr_readdirres ?m p = Inr 0" by (simp add: vsnfs_xdr_readdirres_def)
    with e t(2) q ReaddirRes show ?thesis by (simp add: kx_readdirres_def)
  next
    case (ReadRes r)
    with resp show ?thesis by simp
  qed
qed

text \<open>The handle of the demonstration directory, behind a header of 24 bytes.\<close>

theorem results_roundtrip_witness:
  "\<exists>proc pi rq' ok m'. vsnfsd_procedures1 VSNFSPROC_GETROOT = Some proc \<and> vsnfs_procedures VSNFSPROC_GETROOT = Some pi \<and>
    pc_encode proc xdr_ref (mk_ref []) 28 (FhRes root_handle) = Inr (rq', ok) \<and>
    p_decode pi xdr_ref (send_ref 1 (NullArgs \<lparr>na_dummy = 0\<rparr>)) (iov_base (rq_res rq')) 24 (Some (RespFh zero_fh))
      = Inr (0, send_ref 1 (NullArgs \<lparr>na_dummy = 0\<rparr>), m', Some (RespFh root_handle))"
proof -
  obtain proc pi where r: "vsnfsd_procedures1 VSNFSPROC_GETROOT = Some proc" "vsnfs_procedures VSNFSPROC_GETROOT = Some pi"
    by (simp add: vsnfsd_procedures1_def vsnfs_procedures_def)
  have h: "holds (iov_base (rq_res (mk_ref []))) 24 (net32 0)" "enc_room (mk_ref []) (24 + 4) (FhRes root_handle)"
    "res_typed VSNFSPROC_GETROOT (mk_ref []) (FhRes root_handle)" by code_simp+
  from results_roundtrip [OF ref_xdr.sunrpc_xdr_axioms r _ h(3) _ h(1,2), of "Some (RespFh zero_fh)"
      "send_ref 1 (NullArgs \<lparr>na_dummy = 0\<rparr>)"] obtain rq' ok resp' where
    "pc_encode proc xdr_ref (mk_ref []) 28 (FhRes root_handle) = Inr (rq', ok)"
    "p_decode pi xdr_ref (send_ref 1 (NullArgs \<lparr>na_dummy = 0\<rparr>)) (iov_base (rq_res rq')) 24 (Some (RespFh zero_fh))
      = Inr (0, send_ref 1 (NullArgs \<lparr>na_dummy = 0\<rparr>), iov_base (rq_res rq'), resp')" "res_agree (FhRes root_handle) resp'"
    by auto
  moreover from this(3) have "resp' = Some (RespFh root_handle)" by (auto elim: res_agree.elims)
  ultimately show ?thesis using r by blast
qed

text \<open>
  C25. The sizes the client announces for its arguments are enough: the layout of well-formed arguments of every
  procedure fits the number of words in its row of the table.
\<close>

theorem args_fit_arglen:
  assumes "args_wf a"
  shows "\<exists>pi. vsnfs_procedures (proc_of a) = Some pi \<and> length (wire_args a) \<le> 4 * p_arglen pi"
  using wire_args_fit [OF assms] procedure_known [of a] by blast

theorem args_fit_arglen_witness:
  "\<exists>pi. vsnfs_procedures VSNFSPROC_GETROOT = Some pi \<and> 1028 \<le> 4 * p_arglen pi"
  using args_fit_arglen [of "GetrootArgs \<lparr>ga_path = replicate 1024 97, ga_len = 1024\<rparr>"]
  by (simp add: length_wire_array)

text \<open>
  The size announced for the reply of NULL is one word short: the decoder of a successful reply reads the word
  behind the status, beyond the words the table says the reply has.
\<close>

lemma null_reply_exceeds_replen:
  "\<exists>pi. vsnfs_procedures VSNFSPROC_NULL = Some pi \<and>
     vsnfs_xdr_nullres (replicate (4 * p_replen pi) 0) 0 res = Inl OutOfBounds"
proof -
  have "ld32 (replicate 4 0) 0 = Inr 0" "ld32 (replicate 4 0) 4 = Inl OutOfBounds" by code_simp+
  then show ?thesis by (simp add: vsnfs_procedures_def PROC_def vsnfs_xdr_nullres_def)
qed

text \<open>
  The client never learns how much a READ returned: the decoder of the reply leaves the result structure as it
  was, and stores its contents into the receive buffer instead.
\<close>

lemma read_result_not_decoded:
  assumes "vsnfs_xdr_readres X req m p res = Inr (0, req', m', res')" and "ld32 m p = Inr 0"
  shows "res' = res \<and> holds m' (p + 4) (net32 (ucast (rr_count res)))"
  using assms
  by (auto simp: vsnfs_xdr_readres_def bindF_eq_Inr mem_simps case_prod_beta intro: mem_write_holds)

lemma read_result_not_decoded_example:
  "\<exists>req' m'. vsnfs_xdr_readres xdr_ref (send_ref VSNFSPROC_READ (NullArgs \<lparr>na_dummy = 0\<rparr>)) [0, 0, 0, 0, 0, 0, 0, 9] 0 \<lparr>rr_count = 5\<rparr>
       = Inr (0, req', m', \<lparr>rr_count = 5\<rparr>) \<and> holds m' 4 (net32 5)"
proof -
  have z: "ld32 [0, 0, 0, 0, 0, 0, 0, 9] 0 = Inr 0" by code_simp
  obtain req' m' res' where r: "vsnfs_xdr_readres xdr_ref (send_ref VSNFSPROC_READ (NullArgs \<lparr>na_dummy = 0\<rparr>))
      [0, 0, 0, 0, 0, 0, 0, 9] 0 \<lparr>rr_count = 5\<rparr> = Inr (0, req', m', res')"
    using z by (auto simp: vsnfs_xdr_readres_def st32_def mem_write_def case_prod_beta)
  from read_result_not_decoded [OF r z] r show ?thesis by auto
qed

end
